(* ===== verification/Prelude.thy ===== *)
theory Prelude
  imports Main "HOL-Library.Word"
begin

section \<open>Prelude: outcomes of Rust computations, byte arrays, effects\<close>

text \<open>
  What every component of the model shares.

  \<^item> \<open>exec\<close> is the outcome of a Rust computation: it returns (\<open>Ok\<close>), it returns an error
    (\<open>Err\<close>), or it panics (\<open>Panic\<close>). The results of third-party functions, which do not
    panic, are plain sums \<open>'e + 'a\<close>; \<open>from_res\<close> is the source's \<open>.map_err(f)?\<close> on such a
    result, \<open>ok_or\<close> its \<open>.ok_or(e)?\<close>, \<open>expect\<close> its \<open>.expect(..)\<close> and \<open>.unwrap()\<close>.
  \<^item> \<open>slice_range\<close>, \<open>to_array\<close> and \<open>copy_range\<close> are Rust's range indexing, the conversion of a
    slice to a fixed-size array, and \<open>copy_from_slice\<close>, with their panics.
  \<^item> \<open>io\<close> is a computation with effects: it extends a trace of events, and everything it
    learns from outside comes from oracles that see the trace so far.
  \<^item> \<open>invariant_system\<close> is the contract of a step relation and an invariant it keeps.
\<close>

unbundle bit_operations_syntax

named_theorems exec_simps \<open>equations of the outcome monad and of the slice operations\<close>

type_synonym byte = "8 word"
type_synonym bytes = "byte list"
type_synonym anyhow = "string list" \<comment> \<open>an \<open>anyhow::Error\<close>: the contexts, outermost first\<close>

subsection \<open>Outcomes\<close>

datatype ('a, 'e) exec = Ok 'a | Err 'e | Panic

primrec and_then :: "('a, 'e) exec \<Rightarrow> ('a \<Rightarrow> ('b, 'e) exec) \<Rightarrow> ('b, 'e) exec" where
  "and_then (Ok a) f = f a"
| "and_then (Err e) f = Err e"
| "and_then Panic f = Panic"

primrec map_err :: "('e \<Rightarrow> 'f) \<Rightarrow> ('a, 'e) exec \<Rightarrow> ('a, 'f) exec" where
  "map_err f (Ok a) = Ok a"
| "map_err f (Err e) = Err (f e)"
| "map_err f Panic = Panic"

primrec map_ok :: "('a \<Rightarrow> 'b) \<Rightarrow> ('a, 'e) exec \<Rightarrow> ('b, 'e) exec" where
  "map_ok f (Ok a) = Ok (f a)"
| "map_ok f (Err e) = Err e"
| "map_ok f Panic = Panic"

definition from_res :: "('f \<Rightarrow> 'e) \<Rightarrow> 'f + 'a \<Rightarrow> ('a, 'e) exec" where
  "from_res f r = (case r of Inl e \<Rightarrow> Err (f e) | Inr a \<Rightarrow> Ok a)"

definition ok_or :: "'e \<Rightarrow> 'a option \<Rightarrow> ('a, 'e) exec" where
  "ok_or e x = (case x of None \<Rightarrow> Err e | Some a \<Rightarrow> Ok a)"

definition expect :: "'f + 'a \<Rightarrow> ('a, 'e) exec" where
  "expect r = (case r of Inl _ \<Rightarrow> Panic | Inr a \<Rightarrow> Ok a)"

text \<open>The \<open>context\<close> method of \<open>anyhow\<close>: one more message around the error.\<close>

definition with_context :: "string \<Rightarrow> ('a, anyhow) exec \<Rightarrow> ('a, anyhow) exec" where
  "with_context c = map_err (\<lambda>e. c # e)"

definition from_res_ctx :: "string \<Rightarrow> string + 'a \<Rightarrow> ('a, anyhow) exec" where
  "from_res_ctx c = from_res (\<lambda>e. [c, e])"

lemma from_res_simps [simp]:
  "from_res f (Inl e) = Err (f e)" "from_res f (Inr a) = Ok a"
  by (simp_all add: from_res_def)

lemma ok_or_simps [simp]:
  "ok_or e None = Err e" "ok_or e (Some a) = Ok a"
  by (simp_all add: ok_or_def)

lemma expect_simps [simp]:
  "expect (Inl e) = Panic" "expect (Inr a) = Ok a"
  by (simp_all add: expect_def)

lemma from_res_ctx_simps [simp]:
  "from_res_ctx c (Inl e) = Err [c, e]" "from_res_ctx c (Inr a) = Ok a"
  by (simp_all add: from_res_ctx_def)

lemma with_context_simps [simp]:
  "with_context c (Ok a) = Ok a" "with_context c (Err e) = Err (c # e)"
  "with_context c Panic = Panic"
  by (simp_all add: with_context_def)

lemma and_then_eq_Ok [exec_simps]:
  "and_then m f = Ok b \<longleftrightarrow> (\<exists>a. m = Ok a \<and> f a = Ok b)"
  by (cases m) auto

lemma and_then_eq_Err [exec_simps]:
  "and_then m f = Err e \<longleftrightarrow> m = Err e \<or> (\<exists>a. m = Ok a \<and> f a = Err e)"
  by (cases m) auto

lemma and_then_eq_Panic [exec_simps]:
  "and_then m f = Panic \<longleftrightarrow> m = Panic \<or> (\<exists>a. m = Ok a \<and> f a = Panic)"
  by (cases m) auto

lemma map_err_eq_Ok [simp]: "map_err f m = Ok a \<longleftrightarrow> m = Ok a"
  by (cases m) auto

lemma map_err_eq_Err [exec_simps]: "map_err f m = Err e \<longleftrightarrow> (\<exists>d. m = Err d \<and> e = f d)"
  by (cases m) auto

lemma map_err_eq_Panic [simp]: "map_err f m = Panic \<longleftrightarrow> m = Panic"
  by (cases m) auto

lemma map_ok_eq_Ok [exec_simps]: "map_ok f m = Ok b \<longleftrightarrow> (\<exists>a. m = Ok a \<and> b = f a)"
  by (cases m) auto

lemma map_ok_eq_Panic [simp]: "map_ok f m = Panic \<longleftrightarrow> m = Panic"
  by (cases m) auto

lemma with_context_eq_Ok [simp]: "with_context c m = Ok a \<longleftrightarrow> m = Ok a"
  by (simp add: with_context_def)

lemma with_context_eq_Panic [simp]: "with_context c m = Panic \<longleftrightarrow> m = Panic"
  by (simp add: with_context_def)

lemma from_res_eq_Ok [exec_simps]: "from_res f r = Ok a \<longleftrightarrow> r = Inr a"
  by (cases r) auto

lemma from_res_eq_Err [exec_simps]: "from_res f r = Err e \<longleftrightarrow> (\<exists>d. r = Inl d \<and> e = f d)"
  by (cases r) auto

lemma from_res_not_Panic [simp]: "from_res f r \<noteq> Panic"
  by (cases r) auto

lemma from_res_ctx_eq_Ok [exec_simps]: "from_res_ctx c r = Ok a \<longleftrightarrow> r = Inr a"
  by (simp add: from_res_ctx_def exec_simps)

lemma from_res_ctx_not_Panic [simp]: "from_res_ctx c r \<noteq> Panic"
  by (simp add: from_res_ctx_def)

lemma ok_or_eq_Ok [exec_simps]: "ok_or e x = Ok a \<longleftrightarrow> x = Some a"
  by (cases x) auto

lemma ok_or_not_Panic [simp]: "ok_or e x \<noteq> Panic"
  by (cases x) auto

lemma and_then_assoc: "and_then (and_then m f) g = and_then m (\<lambda>a. and_then (f a) g)"
  by (cases m) auto

lemma and_then_Ok_right [simp]: "and_then m Ok = m"
  by (cases m) auto

text \<open>Collecting an iterator of results into a \<open>Result<Vec<_>, _>\<close>: stops at the first error.\<close>

fun collect_results :: "('a, 'e) exec list \<Rightarrow> ('a list, 'e) exec" where
  "collect_results [] = Ok []"
| "collect_results (m # ms) = and_then m (\<lambda>a. map_ok (Cons a) (collect_results ms))"

lemma collect_results_Ok_map:
  "(\<And>x. x \<in> set xs \<Longrightarrow> f x = Ok (g x)) \<Longrightarrow> collect_results (map f xs) = Ok (map g xs)"
  by (induction xs) auto

lemma collect_results_Ok_iff:
  "collect_results ms = Ok xs \<longleftrightarrow> ms = map Ok xs"
proof (induction ms arbitrary: xs)
  case Nil
  then show ?case by auto
next
  case (Cons m ms)
  then show ?case by (cases m; cases xs) (auto simp: exec_simps)
qed

lemma collect_results_first_Err:
  "collect_results (map Ok xs @ Err e # ms) = Err e"
  by (induction xs) auto

lemma collect_results_no_Panic:
  "Panic \<notin> set ms \<Longrightarrow> collect_results ms \<noteq> Panic"
proof (induction ms)
  case Nil
  then show ?case by simp
next
  case (Cons m ms)
  then show ?case by (cases m) auto
qed

subsection \<open>Byte arrays\<close>

text \<open>\<open>xs[a..b]\<close>; the conversion of a slice to \<open>[u8; n]\<close> with \<open>unwrap\<close>; and
  \<open>dst[a..b].copy_from_slice(src)\<close>.\<close>

definition slice_range :: "bytes \<Rightarrow> nat \<Rightarrow> nat \<Rightarrow> (bytes, 'e) exec" where
  "slice_range xs a b = (if a \<le> b \<and> b \<le> length xs then Ok (take (b - a) (drop a xs)) else Panic)"

definition to_array :: "nat \<Rightarrow> bytes \<Rightarrow> (bytes, 'e) exec" where
  "to_array n xs = (if length xs = n then Ok xs else Panic)"

definition overwrite :: "nat \<Rightarrow> bytes \<Rightarrow> bytes \<Rightarrow> bytes" where
  "overwrite off src dst = take off dst @ src @ drop (off + length src) dst"

definition copy_range :: "bytes \<Rightarrow> nat \<Rightarrow> nat \<Rightarrow> bytes \<Rightarrow> (bytes, 'e) exec" where
  "copy_range dst a b src =
     (if a \<le> b \<and> b \<le> length dst \<and> length src = b - a then Ok (overwrite a src dst) else Panic)"

lemma slice_range_Ok [exec_simps]:
  "a \<le> b \<Longrightarrow> b \<le> length xs \<Longrightarrow> slice_range xs a b = Ok (take (b - a) (drop a xs))"
  by (simp add: slice_range_def)

lemma to_array_Ok [exec_simps]: "length xs = n \<Longrightarrow> to_array n xs = Ok xs"
  by (simp add: to_array_def)

lemma copy_range_Ok [exec_simps]:
  "a \<le> b \<Longrightarrow> b \<le> length dst \<Longrightarrow> length src = b - a \<Longrightarrow>
     copy_range dst a b src = Ok (overwrite a src dst)"
  by (simp add: copy_range_def)

lemma length_overwrite [simp]:
  "off + length src \<le> length dst \<Longrightarrow> length (overwrite off src dst) = length dst"
  by (simp add: overwrite_def)

lemma nth_overwrite:
  assumes "off + length src \<le> length dst" "i < length dst"
  shows "overwrite off src dst ! i = (if off \<le> i \<and> i < off + length src then src ! (i - off) else dst ! i)"
  using assms by (auto simp: overwrite_def nth_append min_def)

lemma read_overwrite_same:
  "off + length src \<le> length dst \<Longrightarrow> n = length src \<Longrightarrow>
     take n (drop off (overwrite off src dst)) = src"
  by (simp add: overwrite_def)

lemma take_overwrite_same: "length src \<le> length dst \<Longrightarrow> n = length src \<Longrightarrow> take n (overwrite 0 src dst) = src"
  by (simp add: overwrite_def)

lemma read_overwrite_disjoint:
  assumes "o' + n \<le> off \<or> off + length src \<le> o'" "off + length src \<le> length dst"
  shows "take n (drop o' (overwrite off src dst)) = take n (drop o' dst)"
  using assms by (intro nth_equalityI) (auto simp: nth_overwrite)

lemma take_overwrite_before:
  "n \<le> off \<Longrightarrow> off + length src \<le> length dst \<Longrightarrow> take n (overwrite off src dst) = take n dst"
  using read_overwrite_disjoint [of 0 n off src dst] by simp

lemma read_overwrite_inside:
  assumes "off \<le> o'" "o' + n \<le> off + length src" "off + length src \<le> length dst"
  shows "take n (drop o' (overwrite off src dst)) = take n (drop (o' - off) src)"
  using assms by (intro nth_equalityI) (auto simp: nth_overwrite)

lemma overwrite_commute:
  assumes "o1 + length s1 \<le> o2" "o2 + length s2 \<le> length d"
  shows "overwrite o1 s1 (overwrite o2 s2 d) = overwrite o2 s2 (overwrite o1 s1 d)"
  using assms by (intro nth_equalityI) (auto simp: nth_overwrite)

text \<open>\<open>u32::to_le_bytes\<close> and \<open>u32::from_le_bytes\<close>.\<close>

definition le_bytes32 :: "32 word \<Rightarrow> bytes" where
  "le_bytes32 w = map (\<lambda>i. ucast (drop_bit (8 * i) w)) [0, 1, 2, 3]"

definition from_le_bytes32 :: "bytes \<Rightarrow> 32 word" where
  "from_le_bytes32 bs = foldr (\<lambda>b acc. ucast b OR push_bit 8 acc) bs 0"

lemma length_le_bytes32 [simp]: "length (le_bytes32 w) = 4"
  by (simp add: le_bytes32_def)

lemma from_le_bytes32_roundtrip [simp]: "from_le_bytes32 (le_bytes32 w) = w"
proof (rule bit_word_eqI)
  fix n assume "n < LENGTH(32)"
  then have "n < 32" by simp
  then consider "n < 8" | "8 \<le> n" "n < 16" | "16 \<le> n" "n < 24" | "24 \<le> n" "n < 32"
    by linarith
  then show "bit (from_le_bytes32 (le_bytes32 w)) n \<longleftrightarrow> bit w n"
    by cases (auto simp: from_le_bytes32_def le_bytes32_def bit_simps)
qed

subsection \<open>Effects\<close>

type_synonym ('a, 'e, 'ev) io = "'ev list \<Rightarrow> ('a, 'e) exec \<times> 'ev list"

definition io_lift :: "('a, 'e) exec \<Rightarrow> ('a, 'e, 'ev) io" where
  "io_lift m = (\<lambda>tr. (m, tr))"

definition io_ret :: "'a \<Rightarrow> ('a, 'e, 'ev) io" where
  "io_ret a = (\<lambda>tr. (Ok a, tr))"

definition io_bind :: "('a, 'e, 'ev) io \<Rightarrow> ('a \<Rightarrow> ('b, 'e, 'ev) io) \<Rightarrow> ('b, 'e, 'ev) io" where
  "io_bind m f = (\<lambda>tr. case m tr of
       (Ok a, tr') \<Rightarrow> f a tr'
     | (Err e, tr') \<Rightarrow> (Err e, tr')
     | (Panic, tr') \<Rightarrow> (Panic, tr'))"

text \<open>\<open>io_event ev k\<close> records the event and answers what the oracle \<open>k\<close> says at that point.\<close>

definition io_event :: "'ev \<Rightarrow> ('ev list \<Rightarrow> 'a) \<Rightarrow> ('a, 'e, 'ev) io" where
  "io_event ev k = (\<lambda>tr. (Ok (k tr), tr @ [ev]))"

definition io_map_err :: "('e \<Rightarrow> 'f) \<Rightarrow> ('a, 'e, 'ev) io \<Rightarrow> ('a, 'f, 'ev) io" where
  "io_map_err f m = (\<lambda>tr. case m tr of (r, tr') \<Rightarrow> (map_err f r, tr'))"

lemmas io_defs = io_lift_def io_ret_def io_bind_def io_event_def io_map_err_def

lemma io_bind_cases:
  obtains (Ok) a tr' where "m tr = (Ok a, tr')" "io_bind m f tr = f a tr'"
  | (Err) e tr' where "m tr = (Err e, tr')" "io_bind m f tr = (Err e, tr')"
  | (Panic) tr' where "m tr = (Panic, tr')" "io_bind m f tr = (Panic, tr')"
  by (cases "m tr"; cases "fst (m tr)") (auto simp: io_bind_def)

lemma io_bind_eq_Ok:
  "io_bind m f tr = (Ok b, tr'') \<longleftrightarrow>
     (\<exists>a tr'. m tr = (Ok a, tr') \<and> f a tr' = (Ok b, tr''))"
  by (auto simp: io_bind_def split: prod.splits exec.splits)

lemma io_bind_lift [simp]: "io_bind (io_lift (Ok a)) f = f a"
  by (simp add: io_defs)

lemma io_bind_lift_Err [simp]: "io_bind (io_lift (Err e)) f = io_lift (Err e)"
  by (simp add: io_defs)

lemma io_bind_lift_Panic [simp]: "io_bind (io_lift Panic) f = io_lift Panic"
  by (simp add: io_defs)

lemma io_bind_ret [simp]: "io_bind (io_ret a) f = f a"
  by (simp add: io_defs)

lemma io_bind_query:
  "io_bind (\<lambda>tr. (m tr, tr)) f tr =
     (case m tr of Ok a \<Rightarrow> f a tr | Err e \<Rightarrow> (Err e, tr) | Panic \<Rightarrow> (Panic, tr))"
  by (cases "m tr") (simp_all add: io_bind_def)

text \<open>The result of a computation, whatever it does to the trace.\<close>

lemma io_bind_fst_Ok:
  "fst (io_bind m f tr) = Ok b \<longleftrightarrow> (\<exists>a. fst (m tr) = Ok a \<and> fst (f a (snd (m tr))) = Ok b)"
  by (cases "m tr"; cases "fst (m tr)") (auto simp: io_bind_def)

lemma io_bind_fst_Panic:
  "fst (io_bind m f tr) = Panic \<longleftrightarrow>
     fst (m tr) = Panic \<or> (\<exists>a. fst (m tr) = Ok a \<and> fst (f a (snd (m tr))) = Panic)"
  by (cases "m tr"; cases "fst (m tr)") (auto simp: io_bind_def)

lemma io_lift_fst: "fst (io_lift m tr) = m" "snd (io_lift m tr) = tr"
  by (simp_all add: io_lift_def)

lemma io_ret_fst: "fst (io_ret a tr) = Ok a" "snd (io_ret a tr) = tr"
  by (simp_all add: io_ret_def)

lemma io_event_fst: "fst (io_event ev k tr) = Ok (k tr)" "snd (io_event ev k tr) = tr @ [ev]"
  by (simp_all add: io_event_def)

lemmas io_fst = io_bind_fst_Ok io_bind_fst_Panic io_lift_fst io_ret_fst io_event_fst

subsection \<open>Step relations and their invariants\<close>

text \<open>
  The contract of a state machine and an invariant of it: the invariant holds where the
  machine starts, and every step keeps it. The provider is a component's step relation; the
  client lemma is that every reachable state satisfies the invariant.
\<close>

inductive reaches :: "('s \<Rightarrow> 's \<Rightarrow> bool) \<Rightarrow> 's \<Rightarrow> 's \<Rightarrow> bool" for step where
  here: "reaches step s s"
| more: "reaches step s t \<Longrightarrow> step t u \<Longrightarrow> reaches step s u"

locale invariant_system =
  fixes init :: "'s \<Rightarrow> bool"
    and step :: "'s \<Rightarrow> 's \<Rightarrow> bool"
    and inv :: "'s \<Rightarrow> bool"
  assumes init_inv: "init s \<Longrightarrow> inv s"
    and step_inv: "step s t \<Longrightarrow> inv s \<Longrightarrow> inv t"
begin

lemma reaches_inv: "reaches step s t \<Longrightarrow> inv s \<Longrightarrow> inv t"
  by (induction rule: reaches.induct) (auto intro: step_inv)

lemma reachable_inv: "init s \<Longrightarrow> reaches step s t \<Longrightarrow> inv t"
  by (blast intro: reaches_inv init_inv)

end

lemma reaches_trans: "reaches step s t \<Longrightarrow> reaches step t u \<Longrightarrow> reaches step s u"
  by (rotate_tac, induction rule: reaches.induct) (auto intro: reaches.more)

text \<open>A system that never goes back: in the states of the invariant, no step lowers the rank.\<close>

locale progress_system = invariant_system +
  fixes rank :: "'s \<Rightarrow> 'r::preorder"
  assumes step_rank: "step s t \<Longrightarrow> inv s \<Longrightarrow> rank s \<le> rank t"
begin

lemma reaches_rank: "reaches step s t \<Longrightarrow> inv s \<Longrightarrow> rank s \<le> rank t"
proof (induction rule: reaches.induct)
  case (more s t u)
  then show ?case using step_rank reaches_inv order_trans by blast
qed simp

end

end
