(* ===== verification/Rust_Strings.thy ===== *)
theory Rust_Strings
  imports Prelude
begin

section \<open>The string functions of Rust's standard library that the source uses\<close>

text \<open>
  A Rust \<open>str\<close> is a sequence of bytes that are valid UTF-8; a HOL \<open>char\<close> is a byte, so a
  string here is that byte sequence.

  \<^item> \<open>trim\<close> removes Unicode white space at both ends: the six ASCII characters, the
    two-byte encodings of U+0085 and U+00A0, and the three-byte encodings of U+1680,
    U+2000 to U+200A, U+2028, U+2029, U+202F, U+205F and U+3000;
  \<^item> \<open>str_lines\<close> is \<open>str::lines\<close>: split after every line feed, drop it, and drop one
    carriage return before it;
  \<^item> \<open>split_char\<close> is \<open>str::split\<close> with a one-byte character: always at least one part;
  \<^item> \<open>to_lowercase\<close> lowers the ASCII letters. Rust lowers every letter, but no character
    outside ASCII has \<open>o\<close> or \<open>n\<close> in its lower-case form, so the source's one use of it, a
    comparison with \<open>on\<close>, has the same answer;
  \<^item> \<open>show_nat\<close> is decimal \<open>Display\<close>, \<open>show_hex016\<close> the format \<open>{:016x}\<close> of a \<open>u64\<close>.
\<close>

subsection \<open>White space\<close>

definition newline :: char where "newline = CHR 0x0A"
definition carriage_return :: char where "carriage_return = CHR 0x0D"

definition ascii_ws :: "char \<Rightarrow> bool" where
  "ascii_ws c \<longleftrightarrow> c \<in> set [CHR 0x09, CHR 0x0A, CHR 0x0B, CHR 0x0C, CHR 0x0D, CHR 0x20]"

definition ws2 :: "char \<Rightarrow> char \<Rightarrow> bool" where
  "ws2 a b \<longleftrightarrow> a = CHR 0xC2 \<and> (b = CHR 0x85 \<or> b = CHR 0xA0)"

definition ws3 :: "char \<Rightarrow> char \<Rightarrow> char \<Rightarrow> bool" where
  "ws3 a b c \<longleftrightarrow>
     (a = CHR 0xE1 \<and> b = CHR 0x9A \<and> c = CHR 0x80) \<or>
     (a = CHR 0xE2 \<and> b = CHR 0x80 \<and>
        c \<in> set [CHR 0x80, CHR 0x81, CHR 0x82, CHR 0x83, CHR 0x84, CHR 0x85, CHR 0x86, CHR 0x87,
               CHR 0x88, CHR 0x89, CHR 0x8A, CHR 0xA8, CHR 0xA9, CHR 0xAF]) \<or>
     (a = CHR 0xE2 \<and> b = CHR 0x81 \<and> c = CHR 0x9F) \<or>
     (a = CHR 0xE3 \<and> b = CHR 0x80 \<and> c = CHR 0x80)"

fun strip_ws :: "(char \<Rightarrow> char \<Rightarrow> bool) \<Rightarrow> (char \<Rightarrow> char \<Rightarrow> char \<Rightarrow> bool) \<Rightarrow> string \<Rightarrow> string" where
  "strip_ws w2 w3 (a # b # c # s) =
     (if ascii_ws a then strip_ws w2 w3 (b # c # s)
      else if w2 a b then strip_ws w2 w3 (c # s)
      else if w3 a b c then strip_ws w2 w3 s
      else a # b # c # s)"
| "strip_ws w2 w3 [a, b] =
     (if ascii_ws a then strip_ws w2 w3 [b] else if w2 a b then [] else [a, b])"
| "strip_ws w2 w3 [a] = (if ascii_ws a then [] else [a])"
| "strip_ws w2 w3 [] = []"

definition trim_start :: "string \<Rightarrow> string" where
  "trim_start s = strip_ws ws2 ws3 s"

definition trim_end :: "string \<Rightarrow> string" where
  "trim_end s = rev (strip_ws (\<lambda>a b. ws2 b a) (\<lambda>a b c. ws3 c b a) (rev s))"

definition trim :: "string \<Rightarrow> string" where
  "trim s = trim_end (trim_start s)"

text \<open>Text made of plain characters (ASCII, no white space) is not changed.\<close>

definition plain_char :: "char \<Rightarrow> bool" where
  "plain_char c \<longleftrightarrow> of_char c < (128 :: nat) \<and> \<not> ascii_ws c"

lemma plain_not_ws2 [simp]: "plain_char a \<Longrightarrow> \<not> ws2 a b" "plain_char b \<Longrightarrow> \<not> ws2 a b"
  by (auto simp: plain_char_def ws2_def)

lemma plain_not_ws3 [simp]: "plain_char a \<Longrightarrow> \<not> ws3 a b c" "plain_char c \<Longrightarrow> \<not> ws3 a b c"
  by (auto simp: plain_char_def ws3_def)

lemma plain_not_ascii_ws [simp]: "plain_char a \<Longrightarrow> \<not> ascii_ws a"
  by (simp add: plain_char_def)

lemma strip_ws_plain:
  assumes "s = [] \<or> plain_char (hd s)"
    and "\<And>a b. plain_char a \<Longrightarrow> \<not> w2 a b" and "\<And>a b c. plain_char a \<Longrightarrow> \<not> w3 a b c"
  shows "strip_ws w2 w3 s = s"
  using assms by (induction w2 w3 s rule: strip_ws.induct) auto

lemma trim_plain:
  assumes "s = [] \<or> plain_char (hd s)" "s = [] \<or> plain_char (last s)"
  shows "trim s = s"
  using assms by (auto simp: trim_def trim_start_def trim_end_def strip_ws_plain hd_rev)

lemma trim_all_plain: "list_all plain_char s \<Longrightarrow> trim s = s"
  by (rule trim_plain; cases "s = []") (auto simp: list_all_iff)

lemma strip_ws_ascii [simp]:
  "ascii_ws a \<Longrightarrow> strip_ws w2 w3 (a # s) = strip_ws w2 w3 s"
  by (cases s; cases "tl s") auto

lemma trim_start_ascii_ws:
  "list_all ascii_ws pre \<Longrightarrow> trim_start (pre @ s) = trim_start s"
  by (induction pre) (auto simp: trim_start_def)

lemma trim_end_ascii_ws:
  assumes "list_all ascii_ws post"
  shows "trim_end (s @ post) = trim_end s"
proof -
  have "strip_ws w2 w3 (rev post @ s') = strip_ws w2 w3 s'" for w2 w3 s'
    using assms by (induction post rule: rev_induct) auto
  then show ?thesis by (simp add: trim_end_def)
qed

text \<open>ASCII white space around text whose first and last characters are plain is what
  \<open>trim\<close> takes away.\<close>

lemma trim_pad:
  assumes "list_all ascii_ws pre" "list_all ascii_ws post"
    and "s = [] \<or> plain_char (hd s)" "s = [] \<or> plain_char (last s)"
  shows "trim (pre @ s @ post) = s"
proof (cases "s = []")
  case True
  with assms have "trim_start (pre @ s @ post) = []"
    using trim_start_ascii_ws [of "pre @ post" "[]"] by (simp add: trim_start_def)
  with True show ?thesis by (simp add: trim_def trim_end_def)
next
  case False
  then have "trim_start (pre @ s @ post) = s @ post"
    using assms trim_start_ascii_ws [OF assms(1), of "s @ post"]
    by (simp add: trim_start_def strip_ws_plain)
  then have "trim (pre @ s @ post) = trim_end s"
    using assms by (simp add: trim_def trim_end_ascii_ws)
  then show ?thesis using assms False by (simp add: trim_end_def strip_ws_plain hd_rev)
qed

subsection \<open>Lines and parts\<close>

definition strip_cr :: "string \<Rightarrow> string" where
  "strip_cr l = (if l \<noteq> [] \<and> last l = carriage_return then butlast l else l)"

fun lines_from :: "string \<Rightarrow> string \<Rightarrow> string list" where
  "lines_from acc [] = (if acc = [] then [] else [acc])"
| "lines_from acc (c # s) =
     (if c = newline then strip_cr acc # lines_from [] s else lines_from (acc @ [c]) s)"

definition str_lines :: "string \<Rightarrow> string list" where
  "str_lines s = lines_from [] s"

lemma lines_from_line:
  "newline \<notin> set l \<Longrightarrow> lines_from acc (l @ newline # s) = strip_cr (acc @ l) # lines_from [] s"
  by (induction l arbitrary: acc) auto

lemma str_lines_line:
  "newline \<notin> set l \<Longrightarrow> str_lines (l @ newline # s) = strip_cr l # str_lines s"
  using lines_from_line [of l "[]" s] by (simp add: str_lines_def)

lemma str_lines_Nil [simp]: "str_lines [] = []"
  by (simp add: str_lines_def)

lemma str_lines_unlines:
  "list_all (\<lambda>l. newline \<notin> set l) ls \<Longrightarrow>
     str_lines (concat (map (\<lambda>l. l @ [newline]) ls) @ s) = map strip_cr ls @ str_lines s"
  by (induction ls) (auto simp: str_lines_line)

lemma lines_from_append:
  "lines_from acc (s @ newline # t) = lines_from acc (s @ [newline]) @ lines_from [] t"
proof (induction s arbitrary: acc)
  case Nil
  then show ?case by simp
next
  case (Cons c s)
  show ?case using Cons.IH [of "[]"] Cons.IH [of "acc @ [c]"] by simp
qed

lemma str_lines_append:
  "str_lines (s @ newline # t) = str_lines (s @ [newline]) @ str_lines t"
  unfolding str_lines_def by (rule lines_from_append)

fun split_from :: "char \<Rightarrow> string \<Rightarrow> string \<Rightarrow> string list" where
  "split_from sep acc [] = [acc]"
| "split_from sep acc (c # s) =
     (if c = sep then acc # split_from sep [] s else split_from sep (acc @ [c]) s)"

definition split_char :: "char \<Rightarrow> string \<Rightarrow> string list" where
  "split_char sep s = split_from sep [] s"

lemma length_split_from: "length (split_from sep acc s) = Suc (count_list s sep)"
  by (induction sep acc s rule: split_from.induct) auto

lemma length_split_char: "length (split_char sep s) = Suc (count_list s sep)"
  by (simp add: split_char_def length_split_from)

lemma split_from_part:
  "sep \<notin> set p \<Longrightarrow> split_from sep acc (p @ sep # s) = (acc @ p) # split_from sep [] s"
  by (induction p arbitrary: acc) auto

lemma split_from_last: "sep \<notin> set p \<Longrightarrow> split_from sep acc p = [acc @ p]"
  by (induction p arbitrary: acc) auto

lemma split_char_join:
  assumes "sep \<notin> set p" "sep \<notin> set q" "sep \<notin> set r"
  shows "split_char sep (p @ sep # q @ sep # r) = [p, q, r]"
  using assms by (simp add: split_char_def split_from_part split_from_last)

fun join :: "char \<Rightarrow> string list \<Rightarrow> string" where
  "join sep [] = []"
| "join sep [p] = p"
| "join sep (p # q # ps) = p @ sep # join sep (q # ps)"

lemma split_from_nonempty: "split_from sep acc s \<noteq> []"
  using length_split_from [of sep acc s] by auto

lemma join_split_from: "join sep (split_from sep acc s) = acc @ s"
proof (induction sep acc s rule: split_from.induct)
  case (1 sep acc)
  then show ?case by simp
next
  case (2 sep acc c s)
  then show ?case
    using split_from_nonempty [of sep "[]" s] by (cases "split_from sep [] s") auto
qed

lemma join_split_char: "join sep (split_char sep s) = s"
  by (simp add: split_char_def join_split_from)

lemma split_char_three:
  assumes "split_char sep s = [p, q, r]"
  shows "s = p @ sep # q @ sep # r"
  using join_split_char [of sep s] assms by simp

subsection \<open>Case and numbers\<close>

definition lower_char :: "char \<Rightarrow> char" where
  "lower_char c = (let n = of_char c :: nat in
     if 65 \<le> n \<and> n \<le> 90 then char_of (n + 32) else c)"

definition to_lowercase :: "string \<Rightarrow> string" where
  "to_lowercase s = map lower_char s"

fun show_nat :: "nat \<Rightarrow> string" where
  "show_nat n = (if n < 10 then [char_of (48 + n)] else show_nat (n div 10) @ [char_of (48 + n mod 10)])"

declare show_nat.simps [simp del]

definition hex_digit :: "nat \<Rightarrow> char" where
  "hex_digit d = (if d < 10 then char_of (48 + d) else char_of (87 + d))"

definition show_hex016 :: "64 word \<Rightarrow> string" where
  "show_hex016 w = map (\<lambda>i. hex_digit (unat (drop_bit (4 * i) w AND 15)))
     [15, 14, 13, 12, 11, 10, 9, 8, 7, 6, 5, 4, 3, 2, 1, 0]"

definition str_bytes :: "string \<Rightarrow> bytes" where
  "str_bytes s = map of_char s"

fun dec_value :: "string \<Rightarrow> nat" where
  "dec_value [] = 0"
| "dec_value (c # s) = (of_char c - 48) * 10 ^ length s + dec_value s"

lemma dec_value_snoc: "dec_value (s @ [c]) = 10 * dec_value s + (of_char c - 48)"
  by (induction s) (auto simp: algebra_simps)

lemma show_nat_value: "dec_value (show_nat n) = n"
proof (induction n rule: show_nat.induct)
  case (1 n)
  then show ?case
    by (cases "n < 10") (auto simp: show_nat.simps [of n] dec_value_snoc)
qed

lemma show_nat_inj: "show_nat m = show_nat n \<longleftrightarrow> m = n"
  by (metis show_nat_value)

lemma show_nat_digits: "c \<in> set (show_nat n) \<Longrightarrow> 48 \<le> (of_char c :: nat) \<and> (of_char c :: nat) \<le> 57"
proof (induction n rule: show_nat.induct)
  case (1 n)
  then show ?case
    by (cases "n < 10") (auto simp: show_nat.simps [of n])
qed

lemma char_eq_iff_code: "c = d \<longleftrightarrow> (of_char c :: nat) = of_char d"
  by simp

lemma of_char_lower_char:
  "(of_char (lower_char c) :: nat) =
     (if 65 \<le> (of_char c :: nat) \<and> (of_char c :: nat) \<le> 90 then of_char c + 32 else of_char c)"
  by (auto simp: lower_char_def Let_def)

lemma to_lowercase_eq_on:
  "to_lowercase s = ''on'' \<longleftrightarrow> s \<in> {''on'', ''On'', ''oN'', ''ON''}"
proof -
  have o: "lower_char c = CHR ''o'' \<longleftrightarrow> c = CHR ''o'' \<or> c = CHR ''O''" for c
    by (auto simp: char_eq_iff_code of_char_lower_char simp del: of_char_eq_iff)
  have n: "lower_char c = CHR ''n'' \<longleftrightarrow> c = CHR ''n'' \<or> c = CHR ''N''" for c
    by (auto simp: char_eq_iff_code of_char_lower_char simp del: of_char_eq_iff)
  show ?thesis by (auto simp: to_lowercase_def map_eq_Cons_conv o n)
qed

subsection \<open>Signed numbers and lossy UTF-8\<close>

definition show_int :: "int \<Rightarrow> string" where
  "show_int i = (if i < 0 then CHR ''-'' # show_nat (nat (- i)) else show_nat (nat i))"

text \<open>\<open>String::from_utf8_lossy\<close>: each maximal ill-formed part becomes U+FFFD.\<close>

definition utf8_cont :: "byte \<Rightarrow> bool" where
  "utf8_cont b \<longleftrightarrow> 0x80 \<le> b \<and> b \<le> 0xBF"

definition utf8_width :: "byte \<Rightarrow> nat" where
  "utf8_width b =
     (if b < 0x80 then 1 else if 0xC2 \<le> b \<and> b \<le> 0xDF then 2
      else if 0xE0 \<le> b \<and> b \<le> 0xEF then 3 else if 0xF0 \<le> b \<and> b \<le> 0xF4 then 4 else 0)"

definition utf8_second :: "byte \<Rightarrow> byte \<Rightarrow> bool" where
  "utf8_second a b \<longleftrightarrow>
     (if a = 0xE0 then 0xA0 \<le> b \<and> b \<le> 0xBF else if a = 0xED then 0x80 \<le> b \<and> b \<le> 0x9F
      else if a = 0xF0 then 0x90 \<le> b \<and> b \<le> 0xBF else if a = 0xF4 then 0x80 \<le> b \<and> b \<le> 0x8F
      else utf8_cont b)"

text \<open>Whether the bytes begin with a character, and how many bytes it, or the ill-formed part
  in its place, has.\<close>

definition utf8_step :: "byte \<Rightarrow> bytes \<Rightarrow> bool \<times> nat" where
  "utf8_step a s =
     (let w = utf8_width a in
      if w = 1 then (True, 1) else if w = 0 then (False, 1)
      else case s of [] \<Rightarrow> (False, 1) | b # s2 \<Rightarrow>
        if \<not> utf8_second a b then (False, 1) else if w = 2 then (True, 2)
        else case s2 of [] \<Rightarrow> (False, 2) | c # s3 \<Rightarrow>
          if \<not> utf8_cont c then (False, 2) else if w = 3 then (True, 3)
          else case s3 of [] \<Rightarrow> (False, 3) | d # _ \<Rightarrow>
            if utf8_cont d then (True, 4) else (False, 3))"

function utf8_lossy :: "bytes \<Rightarrow> string" where
  "utf8_lossy [] = []"
| "utf8_lossy (a # s) =
     (case utf8_step a s of (ok, n) \<Rightarrow>
       (if ok then map (\<lambda>b. char_of (unat b)) (take n (a # s)) else [CHR 0xEF, CHR 0xBF, CHR 0xBD]) @
       utf8_lossy (drop (n - 1) s))"
  by pat_completeness auto
termination
  by (relation "measure length") auto

lemma utf8_lossy_ascii: "list_all (\<lambda>b. b < 0x80) bs \<Longrightarrow> utf8_lossy bs = map (\<lambda>b. char_of (unat b)) bs"
  by (induction bs) (auto simp: utf8_step_def utf8_width_def)

subsection \<open>Valid UTF-8\<close>

text \<open>Which byte strings are a \<open>str\<close> (RFC 3629). \<open>utf8_tail\<close> gives the ranges of the bytes that have to
  follow a first byte: no overlong forms, no surrogates, nothing above U+10FFFF.\<close>

definition utf8_tail :: "nat \<Rightarrow> (nat \<times> nat) list option" where
  "utf8_tail n =
     (let cont = (0x80, 0xBF) in
      if n < 0x80 then Some []
      else if 0xC2 \<le> n \<and> n \<le> 0xDF then Some [cont]
      else if n = 0xE0 then Some [(0xA0, 0xBF), cont]
      else if n = 0xED then Some [(0x80, 0x9F), cont]
      else if 0xE1 \<le> n \<and> n \<le> 0xEF then Some [cont, cont]
      else if n = 0xF0 then Some [(0x90, 0xBF), cont, cont]
      else if 0xF1 \<le> n \<and> n \<le> 0xF3 then Some [cont, cont, cont]
      else if n = 0xF4 then Some [(0x80, 0x8F), cont, cont]
      else None)"

fun utf8_from :: "(nat \<times> nat) list \<Rightarrow> string \<Rightarrow> bool" where
  "utf8_from [] [] = True"
| "utf8_from (r # rs) [] = False"
| "utf8_from [] (c # s) = (case utf8_tail (of_char c) of None \<Rightarrow> False | Some rs \<Rightarrow> utf8_from rs s)"
| "utf8_from ((lo, hi) # rs) (c # s) = (lo \<le> of_char c \<and> of_char c \<le> hi \<and> utf8_from rs s)"

definition utf8 :: "string \<Rightarrow> bool" where "utf8 = utf8_from []"

lemma utf8_from_append: "utf8_from rs s \<Longrightarrow> utf8_from rs (s @ t) = utf8_from [] t"
  by (induction rs s rule: utf8_from.induct) (auto split: option.splits)

lemma utf8_append [intro]: "utf8 s \<Longrightarrow> utf8 t \<Longrightarrow> utf8 (s @ t)"
  by (simp add: utf8_def utf8_from_append)

definition ascii :: "char \<Rightarrow> bool" where "ascii c \<longleftrightarrow> of_char c < (128 :: nat)"

lemma utf8_ascii: "list_all ascii s \<Longrightarrow> utf8 s"
  by (induction s) (auto simp: utf8_def utf8_tail_def ascii_def)

end
