(* ===== verification/Report.thy ===== *)
theory Report
  imports Prelude
begin

section \<open>The attestation report (sifir-attest/src/report.rs)\<close>

text \<open>
  The 1184-byte AMD SEV-SNP report as \<open>report.rs\<close> lays it out: the constants, the struct
  with its one array field, every accessor and every setter, with the range indexing and the
  array conversions that would panic on a buffer of another size. \<open>wf_report\<close> is the type
  \<open>[u8; REPORT_SIZE]\<close> of the field.

  \<open>report_field\<close> is the contract the signer, the verifier and the server rely on: reading a
  field of width \<open>n\<close> at offset \<open>off\<close>. \<open>report_field_rw\<close> adds a setter. Each accessor of the
  source is an interpretation.
\<close>

definition REPORT_SIZE :: nat where "REPORT_SIZE = 1184"
definition SIGNED_REGION_SIZE :: nat where "SIGNED_REGION_SIZE = 0x2A0"

definition OFF_VERSION :: nat where "OFF_VERSION = 0x000"
definition OFF_REPORT_DATA :: nat where "OFF_REPORT_DATA = 0x050"
definition OFF_MEASUREMENT :: nat where "OFF_MEASUREMENT = 0x090"
definition OFF_CHIP_ID :: nat where "OFF_CHIP_ID = 0x1A0"
definition OFF_SIG_R :: nat where "OFF_SIG_R = 0x2A0"
definition OFF_SIG_S :: nat where "OFF_SIG_S = 0x2E8"

definition REPORT_DATA_SIZE :: nat where "REPORT_DATA_SIZE = 64"
definition MEASUREMENT_SIZE :: nat where "MEASUREMENT_SIZE = 48"
definition CHIP_ID_SIZE :: nat where "CHIP_ID_SIZE = 64"
definition SIG_COMPONENT_FIELD :: nat where "SIG_COMPONENT_FIELD = 72"
definition SIG_SCALAR_SIZE :: nat where "SIG_SCALAR_SIZE = 48"

lemmas report_consts =
  REPORT_SIZE_def SIGNED_REGION_SIZE_def OFF_VERSION_def OFF_REPORT_DATA_def OFF_MEASUREMENT_def
  OFF_CHIP_ID_def OFF_SIG_R_def OFF_SIG_S_def REPORT_DATA_SIZE_def MEASUREMENT_SIZE_def
  CHIP_ID_SIZE_def SIG_COMPONENT_FIELD_def SIG_SCALAR_SIZE_def

record report =
  raw :: bytes

definition wf_report :: "report \<Rightarrow> bool" where
  "wf_report r \<longleftrightarrow> length (raw r) = REPORT_SIZE"

subsection \<open>Constructors and accessors\<close>

definition new_report :: "bytes \<Rightarrow> report" where
  "new_report bs = \<lparr>raw = bs\<rparr>"

definition default_report :: report where
  "default_report = \<lparr>raw = replicate REPORT_SIZE 0\<rparr>"

definition as_bytes :: "report \<Rightarrow> bytes" where
  "as_bytes r = raw r"

definition version :: "report \<Rightarrow> (32 word, 'e) exec" where
  "version r = and_then (slice_range (raw r) OFF_VERSION (OFF_VERSION + 4)) (\<lambda>s.
     and_then (to_array 4 s) (\<lambda>a. Ok (from_le_bytes32 a)))"

definition report_data :: "report \<Rightarrow> (bytes, 'e) exec" where
  "report_data r = and_then (slice_range (raw r) OFF_REPORT_DATA (OFF_REPORT_DATA + REPORT_DATA_SIZE))
     (to_array REPORT_DATA_SIZE)"

definition measurement :: "report \<Rightarrow> (bytes, 'e) exec" where
  "measurement r = and_then (slice_range (raw r) OFF_MEASUREMENT (OFF_MEASUREMENT + MEASUREMENT_SIZE))
     (to_array MEASUREMENT_SIZE)"

definition chip_id :: "report \<Rightarrow> (bytes, 'e) exec" where
  "chip_id r = and_then (slice_range (raw r) OFF_CHIP_ID (OFF_CHIP_ID + CHIP_ID_SIZE))
     (to_array CHIP_ID_SIZE)"

definition sig_r :: "report \<Rightarrow> (bytes, 'e) exec" where
  "sig_r r = and_then (slice_range (raw r) OFF_SIG_R (OFF_SIG_R + SIG_SCALAR_SIZE))
     (to_array SIG_SCALAR_SIZE)"

definition sig_s :: "report \<Rightarrow> (bytes, 'e) exec" where
  "sig_s r = and_then (slice_range (raw r) OFF_SIG_S (OFF_SIG_S + SIG_SCALAR_SIZE))
     (to_array SIG_SCALAR_SIZE)"

definition signed_region :: "report \<Rightarrow> (bytes, 'e) exec" where
  "signed_region r = slice_range (raw r) 0 SIGNED_REGION_SIZE"

definition set_sig_r :: "report \<Rightarrow> bytes \<Rightarrow> (report, 'e) exec" where
  "set_sig_r r v = and_then (copy_range (raw r) OFF_SIG_R (OFF_SIG_R + SIG_SCALAR_SIZE) v)
     (\<lambda>b. Ok (r\<lparr>raw := b\<rparr>))"

definition set_sig_s :: "report \<Rightarrow> bytes \<Rightarrow> (report, 'e) exec" where
  "set_sig_s r v = and_then (copy_range (raw r) OFF_SIG_S (OFF_SIG_S + SIG_SCALAR_SIZE) v)
     (\<lambda>b. Ok (r\<lparr>raw := b\<rparr>))"

lemma wf_default_report [simp]: "wf_report default_report"
  by (simp add: wf_report_def default_report_def)

lemma wf_new_report [simp]: "wf_report (new_report bs) \<longleftrightarrow> length bs = REPORT_SIZE"
  by (simp add: wf_report_def new_report_def)

lemma raw_new_report [simp]: "raw (new_report bs) = bs"
  by (simp add: new_report_def)

subsection \<open>The contract of a field\<close>

locale report_field =
  fixes get :: "report \<Rightarrow> (bytes, 'e) exec"
    and off :: nat
    and width :: nat
  assumes in_bounds: "off + width \<le> REPORT_SIZE"
    and get_eq: "wf_report r \<Longrightarrow> get r = Ok (take width (drop off (raw r)))"
begin

lemma get_width:
  assumes "wf_report r"
  obtains v where "get r = Ok v" "length v = width"
  using assms get_eq [OF assms] in_bounds by (auto simp: wf_report_def)

lemma get_cong:
  "wf_report r \<Longrightarrow> wf_report r' \<Longrightarrow>
     take width (drop off (raw r)) = take width (drop off (raw r')) \<Longrightarrow> get r = get r'"
  by (simp add: get_eq)

lemma get_overwrite_disjoint:
  assumes "wf_report r" "o' + length v \<le> REPORT_SIZE" "o' + length v \<le> off \<or> off + width \<le> o'"
  shows "get (r\<lparr>raw := overwrite o' v (raw r)\<rparr>) = get r"
  using assms by (intro get_cong) (auto simp: wf_report_def read_overwrite_disjoint)

lemma get_overwrite_same:
  assumes "wf_report r" "length v = width"
  shows "get (r\<lparr>raw := overwrite off v (raw r)\<rparr>) = Ok v"
  using assms in_bounds by (subst get_eq) (auto simp: wf_report_def read_overwrite_same)

end

locale report_field_rw = report_field get off width
  for get :: "report \<Rightarrow> (bytes, 'e) exec" and off width :: nat +
  fixes set :: "report \<Rightarrow> bytes \<Rightarrow> (report, 'e) exec"
  assumes set_eq: "wf_report r \<Longrightarrow> length v = width \<Longrightarrow> set r v = Ok (r\<lparr>raw := overwrite off v (raw r)\<rparr>)"
    and set_panics: "wf_report r \<Longrightarrow> length v \<noteq> width \<Longrightarrow> set r v = Panic"
begin

lemma set_wf:
  assumes "wf_report r" "set r v = Ok r'"
  shows "wf_report r'"
proof -
  have "length v = width" using assms set_panics by fastforce
  with assms set_eq in_bounds show ?thesis by (auto simp: wf_report_def)
qed

lemma get_set: "wf_report r \<Longrightarrow> set r v = Ok r' \<Longrightarrow> get r' = Ok v"
  using set_panics [of r v] set_eq [of r v] get_overwrite_same [of r v]
  by (cases "length v = width") auto

lemma set_frame:
  assumes "wf_report r" "set r v = Ok r'" "o' + n \<le> off \<or> off + width \<le> o'"
  shows "take n (drop o' (raw r')) = take n (drop o' (raw r))"
proof -
  have "length v = width" using assms set_panics by fastforce
  with assms set_eq in_bounds show ?thesis
    by (auto simp: wf_report_def read_overwrite_disjoint)
qed

lemma set_set: "wf_report r \<Longrightarrow> set r v = Ok r' \<Longrightarrow> length w = width \<Longrightarrow> set r' w = set r w"
  using set_panics [of r v] set_eq [of r v] set_wf [of r v r'] in_bounds
  by (cases "length v = width") (auto simp: set_eq overwrite_def wf_report_def min_def)

end

interpretation rdata: report_field report_data OFF_REPORT_DATA REPORT_DATA_SIZE
  by unfold_locales (simp_all add: report_data_def report_consts wf_report_def slice_range_def to_array_def)

interpretation meas: report_field measurement OFF_MEASUREMENT MEASUREMENT_SIZE
  by unfold_locales (simp_all add: measurement_def report_consts wf_report_def slice_range_def to_array_def)

interpretation chip: report_field chip_id OFF_CHIP_ID CHIP_ID_SIZE
  by unfold_locales (simp_all add: chip_id_def report_consts wf_report_def slice_range_def to_array_def)

interpretation sigr: report_field_rw sig_r OFF_SIG_R SIG_SCALAR_SIZE set_sig_r
  by unfold_locales
    (simp_all add: sig_r_def set_sig_r_def report_consts wf_report_def slice_range_def to_array_def copy_range_def)

interpretation sigs: report_field_rw sig_s OFF_SIG_S SIG_SCALAR_SIZE set_sig_s
  by unfold_locales
    (simp_all add: sig_s_def set_sig_s_def report_consts wf_report_def slice_range_def to_array_def copy_range_def)

interpretation sregion: report_field signed_region 0 SIGNED_REGION_SIZE
  by unfold_locales (simp_all add: signed_region_def slice_range_def report_consts wf_report_def)

lemma version_eq:
  "wf_report r \<Longrightarrow> version r = Ok (from_le_bytes32 (take 4 (raw r)))"
  by (simp add: version_def report_consts wf_report_def slice_range_def to_array_def)

lemmas field_eqs =
  rdata.get_eq meas.get_eq chip.get_eq sigr.get_eq sigs.get_eq sregion.get_eq version_eq

subsection \<open>Properties\<close>

text \<open>C40: On a buffer of the report's size no accessor panics, and each returns a value of the
  width its type promises: 64 bytes of report data, 48 of measurement, 64 of chip id, 48 for
  each signature scalar, and the 672 bytes the signature covers.\<close>

theorem report_accessors_total:
  assumes "wf_report r"
  shows "(\<exists>v. version r = (Ok v :: (32 word, 'e) exec)) \<and>
    (\<exists>d. report_data r = (Ok d :: (bytes, 'e) exec) \<and> length d = 64) \<and>
    (\<exists>m. measurement r = (Ok m :: (bytes, 'e) exec) \<and> length m = 48) \<and>
    (\<exists>c. chip_id r = (Ok c :: (bytes, 'e) exec) \<and> length c = 64) \<and>
    (\<exists>a. sig_r r = (Ok a :: (bytes, 'e) exec) \<and> length a = 48) \<and>
    (\<exists>b. sig_s r = (Ok b :: (bytes, 'e) exec) \<and> length b = 48) \<and>
    (\<exists>g. signed_region r = (Ok g :: (bytes, 'e) exec) \<and> length g = 672)"
  using assms by (simp add: field_eqs) (simp add: wf_report_def report_consts)

text \<open>Writing the two signature scalars, in either order, succeeds, keeps the report well
  formed, is read back exactly by \<open>sig_r\<close> and \<open>sig_s\<close>, and changes neither the region the
  signature covers nor any field in it.\<close>

theorem set_signature_roundtrip:
  assumes "wf_report r" "length a = SIG_SCALAR_SIZE" "length b = SIG_SCALAR_SIZE"
  shows "\<exists>r'. and_then (set_sig_r r a) (\<lambda>r1. set_sig_s r1 b) = (Ok r' :: (report, 'e) exec) \<and>
    and_then (set_sig_s r b) (\<lambda>r1. set_sig_r r1 a) = (Ok r' :: (report, 'e) exec) \<and>
    wf_report r' \<and> sig_r r' = (Ok a :: (bytes, 'e) exec) \<and> sig_s r' = (Ok b :: (bytes, 'e) exec) \<and>
    signed_region r' = (signed_region r :: (bytes, 'e) exec) \<and>
    report_data r' = (report_data r :: (bytes, 'e) exec) \<and>
    measurement r' = (measurement r :: (bytes, 'e) exec) \<and>
    chip_id r' = (chip_id r :: (bytes, 'e) exec) \<and> version r' = (version r :: (32 word, 'e) exec)"
proof -
  let ?b1 = "overwrite OFF_SIG_R a (raw r)" and ?b2 = "overwrite OFF_SIG_S b (raw r)"
  let ?r' = "r\<lparr>raw := overwrite OFF_SIG_S b ?b1\<rparr>"
  have len: "length (raw r) = 1184" using assms(1) by (simp add: wf_report_def REPORT_SIZE_def)
  have wf1: "wf_report (r\<lparr>raw := ?b1\<rparr>)" and wf2: "wf_report (r\<lparr>raw := ?b2\<rparr>)" and wf': "wf_report ?r'"
    using len assms by (simp_all add: wf_report_def report_consts)
  have "overwrite OFF_SIG_R a ?b2 = overwrite OFF_SIG_S b ?b1"
    using len assms by (intro overwrite_commute) (simp_all add: report_consts)
  then have writes: "and_then (set_sig_r r a) (\<lambda>r1. set_sig_s r1 b) = (Ok ?r' :: (report, 'e) exec)"
    "and_then (set_sig_s r b) (\<lambda>r1. set_sig_r r1 a) = (Ok ?r' :: (report, 'e) exec)"
    using assms wf1 wf2 by (simp_all add: sigr.set_eq sigs.set_eq)
  have "sig_r ?r' = (Ok a :: (bytes, 'e) exec)" "sig_s ?r' = (Ok b :: (bytes, 'e) exec)"
    using wf' len assms
    by (simp_all add: sigr.get_eq sigs.get_eq report_consts read_overwrite_same read_overwrite_disjoint)
  moreover have "take n (drop i (raw ?r')) = take n (drop i (raw r))" if "i + n \<le> OFF_SIG_R" for i n
    using that len assms by (simp add: report_consts read_overwrite_disjoint)
  then have "signed_region ?r' = (signed_region r :: (bytes, 'e) exec)"
    "report_data ?r' = (report_data r :: (bytes, 'e) exec)"
    "measurement ?r' = (measurement r :: (bytes, 'e) exec)"
    "chip_id ?r' = (chip_id r :: (bytes, 'e) exec)"
    using wf' assms(1)
    by (simp_all add: sregion.get_eq rdata.get_eq meas.get_eq chip.get_eq report_consts)
      (metis drop0 le_refl plus_nat.add_0)
  moreover have "version ?r' = (version r :: (32 word, 'e) exec)"
    using wf' len assms by (simp add: version_eq report_consts take_overwrite_before)
  ultimately show ?thesis using writes wf' by blast
qed

end
