(* ===== verification/Serde.thy ===== *)
theory Serde
  imports Rust_Strings
begin

section \<open>What \<open>derive(Serialize, Deserialize)\<close> makes of the source's types\<close>

text \<open>
  The source serialises with \<open>serde_json\<close>, and its types with \<open>derive\<close>. The text format is a
  parameter (\<open>Libs\<close>); this theory has the value a text denotes and the rules by which a derived
  implementation reads a field, from which each type's reader and writer are put together where the
  type is declared:

  \<^item> a struct is written as an object of its fields in order; it is read from an object, where unknown
    fields are skipped, a field given twice is an error, and a missing field is an error unless it is an
    \<open>Option\<close>; or from an array of exactly its fields;
  \<^item> a unit variant is written as its name, and read from its name or from an object with that one key
    and \<open>null\<close>;
  \<^item> \<open>None\<close> is \<open>null\<close>; an integer must be in range and not be written as a fraction.

  \<open>serde_pair\<close> is the contract of a writer and the reader at the other end of the wire, which may be
  another type of another crate; \<open>view\<close> is what the reader sees of the value.
\<close>

datatype json =
    JNull
  | JBool bool
  | JInt int
  | JFloat string \<comment> \<open>any other number\<close>
  | JStr string
  | JArr "json list"
  | JObj "(string \<times> json) list"

subsection \<open>Writers\<close>

definition ser_option :: "('a \<Rightarrow> json) \<Rightarrow> 'a option \<Rightarrow> json" where
  "ser_option ser x = (case x of None \<Rightarrow> JNull | Some a \<Rightarrow> ser a)"

definition ser_list :: "('a \<Rightarrow> json) \<Rightarrow> 'a list \<Rightarrow> json" where
  "ser_list ser xs = JArr (map ser xs)"

definition ser_u32 :: "32 word \<Rightarrow> json" where
  "ser_u32 w = JInt (uint w)"

subsection \<open>Readers\<close>

definition de_string :: "json \<Rightarrow> string option" where
  "de_string j = (case j of JStr s \<Rightarrow> Some s | _ \<Rightarrow> None)"

definition de_u32 :: "json \<Rightarrow> 32 word option" where
  "de_u32 j = (case j of JInt i \<Rightarrow> if 0 \<le> i \<and> i < 4294967296 then Some (word_of_int i) else None | _ \<Rightarrow> None)"

definition de_option :: "(json \<Rightarrow> 'a option) \<Rightarrow> json \<Rightarrow> 'a option option" where
  "de_option de j = (if j = JNull then Some None else map_option Some (de j))"

definition de_list :: "(json \<Rightarrow> 'a option) \<Rightarrow> json \<Rightarrow> 'a list option" where
  "de_list de j = (case j of JArr js \<Rightarrow> those (map de js) | _ \<Rightarrow> None)"

definition de_unit_variant :: "(string \<times> 'a) list \<Rightarrow> json \<Rightarrow> 'a option" where
  "de_unit_variant variants j =
     (case j of
        JStr s \<Rightarrow> map_of variants s
      | JObj [(s, JNull)] \<Rightarrow> map_of variants s
      | _ \<Rightarrow> None)"

text \<open>The value of one field of an object: \<open>None\<close> if the field is given twice, \<open>Some None\<close> if it is
  missing. \<open>struct_fields\<close> collects the fields of a struct.\<close>

definition lookup_field :: "(string \<times> json) list \<Rightarrow> string \<Rightarrow> json option option" where
  "lookup_field kvs name =
     (case filter (\<lambda>kv. fst kv = name) kvs of
        [] \<Rightarrow> Some None
      | [(_, v)] \<Rightarrow> Some (Some v)
      | _ \<Rightarrow> None)"

definition struct_fields :: "string list \<Rightarrow> json \<Rightarrow> json option list option" where
  "struct_fields names j =
     (case j of
        JObj kvs \<Rightarrow> those (map (lookup_field kvs) names)
      | JArr js \<Rightarrow> if length js = length names then Some (map Some js) else None
      | _ \<Rightarrow> None)"

definition required :: "(json \<Rightarrow> 'a option) \<Rightarrow> json option \<Rightarrow> 'a option" where
  "required de field = Option.bind field de"

definition optional :: "(json \<Rightarrow> 'a option) \<Rightarrow> json option \<Rightarrow> 'a option option" where
  "optional de field = (case field of None \<Rightarrow> Some None | Some j \<Rightarrow> de_option de j)"

subsection \<open>Lemmas\<close>

named_theorems serde \<open>reading back what was written\<close>

lemma those_map_Some [simp]: "those (map Some xs) = Some xs"
  by (induction xs) auto

lemma de_string_JStr [serde]: "de_string (JStr s) = Some s"
  by (simp add: de_string_def)

lemma de_u32_ser [serde]: "de_u32 (ser_u32 w) = Some w"
  using uint_lt2p [of w] by (simp add: de_u32_def ser_u32_def)

lemma de_list_ser [serde]: "(\<And>x. de (ser x) = Some x) \<Longrightarrow> de_list de (ser_list ser xs) = Some xs"
  by (simp add: de_list_def ser_list_def comp_def)

lemma de_option_ser [serde]:
  "(\<And>x. de (ser x) = Some x) \<Longrightarrow> (\<And>x. ser x \<noteq> JNull) \<Longrightarrow> de_option de (ser_option ser v) = Some v"
  by (cases v) (simp_all add: de_option_def ser_option_def)

lemma those_eq_Some: "those ys = Some xs \<longleftrightarrow> ys = map Some xs"
proof (induction ys arbitrary: xs)
  case Nil
  then show ?case by auto
next
  case (Cons y ys)
  then show ?case by (cases y; cases xs) auto
qed

lemma de_list_strings: "de_list de_string j = Some xs \<longleftrightarrow> j = JArr (map JStr xs)"
proof -
  have str: "de_string j = Some x \<longleftrightarrow> j = JStr x" for j x
    by (cases j) (auto simp: de_string_def)
  have "map de_string js = map Some xs \<longleftrightarrow> js = map JStr xs" for js
    by (induction js arbitrary: xs) (auto simp: Cons_eq_map_conv str)
  then show ?thesis by (cases j) (auto simp: de_list_def those_eq_Some)
qed

lemma required_Some [serde]: "required de (Some j) = de j"
  by (simp add: required_def)

lemma optional_simps [serde]: "optional de (Some j) = de_option de j" "optional de None = Some None"
  by (simp_all add: optional_def)

text \<open>An object with the field once, anywhere, or not at all.\<close>

lemma lookup_field_once:
  "k \<notin> fst ` set kvs \<Longrightarrow> k \<notin> fst ` set kvs' \<Longrightarrow> lookup_field (kvs @ (k, v) # kvs') k = Some (Some v)"
proof -
  assume k: "k \<notin> fst ` set kvs" "k \<notin> fst ` set kvs'"
  have "filter (\<lambda>kv. fst kv = k) kvs = []" "filter (\<lambda>kv. fst kv = k) kvs' = []"
    using k by (force simp: filter_empty_conv)+
  then show ?thesis by (simp add: lookup_field_def)
qed

lemma lookup_field_missing: "k \<notin> fst ` set kvs \<Longrightarrow> lookup_field kvs k = Some None"
proof -
  assume "k \<notin> fst ` set kvs"
  then have "filter (\<lambda>kv. fst kv = k) kvs = []" by (force simp: filter_empty_conv)
  then show ?thesis by (simp add: lookup_field_def)
qed

text \<open>Reading an object with distinct names is looking its names up.\<close>

lemma lookup_field_distinct:
  assumes "distinct (map fst kvs)"
  shows "lookup_field kvs name = Some (map_of kvs name)"
proof (cases "map_of kvs name")
  case None
  then have "name \<notin> fst ` set kvs" by (simp add: map_of_eq_None_iff)
  then show ?thesis using None by (simp add: lookup_field_missing)
next
  case (Some v)
  then obtain pre post where kvs: "kvs = pre @ (name, v) # post"
    by (meson map_of_SomeD split_list)
  have "name \<notin> fst ` set pre" "name \<notin> fst ` set post"
    using assms by (auto simp: kvs)
  then have "lookup_field kvs name = Some (Some v)" unfolding kvs by (rule lookup_field_once)
  then show ?thesis using Some by simp
qed

lemma struct_fields_object:
  assumes "distinct (map fst kvs)"
  shows "struct_fields names (JObj kvs) = Some (map (map_of kvs) names)"
proof -
  have "map (lookup_field kvs) names = map Some (map (map_of kvs) names)"
    using lookup_field_distinct [OF assms] by simp
  then show ?thesis by (simp only: struct_fields_def json.case those_map_Some)
qed

text \<open>A reader that looks only at its named fields does not see the others.\<close>

lemma struct_fields_ignores:
  assumes "name \<notin> set names"
  shows "struct_fields names (JObj (kvs @ (name, v) # kvs')) = struct_fields names (JObj (kvs @ kvs'))"
proof -
  have "lookup_field (kvs @ (name, v) # kvs') n = lookup_field (kvs @ kvs') n" if "n \<in> set names" for n
    using that assms by (auto simp: lookup_field_def)
  then show ?thesis by (simp add: struct_fields_def cong: map_cong)
qed

subsection \<open>Values that the text format carries\<close>

text \<open>The values \<open>serde_json\<close> writes and reads back exactly: integers of 64 bits, no other numbers, and a
  nesting below its recursion limit of 128.\<close>

fun json_plain :: "nat \<Rightarrow> json \<Rightarrow> bool" where
  "json_plain d (JInt i) = (- (2 ^ 63) \<le> i \<and> i < 2 ^ 64)"
| "json_plain d (JFloat s) = False"
| "json_plain 0 (JArr js) = False"
| "json_plain (Suc d) (JArr js) = (\<forall>j \<in> set js. json_plain d j)"
| "json_plain 0 (JObj kvs) = False"
| "json_plain (Suc d) (JObj kvs) = (\<forall>kv \<in> set kvs. json_plain d (snd kv))"
| "json_plain d _ = True"

lemma json_plain_numeral [simp]:
  "json_plain (numeral d) (JArr js) = (\<forall>j \<in> set js. json_plain (pred_numeral d) j)"
  "json_plain (numeral d) (JObj kvs) = (\<forall>kv \<in> set kvs. json_plain (pred_numeral d) (snd kv))"
  by (simp_all add: numeral_eq_Suc)

lemma json_plain_u32 [serde]: "json_plain d (ser_u32 w)"
  using uint_lt2p [of w] order_trans [OF _ uint_ge_0, of "- (2 ^ 63)" w] by (simp add: ser_u32_def)

lemma json_plain_option [serde]: "(\<And>x. json_plain d (ser x)) \<Longrightarrow> json_plain d (ser_option ser v)"
  by (simp add: ser_option_def split: option.split)

lemma json_plain_list [serde]: "(\<And>x. json_plain d (ser x)) \<Longrightarrow> json_plain (Suc d) (ser_list ser xs)"
  by (auto simp: ser_list_def)

text \<open>Every text in it is UTF-8, as every text of a Rust program is.\<close>

fun json_utf8 :: "json \<Rightarrow> bool" where
  "json_utf8 (JStr s) = utf8 s"
| "json_utf8 (JFloat s) = utf8 s"
| "json_utf8 (JArr js) = (\<forall>j \<in> set js. json_utf8 j)"
| "json_utf8 (JObj kvs) = (\<forall>kv \<in> set kvs. utf8 (fst kv) \<and> json_utf8 (snd kv))"
| "json_utf8 _ = True"

lemma json_utf8_u32 [serde]: "json_utf8 (ser_u32 w)"
  by (simp add: ser_u32_def)

text \<open>What is read from such a value is UTF-8.\<close>

lemma lookup_field_SomeD: "lookup_field kvs k = Some (Some v) \<Longrightarrow> (k, v) \<in> set kvs"
  by (auto simp: lookup_field_def filter_eq_Cons_iff split: list.splits)

lemma struct_fields_utf8:
  assumes "struct_fields names j = Some fields" "json_utf8 j" "Some v \<in> set fields"
  shows "json_utf8 v"
proof (cases j)
  case (JObj kvs)
  then have "map (lookup_field kvs) names = map Some fields"
    using assms(1) by (simp add: struct_fields_def those_eq_Some)
  then obtain k where "lookup_field kvs k = Some (Some v)"
    using assms(3) by (metis (no_types, lifting) imageE image_eqI image_set)
  then have "(k, v) \<in> set kvs" by (rule lookup_field_SomeD)
  then show ?thesis using assms(2) JObj by auto
next
  case (JArr js)
  then show ?thesis using assms by (auto simp: struct_fields_def split: if_splits)
qed (use assms in \<open>simp_all add: struct_fields_def\<close>)

lemma struct_fields_length: "struct_fields names j = Some fields \<Longrightarrow> length fields = length names"
  by (cases j) (auto simp: struct_fields_def those_eq_Some split: if_splits dest: arg_cong [where f = length])

lemma required_string_utf8:
  assumes "struct_fields names j = Some fields" "json_utf8 j" "i < length names"
    and "required de_string (fields ! i) = Some s"
  shows "utf8 s"
proof -
  from assms(4) have "fields ! i = Some (JStr s)"
    by (cases "fields ! i"; cases "the (fields ! i)") (auto simp: required_def de_string_def)
  then have "Some (JStr s) \<in> set fields"
    using assms(3) struct_fields_length [OF assms(1)] by (metis nth_mem)
  from struct_fields_utf8 [OF assms(1,2) this] show ?thesis by simp
qed

subsection \<open>The contract of the two ends\<close>

text \<open>\<open>valid\<close> are the values the program has: those whose texts are UTF-8.\<close>

locale serde_pair =
  fixes valid :: "'a \<Rightarrow> bool"
    and ser :: "'a \<Rightarrow> json"
    and de :: "json \<Rightarrow> 'b option"
    and view :: "'a \<Rightarrow> 'b"
  assumes de_ser: "de (ser a) = Some (view a)"
    and plain: "json_plain 127 (ser a)"
    and texts: "valid a \<Longrightarrow> json_utf8 (ser a)"
begin

lemma ser_view: "ser a = ser b \<Longrightarrow> view a = view b"
  by (metis de_ser option.inject)

end

locale serde_type = serde_pair valid ser de "\<lambda>a. a"
  for valid :: "'a \<Rightarrow> bool" and ser :: "'a \<Rightarrow> json" and de :: "json \<Rightarrow> 'a option"
begin

lemma ser_inj: "ser a = ser b \<longleftrightarrow> a = b"
  using ser_view by blast

lemma de_onto: "\<exists>j. de j = Some a"
  using de_ser by blast

end

end
