(* ===== verification/Libs.thy ===== *)
theory Libs
  imports Serde
begin

section \<open>Third-party code: the parameters of the model and their documented laws\<close>

text \<open>
  The crates the source calls are not part of the repository, so each function of theirs is a
  field of a record that every definition of the model takes as its argument \<open>L\<close>:

  \<^item> \<open>codec_lib\<close>: \<open>sha2\<close>, \<open>hex\<close>, \<open>base64\<close>, and the text format of \<open>serde_json\<close>: \<open>json_value\<close> is the value
    of a text, if it is JSON, and \<open>json_error\<close> the text of the error for a type and an input;
  \<^item> \<open>crypto_lib\<close>: \<open>p384::ecdsa\<close> (signing keys \<open>'sk\<close>, verifying keys \<open>'vk\<close>, fixed-size
    signatures \<open>'sg\<close>) and \<open>ecdsa::der\<close> (DER signatures \<open>'dsg\<close>);
  \<^item> \<open>x509_lib\<close>: \<open>x509_cert\<close> certificates \<open>'crt\<close>, through the public fields and methods the
    source reads, and \<open>const_oid\<close> identifiers \<open>'oid\<close>.

  A fallible function returns \<open>string + 'a\<close>, the string being the \<open>Display\<close> text of its
  error, the only use the source makes of such an error. The predicates at the end are the
  laws the crates document; a theorem that needs one has it as a named hypothesis.
\<close>

record codec_lib =
  sha256 :: "bytes \<Rightarrow> bytes"
  hex_encode :: "bytes \<Rightarrow> string"
  hex_decode :: "string \<Rightarrow> string + bytes"
  b64_encode :: "bytes \<Rightarrow> string"
  b64_decode :: "string \<Rightarrow> string + bytes"
  b64url_decode :: "string \<Rightarrow> string + bytes"
  b64url_encode :: "bytes \<Rightarrow> string"
  json_to_vec :: "json \<Rightarrow> string + bytes"
  json_value :: "bytes \<Rightarrow> json option"
  json_error :: "string \<Rightarrow> bytes \<Rightarrow> string"

record ('sk, 'vk, 'sg, 'dsg) crypto_lib = codec_lib +
  sk_from_slice :: "bytes \<Rightarrow> string + 'sk"
  sk_verifying_key :: "'sk \<Rightarrow> 'vk"
  sk_sign :: "'sk \<Rightarrow> bytes \<Rightarrow> 'sg"
  sg_to_bytes :: "'sg \<Rightarrow> bytes"
  sg_from_slice :: "bytes \<Rightarrow> string + 'sg"
  vk_to_sec1 :: "'vk \<Rightarrow> bytes"
  vk_from_sec1 :: "bytes \<Rightarrow> string + 'vk"
  vk_verify :: "'vk \<Rightarrow> bytes \<Rightarrow> 'sg \<Rightarrow> bool"
  dsg_from_der :: "bytes \<Rightarrow> string + 'dsg"
  vk_verify_der :: "'vk \<Rightarrow> bytes \<Rightarrow> 'dsg \<Rightarrow> bool"

record ('sk, 'vk, 'sg, 'dsg, 'crt, 'oid) x509_lib = "('sk, 'vk, 'sg, 'dsg) crypto_lib" +
  crt_from_der :: "bytes \<Rightarrow> string + 'crt"
  crt_spki_to_der :: "'crt \<Rightarrow> string + bytes"
  crt_spki_key_bits :: "'crt \<Rightarrow> bytes option"
  crt_tbs_to_der :: "'crt \<Rightarrow> string + bytes"
  crt_signature_bits :: "'crt \<Rightarrow> bytes option"
  crt_extensions :: "'crt \<Rightarrow> ('oid \<times> bytes) list option"
  oid_parse :: "string \<Rightarrow> string + 'oid"

subsection \<open>Documented laws\<close>

text \<open>A SHA-256 digest has 32 bytes.\<close>

definition sha256_ok :: "'a codec_lib_scheme \<Rightarrow> bool" where
  "sha256_ok L \<longleftrightarrow> (\<forall>x. length (sha256 L x) = 32)"

text \<open>Decoding what the same engine encoded gives the input back; the standard alphabet is
  letters, digits, \<open>+\<close>, \<open>/\<close> and \<open>=\<close>: no white space, no hyphen.\<close>

definition b64_alphabet :: "char \<Rightarrow> bool" where
  "b64_alphabet c \<longleftrightarrow> (let n = of_char c :: nat in
     (65 \<le> n \<and> n \<le> 90) \<or> (97 \<le> n \<and> n \<le> 122) \<or> (48 \<le> n \<and> n \<le> 57) \<or> n \<in> {43, 47, 61})"

definition b64_ok :: "'a codec_lib_scheme \<Rightarrow> bool" where
  "b64_ok L \<longleftrightarrow> (\<forall>x. b64_decode L (b64_encode L x) = Inr x \<and> list_all b64_alphabet (b64_encode L x))"

text \<open>The URL-safe engine without padding has no dot in its alphabet.\<close>

definition b64url_ok :: "'a codec_lib_scheme \<Rightarrow> bool" where
  "b64url_ok L \<longleftrightarrow> (\<forall>x. b64url_decode L (b64url_encode L x) = Inr x \<and> CHR ''.'' \<notin> set (b64url_encode L x))"

text \<open>\<open>hex::encode\<close> writes two lower-case hexadecimal digits per byte, which decode to the input.\<close>

definition hex_char :: "char \<Rightarrow> bool" where
  "hex_char c \<longleftrightarrow> (let n = of_char c :: nat in (48 \<le> n \<and> n \<le> 57) \<or> (97 \<le> n \<and> n \<le> 102))"

definition hex_ok :: "'a codec_lib_scheme \<Rightarrow> bool" where
  "hex_ok L \<longleftrightarrow> (\<forall>x. hex_decode L (hex_encode L x) = Inr x \<and> list_all hex_char (hex_encode L x) \<and>
     length (hex_encode L x) = 2 * length x)"

text \<open>Writing a value whose texts are UTF-8 succeeds, and the text denotes that value; no text denotes a value with
  texts that are not UTF-8.\<close>

definition json_ok :: "'a codec_lib_scheme \<Rightarrow> bool" where
  "json_ok L \<longleftrightarrow>
     (\<forall>j. json_plain 127 j \<and> json_utf8 j \<longrightarrow> (\<exists>b. json_to_vec L j = Inr b \<and> json_value L b = Some j)) \<and>
     (\<forall>b j. json_value L b = Some j \<longrightarrow> json_utf8 j)"

text \<open>
  ECDSA over P-384: a signature made with a key verifies under its verifying key; the fixed
  encoding of a signature has 96 bytes and parses back; the SEC1 encoding of a key parses back.
\<close>

definition p384_ok :: "('sk, 'vk, 'sg, 'dsg, 'a) crypto_lib_scheme \<Rightarrow> bool" where
  "p384_ok L \<longleftrightarrow>
     (\<forall>sk m. vk_verify L (sk_verifying_key L sk) m (sk_sign L sk m)) \<and>
     (\<forall>s. length (sg_to_bytes L s) = 96 \<and> sg_from_slice L (sg_to_bytes L s) = Inr s) \<and>
     (\<forall>vk. vk_from_sec1 L (vk_to_sec1 L vk) = Inr vk)"

text \<open>\<open>serde_json::from_slice\<close> for a type with the given name and reader.\<close>

definition from_slice :: "'a codec_lib_scheme \<Rightarrow> string \<Rightarrow> (json \<Rightarrow> 'b option) \<Rightarrow> bytes \<Rightarrow> string + 'b" where
  "from_slice L ty de b =
     (case Option.bind (json_value L b) de of
        Some a \<Rightarrow> Inr a
      | None \<Rightarrow> Inl (json_error L ty b))"

lemma from_slice_Inr: "from_slice L ty de b = Inr a \<longleftrightarrow> (\<exists>j. json_value L b = Some j \<and> de j = Some a)"
  by (auto simp: from_slice_def split: option.splits bind_splits)

lemma from_slice_utf8:
  assumes "json_ok L" "from_slice L ty de b = Inr a"
  obtains j where "json_utf8 j" "de j = Some a"
  using assms unfolding json_ok_def from_slice_Inr by blast

context serde_pair
begin

lemma writes: "json_ok L \<Longrightarrow> valid a \<Longrightarrow> \<exists>b. json_to_vec L (ser a) = Inr b"
  using plain texts unfolding json_ok_def by blast

lemma wire_read:
  "json_ok L \<Longrightarrow> valid a \<Longrightarrow> json_to_vec L (ser a) = Inr b \<Longrightarrow> from_slice L ty de b = Inr (view a)"
  using plain [of a] texts [of a] de_ser [of a] unfolding json_ok_def from_slice_Inr by (metis sum.inject(2))

lemma wire:
  assumes "json_ok L" "valid a"
  obtains b where "json_to_vec L (ser a) = Inr b" "from_slice L ty de b = Inr (view a)"
  using writes [OF assms] wire_read [OF assms] by blast

end

lemma sha256_okD [simp]: "sha256_ok L \<Longrightarrow> length (sha256 L x) = 32"
  by (simp add: sha256_ok_def)

lemma b64_okD:
  assumes "b64_ok L"
  shows "b64_decode L (b64_encode L x) = Inr x" "list_all b64_alphabet (b64_encode L x)"
  using assms by (simp_all add: b64_ok_def)

lemma hex_okD: "hex_ok L \<Longrightarrow> hex_decode L (hex_encode L x) = Inr x"
  by (simp add: hex_ok_def)

lemma hex_char_not_mark: "\<not> hex_char CHR ''?''"
  by (simp add: hex_char_def)

lemma hex_no_mark: "hex_ok L \<Longrightarrow> CHR ''?'' \<notin> set (hex_encode L x)"
  using hex_char_not_mark by (auto simp: hex_ok_def list_all_iff)

lemma hex_encode_inj: "hex_ok L \<Longrightarrow> hex_encode L x = hex_encode L y \<longleftrightarrow> x = y"
  by (metis hex_okD sum.inject(2))

lemma p384_okD:
  assumes "p384_ok L"
  shows "vk_verify L (sk_verifying_key L sk) m (sk_sign L sk m)"
    and "length (sg_to_bytes L s) = 96"
    and "sg_from_slice L (sg_to_bytes L s) = Inr s"
    and "vk_from_sec1 L (vk_to_sec1 L vk) = Inr vk"
  using assms by (simp_all add: p384_ok_def)

lemma b64_alphabet_plain: "b64_alphabet c \<Longrightarrow> plain_char c"
  by (auto simp: b64_alphabet_def plain_char_def ascii_ws_def Let_def)

lemma b64_alphabet_ascii: "b64_alphabet c \<Longrightarrow> ascii c"
  by (auto simp: b64_alphabet_def ascii_def Let_def)

lemma b64_utf8: "b64_ok L \<Longrightarrow> utf8 (b64_encode L x)"
  by (rule utf8_ascii) (auto simp: b64_ok_def list_all_iff intro: b64_alphabet_ascii)

lemma hex_char_ascii: "hex_char c \<Longrightarrow> ascii c"
  by (auto simp: hex_char_def ascii_def Let_def)

lemma hex_utf8: "hex_ok L \<Longrightarrow> utf8 (hex_encode L x)"
  by (rule utf8_ascii) (auto simp: hex_ok_def list_all_iff intro: hex_char_ascii)

lemma b64_alphabet_not_hyphen: "b64_alphabet c \<Longrightarrow> c \<noteq> CHR ''-''"
  by (auto simp: b64_alphabet_def)

end
