(* ===== verification/Attest_Types.thy ===== *)
theory Attest_Types
  imports Libs Report
begin

section \<open>Keys and errors of the verifier (sifir-attest/src/verify.rs, first part)\<close>

text \<open>
  The two types of \<open>verify.rs\<close> that \<open>amd_certs.rs\<close> also uses (the two Rust modules import
  each other): which trust anchor to verify with, and the errors, with the text that their
  \<open>#[error(..)]\<close> attributes give them.
\<close>

datatype attestation_key =
    KeyMock
  | KeyAmd "bytes list"

datatype verify_error =
    WrongLength nat
  | BadSignature
  | KeyBindingMismatch string string
  | MeasurementMismatch string string
  | CertChain string
  | Internal string

fun show_verify_error :: "verify_error \<Rightarrow> string" where
  "show_verify_error (WrongLength got) =
     ''attestation report length is '' @ show_nat got @ '', expected '' @ show_nat REPORT_SIZE"
| "show_verify_error BadSignature = ''signature verification failed''"
| "show_verify_error (KeyBindingMismatch rep computed) =
     ''TLS key binding mismatch: report_data[0..32]='' @ rep @ '', SHA-256(pubkey)='' @ computed"
| "show_verify_error (MeasurementMismatch expected actual) =
     ''measurement mismatch: expected='' @ expected @ '', got='' @ actual"
| "show_verify_error (CertChain e) = ''AMD certificate chain error: '' @ e"
| "show_verify_error (Internal e) = ''internal error: '' @ e"

end
