(* ===== verification/Amd_Certs.thy ===== *)
theory Amd_Certs
  imports Attest_Types
begin

section \<open>The VCEK certificate chain (sifir-attest/src/amd\_certs.rs)\<close>

text \<open>
  \<open>vcek_verifying_key\<close> checks a chain [VCEK, ASK, ARK] and returns the VCEK's key. Its
  abstract specification is \<open>trust_chain\<close>: the three certificates parse, the ARK verifies
  under its own key, the ASK under the ARK's and the VCEK under the ASK's. The lemmas show
  that the function decides exactly that, and what that specification leaves open.
\<close>

definition parse_cert ::
  "('sk, 'vk, 'sg, 'dsg, 'crt, 'oid, 'a) x509_lib_scheme \<Rightarrow> bytes \<Rightarrow> ('crt, verify_error) exec" where
  "parse_cert L der = from_res (\<lambda>e. CertChain (''DER parse error: '' @ e)) (crt_from_der L der)"

definition extract_p384_key ::
  "('sk, 'vk, 'sg, 'dsg, 'crt, 'oid, 'a) x509_lib_scheme \<Rightarrow> 'crt \<Rightarrow> ('vk, verify_error) exec" where
  "extract_p384_key L cert =
     and_then (ok_or (CertChain ''empty public key bits'') (crt_spki_key_bits L cert)) (\<lambda>raw_key.
       from_res (\<lambda>e. CertChain (''P-384 key parse error: '' @ e)) (vk_from_sec1 L raw_key))"

definition verify_cert_signature ::
  "('sk, 'vk, 'sg, 'dsg, 'crt, 'oid, 'a) x509_lib_scheme \<Rightarrow> 'crt \<Rightarrow> 'vk \<Rightarrow> (unit, verify_error) exec" where
  "verify_cert_signature L cert issuer_key =
     and_then (from_res (\<lambda>e. CertChain (''TBSCertificate encode error: '' @ e)) (crt_tbs_to_der L cert))
       (\<lambda>tbs_der.
     and_then (ok_or (CertChain ''empty signature bits'') (crt_signature_bits L cert)) (\<lambda>sig_bytes.
     and_then (from_res (\<lambda>e. CertChain (''DER signature parse error: '' @ e)) (dsg_from_der L sig_bytes))
       (\<lambda>der_sig.
     if vk_verify_der L issuer_key tbs_der der_sig then Ok ()
     else Err (CertChain ''signature verification failed''))))"

definition vcek_verifying_key ::
  "('sk, 'vk, 'sg, 'dsg, 'crt, 'oid, 'a) x509_lib_scheme \<Rightarrow> bytes list \<Rightarrow> ('vk, verify_error) exec" where
  "vcek_verifying_key L chain =
     (if length chain < 3 then
        Err (CertChain (''expected [VCEK, ASK, ARK] (3 certs), got '' @ show_nat (length chain)))
      else
        and_then (parse_cert L (chain ! 0)) (\<lambda>vcek.
        and_then (parse_cert L (chain ! 1)) (\<lambda>ask.
        and_then (parse_cert L (chain ! 2)) (\<lambda>ark.
        and_then (extract_p384_key L ark) (\<lambda>ark_vk.
        and_then (map_err (\<lambda>e. CertChain (''ARK self-signature invalid: '' @ show_verify_error e))
          (verify_cert_signature L ark ark_vk)) (\<lambda>_.
        and_then (map_err (\<lambda>e. CertChain (''ASK signature invalid (ARK): '' @ show_verify_error e))
          (verify_cert_signature L ask ark_vk)) (\<lambda>_.
        and_then (extract_p384_key L ask) (\<lambda>ask_vk.
        and_then (map_err (\<lambda>e. CertChain (''VCEK signature invalid (ASK): '' @ show_verify_error e))
          (verify_cert_signature L vcek ask_vk)) (\<lambda>_.
        extract_p384_key L vcek)))))))))"

subsection \<open>Specification\<close>

definition cert_key ::
  "('sk, 'vk, 'sg, 'dsg, 'crt, 'oid, 'a) x509_lib_scheme \<Rightarrow> 'crt \<Rightarrow> 'vk \<Rightarrow> bool" where
  "cert_key L cert vk \<longleftrightarrow>
     (case crt_spki_key_bits L cert of None \<Rightarrow> False | Some b \<Rightarrow> vk_from_sec1 L b = Inr vk)"

definition cert_signed_by ::
  "('sk, 'vk, 'sg, 'dsg, 'crt, 'oid, 'a) x509_lib_scheme \<Rightarrow> 'crt \<Rightarrow> 'vk \<Rightarrow> bool" where
  "cert_signed_by L cert vk \<longleftrightarrow>
     (case (crt_tbs_to_der L cert, crt_signature_bits L cert) of
        (Inr tbs, Some sb) \<Rightarrow>
          (case dsg_from_der L sb of Inr d \<Rightarrow> vk_verify_der L vk tbs d | Inl _ \<Rightarrow> False)
      | _ \<Rightarrow> False)"

definition trust_chain ::
  "('sk, 'vk, 'sg, 'dsg, 'crt, 'oid, 'a) x509_lib_scheme \<Rightarrow> bytes list \<Rightarrow> 'vk \<Rightarrow> bool" where
  "trust_chain L chain vk \<longleftrightarrow>
     (\<exists>d0 d1 d2 rest vcek ask ark ark_vk ask_vk.
        chain = d0 # d1 # d2 # rest \<and>
        crt_from_der L d0 = Inr vcek \<and> crt_from_der L d1 = Inr ask \<and> crt_from_der L d2 = Inr ark \<and>
        cert_key L ark ark_vk \<and> cert_signed_by L ark ark_vk \<and>
        cert_signed_by L ask ark_vk \<and> cert_key L ask ask_vk \<and>
        cert_signed_by L vcek ask_vk \<and> cert_key L vcek vk)"

lemma extract_p384_key_Ok [exec_simps]: "extract_p384_key L cert = Ok vk \<longleftrightarrow> cert_key L cert vk"
  by (auto simp: extract_p384_key_def cert_key_def exec_simps split: option.splits)

lemma verify_cert_signature_Ok [exec_simps]:
  "verify_cert_signature L cert vk = Ok u \<longleftrightarrow> cert_signed_by L cert vk"
  by (cases "crt_tbs_to_der L cert"; cases "crt_signature_bits L cert";
      cases "dsg_from_der L (the (crt_signature_bits L cert))")
    (auto simp: verify_cert_signature_def cert_signed_by_def)

lemma parse_cert_Ok [exec_simps]: "parse_cert L der = Ok c \<longleftrightarrow> crt_from_der L der = Inr c"
  by (simp add: parse_cert_def exec_simps)

lemma cert_steps_no_Panic [simp]:
  "parse_cert L der \<noteq> Panic" "extract_p384_key L c \<noteq> Panic" "verify_cert_signature L c vk \<noteq> Panic"
  by (auto simp: parse_cert_def extract_p384_key_def verify_cert_signature_def exec_simps)

lemma cert_steps_Err:
  "parse_cert L der = Err e \<Longrightarrow> \<exists>t. e = CertChain t"
  "extract_p384_key L c = Err e \<Longrightarrow> \<exists>t. e = CertChain t"
  "verify_cert_signature L c vk = Err e \<Longrightarrow> \<exists>t. e = CertChain t"
  by (auto simp: parse_cert_def extract_p384_key_def verify_cert_signature_def exec_simps
      ok_or_def split: option.splits if_splits)

lemma cert_key_unique: "cert_key L c vk \<Longrightarrow> cert_key L c vk' \<Longrightarrow> vk = vk'"
  by (auto simp: cert_key_def split: option.splits)

lemma three_or_more: "\<not> length xs < 3 \<longleftrightarrow> (\<exists>a b c rest. xs = a # b # c # rest)"
  by (cases xs; cases "tl xs"; cases "tl (tl xs)") auto

lemma vcek_verifying_key_short:
  "length chain < 3 \<Longrightarrow> vcek_verifying_key L chain =
     Err (CertChain (''expected [VCEK, ASK, ARK] (3 certs), got '' @ show_nat (length chain)))"
  by (simp add: vcek_verifying_key_def)

lemma vcek_verifying_key_Ok [exec_simps]: "vcek_verifying_key L chain = Ok vk \<longleftrightarrow> trust_chain L chain vk"
proof (cases "length chain < 3")
  case True
  then show ?thesis by (auto simp: vcek_verifying_key_short trust_chain_def)
next
  case False
  then obtain d0 d1 d2 rest where "chain = d0 # d1 # d2 # rest" by (auto simp: three_or_more)
  then show ?thesis
    by (auto simp: vcek_verifying_key_def trust_chain_def exec_simps numeral_2_eq_2
        dest: cert_key_unique)
qed

lemma vcek_verifying_key_no_Panic [simp]: "vcek_verifying_key L chain \<noteq> Panic"
  by (simp add: vcek_verifying_key_def exec_simps del: not_less)

lemma vcek_verifying_key_Err: "vcek_verifying_key L chain = Err e \<Longrightarrow> \<exists>t. e = CertChain t"
  by (auto simp: vcek_verifying_key_def exec_simps dest: cert_steps_Err split: if_splits)

subsection \<open>Properties\<close>

text \<open>C12: The chain check accepts exactly the chains of trust: it returns the key \<open>vk\<close> if and only
  if the list begins with three certificates that parse, the third verifies under its own key,
  the second under the third's key and the first under the second's, and \<open>vk\<close> is the first's
  key.\<close>

theorem vcek_verifying_key_iff: "vcek_verifying_key L chain = Ok vk \<longleftrightarrow> trust_chain L chain vk"
  by (rule vcek_verifying_key_Ok)

text \<open>The chain check never panics, and whatever is wrong with the chain it reports as the
  variant \<open>CertChain\<close>; a chain of fewer than three certificates is refused with its length in
  the message.\<close>

theorem vcek_verifying_key_errors:
  "vcek_verifying_key L chain \<noteq> Panic \<and>
   (\<forall>e. vcek_verifying_key L chain = Err e \<longrightarrow> (\<exists>t. e = CertChain t)) \<and>
   (length chain < 3 \<longrightarrow> vcek_verifying_key L chain =
      Err (CertChain (''expected [VCEK, ASK, ARK] (3 certs), got '' @ show_nat (length chain))))"
  by (auto dest: vcek_verifying_key_Err simp: vcek_verifying_key_short)

text \<open>Only the first three entries of the chain count: further certificates are never looked
  at.\<close>

theorem vcek_verifying_key_first_three:
  "vcek_verifying_key L chain = vcek_verifying_key L (take 3 chain)"
proof (cases "length chain < 3")
  case False
  then obtain d0 d1 d2 rest where "chain = d0 # d1 # d2 # rest" by (auto simp: three_or_more)
  then show ?thesis by (simp add: vcek_verifying_key_def numeral_2_eq_2 numeral_3_eq_3)
qed simp

text \<open>C39: The chain is not anchored: one self-signed certificate, given three times, passes as
  VCEK, ASK and ARK, and the check returns the key of whoever made it. (The source says so: the
  pinning of the ARK is its TODO.)\<close>

theorem self_signed_triple_accepted:
  assumes "crt_from_der L d = Inr c" "cert_key L c vk" "cert_signed_by L c vk"
  shows "vcek_verifying_key L [d, d, d] = Ok vk"
  using assms by (auto simp: vcek_verifying_key_Ok trust_chain_def)

end
