(* ===== verification/Mock.thy ===== *)
theory Mock
  imports Attest_Types
begin

section \<open>The mock signer (sifir-attest/src/mock.rs)\<close>

text \<open>
  The development signer with its fixed P-384 key. \<open>sign_mock_report\<close> builds a report by
  writing into the buffer of a fresh one, in the source's order, signs the region the
  signature covers, and writes the two halves of the signature. \<open>mock_report_bytes\<close> is the
  layout it produces, and the lemmas show that the writes add up to it.
\<close>

definition MOCK_PRIVATE_KEY_SCALAR :: bytes where
  "MOCK_PRIVATE_KEY_SCALAR =
    [0x01, 0x02, 0x03, 0x04, 0x05, 0x06, 0x07, 0x08, 0x09, 0x0a, 0x0b, 0x0c, 0x0d, 0x0e, 0x0f, 0x10,
     0x11, 0x12, 0x13, 0x14, 0x15, 0x16, 0x17, 0x18, 0x19, 0x1a, 0x1b, 0x1c, 0x1d, 0x1e, 0x1f, 0x20,
     0x21, 0x22, 0x23, 0x24, 0x25, 0x26, 0x27, 0x28, 0x29, 0x2a, 0x2b, 0x2c, 0x2d, 0x2e, 0x2f, 0x30]"

definition mock_signing_key :: "('sk, 'vk, 'sg, 'dsg, 'a) crypto_lib_scheme \<Rightarrow> ('sk, 'e) exec" where
  "mock_signing_key L = expect (sk_from_slice L MOCK_PRIVATE_KEY_SCALAR)"

definition mock_verifying_key_sec1 ::
  "('sk, 'vk, 'sg, 'dsg, 'a) crypto_lib_scheme \<Rightarrow> (bytes, 'e) exec" where
  "mock_verifying_key_sec1 L =
     and_then (mock_signing_key L) (\<lambda>key. Ok (vk_to_sec1 L (sk_verifying_key L key)))"

definition sign_mock_report ::
  "('sk, 'vk, 'sg, 'dsg, 'a) crypto_lib_scheme \<Rightarrow> bytes \<Rightarrow> bytes \<Rightarrow> (report, 'e) exec" where
  "sign_mock_report L tls_pubkey_hash meas =
     (let report = default_report in
      and_then (copy_range (raw report) 0 4 (le_bytes32 2)) (\<lambda>b.
      and_then (copy_range b 0x034 0x038 (le_bytes32 1)) (\<lambda>b.
      and_then (copy_range b 0x050 (0x050 + 32) tls_pubkey_hash) (\<lambda>b.
      and_then (copy_range b 0x090 (0x090 + MEASUREMENT_SIZE) meas) (\<lambda>b.
      and_then (mock_signing_key L) (\<lambda>signing_key.
      and_then (slice_range b 0 SIGNED_REGION_SIZE) (\<lambda>signed_region.
      let sig_bytes = sg_to_bytes L (sk_sign L signing_key signed_region) in
      and_then (slice_range sig_bytes 0 48) (\<lambda>sig_lo.
      and_then (copy_range b 0x2A0 (0x2A0 + 48) sig_lo) (\<lambda>b.
      and_then (slice_range sig_bytes 48 (length sig_bytes)) (\<lambda>sig_hi.
      and_then (copy_range b 0x2E8 (0x2E8 + 48) sig_hi) (\<lambda>b.
      Ok (report\<lparr>raw := b\<rparr>))))))))))))"

definition tls_pubkey_hash :: "'a codec_lib_scheme \<Rightarrow> bytes \<Rightarrow> bytes" where
  "tls_pubkey_hash L pubkey_der = sha256 L pubkey_der"

text \<open>The scalar in the file is a valid one: \<open>mock_signing_key\<close> does not panic.\<close>

definition mock_key_ok :: "('sk, 'vk, 'sg, 'dsg, 'a) crypto_lib_scheme \<Rightarrow> bool" where
  "mock_key_ok L \<longleftrightarrow> (\<exists>sk. sk_from_slice L MOCK_PRIVATE_KEY_SCALAR = Inr sk)"

lemma mock_signing_key_Ok:
  assumes "mock_key_ok L"
  obtains sk where "sk_from_slice L MOCK_PRIVATE_KEY_SCALAR = Inr sk"
    "(mock_signing_key L :: ('sk, 'e) exec) = Ok sk"
  using assms by (auto simp: mock_key_ok_def mock_signing_key_def)

subsection \<open>The layout of a mock report\<close>

definition mock_fields :: "bytes \<Rightarrow> bytes \<Rightarrow> bytes" where
  "mock_fields hash meas =
     overwrite 0x090 meas (overwrite 0x050 hash (overwrite 0x034 (le_bytes32 1)
       (overwrite 0 (le_bytes32 2) (replicate REPORT_SIZE 0))))"

definition mock_report_bytes :: "bytes \<Rightarrow> bytes \<Rightarrow> bytes \<Rightarrow> bytes" where
  "mock_report_bytes hash meas sig =
     overwrite 0x2E8 (drop 48 sig) (overwrite 0x2A0 (take 48 sig) (mock_fields hash meas))"

lemma length_mock_fields [simp]:
  "length hash = 32 \<Longrightarrow> length meas = 48 \<Longrightarrow> length (mock_fields hash meas) = REPORT_SIZE"
  by (simp add: mock_fields_def report_consts)

lemma length_mock_report_bytes [simp]:
  "length hash = 32 \<Longrightarrow> length meas = 48 \<Longrightarrow> length sig = 96 \<Longrightarrow>
     length (mock_report_bytes hash meas sig) = REPORT_SIZE"
  by (simp add: mock_report_bytes_def REPORT_SIZE_def)

lemma sign_mock_report_eq:
  assumes "mock_signing_key L = (Ok sk :: ('sk, 'e) exec)"
    and "length hash = 32" "length meas = 48"
    and "\<And>s. length (sg_to_bytes L s) = 96"
  shows "(sign_mock_report L hash meas :: (report, 'e) exec) =
     Ok \<lparr>raw = mock_report_bytes hash meas
       (sg_to_bytes L (sk_sign L sk (take SIGNED_REGION_SIZE (mock_fields hash meas))))\<rparr>"
proof -
  have len: "length (mock_fields hash meas) = 1184"
    using assms by (simp add: REPORT_SIZE_def)
  have fields: "overwrite 0x090 meas (overwrite 0x050 hash (overwrite 0x034 (le_bytes32 1)
       (overwrite 0 (le_bytes32 2) (replicate 1184 0)))) = mock_fields hash meas"
    by (simp add: mock_fields_def REPORT_SIZE_def)
  show ?thesis
    using assms len fields
    by (simp add: sign_mock_report_def default_report_def report_consts copy_range_def
        slice_range_def mock_report_bytes_def Let_def)
qed

lemma mock_report_reads:
  assumes "length hash = 32" "length meas = 48" "length sig = 96"
  shows "take 48 (drop 672 (mock_report_bytes hash meas sig)) = take 48 sig"
    and "take 48 (drop 744 (mock_report_bytes hash meas sig)) = drop 48 sig"
    and "take 672 (mock_report_bytes hash meas sig) = take 672 (mock_fields hash meas)"
    and "take 48 (drop 144 (mock_report_bytes hash meas sig)) = meas"
    and "take 32 (drop 80 (mock_report_bytes hash meas sig)) = hash"
    and "take 4 (mock_report_bytes hash meas sig) = le_bytes32 2"
  using assms length_mock_fields [of hash meas]
  by (simp_all add: mock_report_bytes_def read_overwrite_same read_overwrite_disjoint
      take_overwrite_before take_overwrite_same REPORT_SIZE_def mock_fields_def)

subsection \<open>Properties\<close>

text \<open>The mock signer produces a well-formed report of format version 2 whose report data is
  the given key hash followed by zeros, whose measurement is the given one, and whose two
  signature slots hold the two halves of the mock key's signature over the first 672 bytes of
  that same report.\<close>

theorem sign_mock_report_fields:
  assumes "p384_ok L" "mock_key_ok L" "length hash = 32" "length meas = MEASUREMENT_SIZE"
  shows "\<exists>r sk. sign_mock_report L hash meas = (Ok r :: (report, 'e) exec) \<and> wf_report r \<and>
    version r = (Ok 2 :: (32 word, 'e) exec) \<and>
    report_data r = (Ok (hash @ replicate 32 0) :: (bytes, 'e) exec) \<and>
    measurement r = (Ok meas :: (bytes, 'e) exec) \<and>
    sk_from_slice L MOCK_PRIVATE_KEY_SCALAR = Inr sk \<and>
    (\<exists>region. signed_region r = (Ok region :: (bytes, 'e) exec) \<and>
       sig_r r = (Ok (take 48 (sg_to_bytes L (sk_sign L sk region))) :: (bytes, 'e) exec) \<and>
       sig_s r = (Ok (drop 48 (sg_to_bytes L (sk_sign L sk region))) :: (bytes, 'e) exec))"
proof -
  obtain sk where sk: "sk_from_slice L MOCK_PRIVATE_KEY_SCALAR = Inr sk"
    "(mock_signing_key L :: ('a, 'e) exec) = Ok sk"
    using mock_signing_key_Ok [OF assms(2)] by blast
  define sig where "sig = sg_to_bytes L (sk_sign L sk (take SIGNED_REGION_SIZE (mock_fields hash meas)))"
  have lens: "length hash = 32" "length meas = 48" "length sig = 96"
    using assms p384_okD(2) [OF assms(1)] by (simp_all add: MEASUREMENT_SIZE_def sig_def)
  define r where "r = \<lparr>raw = mock_report_bytes hash meas sig\<rparr>"
  have signed: "sign_mock_report L hash meas = (Ok r :: (report, 'e) exec)"
    unfolding r_def sig_def using sk(2) lens p384_okD(2) [OF assms(1)] by (intro sign_mock_report_eq)
  have wf: "wf_report r" using lens by (simp add: wf_report_def r_def)
  have rest: "take 64 (drop 80 (mock_report_bytes hash meas sig)) = hash @ replicate 32 0"
  proof -
    have "take 32 (drop 112 (mock_report_bytes hash meas sig)) = replicate 32 0"
      using lens length_mock_fields [of hash meas]
      by (simp add: mock_report_bytes_def read_overwrite_disjoint REPORT_SIZE_def mock_fields_def)
    moreover have "take 64 (drop 80 xs) = take 32 (drop 80 xs) @ take 32 (drop 112 xs)" for xs :: bytes
      using take_add [of 32 32 "drop 80 xs"] by simp
    ultimately show ?thesis using mock_report_reads(5) [OF lens] by simp
  qed
  show ?thesis
    using signed wf sk(1) rest lens mock_report_reads [OF lens]
    by (intro exI [of _ r] exI [of _ sk])
      (simp add: field_eqs r_def report_consts sig_def)
qed

end
