(* ===== verification/Verify.thy ===== *)
theory Verify
  imports Amd_Certs Mock
begin

section \<open>Verification of an attestation report (sifir-attest/src/verify.rs)\<close>

text \<open>
  \<open>verify\<close> runs three checks in order: the TLS key binding, the report signature, the
  measurement. Each check is an interpretation of the locale \<open>check\<close> (it accepts exactly the
  reports its specification accepts, and does not panic), their sequence one of \<open>check_seq\<close>,
  and \<open>appraisal\<close> is the specification of the whole: the decision and, on refusal, which
  error.
\<close>

subsection \<open>The checks\<close>

definition verify_key_binding ::
  "'a codec_lib_scheme \<Rightarrow> report \<Rightarrow> bytes \<Rightarrow> (unit, verify_error) exec" where
  "verify_key_binding L report tls_pubkey_der =
     (let computed = sha256 L tls_pubkey_der in
      and_then (report_data report) (\<lambda>rd.
      and_then (slice_range rd 0 32) (\<lambda>in_report.
      if in_report \<noteq> computed then
        Err (KeyBindingMismatch (hex_encode L in_report) (hex_encode L computed))
      else Ok ())))"

definition verify_signature ::
  "('sk, 'vk, 'sg, 'dsg, 'crt, 'oid, 'a) x509_lib_scheme \<Rightarrow> report \<Rightarrow> attestation_key \<Rightarrow>
     (unit, verify_error) exec" where
  "verify_signature L report key =
     and_then (sig_r report) (\<lambda>r.
     and_then (copy_range (replicate 96 0) 0 48 r) (\<lambda>sig_bytes.
     and_then (sig_s report) (\<lambda>s.
     and_then (copy_range sig_bytes 48 96 s) (\<lambda>sig_bytes.
     and_then (from_res (\<lambda>_. BadSignature) (sg_from_slice L sig_bytes)) (\<lambda>sig.
     and_then
       (case key of
          KeyMock \<Rightarrow>
            and_then (mock_verifying_key_sec1 L) (\<lambda>sec1. from_res Internal (vk_from_sec1 L sec1))
        | KeyAmd vcek_chain \<Rightarrow> vcek_verifying_key L vcek_chain)
       (\<lambda>verifying_key.
     and_then (signed_region report) (\<lambda>region.
     if vk_verify L verifying_key region sig then Ok () else Err BadSignature)))))))"

definition verify_measurement ::
  "'a codec_lib_scheme \<Rightarrow> report \<Rightarrow> bytes \<Rightarrow> (unit, verify_error) exec" where
  "verify_measurement L report expected =
     (let zero = replicate MEASUREMENT_SIZE 0 in
      if expected = zero then Ok ()
      else
        and_then (measurement report) (\<lambda>actual.
        if actual \<noteq> expected then
          Err (MeasurementMismatch (hex_encode L expected) (hex_encode L actual))
        else Ok ()))"

definition verify ::
  "('sk, 'vk, 'sg, 'dsg, 'crt, 'oid, 'a) x509_lib_scheme \<Rightarrow> bytes \<Rightarrow> attestation_key \<Rightarrow> bytes \<Rightarrow>
     bytes \<Rightarrow> (unit, verify_error) exec" where
  "verify L report_bytes key expected_measurement tls_pubkey_der =
     (let report = new_report report_bytes in
      and_then (verify_key_binding L report tls_pubkey_der) (\<lambda>_.
      and_then (verify_signature L report key) (\<lambda>_.
      and_then (verify_measurement L report expected_measurement) (\<lambda>_.
      Ok ()))))"

subsection \<open>Their specifications\<close>

definition key_bound :: "'a codec_lib_scheme \<Rightarrow> bytes \<Rightarrow> bytes \<Rightarrow> bool" where
  "key_bound L rep pk \<longleftrightarrow> take 32 (drop 80 rep) = sha256 L pk"

definition report_signature :: "bytes \<Rightarrow> bytes" where
  "report_signature rep = take 48 (drop 672 rep) @ take 48 (drop 744 rep)"

definition anchor ::
  "('sk, 'vk, 'sg, 'dsg, 'crt, 'oid, 'a) x509_lib_scheme \<Rightarrow> attestation_key \<Rightarrow>
     ('vk, verify_error) exec" where
  "anchor L key = (case key of
     KeyMock \<Rightarrow> (case sk_from_slice L MOCK_PRIVATE_KEY_SCALAR of
         Inl _ \<Rightarrow> Panic
       | Inr sk \<Rightarrow> from_res Internal (vk_from_sec1 L (vk_to_sec1 L (sk_verifying_key L sk))))
   | KeyAmd chain \<Rightarrow> vcek_verifying_key L chain)"

definition signed_under ::
  "('sk, 'vk, 'sg, 'dsg, 'a) crypto_lib_scheme \<Rightarrow> 'vk \<Rightarrow> bytes \<Rightarrow> bool" where
  "signed_under L vk rep \<longleftrightarrow> (case sg_from_slice L (report_signature rep) of
     Inl _ \<Rightarrow> False | Inr sg \<Rightarrow> vk_verify L vk (take 672 rep) sg)"

definition signature_accepted ::
  "('sk, 'vk, 'sg, 'dsg, 'crt, 'oid, 'a) x509_lib_scheme \<Rightarrow> attestation_key \<Rightarrow> bytes \<Rightarrow> bool" where
  "signature_accepted L key rep \<longleftrightarrow>
     (case anchor L key of Ok vk \<Rightarrow> signed_under L vk rep | _ \<Rightarrow> False)"

definition measurement_accepted :: "bytes \<Rightarrow> bytes \<Rightarrow> bool" where
  "measurement_accepted expected rep \<longleftrightarrow>
     expected = replicate 48 0 \<or> take 48 (drop 144 rep) = expected"

lemma verify_key_binding_eq:
  assumes "wf_report r"
  shows "verify_key_binding L r pk =
     (if key_bound L (raw r) pk then Ok ()
      else Err (KeyBindingMismatch (hex_encode L (take 32 (drop 80 (raw r)))) (hex_encode L (sha256 L pk))))"
  using assms by (simp add: verify_key_binding_def rdata.get_eq slice_range_def key_bound_def
      wf_report_def report_consts Let_def)

lemma mock_anchor:
  "and_then (mock_verifying_key_sec1 L) (\<lambda>sec1. from_res Internal (vk_from_sec1 L sec1)) =
     anchor L KeyMock"
  by (auto simp: mock_verifying_key_sec1_def mock_signing_key_def anchor_def expect_def
      split: sum.splits)

lemma verify_signature_eq:
  assumes "wf_report r"
  shows "verify_signature L r key =
     (case sg_from_slice L (report_signature (raw r)) of
        Inl _ \<Rightarrow> Err BadSignature
      | Inr sg \<Rightarrow> and_then (anchor L key) (\<lambda>vk.
          if vk_verify L vk (take 672 (raw r)) sg then Ok () else Err BadSignature))"
proof -
  have len: "length (raw r) = 1184" using assms by (simp add: wf_report_def REPORT_SIZE_def)
  have sig: "overwrite 48 (take 48 (drop 744 (raw r)))
       (overwrite 0 (take 48 (drop 672 (raw r))) (replicate 96 0)) = report_signature (raw r)"
    using len by (simp add: overwrite_def report_signature_def)
  have key: "(case key of
          KeyMock \<Rightarrow>
            and_then (mock_verifying_key_sec1 L) (\<lambda>sec1. from_res Internal (vk_from_sec1 L sec1))
        | KeyAmd vcek_chain \<Rightarrow> vcek_verifying_key L vcek_chain) = anchor L key"
    by (cases key) (simp_all add: mock_anchor, simp add: anchor_def)
  show ?thesis
    using assms len sig
    by (simp add: verify_signature_def sigr.get_eq sigs.get_eq sregion.get_eq copy_range_def key
        report_consts from_res_def split: sum.splits)
qed

lemma verify_measurement_eq:
  assumes "wf_report r"
  shows "verify_measurement L r expected =
     (if measurement_accepted expected (raw r) then Ok ()
      else Err (MeasurementMismatch (hex_encode L expected)
             (hex_encode L (take 48 (drop 144 (raw r))))))"
  using assms
  by (auto simp: verify_measurement_def meas.get_eq measurement_accepted_def report_consts Let_def)

subsection \<open>The contract of a check\<close>

locale check =
  fixes pre :: "report \<Rightarrow> bool"
    and run :: "report \<Rightarrow> (unit, verify_error) exec"
    and accepts :: "report \<Rightarrow> bool"
  assumes run_Ok: "pre r \<Longrightarrow> run r = Ok () \<longleftrightarrow> accepts r"
    and run_no_panic: "pre r \<Longrightarrow> run r \<noteq> Panic"
begin

lemma run_Err: "pre r \<Longrightarrow> \<not> accepts r \<Longrightarrow> \<exists>e. run r = Err e"
  using run_Ok [of r] run_no_panic [of r] by (cases "run r") auto

lemma run_then: "pre r \<Longrightarrow> accepts r \<Longrightarrow> and_then (run r) f = f ()"
  using run_Ok [of r] by simp

end

locale check_seq = first: check pre run1 accepts1 + second: check pre run2 accepts2
  for pre run1 accepts1 run2 accepts2
begin

lemma seq_Ok:
  "pre r \<Longrightarrow> and_then (run1 r) (\<lambda>_. run2 r) = Ok () \<longleftrightarrow> accepts1 r \<and> accepts2 r"
  using first.run_Ok [of r] second.run_Ok [of r] by (auto simp: and_then_eq_Ok)

lemma seq_no_panic: "pre r \<Longrightarrow> and_then (run1 r) (\<lambda>_. run2 r) \<noteq> Panic"
  using first.run_no_panic [of r] second.run_no_panic [of r] by (auto simp: and_then_eq_Panic)

lemma seq_first_error: "run1 r = Err e \<Longrightarrow> and_then (run1 r) (\<lambda>_. run2 r) = Err e"
  by simp

end

sublocale check_seq \<subseteq> both: check pre "\<lambda>r. and_then (run1 r) (\<lambda>_. run2 r)" "\<lambda>r. accepts1 r \<and> accepts2 r"
  by unfold_locales (auto simp: seq_Ok seq_no_panic)

text \<open>What a check of this component may assume: the buffer has the size of its type, and the
  scalar in \<open>mock.rs\<close> is a valid one.\<close>

definition verify_pre :: "('sk, 'vk, 'sg, 'dsg, 'a) crypto_lib_scheme \<Rightarrow> report \<Rightarrow> bool" where
  "verify_pre L r \<longleftrightarrow> wf_report r \<and> mock_key_ok L"

lemma anchor_no_Panic: "mock_key_ok L \<Longrightarrow> anchor L key \<noteq> Panic"
  by (auto simp: anchor_def mock_key_ok_def split: attestation_key.splits)

interpretation kb: check "verify_pre L" "\<lambda>r. verify_key_binding L r pk" "\<lambda>r. key_bound L (raw r) pk"
  for L :: "('sk, 'vk, 'sg, 'dsg, 'crt, 'oid, 'a) x509_lib_scheme" and pk
  by unfold_locales (auto simp: verify_pre_def verify_key_binding_eq)

interpretation sg: check "verify_pre L" "\<lambda>r. verify_signature L r key"
    "\<lambda>r. signature_accepted L key (raw r)"
  for L :: "('sk, 'vk, 'sg, 'dsg, 'crt, 'oid, 'a) x509_lib_scheme" and key
  by unfold_locales
    (auto simp: verify_pre_def verify_signature_eq signature_accepted_def signed_under_def
      and_then_eq_Ok and_then_eq_Panic anchor_no_Panic split: sum.splits exec.splits)

interpretation ms: check "verify_pre L" "\<lambda>r. verify_measurement L r expected"
    "\<lambda>r. measurement_accepted expected (raw r)"
  for L :: "('sk, 'vk, 'sg, 'dsg, 'crt, 'oid, 'a) x509_lib_scheme" and expected
  by unfold_locales (auto simp: verify_pre_def verify_measurement_eq)

interpretation sig_meas: check_seq "verify_pre L"
    "\<lambda>r. verify_signature L r key" "\<lambda>r. signature_accepted L key (raw r)"
    "\<lambda>r. verify_measurement L r expected" "\<lambda>r. measurement_accepted expected (raw r)"
  for L :: "('sk, 'vk, 'sg, 'dsg, 'crt, 'oid, 'a) x509_lib_scheme" and key expected
  by unfold_locales

interpretation all_checks: check_seq "verify_pre L"
    "\<lambda>r. verify_key_binding L r pk" "\<lambda>r. key_bound L (raw r) pk"
    "\<lambda>r. and_then (verify_signature L r key) (\<lambda>_. verify_measurement L r expected)"
    "\<lambda>r. signature_accepted L key (raw r) \<and> measurement_accepted expected (raw r)"
  for L :: "('sk, 'vk, 'sg, 'dsg, 'crt, 'oid, 'a) x509_lib_scheme" and pk key expected
  by unfold_locales

lemma verify_seq:
  "verify L rep key expected pk =
     and_then (verify_key_binding L (new_report rep) pk) (\<lambda>_.
     and_then (verify_signature L (new_report rep) key) (\<lambda>_.
     verify_measurement L (new_report rep) expected))"
  by (simp add: verify_def Let_def)

lemma verify_Ok:
  assumes "length rep = REPORT_SIZE" "mock_key_ok L"
  shows "verify L rep key expected pk = Ok () \<longleftrightarrow>
     key_bound L rep pk \<and> signature_accepted L key rep \<and> measurement_accepted expected rep"
  using all_checks.seq_Ok [of L "new_report rep" pk key expected] assms
  by (simp add: verify_pre_def verify_seq)

subsection \<open>The decision and its order\<close>

text \<open>
  The abstract appraisal of a report: what the result is, as a decision over the bytes of the
  report and the answers of the libraries. It fixes the order of the errors: the key binding
  is looked at first, then the signature's encoding, then the trust anchor, then the
  signature, and the measurement last.
\<close>

definition appraisal ::
  "('sk, 'vk, 'sg, 'dsg, 'crt, 'oid, 'a) x509_lib_scheme \<Rightarrow> attestation_key \<Rightarrow> bytes \<Rightarrow>
     bytes \<Rightarrow> bytes \<Rightarrow> (unit, verify_error) exec" where
  "appraisal L key expected pk rep =
     (if \<not> key_bound L rep pk then
        Err (KeyBindingMismatch (hex_encode L (take 32 (drop 80 rep))) (hex_encode L (sha256 L pk)))
      else case sg_from_slice L (report_signature rep) of
        Inl _ \<Rightarrow> Err BadSignature
      | Inr sg \<Rightarrow>
          (case anchor L key of
             Err e \<Rightarrow> Err e
           | Panic \<Rightarrow> Panic
           | Ok vk \<Rightarrow>
               if \<not> vk_verify L vk (take 672 rep) sg then Err BadSignature
               else if \<not> measurement_accepted expected rep then
                 Err (MeasurementMismatch (hex_encode L expected)
                   (hex_encode L (take 48 (drop 144 rep))))
               else Ok ()))"

lemma verify_appraisal:
  assumes "length rep = REPORT_SIZE"
  shows "verify L rep key expected pk = appraisal L key expected pk rep"
  using assms
  by (auto simp: verify_seq verify_key_binding_eq verify_signature_eq verify_measurement_eq
      appraisal_def split: sum.splits exec.splits)

lemma anchor_Err: "anchor L key = Err e \<Longrightarrow> (\<exists>t. e = CertChain t) \<or> (\<exists>t. e = Internal t)"
  by (auto simp: anchor_def from_res_def dest: vcek_verifying_key_Err
      split: attestation_key.splits sum.splits)

lemma appraisal_relevant:
  assumes "take 672 rep = take 672 rep'" "report_signature rep = report_signature rep'"
  shows "appraisal L key expected pk rep = appraisal L key expected pk rep'"
proof -
  have eq: "take n (drop i rep) = take n (drop i rep')" if "i + n \<le> 672" for i n
  proof -
    have "take n (drop i (take 672 rep)) = take n (drop i (take 672 rep'))" using assms(1) by simp
    moreover have "n \<le> 672 - i" using that by simp
    ultimately show ?thesis by (simp add: drop_take min_def)
  qed
  have "take 32 (drop 80 rep) = take 32 (drop 80 rep')" "take 48 (drop 144 rep) = take 48 (drop 144 rep')"
    by (simp_all add: eq)
  note same = assms this
  show ?thesis
    unfolding appraisal_def key_bound_def measurement_accepted_def same by (rule refl)
qed

lemma mock_anchor_Ok:
  assumes "p384_ok L" "sk_from_slice L MOCK_PRIVATE_KEY_SCALAR = Inr sk"
  shows "anchor L KeyMock = Ok (sk_verifying_key L sk)"
  using assms p384_okD(4) [OF assms(1)] by (simp add: anchor_def)

lemma mock_report_signature:
  assumes "length hash = 32" "length meas = 48" "length sig = 96"
  shows "report_signature (mock_report_bytes hash meas sig) = sig"
  using mock_report_reads [OF assms] by (simp add: report_signature_def)

text \<open>What the mock signer's output is to the appraisal.\<close>

lemma mock_signed:
  assumes ok: "p384_ok L" and key: "mock_key_ok L"
    and len: "length hash = 32" "length meas = 48"
    and sign: "sign_mock_report L hash meas = (Ok r :: (report, 'e) exec)"
  obtains sk where "sk_from_slice L MOCK_PRIVATE_KEY_SCALAR = Inr sk" "wf_report r"
    "report_signature (raw r) = sg_to_bytes L (sk_sign L sk (take 672 (raw r)))"
    "take 32 (drop 80 (raw r)) = hash" "take 48 (drop 144 (raw r)) = meas"
proof -
  obtain sk where sk: "sk_from_slice L MOCK_PRIVATE_KEY_SCALAR = Inr sk"
    "(mock_signing_key L :: ('a, 'e) exec) = Ok sk"
    using mock_signing_key_Ok [OF key] by blast
  let ?sig = "sg_to_bytes L (sk_sign L sk (take SIGNED_REGION_SIZE (mock_fields hash meas)))"
  have ls: "length ?sig = 96" by (rule p384_okD(2) [OF ok])
  have r: "r = \<lparr>raw = mock_report_bytes hash meas ?sig\<rparr>"
    using sign sign_mock_report_eq [OF sk(2) len p384_okD(2) [OF ok]] by simp
  show ?thesis
    using mock_report_reads [OF len ls] mock_report_signature [OF len ls] sk(1) len ls
    by (intro that [of sk]) (simp_all add: r wf_report_def SIGNED_REGION_SIZE_def)
qed

lemma sign_mock_report_succeeds:
  assumes "p384_ok L" "mock_key_ok L" "length hash = 32" "length meas = 48"
  obtains r where "sign_mock_report L hash meas = (Ok r :: (report, 'e) exec)"
proof -
  obtain sk where "(mock_signing_key L :: ('a, 'e) exec) = Ok sk"
    using mock_signing_key_Ok [OF assms(2)] by blast
  from sign_mock_report_eq [OF this assms(3,4) p384_okD(2) [OF assms(1)]] show ?thesis
    by (rule that)
qed

lemma mock_signed_verifies:
  assumes "p384_ok L" "mock_key_ok L" "length (sha256 L pk) = 32" "length meas = 48"
    and "sign_mock_report L (sha256 L pk) meas = (Ok r :: (report, 'e) exec)"
    and "expected = meas \<or> expected = replicate 48 0"
  shows "length (raw r) = REPORT_SIZE \<and> verify L (raw r) KeyMock expected pk = Ok ()"
proof -
  from mock_signed [OF assms(1-5)] obtain sk where
    "sk_from_slice L MOCK_PRIVATE_KEY_SCALAR = Inr sk" "wf_report r"
    "report_signature (raw r) = sg_to_bytes L (sk_sign L sk (take 672 (raw r)))"
    "take 32 (drop 80 (raw r)) = sha256 L pk" "take 48 (drop 144 (raw r)) = meas" .
  then show ?thesis
    using assms(6) p384_okD [OF assms(1)]
    by (auto simp: verify_appraisal wf_report_def appraisal_def key_bound_def
        mock_anchor_Ok [OF assms(1)] measurement_accepted_def)
qed

subsection \<open>Properties\<close>

text \<open>C4: The verifier accepts a report if and only if its first 32 bytes of report data are the
  SHA-256 of the TLS key, its two signature scalars form a signature of its first 672 bytes
  that verifies under the trust anchor's key, and its measurement is the expected one or the
  expected one is all zeros.\<close>

theorem verify_accepts_iff:
  assumes "length rep = REPORT_SIZE" "mock_key_ok L"
  shows "verify L rep key expected pk = Ok () \<longleftrightarrow>
    take 32 (drop 80 rep) = sha256 L pk \<and>
    (\<exists>vk sg. anchor L key = Ok vk \<and>
       sg_from_slice L (take 48 (drop 672 rep) @ take 48 (drop 744 rep)) = Inr sg \<and>
       vk_verify L vk (take 672 rep) sg) \<and>
    (expected = replicate 48 0 \<or> take 48 (drop 144 rep) = expected)"
  unfolding verify_Ok [OF assms] key_bound_def signature_accepted_def signed_under_def
    measurement_accepted_def report_signature_def
  by (auto split: exec.splits sum.splits)

text \<open>C11: The verifier refines the abstract appraisal: on every report of the right size the two
  give the same result, so the errors come in the appraisal's order, key binding first and
  measurement last.\<close>

theorem verify_refines_appraisal:
  assumes "length rep = REPORT_SIZE"
  shows "verify L rep key expected pk = appraisal L key expected pk rep"
  using assms by (rule verify_appraisal)

text \<open>The verifier never panics on a buffer of the report's size, never returns the error
  \<open>WrongLength\<close>, and under the all-zero expected measurement never a measurement mismatch.\<close>

theorem verify_total:
  assumes "length rep = REPORT_SIZE" "mock_key_ok L"
  shows "verify L rep key expected pk \<noteq> Panic \<and>
    (\<forall>n. verify L rep key expected pk \<noteq> Err (WrongLength n)) \<and>
    (\<forall>a b. verify L rep key (replicate 48 0) pk \<noteq> Err (MeasurementMismatch a b))"
  using assms(2)
  by (auto simp: verify_appraisal [OF assms(1)] appraisal_def anchor_no_Panic measurement_accepted_def
      dest: anchor_Err split: sum.splits exec.splits if_splits)

text \<open>C21: A report made by the mock signer for a TLS key and a measurement passes verification
  under the mock anchor with that key, when the client expects that measurement or none.\<close>

theorem mock_report_verifies:
  assumes "p384_ok L" "sha256_ok L" "mock_key_ok L" "length meas = MEASUREMENT_SIZE"
    and "expected = meas \<or> expected = replicate MEASUREMENT_SIZE 0"
  shows "\<exists>r. sign_mock_report L (tls_pubkey_hash L pk) meas = (Ok r :: (report, 'e) exec) \<and>
    verify L (as_bytes r) KeyMock expected pk = Ok ()"
proof -
  have len: "length (sha256 L pk) = 32" "length meas = 48"
    using assms by (simp_all add: MEASUREMENT_SIZE_def)
  obtain r where r: "sign_mock_report L (sha256 L pk) meas = (Ok r :: (report, 'e) exec)"
    using sign_mock_report_succeeds [OF assms(1,3) len] by blast
  with mock_signed_verifies [OF assms(1,3) len r] assms(5) show ?thesis
    by (auto simp: tls_pubkey_hash_def as_bytes_def MEASUREMENT_SIZE_def)
qed

text \<open>A mock report is refused for another TLS key with another hash (key binding mismatch),
  and for another non-zero expected measurement (measurement mismatch).\<close>

theorem mock_report_refused:
  assumes "p384_ok L" "sha256_ok L" "mock_key_ok L" "length meas = MEASUREMENT_SIZE"
    and "sign_mock_report L (tls_pubkey_hash L pk) meas = (Ok r :: (report, 'e) exec)"
  shows "(sha256 L pk' \<noteq> sha256 L pk \<longrightarrow> verify L (as_bytes r) KeyMock expected pk' =
       Err (KeyBindingMismatch (hex_encode L (sha256 L pk)) (hex_encode L (sha256 L pk')))) \<and>
    (expected \<noteq> meas \<and> expected \<noteq> replicate MEASUREMENT_SIZE 0 \<longrightarrow>
       verify L (as_bytes r) KeyMock expected pk =
         Err (MeasurementMismatch (hex_encode L expected) (hex_encode L meas)))"
proof -
  have len: "length (sha256 L pk) = 32" "length meas = 48"
    using assms by (simp_all add: MEASUREMENT_SIZE_def)
  from mock_signed [OF assms(1,3) len] assms(5) obtain sk where
    "sk_from_slice L MOCK_PRIVATE_KEY_SCALAR = Inr sk" "wf_report r"
    "report_signature (raw r) = sg_to_bytes L (sk_sign L sk (take 672 (raw r)))"
    "take 32 (drop 80 (raw r)) = sha256 L pk" "take 48 (drop 144 (raw r)) = meas"
    unfolding tls_pubkey_hash_def by blast
  then show ?thesis
    using p384_okD [OF assms(1)]
    by (auto simp: verify_appraisal wf_report_def appraisal_def key_bound_def as_bytes_def
        mock_anchor_Ok [OF assms(1)] measurement_accepted_def MEASUREMENT_SIZE_def)
qed

text \<open>C22: Changing one byte of a mock report's signed region, outside the bound key hash, makes
  verification fail with a bad signature, whatever measurement is expected, unless the old
  signature happens to verify for the changed bytes.\<close>

theorem tampered_report_rejected:
  assumes "p384_ok L" "sha256_ok L" "mock_key_ok L" "length meas = MEASUREMENT_SIZE"
    and "sign_mock_report L (tls_pubkey_hash L pk) meas = (Ok r :: (report, 'e) exec)"
    and "sk_from_slice L MOCK_PRIVATE_KEY_SCALAR = Inr sk"
    and "i < SIGNED_REGION_SIZE" "i < 80 \<or> 112 \<le> i"
    and "\<not> vk_verify L (sk_verifying_key L sk) (take 672 ((as_bytes r)[i := b]))
           (sk_sign L sk (take 672 (as_bytes r)))"
  shows "verify L ((as_bytes r)[i := b]) KeyMock expected pk = Err BadSignature"
proof -
  have len: "length (sha256 L pk) = 32" "length meas = 48"
    using assms by (simp_all add: MEASUREMENT_SIZE_def)
  from mock_signed [OF assms(1,3) len] assms(5,6) have
    sk: "wf_report r"
    "report_signature (raw r) = sg_to_bytes L (sk_sign L sk (take 672 (raw r)))"
    "take 32 (drop 80 (raw r)) = sha256 L pk"
    unfolding tls_pubkey_hash_def by (blast, metis sum.inject(2), blast)
  have i: "i < 672" using assms(7) by (simp add: SIGNED_REGION_SIZE_def)
  then have "report_signature ((raw r)[i := b]) = report_signature (raw r)"
    by (simp add: report_signature_def drop_update_cancel)
  moreover have "take 32 (drop 80 ((raw r)[i := b])) = take 32 (drop 80 (raw r))"
    using assms(8) by (auto simp: drop_update_cancel drop_update_swap take_update_cancel)
  ultimately show ?thesis
    using sk assms(9) p384_okD [OF assms(1)]
    by (simp add: verify_appraisal wf_report_def appraisal_def key_bound_def as_bytes_def
        mock_anchor_Ok [OF assms(1,6)])
qed

text \<open>C38: The result depends on the first 672 bytes and the two 48-byte scalars only: two reports
  that agree there get the same result, so the padding of the signature slots and the tail of
  the report are not authenticated.\<close>

theorem verify_ignores_padding:
  assumes "length rep = REPORT_SIZE" "length rep' = REPORT_SIZE"
    and "take 672 rep = take 672 rep'"
    and "take 48 (drop 672 rep) = take 48 (drop 672 rep')"
    and "take 48 (drop 744 rep) = take 48 (drop 744 rep')"
  shows "verify L rep key expected pk = verify L rep' key expected pk"
  using assms appraisal_relevant [of rep rep' L key expected pk]
  by (simp add: verify_appraisal report_signature_def)

text \<open>A report binds one key hash: if it is accepted with two TLS keys, under any anchors and
  expected measurements, the keys have the same SHA-256.\<close>

theorem accepted_keys_agree:
  assumes "length rep = REPORT_SIZE" "mock_key_ok L"
    and "verify L rep key expected pk = Ok ()" "verify L rep key' expected' pk' = Ok ()"
  shows "sha256 L pk = sha256 L pk'"
  using assms by (simp add: verify_Ok key_bound_def)

end
