(* ===== verification/Attest_Ext.thy ===== *)
theory Attest_Ext
  imports Verify
begin

section \<open>The attestation extension (sifir-attest/src/attest\_ext.rs)\<close>

text \<open>
  The payload that the server embeds in its certificate and the client reads back: the record,
  its constructors, its serialisation (as derived, over the JSON text format of \<open>serde_json\<close>), and
  the two decoders. \<open>ext_codec\<close> is the contract between the crate that builds an extension and
  the one that reads it; both constructors are interpretations.
\<close>

definition ATTEST_OID_STR :: string where
  "ATTEST_OID_STR = ''1.3.6.1.4.1.99999.1.1''"

definition ATTEST_OID_ARCS :: "64 word list" where
  "ATTEST_OID_ARCS = [1, 3, 6, 1, 4, 1, 99999, 1, 1]"

datatype attestation_mode = Mock | AmdSevSnp

record attestation_extension =
  report_b64 :: string
  vcek_chain_b64 :: "string list"
  ext_mode :: attestation_mode
  gpu_jwt :: "string option"

text \<open>The text that \<open>derive(Debug)\<close> gives a mode.\<close>

fun show_attestation_mode :: "attestation_mode \<Rightarrow> string" where
  "show_attestation_mode Mock = ''Mock''"
| "show_attestation_mode AmdSevSnp = ''AmdSevSnp''"

subsection \<open>The derived serialisation\<close>

definition ser_mode :: "attestation_mode \<Rightarrow> json" where
  "ser_mode m = JStr (case m of Mock \<Rightarrow> ''Mock'' | AmdSevSnp \<Rightarrow> ''AmdSevSnp'')"

definition de_mode :: "json \<Rightarrow> attestation_mode option" where
  "de_mode = de_unit_variant [(''Mock'', Mock), (''AmdSevSnp'', AmdSevSnp)]"

definition ser_extension :: "attestation_extension \<Rightarrow> json" where
  "ser_extension e = JObj
     [(''report_b64'', JStr (report_b64 e)),
      (''vcek_chain_b64'', ser_list JStr (vcek_chain_b64 e)),
      (''mode'', ser_mode (ext_mode e)),
      (''gpu_jwt'', ser_option JStr (gpu_jwt e))]"

definition de_extension :: "json \<Rightarrow> attestation_extension option" where
  "de_extension j =
     Option.bind (struct_fields [''report_b64'', ''vcek_chain_b64'', ''mode'', ''gpu_jwt''] j) (\<lambda>fields.
     Option.bind (required de_string (fields ! 0)) (\<lambda>r.
     Option.bind (required (de_list de_string) (fields ! 1)) (\<lambda>chain.
     Option.bind (required de_mode (fields ! 2)) (\<lambda>m.
     Option.bind (optional de_string (fields ! 3)) (\<lambda>jwt.
     Some \<lparr>report_b64 = r, vcek_chain_b64 = chain, ext_mode = m, gpu_jwt = jwt\<rparr>)))))"

lemma de_ser_mode [serde]: "de_mode (ser_mode m) = Some m"
  by (cases m) (simp_all add: de_mode_def ser_mode_def de_unit_variant_def)

lemma de_mode_iff:
  "de_mode j = Some m \<longleftrightarrow> j = JStr (show_attestation_mode m) \<or> j = JObj [(show_attestation_mode m, JNull)]"
  by (cases m) (auto simp: de_mode_def de_unit_variant_def split: json.splits list.splits if_splits)

lemma utf8_mode [serde]: "json_utf8 (ser_mode m)"
  by (cases m) (auto simp: ser_mode_def ascii_def intro!: utf8_ascii)

interpretation mode_wire: serde_type "\<lambda>_. True" ser_mode de_mode
  by unfold_locales (rule de_ser_mode, simp add: ser_mode_def, rule utf8_mode)

lemma de_ser_extension: "de_extension (ser_extension e) = Some e"
proof -
  have "distinct (map fst [(''report_b64'', JStr (report_b64 e)),
      (''vcek_chain_b64'', ser_list JStr (vcek_chain_b64 e)), (''mode'', ser_mode (ext_mode e)),
      (''gpu_jwt'', ser_option JStr (gpu_jwt e))])" by simp
  from struct_fields_object [OF this] show ?thesis
    by (simp add: de_extension_def ser_extension_def serde)
qed

lemma plain_extension: "json_plain 127 (ser_extension e)"
  by (auto simp: ser_extension_def ser_mode_def ser_list_def ser_option_def split: option.split)

text \<open>The texts of an extension of a Rust program.\<close>

definition ext_utf8 :: "attestation_extension \<Rightarrow> bool" where
  "ext_utf8 e \<longleftrightarrow> utf8 (report_b64 e) \<and> list_all utf8 (vcek_chain_b64 e) \<and>
     (case gpu_jwt e of None \<Rightarrow> True | Some jwt \<Rightarrow> utf8 jwt)"

lemma utf8_extension: "ext_utf8 e \<Longrightarrow> json_utf8 (ser_extension e)"
proof -
  assume e: "ext_utf8 e"
  have "utf8 ''report_b64''" "utf8 ''vcek_chain_b64''" "utf8 ''mode''" "utf8 ''gpu_jwt''"
    by (rule utf8_ascii, simp add: ascii_def)+
  then show ?thesis
    using e by (auto simp: ser_extension_def ser_list_def ser_option_def ext_utf8_def list_all_iff serde split: option.splits)
qed

interpretation ext_wire: serde_type ext_utf8 ser_extension de_extension
  by unfold_locales (rule de_ser_extension, rule plain_extension, rule utf8_extension)

text \<open>\<open>serde_json\<close> at this type.\<close>

definition ext_to_vec :: "'a codec_lib_scheme \<Rightarrow> attestation_extension \<Rightarrow> string + bytes" where
  "ext_to_vec L e = json_to_vec L (ser_extension e)"

definition ext_from_slice :: "'a codec_lib_scheme \<Rightarrow> bytes \<Rightarrow> string + attestation_extension" where
  "ext_from_slice L = from_slice L ''AttestationExtension'' de_extension"

text \<open>Serialising an extension succeeds, and parsing what was serialised gives it back.\<close>

lemma ext_writes: "json_ok L \<Longrightarrow> ext_utf8 e \<Longrightarrow> \<exists>b. ext_to_vec L e = Inr b"
  unfolding ext_to_vec_def by (rule ext_wire.writes)

lemma ext_wire_ok: "json_ok L \<Longrightarrow> ext_utf8 e \<Longrightarrow> ext_to_vec L e = Inr b \<Longrightarrow> ext_from_slice L b = Inr e"
  unfolding ext_to_vec_def ext_from_slice_def by (rule ext_wire.wire_read)

subsection \<open>Operations\<close>

definition new_mock :: "'a codec_lib_scheme \<Rightarrow> bytes \<Rightarrow> attestation_extension" where
  "new_mock L report_bytes =
     \<lparr>report_b64 = b64_encode L report_bytes, vcek_chain_b64 = [], ext_mode = Mock, gpu_jwt = None\<rparr>"

definition new_amd :: "'a codec_lib_scheme \<Rightarrow> bytes \<Rightarrow> bytes list \<Rightarrow> attestation_extension" where
  "new_amd L report_bytes chain =
     \<lparr>report_b64 = b64_encode L report_bytes, vcek_chain_b64 = map (b64_encode L) chain,
      ext_mode = AmdSevSnp, gpu_jwt = None\<rparr>"

definition with_gpu_jwt :: "attestation_extension \<Rightarrow> string \<Rightarrow> attestation_extension" where
  "with_gpu_jwt ext jwt = ext\<lparr>gpu_jwt := Some jwt\<rparr>"

definition to_bytes ::
  "'a codec_lib_scheme \<Rightarrow> attestation_extension \<Rightarrow> (bytes, 'e) exec" where
  "to_bytes L ext = expect (ext_to_vec L ext)"

definition from_bytes ::
  "'a codec_lib_scheme \<Rightarrow> bytes \<Rightarrow> string + attestation_extension" where
  "from_bytes L b = ext_from_slice L b"

definition report_bytes ::
  "'a codec_lib_scheme \<Rightarrow> attestation_extension \<Rightarrow> (bytes, anyhow) exec" where
  "report_bytes L ext =
     and_then (from_res (\<lambda>e. [e]) (b64_decode L (report_b64 ext))) (\<lambda>bs.
       if length bs = REPORT_SIZE then Ok bs
       else Err [''report is not '' @ show_nat REPORT_SIZE @ '' bytes''])"

definition vcek_chain_der ::
  "'a codec_lib_scheme \<Rightarrow> attestation_extension \<Rightarrow> (bytes list, anyhow) exec" where
  "vcek_chain_der L ext =
     collect_results (map (\<lambda>b. from_res (\<lambda>e. [e]) (b64_decode L b)) (vcek_chain_b64 ext))"

lemma ext_utf8_new [simp]:
  "b64_ok L \<Longrightarrow> ext_utf8 (new_mock L rep)" "b64_ok L \<Longrightarrow> ext_utf8 (new_amd L rep chain)"
  "ext_utf8 e \<Longrightarrow> utf8 jwt \<Longrightarrow> ext_utf8 (with_gpu_jwt e jwt)"
  by (auto simp: ext_utf8_def new_mock_def new_amd_def with_gpu_jwt_def b64_utf8 list_all_iff)

lemma report_bytes_no_Panic [simp]: "report_bytes L ext \<noteq> Panic"
  by (auto simp: report_bytes_def and_then_eq_Panic)

lemma vcek_chain_der_no_Panic [simp]: "vcek_chain_der L ext \<noteq> Panic"
  unfolding vcek_chain_der_def by (rule collect_results_no_Panic) (auto dest: sym)

lemma report_bytes_Ok [exec_simps]:
  "report_bytes L ext = Ok bs \<longleftrightarrow> b64_decode L (report_b64 ext) = Inr bs \<and> length bs = REPORT_SIZE"
  by (auto simp: report_bytes_def exec_simps)

lemma map_from_res:
  "map g xs = map Inr ys \<Longrightarrow> map (\<lambda>x. from_res f (g x)) xs = map Ok ys"
  by (induction xs arbitrary: ys) (auto simp: Cons_eq_map_conv)

lemma vcek_chain_der_Ok [exec_simps]:
  "vcek_chain_der L ext = Ok chain \<longleftrightarrow> map (b64_decode L) (vcek_chain_b64 ext) = map Inr chain"
proof -
  have "map (\<lambda>b. from_res (\<lambda>e. [e]) (b64_decode L b)) bs = map Ok xs \<longleftrightarrow>
      map (b64_decode L) bs = map Inr xs" for bs and xs :: "bytes list"
    by (induction bs arbitrary: xs) (auto simp: Cons_eq_map_conv map_eq_Cons_conv exec_simps)
  then show ?thesis by (simp add: vcek_chain_der_def collect_results_Ok_iff)
qed

subsection \<open>The contract between building and reading\<close>

locale ext_codec =
  fixes law :: "'l \<Rightarrow> bool"
    and dom :: "'a \<Rightarrow> bool"
    and build :: "'l \<Rightarrow> 'a \<Rightarrow> attestation_extension"
    and read :: "'l \<Rightarrow> attestation_extension \<Rightarrow> ('a, anyhow) exec"
  assumes read_build: "law L \<Longrightarrow> dom a \<Longrightarrow> read L (build L a) = Ok a"
    and read_jwt: "read L (with_gpu_jwt e j) = read L e"
begin

lemma build_inj:
  "law L \<Longrightarrow> dom a \<Longrightarrow> dom b \<Longrightarrow> build L a = build L b \<longleftrightarrow> a = b"
  by (metis exec.inject(1) read_build)

lemma read_build_jwt: "law L \<Longrightarrow> dom a \<Longrightarrow> read L (with_gpu_jwt (build L a) j) = Ok a"
  by (simp add: read_jwt read_build)

end

definition read_evidence ::
  "'a codec_lib_scheme \<Rightarrow> attestation_extension \<Rightarrow> (bytes \<times> bytes list, anyhow) exec" where
  "read_evidence L e =
     and_then (report_bytes L e) (\<lambda>r. and_then (vcek_chain_der L e) (\<lambda>c. Ok (r, c)))"

interpretation mock_codec: ext_codec b64_ok "\<lambda>r. length r = REPORT_SIZE" new_mock report_bytes
  by unfold_locales (simp_all add: report_bytes_def new_mock_def with_gpu_jwt_def b64_okD)

interpretation amd_codec: ext_codec b64_ok "\<lambda>(r, c). length r = REPORT_SIZE"
    "\<lambda>L (r, c). new_amd L r c" read_evidence
proof
  fix L :: "'a codec_lib_scheme" and a :: "bytes \<times> bytes list"
  assume "b64_ok L" "case a of (r, c) \<Rightarrow> length r = REPORT_SIZE"
  then show "read_evidence L (case a of (r, c) \<Rightarrow> new_amd L r c) = Ok a"
    by (cases a) (auto simp: read_evidence_def new_amd_def exec_simps b64_okD comp_def)
next
  fix L :: "'a codec_lib_scheme" and e j
  show "read_evidence L (with_gpu_jwt e j) = read_evidence L e"
    by (simp add: read_evidence_def report_bytes_def vcek_chain_der_def with_gpu_jwt_def)
qed

subsection \<open>Properties\<close>

text \<open>C24: What the server embeds is what the client reads: serialising an AMD extension with a GPU
  token succeeds, parsing it back succeeds, and the parsed extension yields the same 1184
  report bytes, the same certificate chain in the same order, the mode \<open>AmdSevSnp\<close> and the same
  token. (The token is UTF-8, as every \<open>String\<close> of Rust.)\<close>

theorem extension_wire_roundtrip:
  assumes "json_ok L" "b64_ok L" "length rep = REPORT_SIZE" "utf8 jwt"
  shows "\<exists>b ext. to_bytes L (with_gpu_jwt (new_amd L rep chain) jwt) = (Ok b :: (bytes, 'e) exec) \<and>
    from_bytes L b = Inr ext \<and> report_bytes L ext = Ok rep \<and> vcek_chain_der L ext = Ok chain \<and>
    ext_mode ext = AmdSevSnp \<and> gpu_jwt ext = Some jwt"
proof -
  let ?e = "with_gpu_jwt (new_amd L rep chain) jwt"
  obtain b where b: "ext_to_vec L ?e = Inr b" "ext_from_slice L b = Inr ?e"
    using ext_writes [OF assms(1)] ext_wire_ok [OF assms(1)] assms(2,4) by (meson ext_utf8_new)
  have "read_evidence L ?e = Ok (rep, chain)"
    using amd_codec.read_build_jwt [of L "(rep, chain)" jwt] assms by simp
  then have "report_bytes L ?e = Ok rep" "vcek_chain_der L ?e = Ok chain"
    by (auto simp: read_evidence_def and_then_eq_Ok)
  with b show ?thesis
    by (intro exI [of _ b] exI [of _ ?e])
      (simp add: to_bytes_def from_bytes_def with_gpu_jwt_def new_amd_def)
qed

text \<open>The decoders refuse exactly what is malformed: \<open>report_bytes\<close> succeeds only on base64
  text of 1184 bytes and names the size otherwise; \<open>vcek_chain_der\<close> fails with the decoding
  error of the first certificate that is not base64. Neither panics.\<close>

theorem extension_decoders:
  "(\<forall>bs. report_bytes L ext = Ok bs \<longleftrightarrow>
      b64_decode L (report_b64 ext) = Inr bs \<and> length bs = REPORT_SIZE) \<and>
   (\<forall>bs. b64_decode L (report_b64 ext) = Inr bs \<and> length bs \<noteq> REPORT_SIZE \<longrightarrow>
      report_bytes L ext = Err [''report is not 1184 bytes'']) \<and>
   (\<forall>good ders bad rest e.
      vcek_chain_b64 ext = good @ bad # rest \<and> map (b64_decode L) good = map Inr ders \<and>
      b64_decode L bad = Inl e \<longrightarrow> vcek_chain_der L ext = Err [e]) \<and>
   report_bytes L ext \<noteq> Panic \<and> vcek_chain_der L ext \<noteq> Panic"
proof (intro conjI allI impI)
  have "show_nat REPORT_SIZE = ''1184''" by code_simp
  then show "report_bytes L ext = Err [''report is not 1184 bytes'']"
    if "b64_decode L (report_b64 ext) = Inr bs \<and> length bs \<noteq> REPORT_SIZE" for bs
    using that by (simp add: report_bytes_def)
  show "vcek_chain_der L ext = Err [e]"
    if "vcek_chain_b64 ext = good @ bad # rest \<and> map (b64_decode L) good = map Inr ders \<and>
      b64_decode L bad = Inl e" for good ders bad rest e
    using that by (auto simp: vcek_chain_der_def map_from_res collect_results_first_Err)
qed (simp_all add: exec_simps)

text \<open>C25: What the client reads from a JSON object with distinct keys, whoever wrote it: the report and chain
  are texts, the mode is one of the two names, the token may be missing or \<open>null\<close>, and every other key
  is ignored, so a certificate of a server without GPU support is read as one without a token.\<close>

theorem extension_reader_iff:
  assumes "distinct (map fst kvs)"
  shows "de_extension (JObj kvs) = Some e \<longleftrightarrow>
    map_of kvs ''report_b64'' = Some (JStr (report_b64 e)) \<and>
    map_of kvs ''vcek_chain_b64'' = Some (JArr (map JStr (vcek_chain_b64 e))) \<and>
    (map_of kvs ''mode'' = Some (JStr (show_attestation_mode (ext_mode e))) \<or>
     map_of kvs ''mode'' = Some (JObj [(show_attestation_mode (ext_mode e), JNull)])) \<and>
    (case gpu_jwt e of
       None \<Rightarrow> map_of kvs ''gpu_jwt'' = None \<or> map_of kvs ''gpu_jwt'' = Some JNull
     | Some jwt \<Rightarrow> map_of kvs ''gpu_jwt'' = Some (JStr jwt))"
proof -
  have s: "required de_string f = Some x \<longleftrightarrow> f = Some (JStr x)" for f x
    by (cases f; cases "the f") (auto simp: required_def de_string_def)
  have l: "required (de_list de_string) f = Some xs \<longleftrightarrow> f = Some (JArr (map JStr xs))" for f xs
    by (cases f) (auto simp: required_def de_list_strings)
  have m: "required de_mode f = Some x \<longleftrightarrow> f = Some (JStr (show_attestation_mode x)) \<or>
      f = Some (JObj [(show_attestation_mode x, JNull)])" for f x
    by (cases f) (auto simp: required_def de_mode_iff)
  have o: "optional de_string f = Some x \<longleftrightarrow> (case x of None \<Rightarrow> f = None \<or> f = Some JNull | Some j \<Rightarrow> f = Some (JStr j))" for f x
    by (cases f; cases "the f"; cases x) (auto simp: optional_def de_option_def de_string_def)
  show ?thesis
    unfolding de_extension_def struct_fields_object [OF assms]
    by (cases e) (auto simp: bind_eq_Some_conv s l m o)
qed

end
