(* ===== verification/Pem.thy ===== *)
theory Pem
  imports Libs
begin

section \<open>The PEM bundle parser (sifir-server/src/amd\_attestation.rs, parse\_pem\_bundle)\<close>

text \<open>
  The loop of \<open>parse_pem_bundle\<close> is a state machine over the lines of the text, with the
  source's three variables as its state. \<open>outside\<close> and \<open>inside\<close> are a reference parser by
  recursive descent over the classified lines; the lemmas show that the machine computes the
  same result, that it accepts exactly the bundles of the grammar \<open>cert_lines\<close>, and that it reads
  back what a PEM writer wrote, whatever the line length, the line ends and the text between
  the blocks.
\<close>

definition BEGIN_CERT :: string where "BEGIN_CERT = ''-----BEGIN CERTIFICATE-----''"
definition END_CERT :: string where "END_CERT = ''-----END CERTIFICATE-----''"

record pem_state =
  certs :: "bytes list"
  in_cert :: bool
  b64 :: string

definition pem_init :: pem_state where
  "pem_init = \<lparr>certs = [], in_cert = False, b64 = []\<rparr>"

definition pem_line :: "'a codec_lib_scheme \<Rightarrow> pem_state \<Rightarrow> string \<Rightarrow> (pem_state, anyhow) exec" where
  "pem_line L st line =
     (let trimmed = trim line in
      if trimmed = BEGIN_CERT then Ok (st\<lparr>in_cert := True, b64 := []\<rparr>)
      else if trimmed = END_CERT then
        (if \<not> in_cert st then Err [''unexpected END CERTIFICATE'']
         else
           let st = st\<lparr>in_cert := False\<rparr> in
           and_then (from_res_ctx ''base64 decode PEM cert'' (b64_decode L (b64 st))) (\<lambda>der.
           Ok (st\<lparr>certs := certs st @ [der]\<rparr>)))
      else if in_cert st \<and> trimmed \<noteq> [] then Ok (st\<lparr>b64 := b64 st @ trimmed\<rparr>)
      else Ok st)"

fun pem_loop :: "'a codec_lib_scheme \<Rightarrow> pem_state \<Rightarrow> string list \<Rightarrow> (pem_state, anyhow) exec" where
  "pem_loop L st [] = Ok st"
| "pem_loop L st (line # lines) = and_then (pem_line L st line) (\<lambda>st'. pem_loop L st' lines)"

definition parse_pem_bundle :: "'a codec_lib_scheme \<Rightarrow> string \<Rightarrow> (bytes list, anyhow) exec" where
  "parse_pem_bundle L pem =
     and_then (pem_loop L pem_init (str_lines pem)) (\<lambda>st.
       if in_cert st then Err [''unterminated PEM cert block''] else Ok (certs st))"

subsection \<open>The reference parser\<close>

datatype pem_token = Begin | End | Blank | Text string

definition pem_token_of :: "string \<Rightarrow> pem_token" where
  "pem_token_of line =
     (let t = trim line in
      if t = BEGIN_CERT then Begin else if t = END_CERT then End
      else if t = [] then Blank else Text t)"

fun outside :: "'a codec_lib_scheme \<Rightarrow> pem_token list \<Rightarrow> (bytes list, anyhow) exec"
  and inside :: "'a codec_lib_scheme \<Rightarrow> string \<Rightarrow> pem_token list \<Rightarrow> (bytes list, anyhow) exec" where
  "outside L [] = Ok []"
| "outside L (Begin # ts) = inside L [] ts"
| "outside L (End # ts) = Err [''unexpected END CERTIFICATE'']"
| "outside L (Blank # ts) = outside L ts"
| "outside L (Text t # ts) = outside L ts"
| "inside L acc [] = Err [''unterminated PEM cert block'']"
| "inside L acc (Begin # ts) = inside L [] ts"
| "inside L acc (End # ts) =
     and_then (from_res_ctx ''base64 decode PEM cert'' (b64_decode L acc)) (\<lambda>der.
       map_ok (Cons der) (outside L ts))"
| "inside L acc (Blank # ts) = inside L acc ts"
| "inside L acc (Text t # ts) = inside L (acc @ t) ts"

definition finish_pem :: "pem_state \<Rightarrow> (bytes list, anyhow) exec" where
  "finish_pem st = (if in_cert st then Err [''unterminated PEM cert block''] else Ok (certs st))"

lemma begin_end_distinct [simp]: "BEGIN_CERT \<noteq> END_CERT" "BEGIN_CERT \<noteq> []" "END_CERT \<noteq> []"
  "END_CERT \<noteq> BEGIN_CERT"
  by (simp_all add: BEGIN_CERT_def END_CERT_def)

lemma pem_line_cases:
  "pem_line L st line = (case pem_token_of line of
     Begin \<Rightarrow> Ok (st\<lparr>in_cert := True, b64 := []\<rparr>)
   | End \<Rightarrow> if \<not> in_cert st then Err [''unexpected END CERTIFICATE'']
       else and_then (from_res_ctx ''base64 decode PEM cert'' (b64_decode L (b64 st))) (\<lambda>der.
         Ok (st\<lparr>in_cert := False, certs := certs st @ [der]\<rparr>))
   | Blank \<Rightarrow> Ok st
   | Text t \<Rightarrow> Ok (if in_cert st then st\<lparr>b64 := b64 st @ t\<rparr> else st))"
  by (simp add: pem_line_def pem_token_of_def Let_def)

lemma map_ok_id [simp]: "map_ok (\<lambda>x. x) m = m" "map_ok (append []) m = m"
  by (cases m; simp)+

lemma map_ok_comp: "map_ok f (map_ok g m) = map_ok (f \<circ> g) m"
  by (cases m) auto

lemma pem_loop_reference:
  "and_then (pem_loop L st lines) finish_pem =
     map_ok (append (certs st))
       (if in_cert st then inside L (b64 st) (map pem_token_of lines)
        else outside L (map pem_token_of lines))"
proof (induction lines arbitrary: st)
  case Nil
  then show ?case by (simp add: finish_pem_def)
next
  case (Cons line lines)
  have snoc: "append (cs @ [b]) = (\<lambda>x. cs @ b # x)" for cs and b :: bytes
    by (simp add: fun_eq_iff)
  have step: "and_then (pem_loop L st (line # lines)) finish_pem =
      and_then (pem_line L st line) (\<lambda>st'. and_then (pem_loop L st' lines) finish_pem)"
    by (simp add: and_then_assoc)
  show ?case
  proof (cases "pem_token_of line")
    case End
    then show ?thesis
      unfolding step Cons.IH
      by (cases "b64_decode L (b64 st)") (auto simp: pem_line_cases map_ok_comp comp_def snoc)
  qed (unfold step Cons.IH, auto simp: pem_line_cases)
qed

lemma parse_pem_reference:
  "parse_pem_bundle L pem = outside L (map pem_token_of (str_lines pem))"
proof -
  have "parse_pem_bundle L pem = and_then (pem_loop L pem_init (str_lines pem)) finish_pem"
    by (simp add: parse_pem_bundle_def finish_pem_def [abs_def])
  then show ?thesis by (simp add: pem_loop_reference pem_init_def)
qed

lemma pem_reference_no_Panic: "outside L ts \<noteq> Panic" "inside L acc ts \<noteq> Panic"
  by (induction L ts and L acc ts rule: outside_inside.induct) (auto simp: and_then_eq_Panic)

subsection \<open>The grammar\<close>

text \<open>\<open>cert_lines ts bs\<close>: the lines \<open>ts\<close> are a bundle whose certificates have the base64 texts
  \<open>bs\<close>. \<open>open_block acc ts bs\<close>: the same, when a block is open and \<open>acc\<close> is its text so far.\<close>

inductive cert_lines :: "pem_token list \<Rightarrow> string list \<Rightarrow> bool"
  and open_block :: "string \<Rightarrow> pem_token list \<Rightarrow> string list \<Rightarrow> bool" where
  cert_lines_end: "cert_lines [] []"
| cert_lines_blank: "cert_lines ts bs \<Longrightarrow> cert_lines (Blank # ts) bs"
| cert_lines_noise: "cert_lines ts bs \<Longrightarrow> cert_lines (Text t # ts) bs"
| cert_lines_open: "open_block [] ts bs \<Longrightarrow> cert_lines (Begin # ts) bs"
| open_block_blank: "open_block acc ts bs \<Longrightarrow> open_block acc (Blank # ts) bs"
| open_block_text: "open_block (acc @ t) ts bs \<Longrightarrow> open_block acc (Text t # ts) bs"
| open_block_restart: "open_block [] ts bs \<Longrightarrow> open_block acc (Begin # ts) bs"
| open_block_close: "cert_lines ts bs \<Longrightarrow> open_block acc (End # ts) (acc # bs)"

inductive_simps cert_lines_simps [simp]:
  "cert_lines [] bs" "cert_lines (Begin # ts) bs" "cert_lines (End # ts) bs" "cert_lines (Blank # ts) bs"
  "cert_lines (Text t # ts) bs"

inductive_simps open_block_simps [simp]:
  "open_block acc [] bs" "open_block acc (Begin # ts) bs" "open_block acc (End # ts) bs"
  "open_block acc (Blank # ts) bs" "open_block acc (Text t # ts) bs"

lemma reference_grammar:
  "outside L ts = Ok cs \<longleftrightarrow> (\<exists>bs. cert_lines ts bs \<and> map (b64_decode L) bs = map Inr cs)"
  "inside L acc ts = Ok cs \<longleftrightarrow> (\<exists>bs. open_block acc ts bs \<and> map (b64_decode L) bs = map Inr cs)"
proof (induction L ts and L acc ts arbitrary: cs and cs rule: outside_inside.induct)
  case (8 L acc ts)
  show ?case
  proof
    assume "inside L acc (End # ts) = Ok cs"
    then obtain der cs' where "b64_decode L acc = Inr der" "outside L ts = Ok cs'" "cs = der # cs'"
      by (auto simp: exec_simps)
    moreover from this 8 obtain bs where "cert_lines ts bs" "map (b64_decode L) bs = map Inr cs'"
      by blast
    ultimately show "\<exists>bs. open_block acc (End # ts) bs \<and> map (b64_decode L) bs = map Inr cs"
      by (intro exI [of _ "acc # bs"]) auto
  next
    assume "\<exists>bs. open_block acc (End # ts) bs \<and> map (b64_decode L) bs = map Inr cs"
    then obtain bs' where "cert_lines ts bs'" "b64_decode L acc # map (b64_decode L) bs' = map Inr cs"
      by auto
    then obtain der cs' where "cs = der # cs'" "b64_decode L acc = Inr der"
        "map (b64_decode L) bs' = map Inr cs'"
      by (auto simp: Cons_eq_map_conv)
    with 8 \<open>cert_lines ts bs'\<close> show "inside L acc (End # ts) = Ok cs" by (auto simp: exec_simps)
  qed
qed auto

lemma append_Cons_fun: "append (x # xs) = (\<lambda>ys. x # xs @ ys)"
  by (simp add: fun_eq_iff)

lemma reference_append:
  "outside L ts = Ok cs \<Longrightarrow> outside L (ts @ us) = map_ok (append cs) (outside L us)"
  "inside L acc ts = Ok cs \<Longrightarrow> inside L acc (ts @ us) = map_ok (append cs) (outside L us)"
  by (induction L ts and L acc ts arbitrary: cs and cs rule: outside_inside.induct)
    (auto simp: exec_simps map_ok_comp comp_def append_Cons_fun)

subsection \<open>Layout\<close>

lemma reference_skips_blank:
  "outside L ts = outside L (filter (\<lambda>t. t \<noteq> Blank) ts)"
  "inside L acc ts = inside L acc (filter (\<lambda>t. t \<noteq> Blank) ts)"
  by (induction L ts and L acc ts rule: outside_inside.induct) auto

definition pem_token_of_trimmed :: "string \<Rightarrow> pem_token" where
  "pem_token_of_trimmed t =
     (if t = BEGIN_CERT then Begin else if t = END_CERT then End
      else if t = [] then Blank else Text t)"

lemma pem_token_of_eq: "pem_token_of = pem_token_of_trimmed \<circ> trim"
  by (simp add: fun_eq_iff pem_token_of_def pem_token_of_trimmed_def)

lemma pem_tokens_nonblank:
  "filter (\<lambda>t. t \<noteq> Blank) (map pem_token_of ls) =
     map pem_token_of_trimmed (filter (\<lambda>t. t \<noteq> []) (map trim ls))"
  by (induction ls) (auto simp: pem_token_of_def pem_token_of_trimmed_def Let_def)

lemma strip_ws_snoc_ascii:
  assumes "ascii_ws c" "\<And>a. \<not> w2 a c" "\<And>a b. \<not> w3 a b c"
  shows "strip_ws w2 w3 (s @ [c]) = (if strip_ws w2 w3 s = [] then [] else strip_ws w2 w3 s @ [c])"
  using assms by (induction w2 w3 s rule: strip_ws.induct) auto

lemma ascii_not_multibyte: "ascii_ws c \<Longrightarrow> \<not> ws2 a c" "ascii_ws c \<Longrightarrow> \<not> ws3 a b c"
  by (auto simp: ascii_ws_def ws2_def ws3_def)

lemma trim_snoc_ascii: "ascii_ws c \<Longrightarrow> trim (s @ [c]) = trim s"
  using strip_ws_snoc_ascii [of c ws2 ws3 s] trim_end_ascii_ws [of "[c]" "strip_ws ws2 ws3 s"]
  by (auto simp: trim_def trim_start_def ascii_not_multibyte)

lemma ascii_ws_cr [simp]: "ascii_ws carriage_return" "ascii_ws newline"
  by (simp_all add: ascii_ws_def carriage_return_def newline_def)

lemma trim_strip_cr [simp]: "trim (strip_cr l) = trim l"
  using trim_snoc_ascii [of carriage_return "butlast l"]
  by (auto simp: strip_cr_def) (metis append_butlast_last_id)

definition unlines_with :: "string \<Rightarrow> string list \<Rightarrow> string" where
  "unlines_with eol ls = concat (map (\<lambda>l. l @ eol) ls)"

definition line_end :: "string \<Rightarrow> bool" where
  "line_end eol \<longleftrightarrow> eol = [newline] \<or> eol = [carriage_return, newline]"

lemma trim_lines_unlines:
  assumes "line_end eol" "list_all (\<lambda>l. newline \<notin> set l) ls"
  shows "map trim (str_lines (unlines_with eol ls)) = map trim ls"
proof (cases "eol = [newline]")
  case True
  then show ?thesis
    using str_lines_unlines [OF assms(2), of "[]"] by (simp add: unlines_with_def)
next
  case False
  then have eol: "eol = [carriage_return, newline]" using assms by (auto simp: line_end_def)
  let ?ls = "map (\<lambda>l. l @ [carriage_return]) ls"
  have "list_all (\<lambda>l. newline \<notin> set l) ?ls"
    using assms(2) by (auto simp: list_all_iff carriage_return_def newline_def)
  from str_lines_unlines [OF this, of "[]"]
  have "str_lines (unlines_with eol ls) = map strip_cr ?ls"
    by (simp add: unlines_with_def eol comp_def)
  then show ?thesis by (simp add: comp_def trim_snoc_ascii)
qed

lemma pem_tokens_cong:
  "map trim ls = map trim ls' \<Longrightarrow> map pem_token_of ls = map pem_token_of ls'"
  by (simp add: pem_token_of_eq flip: map_map)

subsection \<open>A PEM writer\<close>

text \<open>A block as a writer emits it: lines of other text, the opening line, the base64 text cut
  into lines, the closing line. A chunk of base64 text is never one of the two marker lines.\<close>

definition pem_block :: "string list \<times> string list \<Rightarrow> string list" where
  "pem_block b = fst b @ [BEGIN_CERT] @ snd b @ [END_CERT]"

definition comment_line :: "string \<Rightarrow> bool" where
  "comment_line l \<longleftrightarrow> newline \<notin> set l \<and> trim l \<noteq> BEGIN_CERT \<and> trim l \<noteq> END_CERT"

lemma outside_comments:
  "list_all comment_line ls \<Longrightarrow> outside L (map pem_token_of ls @ ts) = outside L ts"
  by (induction ls) (auto simp: comment_line_def pem_token_of_def Let_def)

lemma plain_hyphen [simp]: "plain_char CHR ''-''"
  by (simp add: plain_char_def ascii_ws_def)

lemma trim_markers [simp]: "trim BEGIN_CERT = BEGIN_CERT" "trim END_CERT = END_CERT"
  by (rule trim_plain; simp add: BEGIN_CERT_def END_CERT_def)+

lemma pem_token_markers [simp]:
  "pem_token_of BEGIN_CERT = Begin" "pem_token_of END_CERT = End"
  by (simp_all add: pem_token_of_def)

lemma pem_token_chunk:
  assumes "list_all b64_alphabet c"
  shows "pem_token_of c = (if c = [] then Blank else Text c)"
proof -
  have "trim c = c"
    using assms by (intro trim_all_plain) (auto simp: list_all_iff intro: b64_alphabet_plain)
  moreover have "c \<noteq> BEGIN_CERT" "c \<noteq> END_CERT"
    using assms by (auto simp: BEGIN_CERT_def END_CERT_def dest: b64_alphabet_not_hyphen)
  ultimately show ?thesis by (simp add: pem_token_of_def)
qed

lemma inside_chunks:
  "list_all (list_all b64_alphabet) cs \<Longrightarrow>
     inside L acc (map pem_token_of cs @ ts) = inside L (acc @ concat cs) ts"
  by (induction cs arbitrary: acc) (auto simp: pem_token_chunk)

lemma outside_blocks:
  assumes "b64_ok L"
    and "list_all2 (\<lambda>(pre, chunks) der. list_all comment_line pre \<and> concat chunks = b64_encode L der)
           blocks ders"
    and "list_all comment_line post"
  shows "outside L (map pem_token_of (concat (map pem_block blocks) @ post)) = Ok ders"
  using assms(2)
proof (induction rule: list_all2_induct)
  case Nil
  show ?case using outside_comments [OF assms(3), of L "[]"] by simp
next
  case (Cons b bs der ders)
  then have pre: "list_all comment_line (fst b)" and enc: "concat (snd b) = b64_encode L der"
    by (auto split: prod.splits)
  have "list_all b64_alphabet (concat (snd b))"
    using assms(1) by (simp add: enc b64_okD)
  then have "list_all (list_all b64_alphabet) (snd b)"
    by (auto simp: list_all_iff)
  then show ?case
    using Cons.IH pre enc assms(1)
    by (simp add: pem_block_def outside_comments inside_chunks b64_okD)
qed

lemma newline_not_plain [simp]: "\<not> plain_char newline"
  by (simp add: plain_char_def)

lemma block_lines_no_newline:
  assumes "b64_ok L"
    and "list_all2 (\<lambda>(pre, chunks) der. list_all comment_line pre \<and> concat chunks = b64_encode L der)
           blocks ders"
  shows "list_all (\<lambda>l. newline \<notin> set l) (concat (map pem_block blocks))"
  using assms(2)
proof (induction rule: list_all2_induct)
  case (Cons b bs der ders)
  then have "list_all comment_line (fst b)" and "concat (snd b) = b64_encode L der"
    by (auto split: prod.splits)
  moreover have "newline \<notin> set (b64_encode L der)"
    using b64_okD(2) [OF assms(1), of der] b64_alphabet_plain [of newline]
    by (auto simp: list_all_iff)
  ultimately have "newline \<notin> set (concat (snd b))" and "list_all comment_line (fst b)" by simp_all
  then show ?case
    using Cons.IH
    by (auto simp: list_all_iff pem_block_def comment_line_def BEGIN_CERT_def END_CERT_def newline_def)
qed simp

subsection \<open>The machine's invariant\<close>

text \<open>Whatever lines the loop reads, every certificate in its state is the decoding of some
  text.\<close>

definition pem_inv :: "'a codec_lib_scheme \<Rightarrow> pem_state \<Rightarrow> bool" where
  "pem_inv L st \<longleftrightarrow> list_all (\<lambda>c. \<exists>t. b64_decode L t = Inr c) (certs st)"

lemma pem_line_inv: "pem_line L s line = Ok t \<Longrightarrow> pem_inv L s \<Longrightarrow> pem_inv L t"
  by (cases "pem_token_of line")
    (auto simp: pem_inv_def pem_line_cases exec_simps split: if_splits)

interpretation pem_sys: invariant_system "\<lambda>st. st = pem_init"
    "\<lambda>st st'. \<exists>line. pem_line L st line = Ok st'" "pem_inv L"
  for L :: "'a codec_lib_scheme"
  by unfold_locales (simp add: pem_inv_def pem_init_def, blast dest: pem_line_inv)

lemma pem_loop_reaches:
  "pem_loop L st lines = Ok st' \<Longrightarrow> reaches (\<lambda>s t. \<exists>line. pem_line L s line = Ok t) st st'"
proof (induction lines arbitrary: st)
  case Nil
  then show ?case by (simp add: reaches.here)
next
  case (Cons line lines)
  then obtain s where "pem_line L st line = Ok s" "pem_loop L s lines = Ok st'"
    by (auto simp: and_then_eq_Ok)
  then show ?case
    using Cons.IH [of s] by (blast intro: reaches_trans reaches.intros)
qed

lemma parse_pem_decoded:
  assumes "parse_pem_bundle L pem = Ok cs" "c \<in> set cs"
  shows "\<exists>t. b64_decode L t = Inr c"
proof -
  from assms(1) obtain st where "pem_loop L pem_init (str_lines pem) = Ok st" "certs st = cs"
    by (auto simp: parse_pem_bundle_def and_then_eq_Ok split: if_splits)
  then have "pem_inv L st"
    using pem_sys.reachable_inv [OF refl pem_loop_reaches] by blast
  with \<open>certs st = cs\<close> assms(2) show ?thesis by (auto simp: pem_inv_def list_all_iff)
qed

lemma written_parses:
  assumes "b64_ok L" "line_end eol"
    and "list_all2 (\<lambda>(pre, chunks) der. list_all comment_line pre \<and> concat chunks = b64_encode L der)
           blocks ders"
    and "list_all comment_line post"
  shows "parse_pem_bundle L (unlines_with eol (concat (map pem_block blocks) @ post)) = Ok ders"
proof -
  let ?ls = "concat (map pem_block blocks) @ post"
  have "list_all (\<lambda>l. newline \<notin> set l) ?ls"
    using block_lines_no_newline [OF assms(1,3)] assms(4) by (auto simp: list_all_iff comment_line_def)
  then have "map pem_token_of (str_lines (unlines_with eol ?ls)) = map pem_token_of ?ls"
    by (intro pem_tokens_cong trim_lines_unlines assms(2))
  then show ?thesis
    using outside_blocks [OF assms(1,3,4)] by (simp only: parse_pem_reference)
qed

text \<open>A text in which the certificates are written.\<close>

definition pem_text :: "'a codec_lib_scheme \<Rightarrow> string \<Rightarrow> bytes list \<Rightarrow> bool" where
  "pem_text L t ders \<longleftrightarrow>
     (\<exists>eol blocks post. line_end eol \<and> list_all comment_line post \<and>
        list_all2 (\<lambda>(pre, chunks) der. list_all comment_line pre \<and> concat chunks = b64_encode L der) blocks ders \<and>
        t = unlines_with eol (concat (map pem_block blocks) @ post))"

lemma pem_text_parses: "b64_ok L \<Longrightarrow> pem_text L t ders \<Longrightarrow> parse_pem_bundle L t = Ok ders"
  unfolding pem_text_def by (elim exE conjE) (simp only: written_parses)

subsection \<open>Properties\<close>

text \<open>C23: The line-by-line state machine computes what the recursive-descent parser over the
  classified lines computes, result and error alike.\<close>

theorem parse_pem_refines_reference:
  "parse_pem_bundle L pem = outside L (map pem_token_of (str_lines pem))"
  by (rule parse_pem_reference)

text \<open>The parser returns the certificates \<open>cs\<close> if and only if the lines of the text derive in
  the bundle grammar (blocks of text between the two markers, a second opening marker
  restarting the block, other text between blocks) and the blocks' texts decode to \<open>cs\<close> in
  order; it never panics.\<close>

theorem parse_pem_accepts_iff:
  "(parse_pem_bundle L pem = Ok cs \<longleftrightarrow>
     (\<exists>bs. cert_lines (map pem_token_of (str_lines pem)) bs \<and> map (b64_decode L) bs = map Inr cs)) \<and>
   parse_pem_bundle L pem \<noteq> Panic"
  by (simp add: parse_pem_reference reference_grammar pem_reference_no_Panic)

text \<open>C14: Reading back what was written: certificates written in base64, each cut into lines of
  any length between the markers, with any other text between the blocks and either kind of
  line end, parse to exactly those certificates in order.\<close>

theorem pem_roundtrip:
  assumes "b64_ok L" "line_end eol"
    and "list_all2 (\<lambda>(pre, chunks) der. list_all comment_line pre \<and> concat chunks = b64_encode L der)
           blocks ders"
    and "list_all comment_line post"
  shows "parse_pem_bundle L (unlines_with eol (concat (map pem_block blocks) @ post)) = Ok ders"
  using assms by (rule written_parses)

text \<open>Layout does not matter: two texts whose non-blank lines agree once trimmed give the same
  result, so indentation, blank lines and carriage returns change nothing.\<close>

theorem parse_pem_layout:
  assumes "filter (\<lambda>t. t \<noteq> []) (map trim (str_lines p)) = filter (\<lambda>t. t \<noteq> []) (map trim (str_lines q))"
  shows "parse_pem_bundle L p = parse_pem_bundle L q"
  using assms reference_skips_blank(1) [of L "map pem_token_of (str_lines p)"]
    reference_skips_blank(1) [of L "map pem_token_of (str_lines q)"]
  by (simp add: parse_pem_reference pem_tokens_nonblank)

text \<open>Bundles concatenate: if the text up to a line end parses to \<open>xs\<close>, the whole text parses
  to \<open>xs\<close> followed by what the rest parses to, and fails as the rest fails.\<close>

theorem parse_pem_append:
  assumes "parse_pem_bundle L (p @ [newline]) = Ok xs"
  shows "parse_pem_bundle L (p @ newline # q) = map_ok (append xs) (parse_pem_bundle L q)"
  using assms reference_append(1) [of L "map pem_token_of (str_lines (p @ [newline]))"
      xs "map pem_token_of (str_lines q)"]
  by (simp add: parse_pem_reference str_lines_append [of p q])

end
