(* ===== verification/Server_Env.thy ===== *)
theory Server_Env
  imports Attest_Ext
begin

section \<open>The server's outside world\<close>

text \<open>
  What the server crate does to the world is an event; what the world answers comes from an
  oracle in \<open>server_env\<close> that sees all the events so far, so it may answer differently every
  time. The oracles stand for the kernel (\<open>/dev/snp-guest\<close>), \<open>reqwest\<close>, \<open>rcgen\<close> (key pairs
  \<open>'kp\<close>), \<open>rustls\<close> (server configurations \<open>'cfg\<close>) and the child process; nothing is assumed of
  them but what a theorem states.

  The three kernel structures are those of \<open>amd_attestation.rs\<close>; a raw pointer of the source
  is modelled by what it points to.
\<close>

record snp_report_req =
  user_data :: bytes
  vmpl :: "32 word"
  rsvd :: bytes

record snp_report_resp =
  resp_bytes :: bytes

record snp_guest_request_ioctl =
  msg_version :: byte
  pad :: bytes
  req_data :: snp_report_req
  resp_data :: snp_report_resp
  exitinfo2 :: "64 word"

datatype server_event =
    Print string
  | EPrint string
  | GenerateKey
  | SelfSign "(64 word list \<times> bytes) list"
  | OpenDevice string
  | Ioctl "64 word" snp_guest_request_ioctl
  | HttpGet string
  | HttpPost string bytes "string option" \<comment> \<open>target, body, content type\<close>
  | RunCommand string "string list"
  | Bind string \<comment> \<open>the listener's address\<close>

type_synonym ('a, 'e) server_io = "('a, 'e, server_event) io"

record http_response =
  status :: "16 word"
  body :: "string + bytes" \<comment> \<open>reading the body may fail\<close>

record proc_output =
  success :: bool
  exit_status :: string
  stdout :: bytes
  stderr :: bytes

record ('kp, 'cfg) server_env =
  gen_keypair :: "server_event list \<Rightarrow> string + 'kp"
  self_signed :: "server_event list \<Rightarrow> (64 word list \<times> bytes) list \<Rightarrow> 'kp \<Rightarrow> string + bytes"
  kp_serialized_der :: "'kp \<Rightarrow> bytes"
  server_config_build :: "bytes \<Rightarrow> bytes \<Rightarrow> string + 'cfg"
  open_device :: "server_event list \<Rightarrow> string \<Rightarrow> string + unit"
  snp_ioctl :: "server_event list \<Rightarrow> 64 word \<Rightarrow> snp_guest_request_ioctl \<Rightarrow> int \<times> snp_guest_request_ioctl"
  last_os_error :: "server_event list \<Rightarrow> string"
  http_client_build :: "server_event list \<Rightarrow> string + unit"
  http_get :: "server_event list \<Rightarrow> string \<Rightarrow> string + http_response"
  http_post :: "server_event list \<Rightarrow> string \<Rightarrow> bytes \<Rightarrow> string option \<Rightarrow> string + http_response"
  error_for_status :: "http_response \<Rightarrow> string + http_response"
  response_text :: "bytes \<Rightarrow> string"
  run_command :: "server_event list \<Rightarrow> string \<Rightarrow> string list \<Rightarrow> string + proc_output"
  bind_listener :: "server_event list \<Rightarrow> string \<Rightarrow> string + unit"

definition print_line :: "string \<Rightarrow> (unit, 'e) server_io" where
  "print_line s = io_event (Print s) (\<lambda>_. ())"

text \<open>The trace grows by a prefix of the given events.\<close>

definition extends_by :: "('a, 'e, 'ev) io \<Rightarrow> 'ev list \<Rightarrow> 'ev list \<Rightarrow> bool" where
  "extends_by m tr evs \<longleftrightarrow>
     (\<exists>n. snd (m tr) = tr @ take n evs) \<and> (\<forall>a. fst (m tr) = Ok a \<longrightarrow> snd (m tr) = tr @ evs)"

lemma extends_by_lift: "extends_by (io_lift m) tr []"
  by (simp add: extends_by_def io_fst)

lemma extends_by_event: "extends_by (io_event ev k) tr [ev]"
  by (auto simp: extends_by_def io_fst intro: exI [of _ 1])

lemma extends_by_exact: "snd (m tr) = tr @ evs \<Longrightarrow> extends_by m tr evs"
  by (auto simp: extends_by_def intro: exI [of _ "length evs"])

lemma extends_by_bind:
  assumes "extends_by m tr evs"
    and "\<And>a. fst (m tr) = Ok a \<Longrightarrow> extends_by (f a) (tr @ evs) evs'"
  shows "extends_by (io_bind m f) tr (evs @ evs')"
proof (cases "m tr" rule: prod.exhaust)
  case (Pair r tr')
  show ?thesis
  proof (cases r)
    case (Ok a)
    then have tr': "tr' = tr @ evs" using assms(1) Pair by (simp add: extends_by_def)
    then have run: "io_bind m f tr = f a (tr @ evs)" using Pair Ok by (simp add: io_bind_def)
    have "extends_by (f a) (tr @ evs) evs'" using assms(2) [of a] Pair Ok by simp
    then obtain n where "snd (f a (tr @ evs)) = (tr @ evs) @ take n evs'"
      and "\<forall>b. fst (f a (tr @ evs)) = exec.Ok b \<longrightarrow> snd (f a (tr @ evs)) = (tr @ evs) @ evs'"
      unfolding extends_by_def by blast
    then show ?thesis
      unfolding extends_by_def run by (auto intro!: exI [of _ "length evs + n"])
  next
    case (Err e)
    then obtain n where "tr' = tr @ take n evs" using assms(1) Pair by (auto simp: extends_by_def)
    then show ?thesis
      using Pair Err by (auto simp: extends_by_def io_bind_def min_def intro!: exI [of _ "min n (length evs)"])
  next
    case Panic
    then obtain n where "tr' = tr @ take n evs" using assms(1) Pair by (auto simp: extends_by_def)
    then show ?thesis
      using Pair Panic by (auto simp: extends_by_def io_bind_def min_def intro!: exI [of _ "min n (length evs)"])
  qed
qed

lemma extends_by_lift_bind:
  assumes "\<And>a. m = Ok a \<Longrightarrow> extends_by (f a) tr evs"
  shows "extends_by (io_bind (io_lift m) f) tr evs"
  using extends_by_bind [of "io_lift m" tr "[]" f evs, OF extends_by_lift] assms
  by (simp add: io_lift_fst)

end
