(* ===== verification/Amd_Attestation.thy ===== *)
theory Amd_Attestation
  imports Server_Env Pem "HOL-Library.Sublist"
begin

section \<open>Fetching the report and its chain (sifir-server/src/amd\_attestation.rs)\<close>

text \<open>
  The path of \<open>--amd\<close>: one ioctl on the SNP guest device gives the report, two requests to
  AMD's key service give the VCEK certificate and the bundle of ASK and ARK. The PEM parser of
  the same source file is in the theory \<open>Pem\<close>. \<open>snp_abi_ok\<close> is what the kernel documents of
  the response buffer: it keeps the size of its C type.
\<close>

definition SNP_GET_REPORT :: "64 word" where
  "SNP_GET_REPORT = (push_bit 30 3 OR push_bit 16 32) OR push_bit 8 0x2B"

definition SNP_DEVICE :: string where "SNP_DEVICE = ''/dev/snp-guest''"
definition KDS_BASE :: string where "KDS_BASE = ''https://kdsintf.amd.com/vcek/v1''"
definition OFF_REPORTED_TCB :: nat where "OFF_REPORTED_TCB = 0x038"
definition SNP_OFF_CHIP_ID :: nat where "SNP_OFF_CHIP_ID = 0x188"
definition CHIP_ID_LEN :: nat where "CHIP_ID_LEN = 64"

lemmas snp_consts = OFF_REPORTED_TCB_def SNP_OFF_CHIP_ID_def CHIP_ID_LEN_def

record tcb_version =
  bl_spl :: byte
  tee_spl :: byte
  snp_spl :: byte
  ucode_spl :: byte

definition tcb_from_report :: "bytes \<Rightarrow> (tcb_version, 'e) exec" where
  "tcb_from_report report =
     and_then (slice_range report OFF_REPORTED_TCB (OFF_REPORTED_TCB + 8)) (\<lambda>raw8.
       Ok \<lparr>bl_spl = raw8 ! 0, tee_spl = raw8 ! 1, snp_spl = raw8 ! 6, ucode_spl = raw8 ! 7\<rparr>)"

subsection \<open>The ioctl\<close>

definition report_request :: "bytes \<Rightarrow> snp_guest_request_ioctl" where
  "report_request ud =
     (let req = \<lparr>user_data = ud, vmpl = 0, rsvd = replicate 28 0\<rparr>;
          resp = \<lparr>resp_bytes = replicate 4000 0\<rparr>
      in \<lparr>msg_version = 1, pad = replicate 7 0, req_data = req, resp_data = resp, exitinfo2 = 0\<rparr>)"

definition get_snp_report :: "('kp, 'cfg, 'b) server_env_scheme \<Rightarrow> bytes \<Rightarrow> (bytes, anyhow) server_io" where
  "get_snp_report E ud =
     io_bind (io_event (OpenDevice SNP_DEVICE) (\<lambda>tr. open_device E tr SNP_DEVICE)) (\<lambda>opened.
     io_bind (io_lift (from_res_ctx (''open '' @ SNP_DEVICE @ '' (must run inside AMD SEV-SNP VM)'') opened))
       (\<lambda>file.
     let ioctl_req = report_request ud in
     io_bind (io_event (Ioctl SNP_GET_REPORT ioctl_req) (\<lambda>tr. (snp_ioctl E tr SNP_GET_REPORT ioctl_req, last_os_error E tr)))
       (\<lambda>((rc, out), err).
     if rc \<noteq> 0 then
       io_lift (Err [''SNP_GET_REPORT ioctl failed (errno '' @ show_int rc @ ''): '' @ err])
     else if exitinfo2 out \<noteq> 0 then
       io_lift (Err [''SNP_GET_REPORT firmware error: exitinfo2=0x'' @ show_hex016 (exitinfo2 out)])
     else
       io_lift (and_then (slice_range (resp_bytes (resp_data out)) 0 REPORT_SIZE)
         (\<lambda>s. copy_range (replicate REPORT_SIZE 0) 0 REPORT_SIZE s)))))"

subsection \<open>The key service\<close>

definition vcek_url_of :: "string \<Rightarrow> string \<Rightarrow> tcb_version \<Rightarrow> string" where
  "vcek_url_of product chip_id_hex tcb =
     KDS_BASE @ ''/'' @ product @ ''/'' @ chip_id_hex @ ''?blSPL='' @ show_nat (unat (bl_spl tcb)) @
     ''&teeSPL='' @ show_nat (unat (tee_spl tcb)) @ ''&snpSPL='' @ show_nat (unat (snp_spl tcb)) @
     ''&ucodeSPL='' @ show_nat (unat (ucode_spl tcb))"

definition chain_url_of :: "string \<Rightarrow> string" where
  "chain_url_of product = KDS_BASE @ ''/'' @ product @ ''/cert_chain''"

text \<open>The chain \<open>.get(url).send()?.error_for_status()?.bytes()?\<close> that the source writes for each of
  the two requests, with its three contexts.\<close>

definition kds_get ::
  "('kp, 'cfg, 'b) server_env_scheme \<Rightarrow> string \<Rightarrow> string \<Rightarrow> string \<Rightarrow> (bytes, anyhow) server_io" where
  "kds_get E url failed reading =
     io_bind (io_event (HttpGet url) (\<lambda>tr. http_get E tr url)) (\<lambda>sent.
     io_lift
       (and_then (from_res_ctx (''GET '' @ url) sent) (\<lambda>resp.
        and_then (from_res_ctx (failed @ url) (error_for_status E resp)) (\<lambda>resp.
        from_res_ctx reading (body resp)))))"

definition fetch_vcek_chain ::
  "('kp, 'cfg, 'b) server_env_scheme \<Rightarrow> 'a codec_lib_scheme \<Rightarrow> bytes \<Rightarrow> string \<Rightarrow>
     (bytes list, anyhow) server_io" where
  "fetch_vcek_chain E L report product =
     io_bind (io_lift (slice_range report SNP_OFF_CHIP_ID (SNP_OFF_CHIP_ID + CHIP_ID_LEN))) (\<lambda>chip.
     let chip_id_hex = hex_encode L chip in
     io_bind (io_lift (tcb_from_report report)) (\<lambda>tcb.
     let vcek_url = vcek_url_of product chip_id_hex tcb; chain_url = chain_url_of product in
     io_bind (\<lambda>tr. (from_res_ctx ''build reqwest client'' (http_client_build E tr), tr)) (\<lambda>client.
     io_bind (kds_get E vcek_url ''KDS VCEK fetch failed: '' ''read VCEK response body'') (\<lambda>vcek_der.
     io_bind (kds_get E chain_url ''KDS cert_chain fetch failed: '' ''read cert_chain response body'')
       (\<lambda>chain_body.
     let chain_pem = response_text E chain_body in
     io_bind (io_lift (with_context ''parse cert_chain PEM bundle'' (parse_pem_bundle L chain_pem)))
       (\<lambda>pem_certs.
     if length pem_certs < 2 then
       io_lift (Err [''expected at least 2 certs in KDS cert_chain, got '' @ show_nat (length pem_certs)])
     else
       let ask_der = pem_certs ! 0; ark_der = pem_certs ! 1 in
       io_ret [vcek_der, ask_der, ark_der]))))))"

definition get_report_and_chain ::
  "('kp, 'cfg, 'b) server_env_scheme \<Rightarrow> 'a codec_lib_scheme \<Rightarrow> bytes \<Rightarrow> string \<Rightarrow>
     (bytes \<times> bytes list, anyhow) server_io" where
  "get_report_and_chain E L ud product =
     io_bind (get_snp_report E ud) (\<lambda>report.
     io_bind (fetch_vcek_chain E L report product) (\<lambda>chain.
     io_ret (report, chain)))"

subsection \<open>Lemmas\<close>

definition snp_abi_ok :: "('kp, 'cfg, 'b) server_env_scheme \<Rightarrow> bool" where
  "snp_abi_ok E \<longleftrightarrow> (\<forall>tr c a. length (resp_bytes (resp_data (snd (snp_ioctl E tr c a)))) = 4000)"

text \<open>The URL that a report leads to, as a function of its bytes.\<close>

definition vcek_url :: "'a codec_lib_scheme \<Rightarrow> string \<Rightarrow> bytes \<Rightarrow> string" where
  "vcek_url L product rep =
     vcek_url_of product (hex_encode L (take CHIP_ID_LEN (drop SNP_OFF_CHIP_ID rep)))
       \<lparr>bl_spl = rep ! OFF_REPORTED_TCB, tee_spl = rep ! (OFF_REPORTED_TCB + 1),
        snp_spl = rep ! (OFF_REPORTED_TCB + 6), ucode_spl = rep ! (OFF_REPORTED_TCB + 7)\<rparr>"

lemma vcek_url_literal:
  "vcek_url L product rep =
     vcek_url_of product (hex_encode L (take 64 (drop 392 rep)))
       \<lparr>bl_spl = rep ! 56, tee_spl = rep ! 57, snp_spl = rep ! 62, ucode_spl = rep ! 63\<rparr>"
  by (simp add: vcek_url_def snp_consts)

lemma tcb_from_report_eq:
  "length rep = REPORT_SIZE \<Longrightarrow> tcb_from_report rep =
     Ok \<lparr>bl_spl = rep ! 56, tee_spl = rep ! 57, snp_spl = rep ! 62, ucode_spl = rep ! 63\<rparr>"
  by (simp add: tcb_from_report_def slice_range_def snp_consts REPORT_SIZE_def)

lemma SNP_GET_REPORT_value: "SNP_GET_REPORT = 0xC0202B00"
  by (simp add: SNP_GET_REPORT_def)

lemma kds_get_extends: "extends_by (kds_get E url f r) tr [HttpGet url]"
  unfolding kds_get_def
  using extends_by_bind [OF extends_by_event extends_by_lift, of "HttpGet url" _ _ ] by simp

text \<open>The response of the key service to one request, as \<open>kds_get\<close> reads it.\<close>

definition kds_answer :: "('kp, 'cfg, 'b) server_env_scheme \<Rightarrow> server_event list \<Rightarrow> string \<Rightarrow> bytes \<Rightarrow> bool" where
  "kds_answer E tr url bs \<longleftrightarrow>
     (\<exists>resp ok_resp. http_get E tr url = Inr resp \<and> error_for_status E resp = Inr ok_resp \<and>
        body ok_resp = Inr bs)"

lemma kds_get_Ok: "kds_get E url f r tr = (Ok bs, tr') \<longleftrightarrow> kds_answer E tr url bs \<and> tr' = tr @ [HttpGet url]"
  by (auto simp: kds_get_def kds_answer_def io_bind_def io_event_def io_lift_def exec_simps
      from_res_ctx_def from_res_def split: sum.splits)

definition snp_request_events :: "bytes \<Rightarrow> server_event list" where
  "snp_request_events ud = [OpenDevice SNP_DEVICE, Ioctl SNP_GET_REPORT (report_request ud)]"

definition kds_events :: "'a codec_lib_scheme \<Rightarrow> string \<Rightarrow> bytes \<Rightarrow> server_event list" where
  "kds_events L product rep = [HttpGet (vcek_url L product rep), HttpGet (chain_url_of product)]"

lemma get_snp_report_extends: "extends_by (get_snp_report E ud) tr (snp_request_events ud)"
proof -
  have "snp_request_events ud = [OpenDevice SNP_DEVICE] @ [] @ [Ioctl SNP_GET_REPORT (report_request ud)] @ []"
    by (simp add: snp_request_events_def)
  then show ?thesis
    by (simp only: get_snp_report_def Let_def)
      (rule extends_by_bind [OF extends_by_event], rule extends_by_bind [OF extends_by_lift],
        rule extends_by_bind [OF extends_by_event], simp add: extends_by_lift split: prod.splits)
qed

lemma fetch_vcek_chain_unfold:
  assumes "length rep = REPORT_SIZE"
  shows "fetch_vcek_chain E L rep product =
     io_bind (\<lambda>tr. (from_res_ctx ''build reqwest client'' (http_client_build E tr), tr)) (\<lambda>client.
     io_bind (kds_get E (vcek_url L product rep) ''KDS VCEK fetch failed: '' ''read VCEK response body'') (\<lambda>vcek_der.
     io_bind (kds_get E (chain_url_of product) ''KDS cert_chain fetch failed: '' ''read cert_chain response body'')
       (\<lambda>chain_body.
     io_bind (io_lift (with_context ''parse cert_chain PEM bundle'' (parse_pem_bundle L (response_text E chain_body))))
       (\<lambda>pem_certs.
     if length pem_certs < 2 then
       io_lift (Err [''expected at least 2 certs in KDS cert_chain, got '' @ show_nat (length pem_certs)])
     else io_ret [vcek_der, pem_certs ! 0, pem_certs ! 1]))))"
proof -
  have chip: "slice_range rep SNP_OFF_CHIP_ID (SNP_OFF_CHIP_ID + CHIP_ID_LEN) = Ok (take 64 (drop 392 rep))"
    using assms by (simp add: slice_range_def snp_consts REPORT_SIZE_def)
  show ?thesis
    by (simp only: fetch_vcek_chain_def chip tcb_from_report_eq [OF assms] vcek_url_literal Let_def io_bind_lift)
qed

lemma extends_by_silent: "extends_by (\<lambda>tr. (f tr, tr)) tr []"
  by (simp add: extends_by_def)

lemma extends_by_ret: "extends_by (io_ret a) tr []"
  by (simp add: extends_by_def io_ret_def)

lemma fetch_vcek_chain_extends:
  assumes "length rep = REPORT_SIZE"
  shows "extends_by (fetch_vcek_chain E L rep product) tr (kds_events L product rep)"
proof -
  have "kds_events L product rep =
      [] @ [HttpGet (vcek_url L product rep)] @ [HttpGet (chain_url_of product)] @ [] @ []"
    by (simp add: kds_events_def)
  then show ?thesis
    by (simp only: fetch_vcek_chain_unfold [OF assms])
      (rule extends_by_bind [OF extends_by_silent], rule extends_by_bind [OF kds_get_extends],
        rule extends_by_bind [OF kds_get_extends], rule extends_by_bind [OF extends_by_lift],
        simp add: extends_by_lift extends_by_ret)
qed

lemma parse_pem_two:
  "2 \<le> length cs \<longleftrightarrow> (\<exists>ask ark more. cs = ask # ark # more)"
  by (cases cs; cases "tl cs") auto

lemma kds_get_trace: "snd (kds_get E url f r tr) = tr @ [HttpGet url]"
  by (simp add: kds_get_def io_bind_def io_event_def io_lift_def)

lemma kds_get_fst: "fst (kds_get E url f r tr) = Ok bs \<longleftrightarrow> kds_answer E tr url bs"
  using kds_get_Ok [of E url f r tr bs "tr @ [HttpGet url]"] kds_get_trace [of E url f r tr]
  by (cases "kds_get E url f r tr") simp

lemma io_bind_kds_Ok:
  "fst (io_bind (kds_get E url f r) k tr) = Ok b \<longleftrightarrow>
     (\<exists>bs. kds_answer E tr url bs \<and> fst (k bs (tr @ [HttpGet url])) = Ok b)"
  by (simp add: io_bind_fst_Ok kds_get_fst kds_get_trace)

lemma io_bind_silent_Ok:
  "fst (io_bind (\<lambda>tr. (m tr, tr)) k tr) = Ok b \<longleftrightarrow> (\<exists>a. m tr = Ok a \<and> fst (k a tr) = Ok b)"
  by (cases "m tr") (auto simp: io_bind_def)

lemma io_bind_lift_Ok:
  "fst (io_bind (io_lift m) k tr) = Ok b \<longleftrightarrow> (\<exists>a. m = Ok a \<and> fst (k a tr) = Ok b)"
  by (cases m) (auto simp: io_lift_fst)

lemma two_certs_Ok:
  "fst ((if length cs < 2 then io_lift (Err e) else io_ret [v, cs ! 0, cs ! 1]) tr) = Ok chain \<longleftrightarrow>
     (\<exists>ask ark more. cs = ask # ark # more \<and> chain = [v, ask, ark])"
  using parse_pem_two [of cs] by (auto simp: io_fst not_less)

lemma fetch_vcek_chain_Ok:
  assumes "length rep = REPORT_SIZE"
  shows "fst (fetch_vcek_chain E L rep product tr) = Ok chain \<longleftrightarrow>
     (\<exists>u. http_client_build E tr = Inr u) \<and>
     (\<exists>vcek chain_body ask ark more.
        kds_answer E tr (vcek_url L product rep) vcek \<and>
        kds_answer E (tr @ [HttpGet (vcek_url L product rep)]) (chain_url_of product) chain_body \<and>
        parse_pem_bundle L (response_text E chain_body) = Ok (ask # ark # more) \<and>
        chain = [vcek, ask, ark])"
  unfolding fetch_vcek_chain_unfold [OF assms] io_bind_kds_Ok io_bind_silent_Ok io_bind_lift_Ok
    two_certs_Ok from_res_ctx_eq_Ok with_context_eq_Ok
  by blast

text \<open>The two fields the URL is built from are read back from it: a URL belongs to one product,
  one identifier and one TCB.\<close>

lemma append_mark_eq: "m \<notin> set xs \<Longrightarrow> m \<notin> set ys \<Longrightarrow> xs @ m # zs = ys @ m # ws \<longleftrightarrow> xs = ys \<and> zs = ws"
proof (induction xs arbitrary: ys)
  case Nil
  then show ?case by (cases ys) auto
next
  case (Cons x xs)
  then show ?case by (cases ys) auto
qed

lemma show_nat_no_amp: "CHR ''&'' \<notin> set (show_nat n)"
  using show_nat_digits [of "CHR ''&''" n] by auto

lemma unat_byte_inj: "show_nat (unat (a :: byte)) = show_nat (unat b) \<longleftrightarrow> a = b"
  by (auto simp: show_nat_inj intro: unsigned_word_eqI)

lemma vcek_url_of_inj:
  assumes "CHR ''?'' \<notin> set h" "CHR ''?'' \<notin> set h'"
  shows "vcek_url_of product h tcb = vcek_url_of product h' tcb' \<longleftrightarrow>
    h = h' \<and> bl_spl tcb = bl_spl tcb' \<and> tee_spl tcb = tee_spl tcb' \<and> snp_spl tcb = snp_spl tcb' \<and>
    ucode_spl tcb = ucode_spl tcb'"
  using assms by (simp add: vcek_url_of_def append_mark_eq show_nat_no_amp unat_byte_inj)

lemma vcek_url_eq_iff:
  assumes "hex_ok L"
  shows "vcek_url L product rep = vcek_url L product rep' \<longleftrightarrow>
    take 64 (drop 392 rep) = take 64 (drop 392 rep') \<and>
    rep ! 56 = rep' ! 56 \<and> rep ! 57 = rep' ! 57 \<and> rep ! 62 = rep' ! 62 \<and> rep ! 63 = rep' ! 63"
  unfolding vcek_url_literal
  by (simp add: vcek_url_of_inj hex_no_mark [OF assms] hex_encode_inj [OF assms])

lemma get_snp_report_Ok:
  assumes "snp_abi_ok E"
  shows "fst (get_snp_report E ud tr) = Ok rep \<longleftrightarrow>
     (\<exists>u. open_device E tr SNP_DEVICE = Inr u) \<and>
     (\<exists>out. snp_ioctl E (tr @ [OpenDevice SNP_DEVICE]) SNP_GET_REPORT (report_request ud) = (0, out) \<and>
        exitinfo2 out = 0 \<and> rep = take REPORT_SIZE (resp_bytes (resp_data out)))"
proof -
  obtain rc out where io: "snp_ioctl E (tr @ [OpenDevice SNP_DEVICE]) SNP_GET_REPORT (report_request ud) = (rc, out)"
    by fastforce
  have len: "length (resp_bytes (resp_data out)) = 4000"
    using assms io unfolding snp_abi_ok_def by (metis snd_conv)
  have read: "and_then (slice_range (resp_bytes (resp_data out)) 0 REPORT_SIZE)
      (\<lambda>s. copy_range (replicate REPORT_SIZE 0) 0 REPORT_SIZE s) =
      (Ok (take REPORT_SIZE (resp_bytes (resp_data out))) :: (bytes, anyhow) exec)"
    using len by (simp add: slice_range_def copy_range_def overwrite_def REPORT_SIZE_def)
  show ?thesis
    by (simp only: get_snp_report_def Let_def io_bind_fst_Ok io_lift_fst io_event_fst io exec.inject
        from_res_ctx_eq_Ok split_conv)
      (auto simp: io_lift_fst read)
qed

lemma get_snp_report_length:
  "snp_abi_ok E \<Longrightarrow> fst (get_snp_report E ud tr) = Ok rep \<Longrightarrow> length rep = REPORT_SIZE"
proof -
  assume abi: "snp_abi_ok E" and "fst (get_snp_report E ud tr) = Ok rep"
  then obtain out where out: "snp_ioctl E (tr @ [OpenDevice SNP_DEVICE]) SNP_GET_REPORT (report_request ud) = (0, out)"
    and rep: "rep = take REPORT_SIZE (resp_bytes (resp_data out))"
    by (auto simp: get_snp_report_Ok)
  have "length (resp_bytes (resp_data out)) = 4000"
    using abi out unfolding snp_abi_ok_def by (metis snd_conv)
  then show ?thesis by (simp add: rep REPORT_SIZE_def)
qed

lemma get_snp_report_no_Panic:
  assumes "snp_abi_ok E"
  shows "fst (get_snp_report E ud tr) \<noteq> Panic"
proof -
  obtain rc out where io: "snp_ioctl E (tr @ [OpenDevice SNP_DEVICE]) SNP_GET_REPORT (report_request ud) = (rc, out)"
    by fastforce
  have len: "length (resp_bytes (resp_data out)) = 4000"
    using assms io unfolding snp_abi_ok_def by (metis snd_conv)
  have read: "and_then (slice_range (resp_bytes (resp_data out)) 0 REPORT_SIZE)
      (\<lambda>s. copy_range (replicate REPORT_SIZE 0) 0 REPORT_SIZE s) \<noteq> (Panic :: (bytes, anyhow) exec)"
    using len by (simp add: slice_range_def copy_range_def overwrite_def REPORT_SIZE_def)
  show ?thesis
    by (simp only: get_snp_report_def Let_def io_bind_fst_Panic io_lift_fst io_event_fst io exec.inject
        from_res_ctx_not_Panic split_conv)
      (auto simp: io_lift_fst read)
qed

lemma kds_get_no_Panic: "fst (kds_get E url f r tr) \<noteq> Panic"
  by (auto simp: kds_get_def io_bind_fst_Panic io_lift_fst io_event_fst and_then_eq_Panic)

lemma fetch_vcek_chain_no_Panic:
  assumes "length rep = REPORT_SIZE"
  shows "fst (fetch_vcek_chain E L rep product tr) \<noteq> Panic"
proof -
  have "parse_pem_bundle L t \<noteq> Panic" for t
    by (simp add: parse_pem_reference reference_grammar pem_reference_no_Panic)
  then show ?thesis
    unfolding fetch_vcek_chain_unfold [OF assms]
    by (auto simp: io_bind_fst_Panic io_lift_fst io_ret_fst kds_get_no_Panic)
qed

lemma get_report_and_chain_no_Panic:
  "snp_abi_ok E \<Longrightarrow> fst (get_report_and_chain E L ud product tr) \<noteq> Panic"
  using get_snp_report_length [of E ud tr]
  by (auto simp: get_report_and_chain_def io_bind_fst_Panic io_ret_fst get_snp_report_no_Panic
      fetch_vcek_chain_no_Panic)

lemma conj_refine: "(A \<longleftrightarrow> B \<and> C) \<Longrightarrow> (A \<Longrightarrow> D \<longleftrightarrow> F) \<Longrightarrow> (A \<and> D \<longleftrightarrow> B \<and> C \<and> F)"
  by blast

lemma get_report_and_chain_trace:
  assumes "snp_abi_ok E"
  shows "\<exists>n. snd (get_report_and_chain E L ud product tr) =
     (case fst (get_snp_report E ud tr) of
        Ok rep \<Rightarrow> tr @ snp_request_events ud @ take n (kds_events L product rep)
      | _ \<Rightarrow> tr @ take n (snp_request_events ud))"
proof (cases "fst (get_snp_report E ud tr)")
  case (Ok rep)
  then have snp: "get_snp_report E ud tr = (Ok rep, tr @ snp_request_events ud)"
    using get_snp_report_extends [of E ud tr] by (cases "get_snp_report E ud tr") (simp add: extends_by_def)
  obtain r evs where fetch: "fetch_vcek_chain E L rep product (tr @ snp_request_events ud) = (r, evs)"
    by fastforce
  then obtain n where "evs = (tr @ snp_request_events ud) @ take n (kds_events L product rep)"
    using fetch_vcek_chain_extends [OF get_snp_report_length [OF assms Ok], of E L product
        "tr @ snp_request_events ud"] by (auto simp: extends_by_def)
  then show ?thesis
    using snp fetch by (cases r) (auto simp: get_report_and_chain_def io_bind_def io_ret_def)
next
  case (Err e)
  then show ?thesis
    using get_snp_report_extends [of E ud tr]
    by (cases "get_snp_report E ud tr") (auto simp: extends_by_def get_report_and_chain_def io_bind_def)
next
  case Panic
  then show ?thesis
    using get_snp_report_extends [of E ud tr]
    by (cases "get_snp_report E ud tr") (auto simp: extends_by_def get_report_and_chain_def io_bind_def)
qed

lemma get_report_and_chain_Ok:
  assumes "snp_abi_ok E"
  shows "fst (get_report_and_chain E L ud product tr) = Ok (rep, chain) \<longleftrightarrow>
     (\<exists>u. open_device E tr ''/dev/snp-guest'' = Inr u) \<and>
     (\<exists>out. snp_ioctl E (tr @ [OpenDevice ''/dev/snp-guest'']) 0xC0202B00
          \<lparr>msg_version = 1, pad = replicate 7 0,
           req_data = \<lparr>user_data = ud, vmpl = 0, rsvd = replicate 28 0\<rparr>,
           resp_data = \<lparr>resp_bytes = replicate 4000 0\<rparr>, exitinfo2 = 0\<rparr> = (0, out) \<and>
        exitinfo2 out = 0 \<and> rep = take 1184 (resp_bytes (resp_data out))) \<and>
     (let tr1 = tr @ snp_request_events ud; url = vcek_url L product rep in
      (\<exists>u. http_client_build E tr1 = Inr u) \<and>
      (\<exists>vcek chain_body ask ark more.
         kds_answer E tr1 url vcek \<and>
         kds_answer E (tr1 @ [HttpGet url]) (chain_url_of product) chain_body \<and>
         parse_pem_bundle L (response_text E chain_body) = Ok (ask # ark # more) \<and>
         chain = [vcek, ask, ark]))"
    (is "_ \<longleftrightarrow> ?open \<and> ?ioctl \<and> ?fetch")
proof -
  have snp: "fst (get_snp_report E ud tr) = Ok rep \<longleftrightarrow> ?open \<and> ?ioctl"
    using get_snp_report_Ok [OF assms, of ud tr rep]
    by (simp add: SNP_GET_REPORT_value SNP_DEVICE_def report_request_def Let_def REPORT_SIZE_def)
  have trace: "fst (get_snp_report E ud tr) = Ok rep \<Longrightarrow> snd (get_snp_report E ud tr) = tr @ snp_request_events ud"
    using get_snp_report_extends [of E ud tr] by (simp add: extends_by_def)
  have result: "fst (get_report_and_chain E L ud product tr) = Ok (rep, chain) \<longleftrightarrow>
      fst (get_snp_report E ud tr) = Ok rep \<and>
      fst (fetch_vcek_chain E L rep product (tr @ snp_request_events ud)) = Ok chain"
    using trace by (auto simp: get_report_and_chain_def io_bind_fst_Ok io_ret_fst)
  have fetch: "fst (get_snp_report E ud tr) = Ok rep \<Longrightarrow>
      fst (fetch_vcek_chain E L rep product (tr @ snp_request_events ud)) = Ok chain \<longleftrightarrow> ?fetch"
    by (simp only: Let_def fetch_vcek_chain_Ok [OF get_snp_report_length [OF assms]])
  show ?thesis
    unfolding result by (rule conj_refine [OF snp fetch])
qed

text \<open>Where the header of the response that \<open>PLAN.md\<close> describes goes: into the report.\<close>

lemma report_with_header:
  assumes "snp_abi_ok E" "fst (get_snp_report E ud tr) = Ok rep"
    and "\<And>tr c a. resp_bytes (resp_data (snd (snp_ioctl E tr c a))) = header @ real (user_data (req_data a)) @ rest"
    and "length header = 32" "length (real ud) = 1184"
  shows "rep = header @ take 1152 (real ud)"
proof -
  obtain out where out: "snp_ioctl E (tr @ [OpenDevice SNP_DEVICE]) SNP_GET_REPORT (report_request ud) = (0, out)"
    and "rep = take REPORT_SIZE (resp_bytes (resp_data out))"
    using assms(1,2) by (auto simp: get_snp_report_Ok)
  moreover have "resp_bytes (resp_data out) = header @ real ud @ rest"
    using assms(3) [of "tr @ [OpenDevice SNP_DEVICE]" SNP_GET_REPORT "report_request ud"] out
    by (simp add: report_request_def Let_def)
  ultimately show ?thesis using assms(4,5) by (simp add: REPORT_SIZE_def)
qed

text \<open>The first request to the key service. A computation grows the trace if it only adds to it.\<close>

definition grows :: "('a, 'e) server_io \<Rightarrow> bool" where
  "grows m \<longleftrightarrow> (\<forall>tr. \<exists>more. snd (m tr) = tr @ more)"

lemma grows_steps: "grows (io_lift r)" "grows (io_ret a)" "grows (kds_get E url f c)"
  by (auto simp: grows_def io_lift_fst io_ret_fst kds_get_trace)

lemma grows_bind:
  assumes "\<And>a. grows (k a)"
  shows "snd (m tr) = tr @ evs \<Longrightarrow> \<exists>more. snd (io_bind m k tr) = tr @ evs @ more"
proof (cases rule: io_bind_cases [of m tr k])
  case (Ok a tr')
  moreover assume "snd (m tr) = tr @ evs"
  moreover obtain more where "snd (k a tr') = tr' @ more" using assms unfolding grows_def by blast
  ultimately show ?thesis by simp
qed auto

lemma grows_io_bind: "grows m \<Longrightarrow> (\<And>a. grows (k a)) \<Longrightarrow> grows (io_bind m k)"
  using grows_bind [of k m] unfolding grows_def by metis

lemma first_request:
  assumes "length rep = REPORT_SIZE" "http_client_build E tr = Inr u"
  shows "\<exists>more. snd (fetch_vcek_chain E L rep product tr) = tr @ HttpGet (vcek_url L product rep) # more"
proof -
  have build: "io_bind (\<lambda>tr. (from_res_ctx c (http_client_build E tr), tr)) k tr = k u tr"
    for c and k :: "unit \<Rightarrow> (bytes list, anyhow) server_io"
    using assms(2) by (simp add: io_bind_def from_res_ctx_def)
  have head: "\<exists>more. snd (io_bind (kds_get E (vcek_url L product rep) f c) k tr) = tr @ HttpGet (vcek_url L product rep) # more"
    if "\<And>a. grows (k a)" for f c and k :: "bytes \<Rightarrow> (bytes list, anyhow) server_io"
    using grows_bind [where k = k and m = "kds_get E (vcek_url L product rep) f c" and tr = tr, OF that kds_get_trace] by simp
  have tail: "grows (io_bind (kds_get E url f c) (\<lambda>b. io_bind (io_lift (r b)) (\<lambda>cs.
      if length cs < 2 then io_lift (Err (e cs)) else io_ret (g cs))))"
    for url f c r e and g :: "bytes list \<Rightarrow> bytes list"
    by (intro grows_io_bind grows_steps) (simp add: grows_steps)
  show ?thesis
    unfolding fetch_vcek_chain_unfold [OF assms(1)] build by (rule head, rule tail)
qed

subsection \<open>Properties\<close>

text \<open>C13: What \<open>get_report_and_chain\<close> returns. It succeeds exactly if the device opens, the
  ioctl (number 0xC0202B00, message version 1, VMPL 0, the caller's 64 bytes as user data, zeroed
  buffers) returns 0 with a zero \<open>exitinfo2\<close>, and both key service requests are answered; the
  report is then the first 1184 bytes of the response and the chain the VCEK followed by the first
  two certificates of the bundle. Number and layout are the ones the comments of the source file give;
  step 3.1 of \<open>PLAN.md\<close> has the number 0xC0304000, and a header of 32 bytes before the report.\<close>

theorem get_report_and_chain_iff:
  assumes "snp_abi_ok E"
  shows "fst (get_report_and_chain E L ud product tr) = Ok (rep, chain) \<longleftrightarrow>
     (\<exists>u. open_device E tr ''/dev/snp-guest'' = Inr u) \<and>
     (\<exists>out. snp_ioctl E (tr @ [OpenDevice ''/dev/snp-guest'']) 0xC0202B00
          \<lparr>msg_version = 1, pad = replicate 7 0,
           req_data = \<lparr>user_data = ud, vmpl = 0, rsvd = replicate 28 0\<rparr>,
           resp_data = \<lparr>resp_bytes = replicate 4000 0\<rparr>, exitinfo2 = 0\<rparr> = (0, out) \<and>
        exitinfo2 out = 0 \<and> rep = take 1184 (resp_bytes (resp_data out))) \<and>
     (let tr1 = tr @ snp_request_events ud; url = vcek_url L product rep in
      (\<exists>u. http_client_build E tr1 = Inr u) \<and>
      (\<exists>vcek chain_body ask ark more.
         kds_answer E tr1 url vcek \<and>
         kds_answer E (tr1 @ [HttpGet url]) (chain_url_of product) chain_body \<and>
         parse_pem_bundle L (response_text E chain_body) = Ok (ask # ark # more) \<and>
         chain = [vcek, ask, ark]))"
  by (rule get_report_and_chain_Ok [OF assms])

text \<open>C27: Order and economy of the effects. Whatever fails, the run opens the device first, then
  asks it once, and contacts the key service only after the device delivered a report: first for the
  VCEK of that report, then for the bundle, each at most once; nothing else happens.\<close>

theorem report_before_key_service:
  assumes "snp_abi_ok E"
  shows "\<exists>n. snd (get_report_and_chain E L ud product tr) =
     (case fst (get_snp_report E ud tr) of
        Ok rep \<Rightarrow> tr @ [OpenDevice SNP_DEVICE, Ioctl SNP_GET_REPORT (report_request ud)] @
          take n [HttpGet (vcek_url L product rep), HttpGet (chain_url_of product)]
      | _ \<Rightarrow> tr @ take n [OpenDevice SNP_DEVICE, Ioctl SNP_GET_REPORT (report_request ud)])"
  using get_report_and_chain_trace [OF assms]
  unfolding snp_request_events_def kds_events_def append.simps .

text \<open>The VCEK request of a report names the 64 bytes at 0x188 of the report and the four TCB
  components of the bytes at 0x038, unambiguously: two reports lead to the same URL exactly if they
  agree on these bytes.\<close>

theorem vcek_request_identifies:
  assumes "hex_ok L" "length rep = REPORT_SIZE" "length rep' = REPORT_SIZE"
  shows "vcek_url L product rep = vcek_url L product rep' \<longleftrightarrow>
     tcb_from_report rep = (tcb_from_report rep' :: (tcb_version, 'e) exec) \<and>
     slice_range rep SNP_OFF_CHIP_ID (SNP_OFF_CHIP_ID + CHIP_ID_LEN) =
       (slice_range rep' SNP_OFF_CHIP_ID (SNP_OFF_CHIP_ID + CHIP_ID_LEN) :: (bytes, 'e) exec)"
  using assms
  by (auto simp: vcek_url_eq_iff tcb_from_report_eq slice_range_def snp_consts REPORT_SIZE_def)

text \<open>C28: The identifier sent to the key service is not the report's chip id: the first request of
  \<open>fetch_vcek_chain\<close> names 64 bytes of the report of which the first 24 are not in the field that
  \<open>report.rs\<close> calls \<open>chip_id\<close>, and the other 40 are the first 40 of it. So it names the chip id only if the
  report repeats itself there.\<close>

theorem vcek_request_misses_chip_id:
  assumes "length rep = REPORT_SIZE" "http_client_build E tr = Inr u"
  shows "\<exists>id c more. chip_id (new_report rep) = (Ok c :: (bytes, 'e) exec) \<and> length id = 64 \<and> length c = 64 \<and>
    snd (fetch_vcek_chain E L rep product tr) = tr @ HttpGet (vcek_url_of product (hex_encode L id)
      \<lparr>bl_spl = rep ! 56, tee_spl = rep ! 57, snp_spl = rep ! 62, ucode_spl = rep ! 63\<rparr>) # more \<and>
    take 24 id = take 24 (drop 392 rep) \<and> drop 24 id = take 40 c \<and>
    (id = c \<longleftrightarrow> take 64 (drop 392 rep) = take 64 (drop 416 rep))"
proof -
  have len: "length rep = 1184" using assms(1) by (simp add: REPORT_SIZE_def)
  have "chip_id (new_report rep) = (Ok (take 64 (drop 416 rep)) :: (bytes, 'e) exec)"
    using len by (simp add: chip.get_eq report_consts)
  moreover have "drop 24 (take 64 (drop 392 rep)) = take 40 (take 64 (drop 416 rep))"
    by (simp add: drop_take min_def)
  moreover obtain more where "snd (fetch_vcek_chain E L rep product tr) = tr @ HttpGet (vcek_url L product rep) # more"
    using first_request [OF assms] by blast
  ultimately show ?thesis
    using len unfolding vcek_url_literal
    by (intro exI [of _ "take 64 (drop 392 rep)"] exI [of _ "take 64 (drop 416 rep)"] exI [of _ more]) simp
qed

end
