(* ===== verification/Gpu_Attestation.thy ===== *)
theory Gpu_Attestation
  imports Server_Env
begin

section \<open>The GPU sidecar (sifir-server/src/gpu\_attestation.rs)\<close>

text \<open>
  \<open>get_gpu_jwt\<close> runs the Python sidecar with the hex of the TLS key hash as its nonce and reads
  the token from the JSON it prints. The process is an oracle of \<open>server_env\<close>; the exit status is the \<open>Display\<close> text of \<open>ExitStatus\<close>.
\<close>

text \<open>The local struct \<open>GpuAttestResult\<close> has one field.\<close>

definition de_gpu_attest_result :: "json \<Rightarrow> string option" where
  "de_gpu_attest_result j =
     Option.bind (struct_fields [''jwt''] j) (\<lambda>fields. required de_string (fields ! 0))"

definition gpu_result_from_slice :: "'a codec_lib_scheme \<Rightarrow> bytes \<Rightarrow> string + string" where
  "gpu_result_from_slice L = from_slice L ''GpuAttestResult'' de_gpu_attest_result"

definition get_gpu_jwt ::
  "('kp, 'cfg, 'b) server_env_scheme \<Rightarrow> 'a codec_lib_scheme \<Rightarrow> bytes \<Rightarrow> string \<Rightarrow>
     (string, anyhow) server_io" where
  "get_gpu_jwt E L hash script_path =
     (let nonce = hex_encode L hash; args = [script_path, ''--nonce'', nonce] in
      io_bind (io_event (RunCommand ''python3'' args) (\<lambda>tr. run_command E tr ''python3'' args)) (\<lambda>ran.
      io_bind (io_lift (from_res_ctx (''spawn gpu_attest.py (script_path='' @ script_path @ '')'') ran)) (\<lambda>out.
      if \<not> success out then
        io_lift (Err [''gpu_attest.py exited with '' @ exit_status out @ '': '' @ utf8_lossy (stderr out)])
      else
        io_lift (from_res_ctx ''parse gpu_attest.py JSON output'' (gpu_result_from_slice L (stdout out))))))"

definition sidecar_args :: "'a codec_lib_scheme \<Rightarrow> bytes \<Rightarrow> string \<Rightarrow> string list" where
  "sidecar_args L hash script = [script, ''--nonce'', hex_encode L hash]"

lemma get_gpu_jwt_extends:
  "extends_by (get_gpu_jwt E L hash script) tr [RunCommand ''python3'' (sidecar_args L hash script)]"
  by (rule extends_by_exact) (simp add: get_gpu_jwt_def sidecar_args_def io_defs Let_def split: exec.splits)

lemma get_gpu_jwt_Ok:
  "fst (get_gpu_jwt E L hash script tr) = Ok jwt \<longleftrightarrow>
     (\<exists>out. run_command E tr ''python3'' (sidecar_args L hash script) = Inr out \<and> success out \<and>
        gpu_result_from_slice L (stdout out) = Inr jwt)"
  by (auto simp: get_gpu_jwt_def sidecar_args_def io_fst from_res_ctx_eq_Ok Let_def split: if_splits)

text \<open>The token is a text of a JSON value, so it is UTF-8.\<close>

lemma gpu_result_utf8:
  assumes "json_ok L" "gpu_result_from_slice L b = Inr jwt"
  shows "utf8 jwt"
proof -
  obtain j where "json_utf8 j" "de_gpu_attest_result j = Some jwt"
    using assms(2) unfolding gpu_result_from_slice_def by (rule from_slice_utf8 [OF assms(1)])
  then show ?thesis
    using required_string_utf8 [of "[''jwt'']" j _ 0 jwt] by (auto simp: de_gpu_attest_result_def bind_eq_Some_conv)
qed

lemma gpu_jwt_utf8: "json_ok L \<Longrightarrow> fst (get_gpu_jwt E L hash script tr) = Ok jwt \<Longrightarrow> utf8 jwt"
  by (auto simp: get_gpu_jwt_Ok intro: gpu_result_utf8)

lemma get_gpu_jwt_no_Panic: "fst (get_gpu_jwt E L hash script tr) \<noteq> Panic"
  by (auto simp: get_gpu_jwt_def io_fst Let_def split: if_splits)

subsection \<open>Properties\<close>

text \<open>C37: The sidecar is run exactly once, as \<open>python3 script --nonce hex\<close> with the hex of the given
  hash; its token is returned exactly if it starts, exits successfully and prints parsable JSON, and
  an unsuccessful exit is an error that shows the status and what the sidecar wrote to its error
  stream.\<close>

theorem get_gpu_jwt_outcome:
  "snd (get_gpu_jwt E L hash script tr) =
      tr @ [RunCommand ''python3'' [script, ''--nonce'', hex_encode L hash]] \<and>
   fst (get_gpu_jwt E L hash script tr) =
     (case run_command E tr ''python3'' [script, ''--nonce'', hex_encode L hash] of
        Inl e \<Rightarrow> Err [''spawn gpu_attest.py (script_path='' @ script @ '')'', e]
      | Inr out \<Rightarrow>
          if success out then
            (case gpu_result_from_slice L (stdout out) of
               Inl e \<Rightarrow> Err [''parse gpu_attest.py JSON output'', e]
             | Inr jwt \<Rightarrow> Ok jwt)
          else Err [''gpu_attest.py exited with '' @ exit_status out @ '': '' @ utf8_lossy (stderr out)])"
  by (auto simp: get_gpu_jwt_def io_defs Let_def split: sum.splits)

end
