(* ===== verification/Tls.thy ===== *)
theory Tls
  imports Amd_Attestation Gpu_Attestation Verify
begin

section \<open>Building the server's TLS identity (sifir-server/src/tls.rs)\<close>

text \<open>
  The three ways to build the server's self-signed certificate with its attestation extension:
  mock, AMD, AMD with a GPU token. Key generation, self-signing and the \<open>rustls\<close> configuration
  are oracles of \<open>server_env\<close>. \<open>rcgen_ok\<close> is what \<open>rcgen\<close> documents: a certificate it signs
  carries the public key of the key pair and the custom extensions it was given.
\<close>

record 'cfg tls_setup =
  server_config :: 'cfg
  setup_measurement :: bytes

definition generate_keypair :: "('kp, 'cfg, 'b) server_env_scheme \<Rightarrow> ('kp, anyhow) server_io" where
  "generate_keypair E =
     io_bind (io_event GenerateKey (gen_keypair E)) (\<lambda>r. io_lift (from_res_ctx ''generate P-256 keypair'' r))"

definition self_sign ::
  "('kp, 'cfg, 'b) server_env_scheme \<Rightarrow> string \<Rightarrow> (64 word list \<times> bytes) list \<Rightarrow> 'kp \<Rightarrow>
     (bytes, anyhow) server_io" where
  "self_sign E ctx exts kp =
     io_bind (io_event (SelfSign exts) (\<lambda>tr. self_signed E tr exts kp)) (\<lambda>r. io_lift (from_res_ctx ctx r))"

definition extract_spki_der ::
  "('kp, 'cfg, 'b) server_env_scheme \<Rightarrow> ('sk, 'vk, 'sg, 'dsg, 'crt, 'oid, 'a) x509_lib_scheme \<Rightarrow> 'kp \<Rightarrow>
     (bytes, anyhow) server_io" where
  "extract_spki_der E L key_pair =
     io_bind (self_sign E ''generate temp cert'' [] key_pair) (\<lambda>temp_cert.
     io_bind (io_lift (from_res_ctx ''parse temp cert DER'' (crt_from_der L temp_cert))) (\<lambda>x509.
     io_lift (from_res_ctx ''encode SPKI DER'' (crt_spki_to_der L x509))))"

definition generate_keypair_and_hash ::
  "('kp, 'cfg, 'b) server_env_scheme \<Rightarrow> ('sk, 'vk, 'sg, 'dsg, 'crt, 'oid, 'a) x509_lib_scheme \<Rightarrow>
     ('kp \<times> bytes \<times> bytes, anyhow) server_io" where
  "generate_keypair_and_hash E L =
     io_bind (generate_keypair E) (\<lambda>key_pair.
     io_bind (extract_spki_der E L key_pair) (\<lambda>spki_der.
     let pubkey_hash = sha256 L spki_der in
     io_bind (io_lift (copy_range (replicate 64 0) 0 32 pubkey_hash)) (\<lambda>ud.
     io_ret (key_pair, pubkey_hash, ud))))"

definition extract_measurement :: "bytes \<Rightarrow> (bytes, 'e) exec" where
  "extract_measurement rep =
     and_then (slice_range rep 0x090 (0x090 + 48)) (to_array 48)"

definition build_server_cert ::
  "('kp, 'cfg, 'b) server_env_scheme \<Rightarrow> ('sk, 'vk, 'sg, 'dsg, 'crt, 'oid, 'a) x509_lib_scheme \<Rightarrow> 'kp \<Rightarrow>
     attestation_extension \<Rightarrow> ('cfg, anyhow) server_io" where
  "build_server_cert E L key_pair ext =
     io_bind (io_lift (to_bytes L ext)) (\<lambda>ext_bytes.
     io_bind (self_sign E ''generate attested cert'' [(ATTEST_OID_ARCS, ext_bytes)] key_pair) (\<lambda>cert.
     io_lift (from_res_ctx ''build ServerConfig'' (server_config_build E cert (kp_serialized_der E key_pair)))))"

definition build_mock_setup ::
  "('kp, 'cfg, 'b) server_env_scheme \<Rightarrow> ('sk, 'vk, 'sg, 'dsg, 'crt, 'oid, 'a) x509_lib_scheme \<Rightarrow>
     ('cfg tls_setup, anyhow) server_io" where
  "build_mock_setup E L =
     io_bind (generate_keypair E) (\<lambda>key_pair.
     io_bind (extract_spki_der E L key_pair) (\<lambda>spki_der.
     let pubkey_hash = sha256 L spki_der; meas = replicate 48 0 in
     io_bind (io_lift (sign_mock_report L pubkey_hash meas)) (\<lambda>report.
     io_bind (build_server_cert E L key_pair (new_mock L (as_bytes report))) (\<lambda>config.
     io_ret \<lparr>server_config = config, setup_measurement = meas\<rparr>))))"

text \<open>The \<open>context\<close> of an effectful step.\<close>

definition io_context :: "string \<Rightarrow> ('a, anyhow) server_io \<Rightarrow> ('a, anyhow) server_io" where
  "io_context c = io_map_err (\<lambda>e. c # e)"

definition build_amd_setup ::
  "('kp, 'cfg, 'b) server_env_scheme \<Rightarrow> ('sk, 'vk, 'sg, 'dsg, 'crt, 'oid, 'a) x509_lib_scheme \<Rightarrow> string \<Rightarrow>
     ('cfg tls_setup, anyhow) server_io" where
  "build_amd_setup E L product =
     io_bind (generate_keypair_and_hash E L) (\<lambda>(key_pair, pubkey_hash, ud).
     io_bind (print_line ''[sifir-server] fetching AMD SNP attestation report...'') (\<lambda>_.
     io_bind (io_context ''get AMD SNP report + VCEK chain'' (get_report_and_chain E L ud product))
       (\<lambda>(rep, vcek_chain).
     io_bind (io_lift (extract_measurement rep)) (\<lambda>meas.
     io_bind (build_server_cert E L key_pair (new_amd L rep vcek_chain)) (\<lambda>config.
     io_ret \<lparr>server_config = config, setup_measurement = meas\<rparr>)))))"

definition build_amd_gpu_setup ::
  "('kp, 'cfg, 'b) server_env_scheme \<Rightarrow> ('sk, 'vk, 'sg, 'dsg, 'crt, 'oid, 'a) x509_lib_scheme \<Rightarrow> string \<Rightarrow>
     string \<Rightarrow> ('cfg tls_setup, anyhow) server_io" where
  "build_amd_gpu_setup E L product script_path =
     io_bind (generate_keypair_and_hash E L) (\<lambda>(key_pair, pubkey_hash, ud).
     io_bind (print_line ''[sifir-server] fetching AMD SNP attestation report...'') (\<lambda>_.
     io_bind (io_context ''get AMD SNP report + VCEK chain'' (get_report_and_chain E L ud product))
       (\<lambda>(rep, vcek_chain).
     io_bind (io_lift (extract_measurement rep)) (\<lambda>meas.
     io_bind (print_line ''[sifir-server] fetching GPU CC attestation JWT...'') (\<lambda>_.
     io_bind (io_context ''get GPU attestation JWT'' (get_gpu_jwt E L pubkey_hash script_path)) (\<lambda>jwt.
     let ext = with_gpu_jwt (new_amd L rep vcek_chain) jwt in
     io_bind (build_server_cert E L key_pair ext) (\<lambda>config.
     io_ret \<lparr>server_config = config, setup_measurement = meas\<rparr>)))))))"

subsection \<open>What the outside world promises\<close>

text \<open>\<open>spki kp\<close> is the DER public key of a key pair. Every certificate that \<open>rcgen\<close> signs with the pair
  parses and carries that key; among its extensions those with the attestation OID are the ones it was
  given under the attestation arcs.\<close>

definition rcgen_ok ::
  "('kp, 'cfg, 'b) server_env_scheme \<Rightarrow> ('sk, 'vk, 'sg, 'dsg, 'crt, 'oid, 'a) x509_lib_scheme \<Rightarrow>
     ('kp \<Rightarrow> bytes) \<Rightarrow> bool" where
  "rcgen_ok E L spki \<longleftrightarrow>
     (\<exists>oid. oid_parse L ATTEST_OID_STR = Inr oid \<and>
       (\<forall>tr exts kp der. self_signed E tr exts kp = Inr der \<longrightarrow>
          (\<exists>crt. crt_from_der L der = Inr crt \<and> crt_spki_to_der L crt = Inr (spki kp) \<and>
             map snd (filter (\<lambda>e. fst e = oid) (case crt_extensions L crt of None \<Rightarrow> [] | Some es \<Rightarrow> es)) =
             map snd (filter (\<lambda>e. fst e = ATTEST_OID_ARCS) exts))))"

text \<open>The server's configuration presents the certificate \<open>der\<close> with the private key of \<open>kp\<close>.\<close>

definition presents ::
  "('kp, 'cfg, 'b) server_env_scheme \<Rightarrow> 'cfg \<Rightarrow> bytes \<Rightarrow> 'kp \<Rightarrow> bool" where
  "presents E cfg der kp \<longleftrightarrow> server_config_build E der (kp_serialized_der E kp) = Inr cfg"

definition identity_of ::
  "('kp, 'cfg, 'b) server_env_scheme \<Rightarrow> ('sk, 'vk, 'sg, 'dsg, 'crt, 'oid, 'a) x509_lib_scheme \<Rightarrow>
     ('kp \<Rightarrow> bytes) \<Rightarrow> 'cfg \<Rightarrow> 'kp \<Rightarrow> attestation_extension \<Rightarrow> bool" where
  "identity_of E L spki cfg kp ext \<longleftrightarrow>
     (\<exists>der cert oid exts b. presents E cfg der kp \<and> crt_from_der L der = Inr cert \<and>
        crt_spki_to_der L cert = Inr (spki kp) \<and>
        oid_parse L ATTEST_OID_STR = Inr oid \<and> crt_extensions L cert = Some exts \<and>
        List.find (\<lambda>e. fst e = oid) exts = Some (oid, b) \<and> from_bytes L b = Inr ext)"

subsection \<open>Lemmas\<close>

lemma generate_keypair_fst [simp]:
  "fst (generate_keypair E tr) = from_res_ctx ''generate P-256 keypair'' (gen_keypair E tr)"
  "snd (generate_keypair E tr) = tr @ [GenerateKey]"
  by (simp_all add: generate_keypair_def io_bind_def io_event_def io_lift_def)

lemma self_sign_fst [simp]:
  "fst (self_sign E ctx exts kp tr) = from_res_ctx ctx (self_signed E tr exts kp)"
  "snd (self_sign E ctx exts kp tr) = tr @ [SelfSign exts]"
  by (simp_all add: self_sign_def io_bind_def io_event_def io_lift_def)

lemma print_line_fst [simp]:
  "fst (print_line s tr) = Ok ()" "snd (print_line s tr) = tr @ [Print s]"
  by (simp_all add: print_line_def io_event_def)

lemma io_context_fst [simp]:
  "fst (io_context c m tr) = with_context c (fst (m tr))" "snd (io_context c m tr) = snd (m tr)"
  by (simp_all add: io_context_def io_map_err_def with_context_def split: prod.splits)

lemma extract_spki_der_trace [simp]: "snd (extract_spki_der E L kp tr) = tr @ [SelfSign []]"
  by (simp add: extract_spki_der_def self_sign_def io_defs split: exec.splits)

lemma extract_spki_der_Ok:
  assumes "rcgen_ok E L spki"
  shows "fst (extract_spki_der E L kp tr) = Ok d \<longleftrightarrow> d = spki kp \<and> (\<exists>der. self_signed E tr [] kp = Inr der)"
proof
  assume "fst (extract_spki_der E L kp tr) = Ok d"
  then obtain der cert where "self_signed E tr [] kp = Inr der" "crt_from_der L der = Inr cert"
    "crt_spki_to_der L cert = Inr d"
    by (auto simp: extract_spki_der_def io_bind_fst_Ok io_lift_fst from_res_ctx_eq_Ok)
  then show "d = spki kp \<and> (\<exists>der. self_signed E tr [] kp = Inr der)"
    using assms unfolding rcgen_ok_def by (metis Inr_inject)
next
  assume "d = spki kp \<and> (\<exists>der. self_signed E tr [] kp = Inr der)"
  then show "fst (extract_spki_der E L kp tr) = Ok d"
    using assms unfolding rcgen_ok_def
    by (auto simp: extract_spki_der_def io_bind_fst_Ok io_lift_fst from_res_ctx_eq_Ok) blast
qed

lemma find_first_filter:
  "map snd (filter (\<lambda>e. fst e = k) xs) = b # bs \<Longrightarrow> List.find (\<lambda>e. fst e = k) xs = Some (k, b)"
  by (induction xs) (auto split: if_splits)

lemma build_server_cert_identity:
  assumes "rcgen_ok E L spki" "json_ok L" "ext_utf8 ext"
    and "fst (build_server_cert E L kp ext tr) = Ok cfg"
  shows "identity_of E L spki cfg kp ext"
proof -
  from assms(4) obtain b der where b: "to_bytes L ext = (Ok b :: (bytes, anyhow) exec)"
    and der: "self_signed E tr [(ATTEST_OID_ARCS, b)] kp = Inr der" "presents E cfg der kp"
    by (auto simp: build_server_cert_def io_bind_fst_Ok io_lift_fst from_res_ctx_eq_Ok presents_def)
  from b have ext: "from_bytes L b = Inr ext"
    using ext_wire_ok [OF assms(2,3)] by (cases "ext_to_vec L ext") (auto simp: to_bytes_def from_bytes_def)
  from assms(1) der(1) obtain oid cert where cert: "oid_parse L ATTEST_OID_STR = Inr oid"
      "crt_from_der L der = Inr cert" "crt_spki_to_der L cert = Inr (spki kp)"
    and "map snd (filter (\<lambda>e. fst e = oid) (case crt_extensions L cert of None \<Rightarrow> [] | Some es \<Rightarrow> es)) = [b]"
    unfolding rcgen_ok_def by fastforce
  then obtain exts where "crt_extensions L cert = Some exts" "List.find (\<lambda>e. fst e = oid) exts = Some (oid, b)"
    using find_first_filter [of oid _ b "[]"] by (cases "crt_extensions L cert") auto
  with der cert ext show ?thesis unfolding identity_of_def by blast
qed

lemma extract_measurement_eq:
  "length rep = REPORT_SIZE \<Longrightarrow> extract_measurement rep = Ok (take 48 (drop 144 rep))"
  by (simp add: extract_measurement_def slice_range_def to_array_def REPORT_SIZE_def)

lemma extract_measurement_agrees:
  "length rep = REPORT_SIZE \<Longrightarrow> extract_measurement rep = measurement (new_report rep)"
  by (simp add: extract_measurement_eq meas.get_eq report_consts)

text \<open>The bytes the server asks the firmware to bind: the hash of its key, then zeros.\<close>

definition bound_user_data :: "'a codec_lib_scheme \<Rightarrow> bytes \<Rightarrow> bytes" where
  "bound_user_data L spki_der = sha256 L spki_der @ replicate 32 0"

lemma copy_hash:
  "sha256_ok L \<Longrightarrow> copy_range (replicate 64 0) 0 32 (sha256 L d) = Ok (bound_user_data L d)"
  by (simp add: copy_range_def overwrite_def bound_user_data_def)

lemma generate_keypair_and_hash_Ok:
  assumes "rcgen_ok E L spki" "sha256_ok L"
    and "fst (generate_keypair_and_hash E L tr) = Ok (kp, hash, ud)"
  shows "hash = sha256 L (spki kp) \<and> ud = bound_user_data L (spki kp)"
  using assms(3)
  by (auto simp: generate_keypair_and_hash_def io_fst Let_def copy_hash [OF assms(2)]
      extract_spki_der_Ok [OF assms(1)])

lemma extract_spki_der_no_Panic [simp]: "fst (extract_spki_der E L kp tr) \<noteq> Panic"
  by (simp add: extract_spki_der_def io_bind_fst_Panic io_lift_fst)

lemma build_server_cert_no_Panic:
  assumes "json_ok L" "ext_utf8 ext"
  shows "fst (build_server_cert E L kp ext tr) \<noteq> Panic"
proof -
  obtain b where "ext_to_vec L ext = Inr b" using ext_writes [OF assms] by blast
  then show ?thesis by (simp add: build_server_cert_def to_bytes_def io_bind_fst_Panic io_lift_fst)
qed

lemma sign_mock_report_no_Panic:
  assumes "p384_ok L" "mock_key_ok L" "length hash = 32" "length m = 48"
  shows "sign_mock_report L hash m \<noteq> (Panic :: (report, 'e) exec)"
  using sign_mock_report_succeeds [OF assms] by (metis exec.distinct(3))

lemma generate_keypair_and_hash_no_Panic:
  assumes "sha256_ok L"
  shows "fst (generate_keypair_and_hash E L tr) \<noteq> Panic"
  by (auto simp: generate_keypair_and_hash_def io_bind_fst_Panic io_lift_fst io_ret_fst Let_def copy_hash [OF assms])

lemma report_and_chain_length:
  assumes "snp_abi_ok E" "fst (get_report_and_chain E L ud product tr) = Ok (rep, chain)"
  shows "length rep = REPORT_SIZE"
  using assms(2) get_snp_report_length [OF assms(1)] by (auto simp: get_report_and_chain_def io_fst)

subsection \<open>Properties\<close>

text \<open>The server's measurement is the report's: the slice \<open>tls.rs\<close> takes for its log and the
  field that the verifier compares are the same 48 bytes.\<close>

theorem extract_measurement_is_measurement:
  assumes "length rep = REPORT_SIZE"
  shows "extract_measurement rep = (measurement (new_report rep) :: (bytes, 'e) exec) \<and>
    (\<exists>m. extract_measurement rep = (Ok m :: (bytes, 'e) exec) \<and> length m = 48)"
  using assms extract_measurement_eq [OF assms, where ?'a = 'e]
  by (simp add: extract_measurement_agrees [symmetric] REPORT_SIZE_def)

text \<open>C33: Building the server's identity never panics, in any of the three modes and whatever the
  device, the key service, the sidecar and the certificate library answer: every failure is an
  error value. (Serialising the extension, whose texts are base64 and the sidecar's token, the fixed mock
  scalar and the fixed-size copies are the places where the code could panic.)\<close>

theorem server_setup_total:
  assumes "sha256_ok L" "p384_ok L" "mock_key_ok L" "json_ok L" "b64_ok L" "snp_abi_ok E"
  shows "fst (build_mock_setup E L tr) \<noteq> Panic \<and> fst (build_amd_setup E L product tr) \<noteq> Panic \<and>
    fst (build_amd_gpu_setup E L product script tr) \<noteq> Panic"
  using assms
  by (auto simp: build_mock_setup_def build_amd_setup_def build_amd_gpu_setup_def io_bind_fst_Panic
      io_lift_fst io_ret_fst Let_def sign_mock_report_no_Panic build_server_cert_no_Panic
      generate_keypair_and_hash_no_Panic get_report_and_chain_no_Panic get_gpu_jwt_no_Panic
      extract_measurement_eq gpu_jwt_utf8 dest!: report_and_chain_length [OF assms(6)] split: prod.splits)

end
