(* ===== verification/Proxy.thy ===== *)
theory Proxy
  imports Server_Env
begin

section \<open>The request proxy (sifir-server/src/proxy.rs)\<close>

text \<open>
  \<open>handle_generate\<close> either answers itself (no backend: the echo mode) or forwards the body to
  the inference backend and passes status and body back. \<open>reqwest::Client::new\<close> panics when no
  TLS backend can be initialised, which \<open>expect\<close> on \<open>http_client_build\<close> keeps. A reply is its
  status and its body, in the three shapes the code makes.
\<close>

text \<open>The server's own \<open>GenerateRequest\<close> has one field, the prompt.\<close>

definition de_request :: "json \<Rightarrow> string option" where
  "de_request j = Option.bind (struct_fields [''prompt''] j) (\<lambda>fields. required de_string (fields ! 0))"

definition request_from_slice :: "'a codec_lib_scheme \<Rightarrow> bytes \<Rightarrow> string + string" where
  "request_from_slice L = from_slice L ''GenerateRequest'' de_request"

record generate_response =
  reply_text :: string
  tokens_used :: "32 word"

definition ser_response :: "generate_response \<Rightarrow> json" where
  "ser_response r = JObj [(''text'', JStr (reply_text r)), (''tokens_used'', ser_u32 (tokens_used r))]"

datatype reply_body = Json generate_response | Raw bytes | Text string | Empty

record http_reply =
  reply_status :: "16 word"
  reply_body :: reply_body

text \<open>\<open>StatusCode::from_u16\<close> accepts 100 to 999.\<close>

definition status_from_u16 :: "16 word \<Rightarrow> 16 word option" where
  "status_from_u16 n = (if 100 \<le> n \<and> n < 1000 then Some n else None)"

definition echo_response :: "'a codec_lib_scheme \<Rightarrow> bytes \<Rightarrow> http_reply" where
  "echo_response L bs =
     (let prompt = (case request_from_slice L bs of Inr p \<Rightarrow> p | Inl _ \<Rightarrow> ''(unparseable request)'');
          resp = \<lparr>reply_text = ''[mock inference] echo: '' @ prompt, tokens_used = 0\<rparr>
      in \<lparr>reply_status = 200, reply_body = Json resp\<rparr>)"

definition handle_generate ::
  "('kp, 'cfg, 'b) server_env_scheme \<Rightarrow> 'a codec_lib_scheme \<Rightarrow> string option \<Rightarrow> bytes \<Rightarrow> string option \<Rightarrow>
     (http_reply, 'e) server_io" where
  "handle_generate E L content_type bs backend_url =
     (case backend_url of
        None \<Rightarrow> io_ret (echo_response L bs)
      | Some url \<Rightarrow>
          io_bind (\<lambda>tr. (expect (http_client_build E tr), tr)) (\<lambda>client.
          let target = url @ ''/v1/generate'' in
          io_bind (io_event (HttpPost target bs content_type) (\<lambda>tr. http_post E tr target bs content_type))
            (\<lambda>sent.
          case sent of
            Inr resp \<Rightarrow>
              let code = (case status_from_u16 (status resp) of Some c \<Rightarrow> c | None \<Rightarrow> 500);
                  content = (case body resp of Inr b \<Rightarrow> b | Inl _ \<Rightarrow> [])
              in io_ret \<lparr>reply_status = code, reply_body = Raw content\<rparr>
          | Inl e \<Rightarrow>
              io_bind (io_event (EPrint (''[proxy] backend error: '' @ e)) (\<lambda>_. ())) (\<lambda>_.
              io_ret \<lparr>reply_status = 502, reply_body = Text (''backend unavailable: '' @ e)\<rparr>))))"

subsection \<open>The parts of a proxied request\<close>

text \<open>The handler suspends twice, where it awaits the head of the backend's response and where it awaits the
  body; other tasks run meanwhile. \<open>proxy_begin\<close> is what it does up to the first of them: it has answered, or
  posted the request. \<open>proxy_head\<close> is what it does with the head, or with the error that came instead, and
  \<open>proxy_body\<close> what it does with the body.\<close>

datatype progress = Answered http_reply | Posted

datatype head_progress = Replied http_reply | ReadingBody "16 word"

definition proxy_begin ::
  "('kp, 'cfg, 'b) server_env_scheme \<Rightarrow> 'a codec_lib_scheme \<Rightarrow> string option \<Rightarrow> bytes \<Rightarrow> string option \<Rightarrow>
     (progress, 'e) server_io" where
  "proxy_begin E L content_type bs backend_url =
     (case backend_url of
        None \<Rightarrow> io_ret (Answered (echo_response L bs))
      | Some url \<Rightarrow>
          io_bind (\<lambda>tr. (expect (http_client_build E tr), tr)) (\<lambda>client.
          io_event (HttpPost (url @ ''/v1/generate'') bs content_type) (\<lambda>_. Posted)))"

definition proxy_head :: "string + 16 word \<Rightarrow> (head_progress, 'e) server_io" where
  "proxy_head sent =
     (case sent of
        Inr st \<Rightarrow> io_ret (ReadingBody (case status_from_u16 st of Some c \<Rightarrow> c | None \<Rightarrow> 500))
      | Inl e \<Rightarrow>
          io_bind (io_event (EPrint (''[proxy] backend error: '' @ e)) (\<lambda>_. ())) (\<lambda>_.
          io_ret (Replied \<lparr>reply_status = 502, reply_body = Text (''backend unavailable: '' @ e)\<rparr>)))"

definition proxy_body :: "16 word \<Rightarrow> string + bytes \<Rightarrow> http_reply" where
  "proxy_body code content =
     \<lparr>reply_status = code, reply_body = Raw (case content of Inr b \<Rightarrow> b | Inl _ \<Rightarrow> [])\<rparr>"

text \<open>What comes after the request was posted, without interruption.\<close>

definition proxy_rest :: "string + 16 word \<Rightarrow> string + bytes \<Rightarrow> (http_reply, 'e) server_io" where
  "proxy_rest sent content =
     io_bind (proxy_head sent) (\<lambda>p. case p of
        Replied reply \<Rightarrow> io_ret reply
      | ReadingBody code \<Rightarrow> io_ret (proxy_body code content))"

text \<open>The handler is its parts, with the oracle's answers between them.\<close>

lemma handle_generate_parts:
  "handle_generate E L ct bs B tr =
     io_bind (proxy_begin E L ct bs B) (\<lambda>p. case p of
        Answered reply \<Rightarrow> io_ret reply
      | Posted \<Rightarrow> (case http_post E tr (the B @ ''/v1/generate'') bs ct of
          Inl e \<Rightarrow> proxy_rest (Inl e) (Inl e)
        | Inr resp \<Rightarrow> proxy_rest (Inr (status resp)) (body resp))) tr"
  by (cases B; cases "http_client_build E tr")
    (simp_all add: handle_generate_def proxy_begin_def proxy_rest_def proxy_head_def proxy_body_def io_defs Let_def
      split: sum.splits)

lemma status_from_u16_bounds: "status_from_u16 n = Some c \<Longrightarrow> 100 \<le> c \<and> c < 1000"
  by (auto simp: status_from_u16_def split: if_splits)

lemma proxy_head_ReadingBody:
  "fst (proxy_head sent tr) = Ok (ReadingBody code) \<Longrightarrow> 100 \<le> code \<and> code < 1000"
  using status_from_u16_bounds by (auto simp: proxy_head_def io_defs split: sum.splits option.splits)

lemma proxy_head_Inr:
  obtains code where "proxy_head (Inr st) tr = (Ok (ReadingBody code), tr)" "\<And>tr. fst (proxy_head (Inr st) tr) = Ok (ReadingBody code)"
  by (rule that) (simp_all add: proxy_head_def io_ret_def)

lemma proxy_head_Inl:
  "proxy_head (Inl e) tr = (Ok (Replied \<lparr>reply_status = 502, reply_body = Text (''backend unavailable: '' @ e)\<rparr>),
     tr @ [EPrint (''[proxy] backend error: '' @ e)])"
  by (simp add: proxy_head_def io_defs)

lemma proxy_rest_simps:
  "fst (proxy_head sent tr) = (Ok (Replied reply) :: (head_progress, 'e) exec) \<Longrightarrow>
     fst (proxy_rest sent content tr) = (Ok reply :: (http_reply, 'e) exec)"
  "fst (proxy_head sent tr) = (Ok (ReadingBody code) :: (head_progress, 'e) exec) \<Longrightarrow>
     fst (proxy_rest sent content tr) = (Ok (proxy_body code content) :: (http_reply, 'e) exec)"
  by (cases sent; auto simp: proxy_rest_def proxy_head_def io_defs)+

lemma proxy_rest_bounds:
  "fst (proxy_rest sent content tr) = Ok reply \<Longrightarrow> 100 \<le> reply_status reply \<and> reply_status reply < 1000"
  using status_from_u16_bounds
  by (cases sent) (auto simp: proxy_rest_def proxy_head_def proxy_body_def io_defs split: option.splits)

subsection \<open>Properties\<close>

text \<open>C34: With a backend the proxy posts the client's body, byte for byte and with its content type,
  to the backend's \<open>/v1/generate\<close>, exactly once; it returns the backend's status and body (a body that
  cannot be read becomes empty), and 502 with the reason when the backend is unreachable.\<close>

theorem proxy_forwards:
  assumes "http_client_build E tr = Inr u"
  shows "handle_generate E L ct bs (Some url) tr =
    (case http_post E tr (url @ ''/v1/generate'') bs ct of
       Inr resp \<Rightarrow>
         ((Ok \<lparr>reply_status = (if 100 \<le> status resp \<and> status resp < 1000 then status resp else 500),
              reply_body = Raw (case body resp of Inr b \<Rightarrow> b | Inl _ \<Rightarrow> [])\<rparr> :: (http_reply, 'e) exec),
          tr @ [HttpPost (url @ ''/v1/generate'') bs ct])
     | Inl e \<Rightarrow>
         (Ok \<lparr>reply_status = 502, reply_body = Text (''backend unavailable: '' @ e)\<rparr>,
          tr @ [HttpPost (url @ ''/v1/generate'') bs ct, EPrint (''[proxy] backend error: '' @ e)]))"
  using assms
  by (auto simp: handle_generate_def io_defs status_from_u16_def Let_def split: sum.splits)

text \<open>Without a backend the proxy answers status 200 with an echo of the prompt (or a fixed text for
  a body that is not a request), counts no tokens, and contacts nobody: the prompt does not leave the
  server.\<close>

theorem echo_mode_is_local:
  "handle_generate E L ct bs None tr =
    ((Ok \<lparr>reply_status = 200, reply_body = Json \<lparr>reply_text = ''[mock inference] echo: '' @
         (case request_from_slice L bs of Inr p \<Rightarrow> p | Inl _ \<Rightarrow> ''(unparseable request)''),
       tokens_used = 0\<rparr>\<rparr> :: (http_reply, 'e) exec), tr)"
  by (simp add: handle_generate_def echo_response_def io_ret_def Let_def)

end
