(* ===== verification/Server_Main.thy ===== *)
theory Server_Main
  imports Tls Proxy
begin

section \<open>The gateway's entry point (sifir-server/src/main.rs)\<close>

text \<open>
  \<open>build_setup\<close> and \<open>server_start\<close> are what \<open>main\<close> does before its loop: choose the attestation by the
  command line and the cargo features of the build, print where it listens, and bind the listener.
  The \<open>axum\<close> router is a parameter that is given the source's route table; \<open>serve_request\<close> is the
  service function. The accept loop is in \<open>Gateway\<close>.
\<close>

record server_args =
  listen :: string
  backend :: "string option"
  amd :: bool
  snp_product :: string
  gpu_cc :: bool
  gpu_attest_script :: "string option"

record cargo_features =
  feature_real_attestation :: bool
  feature_gpu_cc :: bool

definition build_setup ::
  "cargo_features \<Rightarrow> ('kp, 'cfg, 'b) server_env_scheme \<Rightarrow> ('sk, 'vk, 'sg, 'dsg, 'crt, 'oid, 'a) x509_lib_scheme \<Rightarrow>
     server_args \<Rightarrow> ('cfg tls_setup, anyhow) server_io" where
  "build_setup F E L args =
     (case (amd args, gpu_cc args) of
        (False, _) \<Rightarrow>
          io_bind (print_line ''[sifir-server] building TLS setup (mock attestation)...'') (\<lambda>_.
          build_mock_setup E L)
      | (True, False) \<Rightarrow>
          if feature_real_attestation F then
            io_bind (print_line (''[sifir-server] building TLS setup (AMD SEV-SNP, product='' @
              snp_product args @ '')...'')) (\<lambda>_.
            build_amd_setup E L (snp_product args))
          else io_lift (Err [''--amd requires compiling with `--features real-attestation`''])
      | (True, True) \<Rightarrow>
          if feature_real_attestation F \<and> feature_gpu_cc F then
            io_bind (io_lift (ok_or [''--gpu-cc requires --gpu-attest-script <path>''] (gpu_attest_script args)))
              (\<lambda>script.
            io_bind (print_line (''[sifir-server] building TLS setup (AMD SEV-SNP + GPU CC, product='' @
              snp_product args @ '')...'')) (\<lambda>_.
            build_amd_gpu_setup E L (snp_product args) script))
          else io_lift (Err [''--gpu-cc requires compiling with `--features real-attestation,gpu-cc`'']))"

text \<open>The UTF-8 bytes of the dash in a message of the source.\<close>

definition em_dash :: string where "em_dash = [CHR 0xE2, CHR 0x80, CHR 0x94]"

definition server_start ::
  "cargo_features \<Rightarrow> ('kp, 'cfg, 'b) server_env_scheme \<Rightarrow> ('sk, 'vk, 'sg, 'dsg, 'crt, 'oid, 'a) x509_lib_scheme \<Rightarrow>
     server_args \<Rightarrow> ('cfg \<times> string option, anyhow) server_io" where
  "server_start F E L args =
     io_bind (build_setup F E L args) (\<lambda>setup.
     io_bind (print_line (''[sifir-server] measurement: '' @ hex_encode L (setup_measurement setup))) (\<lambda>_.
     io_bind (print_line (''[sifir-server] listening on https://'' @ listen args)) (\<lambda>_.
     io_bind (if backend args = None
         then print_line (''[sifir-server] no backend configured '' @ em_dash @ '' echo mode active'') else io_ret ()) (\<lambda>_.
     io_bind (io_event (Bind (listen args)) (\<lambda>tr. bind_listener E tr (listen args))) (\<lambda>bound.
     io_bind (io_lift (from_res (\<lambda>e. [e]) bound)) (\<lambda>_.
     io_ret (server_config setup, backend args)))))))"

subsection \<open>Routes and requests\<close>

datatype http_method = GET | POST | Other string
datatype handler = GenerateHandler | HealthHandler

record http_request =
  req_method :: http_method
  req_path :: string
  req_content_type :: "string option"
  req_body :: bytes

definition routes :: "(string \<times> http_method \<times> handler) list" where
  "routes = [(''/v1/generate'', POST, GenerateHandler), (''/health'', GET, HealthHandler)]"

text \<open>\<open>router\<close> is \<open>oneshot\<close> of an \<open>axum\<close> router: for a request it fails, chooses a handler of the table,
  or answers by itself (no such route, body too large).\<close>

type_synonym router =
  "(string \<times> http_method \<times> handler) list \<Rightarrow> http_request \<Rightarrow> string + (handler + http_reply)"

definition run_handler ::
  "('kp, 'cfg, 'b) server_env_scheme \<Rightarrow> 'a codec_lib_scheme \<Rightarrow> string option \<Rightarrow> handler \<Rightarrow> http_request \<Rightarrow>
     (http_reply, 'e) server_io" where
  "run_handler E L backend_url h req =
     (case h of
        GenerateHandler \<Rightarrow> handle_generate E L (req_content_type req) (req_body req) backend_url
      | HealthHandler \<Rightarrow> io_ret \<lparr>reply_status = 200, reply_body = Text ''ok''\<rparr>)"

definition serve_request ::
  "router \<Rightarrow> ('kp, 'cfg, 'b) server_env_scheme \<Rightarrow> 'a codec_lib_scheme \<Rightarrow> string option \<Rightarrow> http_request \<Rightarrow>
     (http_reply, 'e) server_io" where
  "serve_request router E L backend_url req =
     (case router routes req of
        Inl e \<Rightarrow>
          io_bind (io_event (EPrint (''[sifir-server] request error: '' @ e)) (\<lambda>_. ())) (\<lambda>_.
          io_ret \<lparr>reply_status = 500, reply_body = Empty\<rparr>)
      | Inr (Inl h) \<Rightarrow> run_handler E L backend_url h req
      | Inr (Inr reply) \<Rightarrow> io_ret reply)"

subsection \<open>What the start of the server runs\<close>

lemma build_setup_mock:
  "\<not> amd args \<Longrightarrow> build_setup F E L args tr =
     build_mock_setup E L (tr @ [Print ''[sifir-server] building TLS setup (mock attestation)...''])"
  by (simp add: build_setup_def print_line_def io_bind_def io_event_def)

lemma build_setup_amd:
  "amd args \<Longrightarrow> \<not> gpu_cc args \<Longrightarrow> feature_real_attestation F \<Longrightarrow> build_setup F E L args tr =
     build_amd_setup E L (snp_product args)
       (tr @ [Print (''[sifir-server] building TLS setup (AMD SEV-SNP, product='' @ snp_product args @ '')...'')])"
  by (simp add: build_setup_def print_line_def io_bind_def io_event_def)

lemma build_setup_gpu:
  "amd args \<Longrightarrow> gpu_cc args \<Longrightarrow> feature_real_attestation F \<Longrightarrow> feature_gpu_cc F \<Longrightarrow>
   gpu_attest_script args = Some script \<Longrightarrow> build_setup F E L args tr =
     build_amd_gpu_setup E L (snp_product args) script
       (tr @ [Print (''[sifir-server] building TLS setup (AMD SEV-SNP + GPU CC, product='' @ snp_product args @ '')...'')])"
  by (simp add: build_setup_def print_line_def io_defs)

lemma build_setup_refused:
  "amd args \<Longrightarrow> \<not> gpu_cc args \<Longrightarrow> \<not> feature_real_attestation F \<Longrightarrow> build_setup F E L args tr =
     (Err [''--amd requires compiling with `--features real-attestation`''], tr)"
  "amd args \<Longrightarrow> gpu_cc args \<Longrightarrow> \<not> (feature_real_attestation F \<and> feature_gpu_cc F) \<Longrightarrow> build_setup F E L args tr =
     (Err [''--gpu-cc requires compiling with `--features real-attestation,gpu-cc`''], tr)"
  "amd args \<Longrightarrow> gpu_cc args \<Longrightarrow> feature_real_attestation F \<Longrightarrow> feature_gpu_cc F \<Longrightarrow>
   gpu_attest_script args = None \<Longrightarrow> build_setup F E L args tr =
     (Err [''--gpu-cc requires --gpu-attest-script <path>''], tr)"
  by (auto simp: build_setup_def) (auto simp: io_lift_def)

definition measurement_line :: "'a codec_lib_scheme \<Rightarrow> bytes \<Rightarrow> server_event" where
  "measurement_line L m = Print (''[sifir-server] measurement: '' @ hex_encode L m)"

lemma server_start_Ok:
  assumes "fst (server_start F E L args tr) = Ok (cfg, B)"
  obtains st where "fst (build_setup F E L args tr) = Ok st" "cfg = server_config st" "B = backend args"
    "measurement_line L (setup_measurement st) \<in> set (snd (server_start F E L args tr))"
proof -
  obtain r tr' where b: "build_setup F E L args tr = (r, tr')" by fastforce
  then show ?thesis
    using assms that
    by (cases r)
      (auto simp: server_start_def io_bind_def print_line_def io_event_def io_ret_def io_lift_def measurement_line_def
        split: if_splits exec.splits)
qed

end
