(* ===== verification/Gateway.thy ===== *)
theory Gateway
  imports Server_Main
begin

section \<open>The gateway's accept loop (sifir-server/src/main.rs)\<close>

text \<open>
  The loop of \<open>main\<close> and the tasks it spawns are the step relation \<open>gateway_step\<close>; they run
  concurrently, so any task may take the next step. A connection may have several requests in flight
  (HTTP/2), and \<open>hyper\<close> runs each of them as a task of its own: \<open>serve_begin\<close> is the service function up
  to the place where a handler first suspends, \<open>proxy_head\<close> and \<open>proxy_body\<close> are what it does when the head
  and the body of the backend's response arrive. The backend may answer anything at any time, in any
  order, or never.
\<close>

subsection \<open>The service function up to the backend\<close>

definition serve_begin ::
  "router \<Rightarrow> ('kp, 'cfg, 'b) server_env_scheme \<Rightarrow> 'a codec_lib_scheme \<Rightarrow> string option \<Rightarrow> http_request \<Rightarrow>
     (progress, 'e) server_io" where
  "serve_begin router E L backend_url req =
     (case router routes req of
        Inl e \<Rightarrow>
          io_bind (io_event (EPrint (''[sifir-server] request error: '' @ e)) (\<lambda>_. ())) (\<lambda>_.
          io_ret (Answered \<lparr>reply_status = 500, reply_body = Empty\<rparr>))
      | Inr (Inl GenerateHandler) \<Rightarrow> proxy_begin E L (req_content_type req) (req_body req) backend_url
      | Inr (Inl HealthHandler) \<Rightarrow> io_ret (Answered \<lparr>reply_status = 200, reply_body = Text ''ok''\<rparr>)
      | Inr (Inr reply) \<Rightarrow> io_ret (Answered reply))"

subsection \<open>The state and its steps\<close>

datatype task = Handshaking string | Serving string

record gateway =
  accepting :: bool \<comment> \<open>\<open>main\<close> has not returned\<close>
  tasks :: "nat \<rightharpoonup> task" \<comment> \<open>the connections: spawned tasks that still run\<close>
  spawned :: nat
  forwarded :: "(nat \<times> http_request) list" \<comment> \<open>the requests posted to the backend: connection and request\<close>
  pending :: "nat set" \<comment> \<open>those of \<open>forwarded\<close> that wait for the backend\<close>
  reading :: "nat \<rightharpoonup> 16 word" \<comment> \<open>those of \<open>pending\<close> whose response has begun, with its status\<close>
  begun :: nat \<comment> \<open>the number of requests that arrived\<close>
  replies :: "(nat \<times> http_request \<times> http_reply) list" \<comment> \<open>connection, request, and its answer\<close>
  trace :: "server_event list"
  secured :: "nat set" \<comment> \<open>the connections whose TLS handshake completed, now or before\<close>

definition gateway_init :: "server_event list \<Rightarrow> gateway" where
  "gateway_init tr =
     \<lparr>accepting = True, tasks = (\<lambda>_. None), spawned = 0, forwarded = [], pending = {},
      reading = (\<lambda>_. None), begun = 0, replies = [],
      trace = tr, secured = {}\<rparr>"

text \<open>
  A failed \<open>accept\<close> makes \<open>main\<close> return, and the runtime drops every task. \<open>peer\<close> is the text of the
  peer's address. A panic of a request ends its stream (HTTP/2) or its connection (HTTP/1), but no other.
  A request that waits outlives its connection or is cancelled with it, as the runtime schedules; its
  answer is delivered only while the connection is there.
\<close>

inductive gateway_step ::
  "router \<Rightarrow> ('kp, 'cfg, 'b) server_env_scheme \<Rightarrow> 'a codec_lib_scheme \<Rightarrow> string option \<Rightarrow> gateway \<Rightarrow> gateway \<Rightarrow> bool"
  for R :: router and E :: "('kp, 'cfg, 'b) server_env_scheme" and L :: "'a codec_lib_scheme" and B :: "string option" where
  accept: "accepting g \<Longrightarrow>
    gateway_step R E L B g (g\<lparr>tasks := (tasks g)(spawned g \<mapsto> Handshaking peer), spawned := Suc (spawned g)\<rparr>)"
| accept_error: "accepting g \<Longrightarrow>
    gateway_step R E L B g (g\<lparr>accepting := False, tasks := (\<lambda>_. None), pending := {},
      reading := (\<lambda>_. None)\<rparr>)"
| tls_error: "tasks g i = Some (Handshaking peer) \<Longrightarrow>
    gateway_step R E L B g (g\<lparr>tasks := (tasks g)(i := None),
      trace := trace g @ [EPrint (''[sifir-server] TLS accept error from '' @ peer @ '': '' @ e)]\<rparr>)"
| tls_done: "tasks g i = Some (Handshaking peer) \<Longrightarrow>
    gateway_step R E L B g (g\<lparr>tasks := (tasks g)(i \<mapsto> Serving peer), secured := insert i (secured g)\<rparr>)"
| request: "tasks g i = Some (Serving peer) \<Longrightarrow>
    serve_begin R E L B req (trace g) = (Ok (Answered reply) :: (progress, anyhow) exec, tr') \<Longrightarrow>
    gateway_step R E L B g (g\<lparr>trace := tr', begun := Suc (begun g), replies := replies g @ [(i, req, reply)]\<rparr>)"
| forward: "tasks g i = Some (Serving peer) \<Longrightarrow>
    serve_begin R E L B req (trace g) = (Ok Posted :: (progress, anyhow) exec, tr') \<Longrightarrow>
    gateway_step R E L B g (g\<lparr>trace := tr', begun := Suc (begun g),
      pending := insert (length (forwarded g)) (pending g), forwarded := forwarded g @ [(i, req)]\<rparr>)"
| request_panic: "tasks g i = Some (Serving peer) \<Longrightarrow>
    serve_begin R E L B req (trace g) = (Panic :: (progress, anyhow) exec, tr') \<Longrightarrow>
    tasks' = tasks g \<or> tasks' = (tasks g)(i := None) \<Longrightarrow>
    gateway_step R E L B g (g\<lparr>trace := tr', begun := Suc (begun g), tasks := tasks'\<rparr>)"
| head: "k \<in> pending g \<Longrightarrow> reading g k = None \<Longrightarrow>
    proxy_head sent (trace g) = (Ok (ReadingBody code) :: (head_progress, anyhow) exec, tr') \<Longrightarrow>
    gateway_step R E L B g (g\<lparr>trace := tr', reading := (reading g)(k \<mapsto> code)\<rparr>)"
| backend_error: "k \<in> pending g \<Longrightarrow> reading g k = None \<Longrightarrow> forwarded g ! k = (i, req) \<Longrightarrow>
    proxy_head sent (trace g) = (Ok (Replied reply) :: (head_progress, anyhow) exec, tr') \<Longrightarrow>
    gateway_step R E L B g (g\<lparr>trace := tr', pending := pending g - {k},
      replies := replies g @ (if tasks g i = None then [] else [(i, req, reply)])\<rparr>)"
| finish: "k \<in> pending g \<Longrightarrow> reading g k = Some code \<Longrightarrow> forwarded g ! k = (i, req) \<Longrightarrow>
    gateway_step R E L B g (g\<lparr>pending := pending g - {k}, reading := (reading g)(k := None),
      replies := replies g @ (if tasks g i = None then [] else [(i, req, proxy_body code content)])\<rparr>)"
| cancel: "k \<in> pending g \<Longrightarrow>
    gateway_step R E L B g (g\<lparr>pending := pending g - {k}, reading := (reading g)(k := None)\<rparr>)"
| closed: "tasks g i = Some (Serving peer) \<Longrightarrow>
    gateway_step R E L B g (g\<lparr>tasks := (tasks g)(i := None)\<rparr>)"
| connection_error: "tasks g i = Some (Serving peer) \<Longrightarrow>
    gateway_step R E L B g (g\<lparr>tasks := (tasks g)(i := None),
      trace := trace g @ [EPrint (''[sifir-server] connection error from '' @ peer @ '': '' @ e)]\<rparr>)"

inductive_cases gateway_stepE: "gateway_step R E L B g g'"

subsection \<open>One request\<close>

text \<open>Without concurrency the parts are the service function, for the answers that the oracle gives.\<close>

lemma serve_request_parts:
  "serve_request R E L B req tr =
     io_bind (serve_begin R E L B req) (\<lambda>p. case p of
        Answered reply \<Rightarrow> io_ret reply
      | Posted \<Rightarrow> (case http_post E tr (the B @ ''/v1/generate'') (req_body req) (req_content_type req) of
          Inl e \<Rightarrow> proxy_rest (Inl e) (Inl e)
        | Inr resp \<Rightarrow> proxy_rest (Inr (status resp)) (body resp))) tr"
  by (auto simp: serve_request_def serve_begin_def run_handler_def handle_generate_parts io_defs
      split: sum.splits handler.splits)

text \<open>What may be answered to a request, whatever the backend did.\<close>

definition reply_for ::
  "router \<Rightarrow> ('kp, 'cfg, 'b) server_env_scheme \<Rightarrow> 'a codec_lib_scheme \<Rightarrow> string option \<Rightarrow> http_request \<Rightarrow> http_reply \<Rightarrow> bool" where
  "reply_for R E L B req reply \<longleftrightarrow>
     (case R routes req of
        Inl e \<Rightarrow> reply = \<lparr>reply_status = 500, reply_body = Empty\<rparr>
      | Inr (Inl GenerateHandler) \<Rightarrow>
          (case B of
             None \<Rightarrow> reply = echo_response L (req_body req)
           | Some url \<Rightarrow> \<exists>sent content. fst (proxy_rest sent content []) = (Ok reply :: (http_reply, anyhow) exec))
      | Inr (Inl HealthHandler) \<Rightarrow> reply = \<lparr>reply_status = 200, reply_body = Text ''ok''\<rparr>
      | Inr (Inr r) \<Rightarrow> reply = r)"

definition forwards :: "router \<Rightarrow> string option \<Rightarrow> http_request \<Rightarrow> bool" where
  "forwards R B req \<longleftrightarrow> R routes req = Inr (Inl GenerateHandler) \<and> B \<noteq> None"

definition post_of :: "string option \<Rightarrow> nat \<times> http_request \<Rightarrow> server_event" where
  "post_of B f = HttpPost (the B @ ''/v1/generate'') (req_body (snd f)) (req_content_type (snd f))"

fun log_line :: "server_event \<Rightarrow> bool" where
  "log_line (EPrint _) = True"
| "log_line _ = False"

lemma serve_begin_Answered:
  "serve_begin R E L B req tr = (Ok (Answered reply), tr') \<Longrightarrow>
     reply_for R E L B req reply \<and> (\<exists>evs. tr' = tr @ evs \<and> list_all log_line evs)"
  by (cases B; cases "http_client_build E tr")
    (auto simp: serve_begin_def reply_for_def proxy_begin_def io_defs split: sum.splits handler.splits)

lemma serve_begin_Posted:
  "serve_begin R E L B req tr = (Ok Posted, tr') \<Longrightarrow> forwards R B req \<and> tr' = tr @ [post_of B (i, req)]"
  by (cases B; cases "http_client_build E tr")
    (auto simp: serve_begin_def forwards_def post_of_def proxy_begin_def io_defs split: sum.splits handler.splits)

lemma serve_begin_Panic: "serve_begin R E L B req tr = (Panic, tr') \<Longrightarrow> tr' = tr"
  by (cases B; cases "http_client_build E tr")
    (auto simp: serve_begin_def proxy_begin_def io_defs split: sum.splits handler.splits)

lemma proxy_head_log:
  "proxy_head sent tr = (p, tr') \<Longrightarrow> \<exists>evs. tr' = tr @ evs \<and> list_all log_line evs"
  by (cases sent) (auto simp: proxy_head_def io_defs)

lemma proxy_head_start:
  "proxy_head sent tr = (Ok p :: (head_progress, anyhow) exec, tr') \<Longrightarrow> fst (proxy_head sent []) = (Ok p :: (head_progress, anyhow) exec)"
  by (cases sent) (auto simp: proxy_head_def io_defs)

text \<open>A status that is being passed on is one that the handler made of a backend's.\<close>

definition passed_status :: "16 word \<Rightarrow> bool" where
  "passed_status code \<longleftrightarrow> (\<exists>sent. fst (proxy_head sent []) = (Ok (ReadingBody code) :: (head_progress, anyhow) exec))"

lemma backend_reply:
  assumes "forwards R B req" "fst (proxy_rest sent content []) = (Ok reply :: (http_reply, anyhow) exec)"
  shows "reply_for R E L B req reply"
proof -
  obtain url where "R routes req = Inr (Inl GenerateHandler)" "B = Some url"
    using assms(1) by (auto simp: forwards_def)
  then show ?thesis unfolding reply_for_def using assms(2) by simp metis
qed

lemma backend_reply_for:
  assumes "forwards R B req"
  shows "proxy_head sent tr = (Ok (Replied reply) :: (head_progress, anyhow) exec, tr') \<Longrightarrow> reply_for R E L B req reply"
    and "passed_status code \<Longrightarrow> reply_for R E L B req (proxy_body code content)"
proof -
  show "reply_for R E L B req reply"
    if "proxy_head sent tr = (Ok (Replied reply) :: (head_progress, anyhow) exec, tr')"
    by (rule backend_reply [OF assms proxy_rest_simps(1) [OF proxy_head_start [OF that]]])
  show "reply_for R E L B req (proxy_body code content)" if code: "passed_status code"
  proof -
    obtain answer where "fst (proxy_head answer []) = (Ok (ReadingBody code) :: (head_progress, anyhow) exec)"
      using code unfolding passed_status_def by blast
    then show ?thesis by (intro backend_reply [OF assms]) (rule proxy_rest_simps(2))
  qed
qed

subsection \<open>The invariant of the loop\<close>

text \<open>What the gateway has done since \<open>tr0\<close>: apart from log lines, exactly the posts of the requests it
  forwarded, in order.\<close>

definition effects_inv :: "server_event list \<Rightarrow> string option \<Rightarrow> gateway \<Rightarrow> bool" where
  "effects_inv tr0 B g \<longleftrightarrow>
     (\<exists>evs. trace g = tr0 @ evs \<and> filter (Not \<circ> log_line) evs = map (post_of B) (forwarded g))"

definition gateway_inv ::
  "server_event list \<Rightarrow> router \<Rightarrow> ('kp, 'cfg, 'b) server_env_scheme \<Rightarrow> 'a codec_lib_scheme \<Rightarrow> string option \<Rightarrow> gateway \<Rightarrow> bool" where
  "gateway_inv tr0 R E L B g \<longleftrightarrow>
     (\<forall>i t. tasks g i = Some t \<longrightarrow> i < spawned g) \<and>
     (\<forall>i peer. tasks g i = Some (Serving peer) \<longrightarrow> i \<in> secured g) \<and>
     (\<forall>(i, req) \<in> set (forwarded g). i \<in> secured g \<and> forwards R B req) \<and>
     (\<forall>(i, req, reply) \<in> set (replies g). i \<in> secured g \<and> reply_for R E L B req reply) \<and>
     (\<forall>k \<in> pending g. k < length (forwarded g)) \<and>
     (\<forall>k code. reading g k = Some code \<longrightarrow> k \<in> pending g \<and> passed_status code) \<and>
     (accepting g \<or> (tasks g = (\<lambda>_. None) \<and> pending g = {})) \<and>
     effects_inv tr0 B g"

lemma effects_inv_log:
  "effects_inv tr0 B g \<Longrightarrow> trace g' = trace g @ evs \<Longrightarrow> list_all log_line evs \<Longrightarrow>
     forwarded g' = forwarded g \<Longrightarrow> effects_inv tr0 B g'"
  by (auto simp: effects_inv_def list_all_iff)

lemma effects_inv_post:
  "effects_inv tr0 B g \<Longrightarrow> trace g' = trace g @ [post_of B f] \<Longrightarrow> forwarded g' = forwarded g @ [f] \<Longrightarrow>
     effects_inv tr0 B g'"
  by (auto simp: effects_inv_def post_of_def)

lemma gateway_init_inv: "gateway_inv tr0 R E L B (gateway_init tr0)"
  by (simp add: gateway_inv_def effects_inv_def gateway_init_def)

lemma waiting_request:
  assumes "gateway_inv tr0 R E L B g" "k \<in> pending g" "forwarded g ! k = (i, req)"
  shows "i \<in> secured g \<and> forwards R B req"
proof -
  have "(i, req) \<in> set (forwarded g)"
    using assms nth_mem [of k "forwarded g"] by (auto simp: gateway_inv_def)
  then show ?thesis using assms(1) by (auto simp: gateway_inv_def)
qed

lemma gateway_step_inv:
  assumes "gateway_step R E L B g g'" "gateway_inv tr0 R E L B g"
  shows "gateway_inv tr0 R E L B g'"
  using assms
proof (induction rule: gateway_step.induct)
  case (accept g peer)
  then show ?case using effects_inv_log [of tr0 B g _ "[]"] by (auto simp: gateway_inv_def less_Suc_eq)
next
  case (request g i peer req reply tr')
  have r: "reply_for R E L B req reply" "\<exists>evs. tr' = trace g @ evs \<and> list_all log_line evs"
    using serve_begin_Answered [OF request(2)] by blast+
  then have "effects_inv tr0 B (g\<lparr>trace := tr', begun := Suc (begun g), replies := replies g @ [(i, req, reply)]\<rparr>)"
    using request(3) effects_inv_log [of tr0 B g] by (auto simp: gateway_inv_def)
  then show ?case using request(1,3) r(1) by (auto simp: gateway_inv_def)
next
  case (forward g i peer req tr')
  have r: "forwards R B req" "tr' = trace g @ [post_of B (i, req)]"
    using serve_begin_Posted [OF forward(2), of i] by blast+
  then have "effects_inv tr0 B (g\<lparr>trace := tr', begun := Suc (begun g),
      pending := insert (length (forwarded g)) (pending g), forwarded := forwarded g @ [(i, req)]\<rparr>)"
    using forward(3) effects_inv_post [of tr0 B g _ "(i, req)"] by (auto simp: gateway_inv_def)
  then show ?case using forward(1,3) r(1) by (auto simp: gateway_inv_def less_Suc_eq)
next
  case (request_panic g i peer req tr' tasks')
  have "tr' = trace g" by (rule serve_begin_Panic [OF request_panic(2)])
  then have "effects_inv tr0 B (g\<lparr>trace := tr', begun := Suc (begun g), tasks := tasks'\<rparr>)"
    using request_panic(4) effects_inv_log [of tr0 B g _ "[]"] by (auto simp: gateway_inv_def)
  then show ?case using request_panic(1,3,4) by (auto simp: gateway_inv_def split: if_splits)
next
  case (head k g sent code tr')
  have "effects_inv tr0 B (g\<lparr>trace := tr', reading := (reading g)(k \<mapsto> code)\<rparr>)"
    using head(4) effects_inv_log [of tr0 B g] proxy_head_log [OF head(3)] by (auto simp: gateway_inv_def)
  moreover have "passed_status code"
    using proxy_head_start [OF head(3)] unfolding passed_status_def by blast
  ultimately show ?case using head(1,4) by (auto simp: gateway_inv_def)
next
  case (backend_error k g i req sent reply tr')
  have f: "i \<in> secured g" "forwards R B req"
    using waiting_request [OF backend_error(5,1,3)] by simp_all
  have "effects_inv tr0 B (g\<lparr>trace := tr', pending := pending g - {k},
      replies := replies g @ (if tasks g i = None then [] else [(i, req, reply)])\<rparr>)"
    using backend_error(5) effects_inv_log [of tr0 B g] proxy_head_log [OF backend_error(4)] by (auto simp: gateway_inv_def)
  then show ?case
    using backend_error(2,5) f backend_reply_for(1) [OF f(2) backend_error(4), of E L] by (auto simp: gateway_inv_def)
next
  case (finish k g code i req content)
  have f: "i \<in> secured g" "forwards R B req"
    using waiting_request [OF finish(4,1,3)] by simp_all
  have "passed_status code" using finish(2,4) by (auto simp: gateway_inv_def)
  then have "reply_for R E L B req (proxy_body code content)" by (rule backend_reply_for(2) [OF f(2)])
  then show ?case
    using finish(4) f by (auto simp: gateway_inv_def effects_inv_def)
qed (auto simp: gateway_inv_def effects_inv_def split: if_splits)

interpretation gw: invariant_system "\<lambda>g. g = gateway_init tr0" "gateway_step R E L B" "gateway_inv tr0 R E L B"
  for tr0 R E L B
  by unfold_locales (auto simp: gateway_init_inv intro: gateway_step_inv)

text \<open>The same in the words of the events.\<close>

lemma gateway_effects:
  assumes "reaches (gateway_step R E L B) (gateway_init tr0) g"
  shows "\<exists>evs. trace g = tr0 @ evs \<and> filter (\<lambda>ev. \<nexists>s. ev = EPrint s) evs =
    map (\<lambda>(i, req). HttpPost (the B @ ''/v1/generate'') (req_body req) (req_content_type req)) (forwarded g)"
proof -
  have log: "(\<lambda>ev. \<nexists>s. ev = EPrint s) = Not \<circ> log_line"
  proof (rule ext)
    fix ev show "(\<nexists>s. ev = EPrint s) = (Not \<circ> log_line) ev" by (cases ev) simp_all
  qed
  have post: "(\<lambda>(i, req). HttpPost (the B @ ''/v1/generate'') (req_body req) (req_content_type req)) = post_of B"
    by (auto simp: post_of_def)
  show ?thesis
    using gw.reachable_inv [OF refl assms] unfolding gateway_inv_def effects_inv_def log post by blast
qed

subsection \<open>The life of a connection\<close>

text \<open>The stages of a connection, in the order in which it passes them.\<close>

datatype stage = Unopened | InHandshake | InService | Over

fun stage_number :: "stage \<Rightarrow> nat" where
  "stage_number Unopened = 0"
| "stage_number InHandshake = 1"
| "stage_number InService = 2"
| "stage_number Over = 3"

lemma stage_number_inject: "stage_number x = stage_number y \<Longrightarrow> x = y"
  by (cases x; cases y) simp_all

instantiation stage :: linorder
begin

definition less_eq_stage :: "stage \<Rightarrow> stage \<Rightarrow> bool" where
  "x \<le> y \<longleftrightarrow> stage_number x \<le> stage_number y"

definition less_stage :: "stage \<Rightarrow> stage \<Rightarrow> bool" where
  "x < y \<longleftrightarrow> stage_number x < stage_number y"

instance
  by intro_classes (auto simp: less_eq_stage_def less_stage_def intro: stage_number_inject)

end

definition stage_of :: "nat \<Rightarrow> gateway \<Rightarrow> stage" where
  "stage_of i g =
     (case tasks g i of
        None \<Rightarrow> if i < spawned g then Over else Unopened
      | Some (Handshaking _) \<Rightarrow> InHandshake
      | Some (Serving _) \<Rightarrow> InService)"

lemma gateway_step_stage:
  assumes "gateway_step R E L B g g'" "gateway_inv tr0 R E L B g"
  shows "stage_of i g \<le> stage_of i g'"
proof -
  have bound: "tasks g j = Some t \<Longrightarrow> j < spawned g" for j t using assms(2) by (simp add: gateway_inv_def)
  from assms(1) show ?thesis
  proof (cases rule: gateway_step.cases)
    case (accept peer)
    then show ?thesis
      using bound [of "spawned g"] by (auto simp: stage_of_def less_eq_stage_def split: option.splits task.splits)
  qed (auto simp: stage_of_def less_eq_stage_def dest: bound split: option.splits task.splits if_splits)
qed

interpretation gw_stage: progress_system "\<lambda>g. g = gateway_init tr0" "gateway_step R E L B"
    "gateway_inv tr0 R E L B" "stage_of i"
  for tr0 R E L B i
  by unfold_locales (rule gateway_step_stage)

subsection \<open>Liveness\<close>

text \<open>A waiting request can be completed by whatever the backend answers, the status and the body of its
  response or an error, whatever else is running; if the status is there already, by any body.\<close>

definition completes ::
  "router \<Rightarrow> ('kp, 'cfg, 'b) server_env_scheme \<Rightarrow> 'a codec_lib_scheme \<Rightarrow> string option \<Rightarrow> gateway \<Rightarrow> nat \<Rightarrow>
     string + 16 word \<Rightarrow> string + bytes \<Rightarrow> bool" where
  "completes R E L B g k sent content \<longleftrightarrow>
     (\<exists>g' reply. reaches (gateway_step R E L B) g g' \<and> pending g' = pending g - {k} \<and> tasks g' = tasks g \<and>
        (case reading g k of
           Some code \<Rightarrow> reply = proxy_body code content
         | None \<Rightarrow> fst (proxy_rest sent content []) = (Ok reply :: (http_reply, anyhow) exec)) \<and>
        replies g' = replies g @ (case forwarded g ! k of (i, req) \<Rightarrow>
          if tasks g i = None then [] else [(i, req, reply)]))"

lemma gateway_reaches_step: "gateway_step R E L B g g' \<Longrightarrow> reaches (gateway_step R E L B) g g'"
  by (rule reaches.more [where t = g]) (rule reaches.here)

lemma reading_completes:
  assumes "k \<in> pending g" "reading g k = Some code" "forwarded g ! k = (i, req)"
  obtains g' where "reaches (gateway_step R E L B) g g'" "pending g' = pending g - {k}" "tasks g' = tasks g"
    "accepting g' = accepting g"
    "replies g' = replies g @ (if tasks g i = None then [] else [(i, req, proxy_body code content)])"
  by (rule that, rule gateway_reaches_step [OF gateway_step.finish [OF assms, of R E L B content]]) simp_all

lemma waiting_completes:
  assumes "k \<in> pending g" "reading g k = None" "forwarded g ! k = (i, req)"
  obtains g' reply where "reaches (gateway_step R E L B) g g'" "pending g' = pending g - {k}" "tasks g' = tasks g"
    "accepting g' = accepting g" "fst (proxy_rest sent content []) = (Ok reply :: (http_reply, anyhow) exec)"
    "replies g' = replies g @ (if tasks g i = None then [] else [(i, req, reply)])"
proof (cases sent)
  case (Inl e)
  obtain reply tr' where head: "proxy_head sent (trace g) = (Ok (Replied reply) :: (head_progress, anyhow) exec, tr')"
    unfolding Inl proxy_head_Inl by blast
  have "fst (proxy_rest sent content []) = (Ok reply :: (http_reply, anyhow) exec)"
    by (rule proxy_rest_simps(1) [OF proxy_head_start [OF head]])
  then show ?thesis
    by (rule that [OF gateway_reaches_step [OF gateway_step.backend_error [OF assms head]], rotated 3]) simp_all
next
  case (Inr st)
  obtain code where head: "proxy_head (Inr st) (trace g) = (Ok (ReadingBody code) :: (head_progress, anyhow) exec, trace g)"
    "fst (proxy_head (Inr st) []) = (Ok (ReadingBody code) :: (head_progress, anyhow) exec)"
    using proxy_head_Inr by metis
  let ?h = "g\<lparr>trace := trace g, reading := (reading g)(k \<mapsto> code)\<rparr>"
  have "gateway_step R E L B g ?h" by (rule gateway_step.head [OF assms(1,2) head(1)])
  moreover obtain g' where g': "reaches (gateway_step R E L B) ?h g'" "pending g' = pending ?h - {k}" "tasks g' = tasks ?h"
    "accepting g' = accepting ?h"
    "replies g' = replies ?h @ (if tasks ?h i = None then [] else [(i, req, proxy_body code content)])"
    by (rule reading_completes [of k ?h code i req R E L B content]) (use assms in simp_all)
  ultimately have "reaches (gateway_step R E L B) g g'"
    by (meson reaches.here reaches.more reaches_trans)
  then show ?thesis
    using g' proxy_rest_simps(2) [OF head(2), of content] Inr by (intro that [of g']) simp_all
qed

lemma pending_completes:
  assumes "k \<in> pending g"
  shows "completes R E L B g k sent content"
proof -
  obtain i req where f: "forwarded g ! k = (i, req)" by fastforce
  show ?thesis
  proof (cases "reading g k")
    case (Some code)
    obtain g' where "reaches (gateway_step R E L B) g g'" "pending g' = pending g - {k}" "tasks g' = tasks g"
      "replies g' = replies g @ (if tasks g i = None then [] else [(i, req, proxy_body code content)])"
      using reading_completes [OF assms Some f] .
    then show ?thesis unfolding completes_def Some f by auto
  next
    case None
    obtain g' reply where "reaches (gateway_step R E L B) g g'" "pending g' = pending g - {k}" "tasks g' = tasks g"
      "fst (proxy_rest sent content []) = (Ok reply :: (http_reply, anyhow) exec)"
      "replies g' = replies g @ (if tasks g i = None then [] else [(i, req, reply)])"
      using waiting_completes [OF assms None f] .
    then show ?thesis unfolding completes_def None f by auto
  qed
qed

text \<open>A gateway that accepts can take one more connection and answer its request, next to all the others.\<close>

lemma connection_opens:
  assumes "accepting g"
  obtains h where "reaches (gateway_step R E L B) g h" "tasks h = (tasks g)(spawned g \<mapsto> Serving peer)"
    "accepting h" "trace h = trace g" "pending h = pending g" "forwarded h = forwarded g" "replies h = replies g"
proof -
  let ?h = "g\<lparr>tasks := (tasks g)(spawned g \<mapsto> Handshaking peer), spawned := Suc (spawned g)\<rparr>"
  let ?h' = "?h\<lparr>tasks := (tasks ?h)(spawned g \<mapsto> Serving peer), secured := insert (spawned g) (secured ?h)\<rparr>"
  have "gateway_step R E L B g ?h" by (rule gateway_step.accept [OF assms])
  moreover have "gateway_step R E L B ?h ?h'" by (rule gateway_step.tls_done) simp
  ultimately have "reaches (gateway_step R E L B) g ?h'" by (blast intro: reaches.intros)
  then show ?thesis by (rule that) (use assms in simp_all)
qed

lemma request_answered:
  assumes "gateway_inv tr0 R E L B g" "tasks g i = Some (Serving peer)"
    and "serve_begin R E L B req (trace g) = (Ok p :: (progress, anyhow) exec, tr')"
  shows "\<exists>g' reply. reaches (gateway_step R E L B) g g' \<and> replies g' = replies g @ [(i, req, reply)] \<and>
    tasks g' = tasks g \<and> pending g' = pending g \<and> accepting g' = accepting g"
proof (cases p)
  case (Answered reply)
  from gateway_step.request [OF assms(2) assms(3) [unfolded this]] show ?thesis
    by (fastforce intro: reaches.intros)
next
  case Posted
  let ?k = "length (forwarded g)"
  let ?h = "g\<lparr>trace := tr', begun := Suc (begun g), pending := insert ?k (pending g),
    forwarded := forwarded g @ [(i, req)]\<rparr>"
  have step: "gateway_step R E L B g ?h" by (rule gateway_step.forward [OF assms(2) assms(3) [unfolded Posted]])
  have new: "?k \<notin> pending g" "reading g ?k = None"
    using assms(1) by (auto simp: gateway_inv_def) (metis less_irrefl not_Some_eq)+
  obtain g' reply where g': "reaches (gateway_step R E L B) ?h g'" "pending g' = pending ?h - {?k}" "tasks g' = tasks ?h"
    "accepting g' = accepting ?h" "replies g' = replies ?h @ (if tasks ?h i = None then [] else [(i, req, reply)])"
    by (rule waiting_completes [of ?k ?h i req R E L B "Inl []" "Inl []"]) (use new in simp_all)
  have "reaches (gateway_step R E L B) g g'"
    using step g'(1) by (meson reaches.here reaches.more reaches_trans)
  then show ?thesis using g' new assms(2) by (intro exI [of _ g'] exI [of _ reply]) auto
qed

subsection \<open>Winding down\<close>

text \<open>What is still to do: two steps for a connection in its handshake, one for an open connection, two for a
  request that waits for the backend, one for a request whose response has begun, one for the listener. A
  step brings work if it opens a connection or begins a request.\<close>

definition handshaking :: "gateway \<Rightarrow> nat set" where
  "handshaking g = {i. \<exists>peer. tasks g i = Some (Handshaking peer)}"

definition serving :: "gateway \<Rightarrow> nat set" where
  "serving g = {i. \<exists>peer. tasks g i = Some (Serving peer)}"

definition waiting :: "gateway \<Rightarrow> nat set" where
  "waiting g = pending g - dom (reading g)"

definition work :: "gateway \<Rightarrow> nat" where
  "work g = 2 * card (handshaking g) + card (serving g) + card (pending g) + card (waiting g) + (if accepting g then 1 else 0)"

definition brings_work :: "gateway \<Rightarrow> gateway \<Rightarrow> bool" where
  "brings_work g g' \<longleftrightarrow> spawned g' \<noteq> spawned g \<or> begun g' \<noteq> begun g"

lemma work_finite:
  assumes "gateway_inv tr0 R E L B g"
  shows "finite (handshaking g)" "finite (serving g)" "finite (pending g)"
    "card (handshaking g) + card (serving g) \<le> spawned g" "card (pending g) \<le> length (forwarded g)"
    "card (waiting g) \<le> length (forwarded g)"
proof -
  have sub: "handshaking g \<union> serving g \<subseteq> {..<spawned g}" "pending g \<subseteq> {..<length (forwarded g)}"
    using assms by (auto simp: gateway_inv_def handshaking_def serving_def)
  then show fin: "finite (handshaking g)" "finite (serving g)" "finite (pending g)"
    by (auto intro: finite_subset)
  have "handshaking g \<inter> serving g = {}" by (auto simp: handshaking_def serving_def)
  then have "card (handshaking g) + card (serving g) = card (handshaking g \<union> serving g)"
    using fin by (simp add: card_Un_disjoint)
  also have "\<dots> \<le> spawned g" using card_mono [OF _ sub(1)] by simp
  finally show "card (handshaking g) + card (serving g) \<le> spawned g" .
  show p: "card (pending g) \<le> length (forwarded g)" using card_mono [OF _ sub(2)] by simp
  show "card (waiting g) \<le> length (forwarded g)"
    using card_mono [OF fin(3), of "waiting g"] p by (auto simp: waiting_def)
qed

text \<open>How the three sets change when a connection ends or completes its handshake.\<close>

lemma task_ends:
  "handshaking (g\<lparr>tasks := (tasks g)(i := None)\<rparr>) = handshaking g - {i}"
  "serving (g\<lparr>tasks := (tasks g)(i := None)\<rparr>) = serving g - {i}"
  by (auto simp: handshaking_def serving_def)

lemma work_task_ends:
  assumes "gateway_inv tr0 R E L B g" "tasks g i \<noteq> None"
  shows "work (g\<lparr>tasks := (tasks g)(i := None)\<rparr>) < work g"
proof (cases "i \<in> handshaking g")
  case True
  then have "i \<notin> serving g" by (auto simp: handshaking_def serving_def)
  then show ?thesis
    using True work_finite(1) [OF assms(1)] card_Diff1_less [of "handshaking g" i]
    by (simp add: work_def task_ends waiting_def)
next
  case False
  have "i \<in> serving g"
    using False assms(2) by (cases "the (tasks g i)") (auto simp: handshaking_def serving_def)
  then show ?thesis
    using False work_finite(2) [OF assms(1)] card_Diff1_less [of "serving g" i]
    by (simp add: work_def task_ends waiting_def)
qed

lemma work_tls_done:
  assumes "gateway_inv tr0 R E L B g" "tasks g i = Some (Handshaking peer)"
  shows "work (g\<lparr>tasks := (tasks g)(i \<mapsto> Serving peer)\<rparr>) < work g"
proof -
  have i: "i \<in> handshaking g" "i \<notin> serving g" using assms(2) by (auto simp: handshaking_def serving_def)
  have "handshaking (g\<lparr>tasks := (tasks g)(i \<mapsto> Serving peer)\<rparr>) = handshaking g - {i}"
    "serving (g\<lparr>tasks := (tasks g)(i \<mapsto> Serving peer)\<rparr>) = insert i (serving g)"
    by (auto simp: handshaking_def serving_def)
  moreover have "card (handshaking g - {i}) < card (handshaking g)"
    by (rule card_Diff1_less [OF work_finite(1) [OF assms(1)] i(1)])
  ultimately show ?thesis
    using i work_finite(2) [OF assms(1)] by (simp add: work_def waiting_def)
qed

lemma work_pending_less:
  assumes "gateway_inv tr0 R E L B g" "k \<in> pending g"
  shows "work (g\<lparr>pending := pending g - {k}, reading := (reading g)(k := None)\<rparr>) < work g"
proof -
  have "card (pending g - {k}) < card (pending g)"
    by (rule card_Diff1_less [OF work_finite(3) [OF assms(1)] assms(2)])
  moreover have "card (pending g - {k} - dom ((reading g)(k := None))) \<le> card (pending g - dom (reading g))"
    by (rule card_mono) (use work_finite(3) [OF assms(1)] in auto)
  ultimately show ?thesis by (simp add: work_def handshaking_def serving_def waiting_def)
qed

lemma work_waiting_less:
  assumes "gateway_inv tr0 R E L B g" "k \<in> pending g" "reading g k = None"
  shows "work (g\<lparr>reading := (reading g)(k \<mapsto> code)\<rparr>) < work g"
proof -
  have "pending g - dom ((reading g)(k \<mapsto> code)) = waiting g - {k}" "k \<in> waiting g"
    using assms(2,3) by (auto simp: waiting_def)
  moreover have "finite (waiting g)" using work_finite(3) [OF assms(1)] by (simp add: waiting_def)
  ultimately show ?thesis
    using card_Diff1_less [of "waiting g" k] by (simp add: work_def handshaking_def serving_def waiting_def)
qed

lemma step_brings_work_or_less:
  assumes "gateway_step R E L B g g'" "gateway_inv tr0 R E L B g"
  shows "brings_work g g' \<or> work g' < work g"
  using assms
proof (induction rule: gateway_step.induct)
  case (accept_error g)
  then show ?case by (simp add: work_def handshaking_def serving_def waiting_def)
next
  case (tls_error g i peer e)
  then show ?case
    using work_task_ends [OF tls_error(2), of i] by (simp add: work_def handshaking_def serving_def waiting_def)
next
  case (tls_done g i peer)
  then show ?case using work_tls_done [OF tls_done(2,1)] by (simp add: work_def handshaking_def serving_def waiting_def)
next
  case (head k g sent code tr')
  then show ?case
    using work_waiting_less [OF head(4,1,2), of code] by (simp add: work_def handshaking_def serving_def waiting_def)
next
  case (backend_error k g i req sent reply tr')
  have "(reading g)(k := None) = reading g" using backend_error(2) by auto
  then show ?case
    using work_pending_less [OF backend_error(5,1)] by (simp add: work_def handshaking_def serving_def waiting_def)
next
  case (finish k g code i req content)
  then show ?case
    using work_pending_less [OF finish(4,1)] by (simp add: work_def handshaking_def serving_def waiting_def)
next
  case (cancel k g)
  then show ?case using work_pending_less [OF cancel(2,1)] by simp
next
  case (closed g i peer)
  then show ?case using work_task_ends [OF closed(2), of i] by simp
next
  case (connection_error g i peer e)
  then show ?case
    using work_task_ends [OF connection_error(2), of i] by (simp add: work_def handshaking_def serving_def waiting_def)
qed (simp_all add: brings_work_def)

subsection \<open>Properties\<close>

text \<open>C17: In every state the gateway can reach, requests were forwarded and answered only on connections
  whose TLS handshake completed; each answer is one for the request it is given to; and apart from lines
  of its error log, everything the gateway did since it started is to post, once and in order, the
  requests it forwards, unchanged, to its backend's \<open>/v1/generate\<close>; in echo mode it posts nothing.\<close>

theorem gateway_answers_over_tls:
  assumes "reaches (gateway_step R E L B) (gateway_init tr0) g"
  shows "(\<forall>(i, req, reply) \<in> set (replies g). i \<in> secured g \<and> reply_for R E L B req reply) \<and>
    (\<forall>(i, req) \<in> set (forwarded g). i \<in> secured g \<and> R routes req = Inr (Inl GenerateHandler) \<and> B \<noteq> None) \<and>
    (\<exists>evs. trace g = tr0 @ evs \<and> filter (\<lambda>ev. \<nexists>s. ev = EPrint s) evs =
       map (\<lambda>(i, req). HttpPost (the B @ ''/v1/generate'') (req_body req) (req_content_type req)) (forwarded g))"
  using gw.reachable_inv [OF refl assms] gateway_effects [OF assms]
  by (auto simp: gateway_inv_def forwards_def)

text \<open>C35: Connections do not disturb each other, and only a failing listener stops the gateway: every
  step leaves all connections but one and all waiting requests but one as they are, unless it is the
  failure of \<open>accept\<close>; after that failure, in any reachable state, no step is possible. And no run takes a
  connection back to an earlier stage: handshake, service, over, in that order.\<close>

theorem gateway_isolation:
  "(\<forall>g g'. gateway_step R E L B g g' \<and> accepting g' \<longrightarrow>
      accepting g \<and> (\<exists>i. \<forall>j. j \<noteq> i \<longrightarrow> tasks g' j = tasks g j) \<and>
      (\<exists>k. \<forall>l. l \<noteq> k \<longrightarrow> (l \<in> pending g' \<longleftrightarrow> l \<in> pending g) \<and> reading g' l = reading g l)) \<and>
   (\<forall>g g'. reaches (gateway_step R E L B) (gateway_init tr0) g \<and> \<not> accepting g \<longrightarrow>
      \<not> gateway_step R E L B g g') \<and>
   (\<forall>i g g'. reaches (gateway_step R E L B) (gateway_init tr0) g \<and> reaches (gateway_step R E L B) g g' \<longrightarrow>
      stage_of i g \<le> stage_of i g')"
proof (intro conjI allI impI)
  fix g g' assume "gateway_step R E L B g g' \<and> accepting g'"
  then show "accepting g" "\<exists>i. \<forall>j. j \<noteq> i \<longrightarrow> tasks g' j = tasks g j"
    "\<exists>k. \<forall>l. l \<noteq> k \<longrightarrow> (l \<in> pending g' \<longleftrightarrow> l \<in> pending g) \<and> reading g' l = reading g l"
    by (auto elim!: gateway_stepE)
next
  fix g g' assume g: "reaches (gateway_step R E L B) (gateway_init tr0) g \<and> \<not> accepting g"
  have "gateway_inv tr0 R E L B g" using gw.reachable_inv [OF refl] g by blast
  with g have "tasks g i = None" "pending g = {}" for i by (simp_all add: gateway_inv_def)
  with g show "\<not> gateway_step R E L B g g'" by (auto elim!: gateway_stepE)
next
  fix i g g' assume "reaches (gateway_step R E L B) (gateway_init tr0) g \<and> reaches (gateway_step R E L B) g g'"
  then show "stage_of i g \<le> stage_of i g'"
    using gw_stage.reaches_rank gw.reachable_inv [OF refl] by blast
qed

text \<open>C18: The gateway keeps serving. From every reachable state in which its listener has not failed, it
  can take another connection and answer the request on it, unless that request makes its handler
  panic, and afterwards the connections and waiting requests it had before are as they were; and every
  request that waits is completed by whatever the backend answers, the reply going to its own connection
  if that is still there.\<close>

theorem gateway_keeps_serving:
  assumes "reaches (gateway_step R E L B) (gateway_init tr0) g" "accepting g"
    and "serve_begin R E L B req (trace g) = (Ok p :: (progress, anyhow) exec, tr')"
  shows "(\<exists>g' reply. reaches (gateway_step R E L B) g g' \<and> accepting g' \<and>
      replies g' = replies g @ [(spawned g, req, reply)] \<and>
      tasks g' = (tasks g)(spawned g \<mapsto> Serving peer) \<and> tasks g (spawned g) = None \<and> pending g' = pending g) \<and>
    (\<forall>k \<in> pending g. \<forall>sent content. completes R E L B g k sent content)"
proof -
  have inv: "gateway_inv tr0 R E L B g" using gw.reachable_inv [OF refl assms(1)] .
  obtain h where h: "reaches (gateway_step R E L B) g h" "tasks h = (tasks g)(spawned g \<mapsto> Serving peer)"
    "accepting h" "trace h = trace g" "pending h = pending g" "replies h = replies g"
    using connection_opens [OF assms(2)] by metis
  have "gateway_inv tr0 R E L B h" by (rule gw.reaches_inv [OF h(1) inv])
  moreover have "tasks h (spawned g) = Some (Serving peer)" using h(2) by simp
  ultimately obtain g' reply where g': "reaches (gateway_step R E L B) h g'"
    "replies g' = replies h @ [(spawned g, req, reply)]" "tasks g' = tasks h" "pending g' = pending h"
    "accepting g' = accepting h"
    using request_answered assms(3) [folded h(4)] by metis
  have new: "tasks g (spawned g) = None"
    using inv by (cases "tasks g (spawned g)") (auto simp: gateway_inv_def)
  have "reaches (gateway_step R E L B) g g'" by (rule reaches_trans [OF h(1) g'(1)])
  then show ?thesis
    using g' h new pending_completes by auto
qed

text \<open>C36: Every answer the gateway gives is an HTTP response: its status is between 100 and 999, whatever
  status a backend claims, provided the router's own answers are.\<close>

theorem gateway_status_bounds:
  assumes "\<And>req r. R routes req = Inr (Inr r) \<Longrightarrow> 100 \<le> reply_status r \<and> reply_status r < 1000"
    and "reaches (gateway_step R E L B) (gateway_init tr0) g" "(i, req, reply) \<in> set (replies g)"
  shows "100 \<le> reply_status reply \<and> reply_status reply < 1000"
proof -
  have "gateway_inv tr0 R E L B g" using gw.reachable_inv [OF refl assms(2)] .
  then have r: "reply_for R E L B req reply" using assms(3) by (auto simp: gateway_inv_def)
  show ?thesis
    using r assms(1) by (auto simp: reply_for_def echo_response_def Let_def dest: proxy_rest_bounds
      split: sum.splits handler.splits option.splits)
qed

text \<open>C19: A gateway whose clients begin nothing new comes to rest: every step from a reachable state that opens no
  connection and begins no request leaves strictly less to do, of at most two steps for each connection
  it ever took, two for each request it forwarded, and one for the listener; so there are no endless
  runs of such steps.\<close>

theorem gateway_winds_down:
  assumes "reaches (gateway_step R E L B) (gateway_init tr0) g"
  shows "(\<forall>g'. gateway_step R E L B g g' \<and> \<not> brings_work g g' \<longrightarrow> work g' < work g) \<and>
    work g \<le> 2 * spawned g + 2 * length (forwarded g) + 1"
proof -
  have inv: "gateway_inv tr0 R E L B g" using gw.reachable_inv [OF refl assms] .
  have "work g \<le> 2 * spawned g + 2 * length (forwarded g) + 1"
    using work_finite(4,5,6) [OF inv] by (simp add: work_def)
  with step_brings_work_or_less [OF _ inv] show ?thesis by blast
qed

end
