(* ===== verification/Gpu_Verify.thy ===== *)
theory Gpu_Verify
  imports Attest_Ext
begin

section \<open>The GPU token check (sifir-client/src/gpu\_verify.rs)\<close>

text \<open>
  \<open>verify_gpu_jwt\<close> splits the token at its dots, decodes the middle part, parses the claims and
  checks nonce, confidential-computing mode and model, in that order. \<open>client_lib\<close> adds the
  client crate's third-party functions to the parameter record: the functions of \<open>rustls\<close> that the
  verifier delegates to (crypto providers
  \<open>'cp\<close>, signed handshake structures \<open>'dss\<close>, signature schemes \<open>'sch\<close>).
\<close>

record gpu_claims =
  gpu_model :: string
  cc_mode :: string

datatype gpu_verify_error =
    MalformedJwt string
  | NonceMismatch string string
  | CcModeNotOn string
  | MissingClaim string

fun show_gpu_verify_error :: "gpu_verify_error \<Rightarrow> string" where
  "show_gpu_verify_error (MalformedJwt e) = ''malformed JWT: '' @ e"
| "show_gpu_verify_error (NonceMismatch expected got) =
     ''GPU JWT nonce mismatch: expected='' @ expected @ '', got='' @ got"
| "show_gpu_verify_error (CcModeNotOn got) =
     ''GPU CC mode is not ON (got '' @ [CHR 0x27] @ got @ [CHR 0x27] @ '')''"
| "show_gpu_verify_error (MissingClaim c) =
     ''GPU JWT missing claim '' @ [CHR 0x27] @ c @ [CHR 0x27]"

record nvidia_claims =
  claim_nonce :: "string option"
  claim_cc_mode :: "string option"
  claim_gpu_model :: "string option"

datatype tls_error = General string | OtherTlsError string

record ('sk, 'vk, 'sg, 'dsg, 'crt, 'oid, 'cp, 'dss, 'sch) client_lib =
  "('sk, 'vk, 'sg, 'dsg, 'crt, 'oid) x509_lib" +
  rustls_verify_tls12 :: "bytes \<Rightarrow> bytes \<Rightarrow> 'dss \<Rightarrow> 'cp \<Rightarrow> tls_error + unit"
  rustls_verify_tls13 :: "bytes \<Rightarrow> bytes \<Rightarrow> 'dss \<Rightarrow> 'cp \<Rightarrow> tls_error + unit"
  provider_schemes :: "'cp \<Rightarrow> 'sch list"

text \<open>The derived reader of the claims, with the names that \<open>serde(rename)\<close> gives its fields.\<close>

definition de_claims :: "json \<Rightarrow> nvidia_claims option" where
  "de_claims j =
     Option.bind (struct_fields [''x-nvidia-attestation-nonce'', ''x-nvidia-cc-mode'', ''x-nvidia-gpu-model''] j)
       (\<lambda>fields.
     Option.bind (optional de_string (fields ! 0)) (\<lambda>n.
     Option.bind (optional de_string (fields ! 1)) (\<lambda>m.
     Option.bind (optional de_string (fields ! 2)) (\<lambda>g.
     Some \<lparr>claim_nonce = n, claim_cc_mode = m, claim_gpu_model = g\<rparr>))))"

definition claims_from_slice :: "'a codec_lib_scheme \<Rightarrow> bytes \<Rightarrow> string + nvidia_claims" where
  "claims_from_slice L = from_slice L ''NvidiaClaims'' de_claims"

definition base64_url_decode :: "'a codec_lib_scheme \<Rightarrow> string \<Rightarrow> string + bytes" where
  "base64_url_decode L s = b64url_decode L s"

definition verify_gpu_jwt ::
  "'a codec_lib_scheme \<Rightarrow> string \<Rightarrow> bytes \<Rightarrow>
     (gpu_claims, gpu_verify_error) exec" where
  "verify_gpu_jwt L jwt tls_pubkey_der =
     (let parts = split_char (CHR ''.'') jwt in
      if length parts \<noteq> 3 then
        Err (MalformedJwt (''expected 3 parts, got '' @ show_nat (length parts)))
      else
        and_then (from_res (\<lambda>e. MalformedJwt (''payload decode: '' @ e)) (base64_url_decode L (parts ! 1)))
          (\<lambda>payload_bytes.
        and_then (from_res (\<lambda>e. MalformedJwt (''payload JSON: '' @ e)) (claims_from_slice L payload_bytes))
          (\<lambda>claims.
        let expected_nonce = hex_encode L (sha256 L tls_pubkey_der) in
        and_then (ok_or (MissingClaim ''x-nvidia-attestation-nonce'') (claim_nonce claims)) (\<lambda>got_nonce.
        if got_nonce \<noteq> expected_nonce then Err (NonceMismatch expected_nonce got_nonce)
        else
          and_then (ok_or (MissingClaim ''x-nvidia-cc-mode'') (claim_cc_mode claims)) (\<lambda>mode.
          if to_lowercase mode \<noteq> ''on'' then Err (CcModeNotOn mode)
          else
            and_then (ok_or (MissingClaim ''x-nvidia-gpu-model'') (claim_gpu_model claims)) (\<lambda>model.
            Ok \<lparr>gpu_model = model, cc_mode = mode\<rparr>))))))"

subsection \<open>Reading the claims\<close>

text \<open>The object with just the three claims, as a token's issuer writes it.\<close>

definition claims_json :: "string \<Rightarrow> string \<Rightarrow> string \<Rightarrow> json" where
  "claims_json n m g = JObj
     [(''x-nvidia-attestation-nonce'', JStr n), (''x-nvidia-cc-mode'', JStr m), (''x-nvidia-gpu-model'', JStr g)]"

lemma de_claims_json:
  "de_claims (claims_json n m g) =
     Some \<lparr>claim_nonce = Some n, claim_cc_mode = Some m, claim_gpu_model = Some g\<rparr>"
proof -
  have "distinct (map fst [(''x-nvidia-attestation-nonce'', JStr n), (''x-nvidia-cc-mode'', JStr m),
      (''x-nvidia-gpu-model'', JStr g)])" by simp
  from struct_fields_object [OF this] show ?thesis
    by (simp add: de_claims_def claims_json_def serde de_option_def)
qed

lemma plain_claims_json: "json_plain 127 (claims_json n m g)"
  by (simp add: claims_json_def)

lemma utf8_claims_json:
  assumes "utf8 n" "utf8 m" "utf8 g"
  shows "json_utf8 (claims_json n m g)"
proof -
  have "utf8 ''x-nvidia-attestation-nonce''" "utf8 ''x-nvidia-cc-mode''" "utf8 ''x-nvidia-gpu-model''"
    by (rule utf8_ascii, simp add: ascii_def)+
  then show ?thesis using assms by (simp add: claims_json_def)
qed

interpretation claims_wire: serde_pair "\<lambda>(n, m, g). utf8 n \<and> utf8 m \<and> utf8 g"
    "\<lambda>(n, m, g). claims_json n m g" de_claims
    "\<lambda>(n, m, g). \<lparr>claim_nonce = Some n, claim_cc_mode = Some m, claim_gpu_model = Some g\<rparr>"
  by unfold_locales (auto simp: de_claims_json plain_claims_json utf8_claims_json)

subsection \<open>Specification\<close>

definition jwt_of :: "string \<Rightarrow> string \<Rightarrow> string \<Rightarrow> string" where
  "jwt_of header payload signature = header @ CHR ''.'' # payload @ CHR ''.'' # signature"

definition no_dot :: "string \<Rightarrow> bool" where
  "no_dot s \<longleftrightarrow> CHR ''.'' \<notin> set s"

definition claims_accepted ::
  "'a codec_lib_scheme \<Rightarrow> bytes \<Rightarrow> nvidia_claims \<Rightarrow> gpu_claims \<Rightarrow> bool" where
  "claims_accepted L pk c g \<longleftrightarrow>
     claim_nonce c = Some (hex_encode L (sha256 L pk)) \<and>
     claim_cc_mode c = Some (cc_mode g) \<and> cc_mode g \<in> {''on'', ''On'', ''oN'', ''ON''} \<and>
     claim_gpu_model c = Some (gpu_model g)"

lemma split_jwt_of:
  "no_dot h \<Longrightarrow> no_dot p \<Longrightarrow> no_dot s \<Longrightarrow> split_char (CHR ''.'') (jwt_of h p s) = [h, p, s]"
  by (simp add: jwt_of_def no_dot_def split_char_join)

lemma split_from_no_sep: "p \<in> set (split_from sep acc s) \<Longrightarrow> sep \<notin> set acc \<Longrightarrow> sep \<notin> set p"
  by (induction sep acc s rule: split_from.induct) (auto split: if_splits)

lemma split_char_no_sep: "p \<in> set (split_char sep s) \<Longrightarrow> sep \<notin> set p"
  unfolding split_char_def by (rule split_from_no_sep) auto

lemma three_parts:
  assumes "length (split_char (CHR ''.'') jwt) = 3"
  obtains h p s where "jwt = jwt_of h p s" "no_dot h" "no_dot p" "no_dot s"
proof -
  obtain h p s where parts: "split_char (CHR ''.'') jwt = [h, p, s]"
    using assms by (auto simp: length_Suc_conv numeral_3_eq_3)
  then have "\<forall>q \<in> {h, p, s}. no_dot q"
    using split_char_no_sep [of _ "CHR ''.''" jwt] by (simp add: no_dot_def)
  then show ?thesis
    using that [of h p s] split_char_three [OF parts] by (simp add: jwt_of_def)
qed

lemma verify_gpu_jwt_payload:
  assumes "no_dot h" "no_dot p" "no_dot s"
  shows "verify_gpu_jwt L (jwt_of h p s) pk = Ok g \<longleftrightarrow>
    (\<exists>b c. b64url_decode L p = Inr b \<and> claims_from_slice L b = Inr c \<and> claims_accepted L pk c g)"
  by (cases g)
    (auto simp: verify_gpu_jwt_def split_jwt_of [OF assms] base64_url_decode_def exec_simps Let_def
      claims_accepted_def to_lowercase_eq_on split: if_splits)

lemma verify_gpu_jwt_no_Panic [simp]: "verify_gpu_jwt L jwt pk \<noteq> Panic"
  by (auto simp: verify_gpu_jwt_def exec_simps Let_def)

lemma verify_gpu_jwt_Ok:
  "verify_gpu_jwt L jwt pk = Ok g \<longleftrightarrow>
    (\<exists>h p s b c. jwt = jwt_of h p s \<and> no_dot h \<and> no_dot p \<and> no_dot s \<and>
       b64url_decode L p = Inr b \<and> claims_from_slice L b = Inr c \<and> claims_accepted L pk c g)"
proof (cases "length (split_char (CHR ''.'') jwt) = 3")
  case True
  then obtain h p s where "jwt = jwt_of h p s" "no_dot h" "no_dot p" "no_dot s"
    by (rule three_parts)
  then show ?thesis
    using verify_gpu_jwt_payload split_jwt_of by (metis list.inject)
next
  case False
  then show ?thesis
    using split_jwt_of by (auto simp: verify_gpu_jwt_def Let_def)
qed

subsection \<open>Properties\<close>

text \<open>C15: A GPU token is accepted if and only if it has three dot-separated parts, the middle one
  decodes to claims whose nonce is the hex SHA-256 of the TLS key, whose mode is \<open>on\<close> in any
  case, and which name a model; the result reports that model and that mode.\<close>

theorem verify_gpu_jwt_iff:
  "verify_gpu_jwt L jwt pk = Ok g \<longleftrightarrow>
    (\<exists>h p s b c. jwt = jwt_of h p s \<and> no_dot h \<and> no_dot p \<and> no_dot s \<and>
       b64url_decode L p = Inr b \<and> claims_from_slice L b = Inr c \<and>
       claim_nonce c = Some (hex_encode L (sha256 L pk)) \<and>
       claim_cc_mode c = Some (cc_mode g) \<and> cc_mode g \<in> {''on'', ''On'', ''oN'', ''ON''} \<and>
       claim_gpu_model c = Some (gpu_model g))"
  unfolding verify_gpu_jwt_Ok claims_accepted_def by blast

text \<open>The token's signature is not checked: replacing the header and the signature by any text
  without a dot changes neither acceptance nor the error. (The source lists this as open.)\<close>

theorem gpu_jwt_signature_unchecked:
  assumes "no_dot h" "no_dot p" "no_dot s" "no_dot h'" "no_dot s'"
  shows "verify_gpu_jwt L (jwt_of h p s) pk = verify_gpu_jwt L (jwt_of h' p s') pk"
  using assms by (simp add: verify_gpu_jwt_def split_jwt_of)

text \<open>A token is bound to one TLS key hash: when it is accepted for two keys, the keys have the
  same SHA-256.\<close>

theorem gpu_jwt_binds_key:
  assumes "hex_ok L" "verify_gpu_jwt L jwt pk = Ok g" "verify_gpu_jwt L jwt pk' = Ok g'"
  shows "sha256 L pk = sha256 L pk'"
proof -
  obtain h p s b c where jwt: "jwt = jwt_of h p s" "no_dot h" "no_dot p" "no_dot s"
    and c: "b64url_decode L p = Inr b" "claims_from_slice L b = Inr c" "claims_accepted L pk c g"
    using assms(2) unfolding verify_gpu_jwt_Ok by blast
  with assms(3) have "claims_accepted L pk' c g'"
    by (auto simp: verify_gpu_jwt_payload)
  with c(3) show ?thesis
    using hex_encode_inj [OF assms(1)] by (simp add: claims_accepted_def)
qed

text \<open>A text with any other number of dots than two is refused as malformed, with the number
  of its parts in the message, and the check never panics.\<close>

theorem gpu_jwt_malformed:
  "(count_list jwt (CHR ''.'') \<noteq> 2 \<longrightarrow> verify_gpu_jwt L jwt pk =
      Err (MalformedJwt (''expected 3 parts, got '' @ show_nat (count_list jwt (CHR ''.'') + 1)))) \<and>
   verify_gpu_jwt L jwt pk \<noteq> Panic"
  by (auto simp: length_split_char) (simp add: verify_gpu_jwt_def length_split_char Let_def)

end
