(* ===== verification/Verifier.thy ===== *)
theory Verifier
  imports Gpu_Verify
begin

section \<open>The client's certificate verifier (sifir-client/src/verifier.rs)\<close>

text \<open>
  \<open>AttestationVerifier\<close> replaces the certificate-authority check of the TLS client.
  \<open>verify_server_cert\<close> is the whole handler: parse the certificate, find and parse the
  extension, decode the report, choose the trust anchor by mode, verify, and check the GPU
  token when that is asked for; its log lines are events. \<open>trusted_server\<close> is what it
  promises of an accepted certificate.
\<close>

datatype client_event =
    Eprintln string
  | Println string
  | CertChecked bytes bool \<comment> \<open>the TLS stack presented a certificate to the verifier: its answer\<close>
  | KeyChecked bytes bool \<comment> \<open>it checked a handshake signature for that certificate\<close>
  | Sent string bytes \<comment> \<open>an HTTP request left the client: its URL and its body\<close>

definition eprintln :: "string \<Rightarrow> (unit, 'e, client_event) io" where
  "eprintln s = io_event (Eprintln s) (\<lambda>_. ())"

definition println :: "string \<Rightarrow> (unit, 'e, client_event) io" where
  "println s = io_event (Println s) (\<lambda>_. ())"

datatype verifier_mode = VMock | VAmdSevSnp

fun show_verifier_mode :: "verifier_mode \<Rightarrow> string" where
  "show_verifier_mode VMock = ''Mock''"
| "show_verifier_mode VAmdSevSnp = ''AmdSevSnp''"

record 'cp attestation_verifier =
  expected_measurement :: bytes
  mode :: verifier_mode
  verify_gpu_cc :: bool
  crypto_provider :: 'cp

definition new_verifier :: "bytes \<Rightarrow> verifier_mode \<Rightarrow> bool \<Rightarrow> 'cp \<Rightarrow> 'cp attestation_verifier" where
  "new_verifier m md gpu cp =
     \<lparr>expected_measurement = m, mode = md, verify_gpu_cc = gpu, crypto_provider = cp\<rparr>"

lemma new_verifier_sel [simp]:
  "expected_measurement (new_verifier m md gpu cp) = m" "mode (new_verifier m md gpu cp) = md"
  "verify_gpu_cc (new_verifier m md gpu cp) = gpu" "crypto_provider (new_verifier m md gpu cp) = cp"
  by (simp_all add: new_verifier_def)

text \<open>\<open>Display\<close> of an \<open>anyhow\<close> error shows its outermost message.\<close>

definition show_anyhow :: "anyhow \<Rightarrow> string" where
  "show_anyhow e = (case e of [] \<Rightarrow> [] | c # _ \<Rightarrow> c)"

definition extract_attest_extension ::
  "('sk, 'vk, 'sg, 'dsg, 'crt, 'oid, 'a) x509_lib_scheme \<Rightarrow> 'crt \<Rightarrow>
     (attestation_extension, tls_error) exec" where
  "extract_attest_extension L cert =
     and_then (from_res (\<lambda>e. General (''OID parse error: '' @ e)) (oid_parse L ATTEST_OID_STR)) (\<lambda>oid.
     let extensions = (case crt_extensions L cert of None \<Rightarrow> [] | Some es \<Rightarrow> es) in
     and_then (ok_or (General ''no Sifir attestation extension in server cert'')
         (List.find (\<lambda>e. fst e = oid) extensions)) (\<lambda>ext.
     from_res (\<lambda>e. General (''attestation extension parse error: '' @ e)) (from_bytes L (snd ext))))"

definition choose_key ::
  "'a codec_lib_scheme \<Rightarrow> verifier_mode \<Rightarrow> attestation_extension \<Rightarrow> (attestation_key, tls_error) exec" where
  "choose_key L md ext =
     (case (md, ext_mode ext) of
        (VMock, Mock) \<Rightarrow> Ok KeyMock
      | (VAmdSevSnp, AmdSevSnp) \<Rightarrow>
          and_then (map_err (\<lambda>e. General (''cert chain decode: '' @ show_anyhow e)) (vcek_chain_der L ext))
            (\<lambda>chain. Ok (KeyAmd chain))
      | _ \<Rightarrow> Err (General (''mode mismatch: client='' @ show_verifier_mode md @ '', server='' @
          show_attestation_mode (ext_mode ext))))"

definition check_gpu ::
  "('sk, 'vk, 'sg, 'dsg, 'crt, 'oid, 'cp, 'dss, 'sch, 'a) client_lib_scheme \<Rightarrow>
     attestation_extension \<Rightarrow> bytes \<Rightarrow> (unit, tls_error, client_event) io" where
  "check_gpu L ext spki_der =
     (case gpu_jwt ext of
        Some jwt \<Rightarrow>
          io_bind (io_lift (map_err (\<lambda>e. General (''GPU JWT failed: '' @ show_gpu_verify_error e))
            (verify_gpu_jwt L jwt spki_der))) (\<lambda>claims.
          eprintln (''[client] GPU attestation verified: model='' @ gpu_model claims @ '', cc_mode='' @
            cc_mode claims))
      | None \<Rightarrow> io_lift (Err (General ''--gpu-cc set but server cert has no GPU JWT'')))"

definition verify_server_cert ::
  "('sk, 'vk, 'sg, 'dsg, 'crt, 'oid, 'cp, 'dss, 'sch, 'a) client_lib_scheme \<Rightarrow>
     'cp attestation_verifier \<Rightarrow> bytes \<Rightarrow> (unit, tls_error, client_event) io" where
  "verify_server_cert L self end_entity =
     io_bind (io_lift (from_res (\<lambda>e. General (''cert parse error: '' @ e)) (crt_from_der L end_entity)))
       (\<lambda>cert.
     io_bind (io_lift (from_res (\<lambda>e. General (''SPKI encode error: '' @ e)) (crt_spki_to_der L cert)))
       (\<lambda>spki_der.
     io_bind (io_lift (extract_attest_extension L cert)) (\<lambda>attest_ext.
     io_bind (io_lift (map_err (\<lambda>e. General (''report decode error: '' @ show_anyhow e))
         (report_bytes L attest_ext))) (\<lambda>report_raw.
     io_bind (io_lift (choose_key L (mode self) attest_ext)) (\<lambda>attest_key.
     io_bind (io_lift (map_err (\<lambda>e. General (''attestation failed: '' @ show_verify_error e))
         (verify L report_raw attest_key (expected_measurement self) spki_der))) (\<lambda>_.
     io_bind (eprintln ''[client] CPU attestation verified (AMD SEV-SNP / mock)'') (\<lambda>_.
     io_bind (if verify_gpu_cc self then check_gpu L attest_ext spki_der else io_ret ()) (\<lambda>_.
     io_bind (eprintln ''[client] attestation verified successfully'') (\<lambda>_.
     io_ret ())))))))))"

definition verify_tls12_signature ::
  "('sk, 'vk, 'sg, 'dsg, 'crt, 'oid, 'cp, 'dss, 'sch, 'a) client_lib_scheme \<Rightarrow>
     'cp attestation_verifier \<Rightarrow> bytes \<Rightarrow> bytes \<Rightarrow> 'dss \<Rightarrow> tls_error + unit" where
  "verify_tls12_signature L self message cert dss =
     rustls_verify_tls12 L message cert dss (crypto_provider self)"

definition verify_tls13_signature ::
  "('sk, 'vk, 'sg, 'dsg, 'crt, 'oid, 'cp, 'dss, 'sch, 'a) client_lib_scheme \<Rightarrow>
     'cp attestation_verifier \<Rightarrow> bytes \<Rightarrow> bytes \<Rightarrow> 'dss \<Rightarrow> tls_error + unit" where
  "verify_tls13_signature L self message cert dss =
     rustls_verify_tls13 L message cert dss (crypto_provider self)"

definition supported_verify_schemes ::
  "('sk, 'vk, 'sg, 'dsg, 'crt, 'oid, 'cp, 'dss, 'sch, 'a) client_lib_scheme \<Rightarrow>
     'cp attestation_verifier \<Rightarrow> 'sch list" where
  "supported_verify_schemes L self = provider_schemes L (crypto_provider self)"

text \<open>The verifier as \<open>rustls\<close> sees it: the trait object that the client configures its TLS stack with.\<close>

record ('dss, 'sch) server_cert_verifier =
  check_cert :: "bytes \<Rightarrow> (unit, tls_error, client_event) io"
  check_tls12 :: "bytes \<Rightarrow> bytes \<Rightarrow> 'dss \<Rightarrow> tls_error + unit"
  check_tls13 :: "bytes \<Rightarrow> bytes \<Rightarrow> 'dss \<Rightarrow> tls_error + unit"
  check_schemes :: "'sch list"

definition as_server_cert_verifier ::
  "('sk, 'vk, 'sg, 'dsg, 'crt, 'oid, 'cp, 'dss, 'sch, 'a) client_lib_scheme \<Rightarrow>
     'cp attestation_verifier \<Rightarrow> ('dss, 'sch) server_cert_verifier" where
  "as_server_cert_verifier L self =
     \<lparr>check_cert = verify_server_cert L self,
      check_tls12 = verify_tls12_signature L self,
      check_tls13 = verify_tls13_signature L self,
      check_schemes = supported_verify_schemes L self\<rparr>"

subsection \<open>What an accepted certificate is\<close>

definition carries_extension ::
  "('sk, 'vk, 'sg, 'dsg, 'crt, 'oid, 'a) x509_lib_scheme \<Rightarrow> 'crt \<Rightarrow> attestation_extension \<Rightarrow> bool" where
  "carries_extension L cert ext \<longleftrightarrow>
     (\<exists>oid exts b. oid_parse L ATTEST_OID_STR = Inr oid \<and> crt_extensions L cert = Some exts \<and>
        List.find (\<lambda>e. fst e = oid) exts = Some (oid, b) \<and> from_bytes L b = Inr ext)"

definition key_for ::
  "'a codec_lib_scheme \<Rightarrow> verifier_mode \<Rightarrow> attestation_extension \<Rightarrow> attestation_key \<Rightarrow> bool" where
  "key_for L md ext key \<longleftrightarrow>
     (md = VMock \<and> ext_mode ext = Mock \<and> key = KeyMock) \<or>
     (md = VAmdSevSnp \<and> ext_mode ext = AmdSevSnp \<and>
        (\<exists>chain. vcek_chain_der L ext = Ok chain \<and> key = KeyAmd chain))"

definition gpu_attested ::
  "('sk, 'vk, 'sg, 'dsg, 'crt, 'oid, 'cp, 'dss, 'sch, 'a) client_lib_scheme \<Rightarrow>
     attestation_extension \<Rightarrow> bytes \<Rightarrow> bool" where
  "gpu_attested L ext spki \<longleftrightarrow>
     (\<exists>jwt g. gpu_jwt ext = Some jwt \<and> verify_gpu_jwt L jwt spki = Ok g)"

definition trusted_server ::
  "('sk, 'vk, 'sg, 'dsg, 'crt, 'oid, 'cp, 'dss, 'sch, 'a) client_lib_scheme \<Rightarrow>
     'cp attestation_verifier \<Rightarrow> bytes \<Rightarrow> bool" where
  "trusted_server L self der \<longleftrightarrow>
     (\<exists>cert spki ext rep key.
        crt_from_der L der = Inr cert \<and> crt_spki_to_der L cert = Inr spki \<and>
        carries_extension L cert ext \<and> report_bytes L ext = Ok rep \<and>
        key_for L (mode self) ext key \<and>
        verify L rep key (expected_measurement self) spki = Ok () \<and>
        (verify_gpu_cc self \<longrightarrow> gpu_attested L ext spki))"

lemma find_fst: "List.find (\<lambda>e. fst e = k) xs = Some e \<Longrightarrow> fst e = k"
  by (induction xs) (auto split: if_splits)

lemma extract_attest_extension_Ok [exec_simps]:
  "extract_attest_extension L cert = Ok ext \<longleftrightarrow> carries_extension L cert ext"
proof
  assume "extract_attest_extension L cert = Ok ext"
  then obtain oid e where "oid_parse L ATTEST_OID_STR = Inr oid"
    "List.find (\<lambda>e. fst e = oid) (case crt_extensions L cert of None \<Rightarrow> [] | Some es \<Rightarrow> es) = Some e"
    "from_bytes L (snd e) = Inr ext"
    by (auto simp: extract_attest_extension_def exec_simps)
  then show "carries_extension L cert ext"
    using find_fst [of oid _ e]
    by (cases e) (auto simp: carries_extension_def split: option.splits)
qed (auto simp: extract_attest_extension_def carries_extension_def exec_simps)

lemma choose_key_Ok [exec_simps]: "choose_key L md ext = Ok key \<longleftrightarrow> key_for L md ext key"
  by (cases md; cases "ext_mode ext") (auto simp: choose_key_def key_for_def exec_simps)

lemma eprintln_simp [simp]: "eprintln s tr = (Ok (), tr @ [Eprintln s])"
  by (simp add: eprintln_def io_event_def)

lemma io_bind_eprintln [simp]: "io_bind (eprintln s) f tr = f () (tr @ [Eprintln s])"
  by (simp add: io_bind_def)

lemma extract_attest_extension_no_Panic [simp]: "extract_attest_extension L cert \<noteq> Panic"
  by (auto simp: extract_attest_extension_def exec_simps Let_def)

lemma choose_key_no_Panic [simp]: "choose_key L md ext \<noteq> Panic"
  by (cases md; cases "ext_mode ext") (auto simp: choose_key_def exec_simps)

text \<open>The result, without the log.\<close>

lemma check_gpu_result:
  "fst (check_gpu L ext spki tr) = Ok () \<longleftrightarrow> gpu_attested L ext spki"
  "fst (check_gpu L ext spki tr) \<noteq> Panic"
  by (cases "gpu_jwt ext"; auto simp: check_gpu_def gpu_attested_def io_fst exec_simps)+

lemma gpu_step_result:
  "fst ((if b then check_gpu L ext spki else io_ret ()) tr) = Ok () \<longleftrightarrow> (b \<longrightarrow> gpu_attested L ext spki)"
  "fst ((if b then check_gpu L ext spki else io_ret ()) tr) \<noteq> Panic"
  by (simp_all add: check_gpu_result io_fst)

lemma verify_server_cert_Ok:
  "fst (verify_server_cert L self der tr) = Ok () \<longleftrightarrow> trusted_server L self der"
  unfolding verify_server_cert_def trusted_server_def
  by (simp add: io_fst gpu_step_result from_res_eq_Ok extract_attest_extension_Ok choose_key_Ok)

lemma verify_server_cert_no_Panic:
  assumes "mock_key_ok L"
  shows "fst (verify_server_cert L self der tr) \<noteq> Panic"
proof -
  have "verify L rep key m spki \<noteq> Panic" if "length rep = REPORT_SIZE" for rep key m spki
    using that all_checks.seq_no_panic [of L "new_report rep"] assms
    by (simp add: verify_seq verify_pre_def)
  then show ?thesis
    by (auto simp: verify_server_cert_def io_fst from_res_eq_Ok report_bytes_Ok gpu_step_result)
qed

text \<open>A run is the CPU check, which has no effects, and then the log lines and the GPU check.\<close>

definition cpu_check ::
  "('sk, 'vk, 'sg, 'dsg, 'crt, 'oid, 'cp, 'dss, 'sch, 'a) client_lib_scheme \<Rightarrow>
     'cp attestation_verifier \<Rightarrow> bytes \<Rightarrow> (attestation_extension \<times> bytes, tls_error) exec" where
  "cpu_check L self end_entity =
     and_then (from_res (\<lambda>e. General (''cert parse error: '' @ e)) (crt_from_der L end_entity)) (\<lambda>cert.
     and_then (from_res (\<lambda>e. General (''SPKI encode error: '' @ e)) (crt_spki_to_der L cert)) (\<lambda>spki_der.
     and_then (extract_attest_extension L cert) (\<lambda>ext.
     and_then (map_err (\<lambda>e. General (''report decode error: '' @ show_anyhow e)) (report_bytes L ext)) (\<lambda>rep.
     and_then (choose_key L (mode self) ext) (\<lambda>key.
     and_then (map_err (\<lambda>e. General (''attestation failed: '' @ show_verify_error e))
         (verify L rep key (expected_measurement self) spki_der)) (\<lambda>_.
     Ok (ext, spki_der)))))))"

lemma io_bind_lift_and_then:
  "io_bind (io_lift (and_then m f)) k = io_bind (io_lift m) (\<lambda>a. io_bind (io_lift (f a)) k)"
  by (cases m) simp_all

lemma verify_server_cert_run:
  "verify_server_cert L self der = io_bind (io_lift (cpu_check L self der)) (\<lambda>(ext, spki).
     io_bind (eprintln ''[client] CPU attestation verified (AMD SEV-SNP / mock)'') (\<lambda>_.
     io_bind (if verify_gpu_cc self then check_gpu L ext spki else io_ret ()) (\<lambda>_.
     io_bind (eprintln ''[client] attestation verified successfully'') (\<lambda>_.
     io_ret ()))))"
  unfolding verify_server_cert_def cpu_check_def io_bind_lift_and_then io_bind_lift prod.case by (rule refl)

text \<open>The extension and key of a certificate that passes it.\<close>

definition attested_by ::
  "('sk, 'vk, 'sg, 'dsg, 'crt, 'oid, 'cp, 'dss, 'sch, 'a) client_lib_scheme \<Rightarrow>
     'cp attestation_verifier \<Rightarrow> bytes \<Rightarrow> attestation_extension \<Rightarrow> bytes \<Rightarrow> bool" where
  "attested_by L self der ext spki \<longleftrightarrow>
     (\<exists>cert rep key. crt_from_der L der = Inr cert \<and> crt_spki_to_der L cert = Inr spki \<and>
        carries_extension L cert ext \<and> report_bytes L ext = Ok rep \<and> key_for L (mode self) ext key \<and>
        verify L rep key (expected_measurement self) spki = Ok ())"

lemma cpu_check_Ok: "cpu_check L self der = Ok (ext, spki) \<longleftrightarrow> attested_by L self der ext spki"
  by (auto simp: cpu_check_def attested_by_def exec_simps) (metis old.unit.exhaust)

definition gpu_line :: "gpu_claims \<Rightarrow> client_event" where
  "gpu_line g = Eprintln (''[client] GPU attestation verified: model='' @ gpu_model g @ '', cc_mode='' @ cc_mode g)"

lemma check_gpu_cases:
  obtains (good) jwt g where "gpu_jwt ext = Some jwt" "verify_gpu_jwt L jwt spki = Ok g"
    "check_gpu L ext spki tr = (Ok (), tr @ [gpu_line g])"
  | (bad) e where "check_gpu L ext spki tr = (Err e, tr)"
proof (cases "gpu_jwt ext")
  case None
  then show ?thesis by (intro bad) (simp add: check_gpu_def io_lift_def)
next
  case (Some jwt)
  show ?thesis
  proof (cases "verify_gpu_jwt L jwt spki")
    case (Ok g)
    then show ?thesis by (intro good [OF Some]) (simp_all add: check_gpu_def Some gpu_line_def)
  next
    case (Err e)
    then show ?thesis by (intro bad) (simp add: check_gpu_def Some, simp add: io_lift_def)
  qed simp
qed

text \<open>The verifier logs, but sends nothing.\<close>

fun log_event :: "client_event \<Rightarrow> bool" where
  "log_event (Eprintln _) = True"
| "log_event (Println _) = True"
| "log_event _ = False"

definition logs_only :: "('a, 'e, client_event) io \<Rightarrow> bool" where
  "logs_only m \<longleftrightarrow> (\<forall>tr. \<exists>evs. snd (m tr) = tr @ evs \<and> list_all log_event evs)"

named_theorems logs_intro \<open>computations that only log\<close>

lemma logs_only_bind [logs_intro]:
  assumes "logs_only m" "\<And>a. logs_only (f a)"
  shows "logs_only (io_bind m f)"
  unfolding logs_only_def
proof
  fix tr
  obtain r evs where m: "m tr = (r, tr @ evs)" "list_all log_event evs"
    using assms(1) unfolding logs_only_def by (metis prod.collapse)
  show "\<exists>evs. snd (io_bind m f tr) = tr @ evs \<and> list_all log_event evs"
  proof (cases r)
    case (Ok a)
    obtain evs' where "snd (f a (tr @ evs)) = (tr @ evs) @ evs'" "list_all log_event evs'"
      using assms(2) unfolding logs_only_def by metis
    then show ?thesis using m Ok by (intro exI [of _ "evs @ evs'"]) (simp add: io_bind_def)
  qed (use m in \<open>auto simp: io_bind_def\<close>)
qed

lemma logs_only_steps [logs_intro]:
  "logs_only (io_lift m)" "logs_only (io_ret a)" "logs_only (eprintln s)"
  by (auto simp: logs_only_def io_lift_def io_ret_def)

lemma logs_only_check_gpu [logs_intro]: "logs_only (check_gpu L ext spki)"
  by (cases "gpu_jwt ext") (auto simp: check_gpu_def intro!: logs_intro)

lemma verify_server_cert_logs: "logs_only (verify_server_cert L self der)"
  unfolding verify_server_cert_def by (auto intro!: logs_intro)

subsection \<open>Properties\<close>

text \<open>C3: The client accepts a server certificate if and only if it is a trusted server's: it
  parses, its first extension with the attestation OID parses, the report decodes, the
  extension's mode is the client's, the report verifies against the certificate's own public
  key, the anchor of that mode and the expected measurement, and, when the GPU check is on,
  the extension has a GPU token that is accepted for the same key.\<close>

theorem verify_server_cert_iff:
  "fst (verify_server_cert L self der tr) = Ok () \<longleftrightarrow> trusted_server L self der"
  by (rule verify_server_cert_Ok)

text \<open>C2: What acceptance guarantees, written out over the bytes: the report in the certificate
  binds the SHA-256 of the certificate's public key, is signed under the anchor of the client's
  own mode, and carries the expected measurement unless that is all zeros.\<close>

theorem accepted_server_is_attested:
  assumes "mock_key_ok L" "fst (verify_server_cert L self der tr) = Ok ()"
  shows "\<exists>cert spki ext rep vk.
    crt_from_der L der = Inr cert \<and> crt_spki_to_der L cert = Inr spki \<and>
    carries_extension L cert ext \<and> b64_decode L (report_b64 ext) = Inr rep \<and>
    length rep = REPORT_SIZE \<and> take 32 (drop 80 rep) = sha256 L spki \<and>
    signed_under L vk rep \<and>
    (mode self = VMock \<longrightarrow> anchor L KeyMock = Ok vk) \<and>
    (mode self = VAmdSevSnp \<longrightarrow> (\<exists>chain. vcek_chain_der L ext = Ok chain \<and> trust_chain L chain vk)) \<and>
    (expected_measurement self = replicate 48 0 \<or> take 48 (drop 144 rep) = expected_measurement self) \<and>
    (verify_gpu_cc self \<longrightarrow> gpu_attested L ext spki)"
proof -
  from assms(2) obtain cert spki ext rep key where *:
    "crt_from_der L der = Inr cert" "crt_spki_to_der L cert = Inr spki"
    "carries_extension L cert ext" "report_bytes L ext = Ok rep" "key_for L (mode self) ext key"
    "verify L rep key (expected_measurement self) spki = Ok ()"
    "verify_gpu_cc self \<longrightarrow> gpu_attested L ext spki"
    unfolding verify_server_cert_Ok trusted_server_def by blast
  then have rep: "b64_decode L (report_b64 ext) = Inr rep" "length rep = REPORT_SIZE"
    by (simp_all add: report_bytes_Ok)
  from *(6) verify_Ok [OF rep(2) assms(1)] obtain vk where
    "key_bound L rep spki" "anchor L key = Ok vk" "signed_under L vk rep"
    "measurement_accepted (expected_measurement self) rep"
    by (auto simp: signature_accepted_def split: exec.splits)
  moreover from this(2) *(5)
  have "mode self = VMock \<longrightarrow> anchor L KeyMock = Ok vk"
    and "mode self = VAmdSevSnp \<longrightarrow> (\<exists>chain. vcek_chain_der L ext = Ok chain \<and> trust_chain L chain vk)"
    by (auto simp: key_for_def anchor_def [of _ "KeyAmd _"] vcek_verifying_key_Ok)
  ultimately show ?thesis
    using * rep unfolding key_bound_def measurement_accepted_def by blast
qed

text \<open>C29: There is no downgrade: when the modes of client and extension differ, the certificate is
  refused with both modes in the message, before the report is even verified.\<close>

theorem mode_mismatch_refused:
  assumes "crt_from_der L der = Inr cert" "crt_spki_to_der L cert = Inr spki"
    and "carries_extension L cert ext" "report_bytes L ext = Ok rep"
    and "show_verifier_mode (mode self) \<noteq> show_attestation_mode (ext_mode ext)"
  shows "verify_server_cert L self der tr =
    (Err (General (''mode mismatch: client='' @ show_verifier_mode (mode self) @ '', server='' @
       show_attestation_mode (ext_mode ext))), tr)"
proof -
  have "extract_attest_extension L cert = Ok ext"
    using assms(3) by (simp add: extract_attest_extension_Ok)
  moreover have "choose_key L (mode self) ext = Err (General (''mode mismatch: client='' @
      show_verifier_mode (mode self) @ '', server='' @ show_attestation_mode (ext_mode ext)))"
    using assms(5) by (cases "mode self"; cases "ext_mode ext") (simp_all add: choose_key_def)
  ultimately show ?thesis
    using assms(1,2,4) by (simp add: verify_server_cert_def) (simp add: io_lift_def)
qed

text \<open>With the GPU check on, a certificate whose extension has no GPU token is refused even
  though its CPU attestation verifies, with exactly one line logged.\<close>

theorem missing_gpu_jwt_refused:
  assumes "crt_from_der L der = Inr cert" "crt_spki_to_der L cert = Inr spki"
    and "carries_extension L cert ext" "report_bytes L ext = Ok rep"
    and "key_for L (mode self) ext key" "verify L rep key (expected_measurement self) spki = Ok ()"
    and "verify_gpu_cc self" "gpu_jwt ext = None"
  shows "verify_server_cert L self der tr =
    (Err (General ''--gpu-cc set but server cert has no GPU JWT''),
     tr @ [Eprintln ''[client] CPU attestation verified (AMD SEV-SNP / mock)''])"
proof -
  have "extract_attest_extension L cert = Ok ext" "choose_key L (mode self) ext = Ok key"
    using assms(3,5) by (simp_all add: extract_attest_extension_Ok choose_key_Ok)
  then show ?thesis
    using assms by (simp add: verify_server_cert_def check_gpu_def) (simp add: io_lift_def)
qed

text \<open>C30: The verifier never panics, and its log is all it does and is honest. Accepting a certificate it
  writes its first line, with the GPU check on the model and mode of the claims of the certificate's own
  token, and its last line, and nothing else; refusing one it writes nothing, or the first line alone, and
  that only if the CPU attestation is good and the GPU check is on. So it sends nothing, the token
  included.\<close>

theorem verify_server_cert_log:
  assumes "mock_key_ok L"
  shows "case fst (verify_server_cert L self der tr) of
      Ok _ \<Rightarrow> \<exists>ext spki gpu. attested_by L self der ext spki \<and>
        snd (verify_server_cert L self der tr) =
          tr @ Eprintln ''[client] CPU attestation verified (AMD SEV-SNP / mock)'' # gpu @
            [Eprintln ''[client] attestation verified successfully''] \<and>
        (if verify_gpu_cc self
         then \<exists>jwt g. gpu_jwt ext = Some jwt \<and> verify_gpu_jwt L jwt spki = Ok g \<and>
           gpu = [Eprintln (''[client] GPU attestation verified: model='' @ gpu_model g @ '', cc_mode='' @ cc_mode g)]
         else gpu = [])
    | Err _ \<Rightarrow> snd (verify_server_cert L self der tr) =
        (if verify_gpu_cc self \<and> (\<exists>ext spki. attested_by L self der ext spki)
         then tr @ [Eprintln ''[client] CPU attestation verified (AMD SEV-SNP / mock)''] else tr)
    | Panic \<Rightarrow> False"
proof (cases "cpu_check L self der")
  case (Ok p)
  then obtain ext spki where cpu: "cpu_check L self der = Ok (ext, spki)" by (cases p) simp
  then have att: "attested_by L self der ext spki" by (simp add: cpu_check_Ok)
  let ?tr = "tr @ [Eprintln ''[client] CPU attestation verified (AMD SEV-SNP / mock)'']"
  show ?thesis
  proof (cases "verify_gpu_cc self")
    case True
    show ?thesis
    proof (cases rule: check_gpu_cases [of ext L spki ?tr])
      case (good jwt g)
      then have run: "verify_server_cert L self der tr = (Ok (), ?tr @ [gpu_line g, Eprintln ''[client] attestation verified successfully''])"
        using True good(3) by (simp add: verify_server_cert_run cpu io_bind_def io_ret_def io_lift_def)
      show ?thesis using att good(1,2) True unfolding run gpu_line_def [symmetric] by auto
    next
      case (bad e)
      then have run: "verify_server_cert L self der tr = (Err e, ?tr)"
        using True bad by (simp add: verify_server_cert_run cpu io_bind_def io_lift_def)
      show ?thesis using att True unfolding run by auto
    qed
  next
    case False
    then have run: "verify_server_cert L self der tr = (Ok (), ?tr @ [Eprintln ''[client] attestation verified successfully''])"
      by (simp add: verify_server_cert_run cpu) (simp add: io_ret_def)
    show ?thesis using att False unfolding run by auto
  qed
next
  case (Err e)
  then have run: "verify_server_cert L self der tr = (Err e, tr)"
    by (simp add: verify_server_cert_run) (simp add: io_lift_def)
  have "\<not> attested_by L self der ext spki" for ext spki
    using Err cpu_check_Ok [of L self der ext spki] by simp
  then show ?thesis unfolding run by simp
next
  case Panic
  then have "fst (verify_server_cert L self der tr) = Panic"
    by (simp add: verify_server_cert_run) (simp add: io_lift_def)
  then show ?thesis using verify_server_cert_no_Panic [OF assms] by blast
qed

end
