(* ===== verification/Handshake.thy ===== *)
theory Handshake
  imports Tls Verifier
begin

section \<open>Server and client together\<close>

text \<open>
  What the client of \<open>sifir-client\<close> decides about the certificates that \<open>sifir-server\<close> builds.
  Each lemma follows one of the three builders of \<open>tls.rs\<close> to the verdict of
  \<open>verify_server_cert\<close> on the certificate that the built configuration presents; the theory
  \<open>System\<close> states them for the two programs.
\<close>

lemma carries_extension_unique:
  "carries_extension L cert ext \<Longrightarrow> carries_extension L cert ext' \<Longrightarrow> ext = ext'"
  unfolding extract_attest_extension_Ok [symmetric] by simp

lemma identity_ofE:
  assumes "identity_of E L spki cfg kp ext"
  obtains der cert where "presents E cfg der kp" "crt_from_der L der = Inr cert"
    "crt_spki_to_der L cert = Inr (spki kp)" "carries_extension L cert ext"
  using assms unfolding identity_of_def carries_extension_def by blast

lemma trusted_server_identity:
  assumes "crt_from_der L der = Inr cert" "crt_spki_to_der L cert = Inr d"
    and "carries_extension L cert ext" "report_bytes L ext = Ok rep"
  shows "trusted_server L self der \<longleftrightarrow>
     (\<exists>key. key_for L (mode self) ext key \<and> verify L rep key (expected_measurement self) d = Ok ()) \<and>
     (verify_gpu_cc self \<longrightarrow> gpu_attested L ext d)"
    (is "_ \<longleftrightarrow> ?verdict")
proof
  assume "trusted_server L self der"
  then obtain cert' spki ext' rep' key where *: "crt_from_der L der = Inr cert'"
    "crt_spki_to_der L cert' = Inr spki" "carries_extension L cert' ext'" "report_bytes L ext' = Ok rep'"
    "key_for L (mode self) ext' key" "verify L rep' key (expected_measurement self) spki = Ok ()"
    "verify_gpu_cc self \<longrightarrow> gpu_attested L ext' spki"
    unfolding trusted_server_def by blast
  have same: "cert' = cert" using *(1) assms(1) by simp
  have "spki = d" using *(2) assms(2) by (simp add: same)
  moreover have ext: "ext' = ext" using *(3) carries_extension_unique [OF assms(3)] same by blast
  moreover have "rep' = rep" using *(4) assms(4) by (simp add: ext)
  ultimately show ?verdict using *(5-7) by blast
next
  assume ?verdict
  with assms show "trusted_server L self der" unfolding trusted_server_def by blast
qed

text \<open>The verdict on an identity whose extension carries a mock report, or AMD evidence.\<close>

lemma mock_identity_verdict:
  assumes laws: "b64_ok L" "p384_ok L" "mock_key_ok L" "sha256_ok L"
    and id: "identity_of E L spki cfg kp (new_mock L (as_bytes r))"
    and signed: "sign_mock_report L (sha256 L (spki kp)) (replicate 48 0) = (Ok r :: (report, 'e) exec)"
  shows "\<exists>der. presents E cfg der kp \<and> (\<forall>self tr. fst (verify_server_cert L self der tr) = Ok () \<longleftrightarrow>
     mode self = VMock \<and> \<not> verify_gpu_cc self \<and> expected_measurement self = replicate 48 0)"
proof -
  obtain der cert where der: "presents E cfg der kp" "crt_from_der L der = Inr cert"
    "crt_spki_to_der L cert = Inr (spki kp)" "carries_extension L cert (new_mock L (as_bytes r))"
    using id by (rule identity_ofE)
  have v: "length (raw r) = REPORT_SIZE \<and> verify L (raw r) KeyMock (replicate 48 0) (spki kp) = Ok ()"
    using mock_signed_verifies [OF laws(2,3) _ _ signed] laws(4) by simp
  from mock_signed [OF laws(2,3) _ _ signed] laws(4) have meas: "take 48 (drop 144 (raw r)) = replicate 48 0"
    by (metis length_replicate sha256_okD)
  have "verify L (raw r) KeyMock m (spki kp) = Ok () \<longleftrightarrow> m = replicate 48 0" for m
    using v meas by (auto simp: verify_Ok [OF _ laws(3)] measurement_accepted_def)
  moreover have "report_bytes L (new_mock L (as_bytes r)) = Ok (raw r)"
    using mock_codec.read_build [of L "raw r"] laws(1) v by (simp add: as_bytes_def)
  ultimately have "fst (verify_server_cert L self der tr) = Ok () \<longleftrightarrow>
     mode self = VMock \<and> \<not> verify_gpu_cc self \<and> expected_measurement self = replicate 48 0" for self tr
    unfolding verify_server_cert_Ok trusted_server_identity [OF der(2-4) \<open>report_bytes _ _ = _\<close>]
    by (auto simp: key_for_def new_mock_def gpu_attested_def)
  with der(1) show ?thesis by blast
qed

text \<open>When AMD evidence for a key is good: it binds the hash of the key and is signed under the key at
  the end of its own chain of trust.\<close>

definition good_evidence ::
  "('sk, 'vk, 'sg, 'dsg, 'crt, 'oid, 'a) x509_lib_scheme \<Rightarrow> bytes \<Rightarrow> bytes list \<Rightarrow> bytes \<Rightarrow> bool" where
  "good_evidence L rep chain d \<longleftrightarrow>
     take 32 (drop 80 rep) = sha256 L d \<and> (\<exists>vk. trust_chain L chain vk \<and> signed_under L vk rep)"

lemma amd_verify:
  assumes "length rep = REPORT_SIZE" "mock_key_ok L"
  shows "verify L rep (KeyAmd chain) m d = Ok () \<longleftrightarrow>
     good_evidence L rep chain d \<and> (m = replicate 48 0 \<or> m = take 48 (drop 144 rep))"
  unfolding verify_Ok [OF assms] good_evidence_def key_bound_def measurement_accepted_def
    signature_accepted_def anchor_def
  by (auto simp: vcek_verifying_key_Ok [symmetric] split: exec.splits)

lemma amd_read:
  assumes "b64_ok L" "length rep = REPORT_SIZE"
  shows "report_bytes L (new_amd L rep chain) = Ok rep" "vcek_chain_der L (new_amd L rep chain) = Ok chain"
    "report_bytes L (with_gpu_jwt (new_amd L rep chain) jwt) = Ok rep"
    "vcek_chain_der L (with_gpu_jwt (new_amd L rep chain) jwt) = Ok chain"
  using amd_codec.read_build [of L "(rep, chain)"] amd_codec.read_build_jwt [of L "(rep, chain)" jwt] assms
  by (auto simp: read_evidence_def and_then_eq_Ok)

lemma amd_identity_verdict:
  assumes laws: "mock_key_ok L" "length rep = REPORT_SIZE"
    and id: "identity_of E L spki cfg kp ext"
    and ext: "report_bytes L ext = Ok rep" "vcek_chain_der L ext = Ok chain" "ext_mode ext = AmdSevSnp"
  shows "\<exists>der. presents E cfg der kp \<and> (\<forall>self tr. fst (verify_server_cert L self der tr) = Ok () \<longleftrightarrow>
     mode self = VAmdSevSnp \<and> good_evidence L rep chain (spki kp) \<and>
     (expected_measurement self = replicate 48 0 \<or> expected_measurement self = take 48 (drop 144 rep)) \<and>
     (verify_gpu_cc self \<longrightarrow> gpu_attested L ext (spki kp)))"
proof -
  obtain der cert where der: "presents E cfg der kp" "crt_from_der L der = Inr cert"
    "crt_spki_to_der L cert = Inr (spki kp)" "carries_extension L cert ext"
    using id by (rule identity_ofE)
  have "fst (verify_server_cert L self der tr) = Ok () \<longleftrightarrow>
     mode self = VAmdSevSnp \<and> good_evidence L rep chain (spki kp) \<and>
     (expected_measurement self = replicate 48 0 \<or> expected_measurement self = take 48 (drop 144 rep)) \<and>
     (verify_gpu_cc self \<longrightarrow> gpu_attested L ext (spki kp))" for self tr
    unfolding verify_server_cert_Ok trusted_server_identity [OF der(2-4) ext(1)]
    using ext by (auto simp: key_for_def amd_verify [OF laws(2,1)])
  with der(1) show ?thesis by blast
qed

text \<open>The steps of the builders.\<close>

lemma build_mock_setup_Ok:
  assumes "rcgen_ok E L spki" "fst (build_mock_setup E L tr) = Ok setup"
  obtains kp r tr' where "gen_keypair E tr = Inr kp"
    "sign_mock_report L (sha256 L (spki kp)) (replicate 48 0) = (Ok r :: (report, anyhow) exec)"
    "fst (build_server_cert E L kp (new_mock L (as_bytes r)) tr') = Ok (server_config setup)"
    "setup_measurement setup = replicate 48 0"
  using assms(2)
  by (auto simp: build_mock_setup_def io_fst Let_def extract_spki_der_Ok [OF assms(1)] from_res_ctx_eq_Ok)

definition before_device :: "server_event list" where
  "before_device =
     [GenerateKey, SelfSign [], Print ''[sifir-server] fetching AMD SNP attestation report...'']"

lemma generate_keypair_and_hash_trace:
  assumes "fst (generate_keypair_and_hash E L tr) = Ok a"
  shows "snd (generate_keypair_and_hash E L tr) = tr @ [GenerateKey, SelfSign []]"
proof -
  from assms obtain kp where kp: "fst (generate_keypair E tr) = Ok kp"
    by (auto simp: generate_keypair_and_hash_def io_bind_fst_Ok)
  then have g: "generate_keypair E tr = (Ok kp, tr @ [GenerateKey])"
    by (simp add: prod_eq_iff)
  from assms obtain d where "fst (extract_spki_der E L kp (tr @ [GenerateKey])) = Ok d"
    by (auto simp: generate_keypair_and_hash_def io_bind_fst_Ok g)
  then have "extract_spki_der E L kp (tr @ [GenerateKey]) = (Ok d, tr @ [GenerateKey, SelfSign []])"
    by (simp add: prod_eq_iff)
  then show ?thesis
    by (simp add: generate_keypair_and_hash_def io_bind_def g Let_def io_lift_def io_ret_def split: exec.splits)
qed

lemma build_amd_setup_Ok:
  assumes "rcgen_ok E L spki" "sha256_ok L" "fst (build_amd_setup E L product tr) = Ok setup"
  obtains kp rep chain tr' where
    "fst (get_report_and_chain E L (bound_user_data L (spki kp)) product (tr @ before_device)) = Ok (rep, chain)"
    "extract_measurement rep = (Ok (setup_measurement setup) :: (bytes, anyhow) exec)"
    "fst (build_server_cert E L kp (new_amd L rep chain) tr') = Ok (server_config setup)"
proof -
  from assms(3) obtain kp hash ud where gen: "fst (generate_keypair_and_hash E L tr) = Ok (kp, hash, ud)"
    by (auto simp: build_amd_setup_def io_bind_fst_Ok)
  from generate_keypair_and_hash_Ok [OF assms(1,2) gen] have ud: "ud = bound_user_data L (spki kp)" by simp
  from assms(3) show ?thesis
    by (auto simp: build_amd_setup_def io_bind_fst_Ok io_lift_fst io_ret_fst gen ud before_device_def
        generate_keypair_and_hash_trace [OF gen] intro: that)
qed

lemma build_amd_gpu_setup_Ok:
  assumes "rcgen_ok E L spki" "sha256_ok L" "fst (build_amd_gpu_setup E L product script tr) = Ok setup"
  obtains kp rep chain jwt tr1 tr2 where
    "fst (get_report_and_chain E L (bound_user_data L (spki kp)) product (tr @ before_device)) = Ok (rep, chain)"
    "extract_measurement rep = (Ok (setup_measurement setup) :: (bytes, anyhow) exec)"
    "fst (get_gpu_jwt E L (sha256 L (spki kp)) script tr1) = Ok jwt"
    "fst (build_server_cert E L kp (with_gpu_jwt (new_amd L rep chain) jwt) tr2) = Ok (server_config setup)"
proof -
  from assms(3) obtain kp hash ud where gen: "fst (generate_keypair_and_hash E L tr) = Ok (kp, hash, ud)"
    by (auto simp: build_amd_gpu_setup_def io_bind_fst_Ok)
  from generate_keypair_and_hash_Ok [OF assms(1,2) gen]
  have "hash = sha256 L (spki kp)" and ud: "ud = bound_user_data L (spki kp)" by simp_all
  with assms(3) show ?thesis
    by (auto simp: build_amd_gpu_setup_def io_bind_fst_Ok io_lift_fst io_ret_fst gen ud before_device_def Let_def
        generate_keypair_and_hash_trace [OF gen] intro: that)
qed

subsection \<open>The verdict on each builder\<close>

lemma mock_setup_verdict:
  assumes "rcgen_ok E L spki" "json_ok L" "b64_ok L" "p384_ok L" "mock_key_ok L" "sha256_ok L"
    and "fst (build_mock_setup E L tr) = Ok setup"
  shows "setup_measurement setup = replicate 48 0 \<and>
    (\<exists>kp der. gen_keypair E tr = Inr kp \<and> presents E (server_config setup) der kp \<and>
      (\<forall>self tr'. fst (verify_server_cert L self der tr') = Ok () \<longleftrightarrow>
         mode self = VMock \<and> \<not> verify_gpu_cc self \<and> expected_measurement self = replicate 48 0))"
proof -
  obtain kp r tr' where kp: "gen_keypair E tr = Inr kp"
    and r: "sign_mock_report L (sha256 L (spki kp)) (replicate 48 0) = (Ok r :: (report, anyhow) exec)"
    and cfg: "fst (build_server_cert E L kp (new_mock L (as_bytes r)) tr') = Ok (server_config setup)"
    and m: "setup_measurement setup = replicate 48 0"
    using build_mock_setup_Ok [OF assms(1,7)] .
  from mock_identity_verdict [OF assms(3-6) build_server_cert_identity [OF assms(1,2) ext_utf8_new(1) [OF assms(3)] cfg] r] kp m
  show ?thesis by blast
qed

lemma amd_setup_verdict:
  assumes "rcgen_ok E L spki" "json_ok L" "b64_ok L" "mock_key_ok L" "sha256_ok L" "snp_abi_ok E"
    and "fst (build_amd_setup E L product tr) = Ok setup"
  shows "\<exists>kp der rep chain. presents E (server_config setup) der kp \<and>
    fst (get_report_and_chain E L (sha256 L (spki kp) @ replicate 32 0) product (tr @ before_device)) = Ok (rep, chain) \<and>
    setup_measurement setup = take 48 (drop 144 rep) \<and>
    (\<forall>self tr'. fst (verify_server_cert L self der tr') = Ok () \<longleftrightarrow>
       mode self = VAmdSevSnp \<and> \<not> verify_gpu_cc self \<and>
       (expected_measurement self = replicate 48 0 \<or> expected_measurement self = setup_measurement setup) \<and>
       good_evidence L rep chain (spki kp))"
proof -
  obtain kp rep chain tr' where
    got: "fst (get_report_and_chain E L (bound_user_data L (spki kp)) product (tr @ before_device)) = Ok (rep, chain)"
    and meas: "extract_measurement rep = (Ok (setup_measurement setup) :: (bytes, anyhow) exec)"
    and cfg: "fst (build_server_cert E L kp (new_amd L rep chain) tr') = Ok (server_config setup)"
    using build_amd_setup_Ok [OF assms(1,5,7)] .
  have len: "length rep = REPORT_SIZE"
    using got get_snp_report_length [OF assms(6)] by (auto simp: get_report_and_chain_def io_fst)
  have m: "setup_measurement setup = take 48 (drop 144 rep)"
    using meas by (simp add: extract_measurement_eq [OF len])
  have "ext_mode (new_amd L rep chain) = AmdSevSnp" "\<not> gpu_attested L (new_amd L rep chain) (spki kp)"
    by (simp_all add: new_amd_def gpu_attested_def)
  with amd_identity_verdict [OF assms(4) len build_server_cert_identity [OF assms(1,2) ext_utf8_new(2) [OF assms(3)] cfg] amd_read(1,2) [OF assms(3) len]]
  obtain der where "presents E (server_config setup) der kp"
    "\<forall>self tr'. fst (verify_server_cert L self der tr') = Ok () \<longleftrightarrow>
       mode self = VAmdSevSnp \<and> good_evidence L rep chain (spki kp) \<and>
       (expected_measurement self = replicate 48 0 \<or> expected_measurement self = take 48 (drop 144 rep)) \<and>
       \<not> verify_gpu_cc self"
    by auto
  with got m show ?thesis unfolding bound_user_data_def by (intro exI conjI) auto
qed

lemma amd_gpu_setup_verdict:
  assumes "rcgen_ok E L spki" "json_ok L" "b64_ok L" "mock_key_ok L" "sha256_ok L" "snp_abi_ok E"
    and "fst (build_amd_gpu_setup E L product script tr) = Ok setup"
  shows "\<exists>kp der rep chain jwt out tr1. presents E (server_config setup) der kp \<and>
    fst (get_report_and_chain E L (sha256 L (spki kp) @ replicate 32 0) product (tr @ before_device)) = Ok (rep, chain) \<and>
    run_command E tr1 ''python3'' [script, ''--nonce'', hex_encode L (sha256 L (spki kp))] = Inr out \<and>
    gpu_result_from_slice L (stdout out) = Inr jwt \<and>
    setup_measurement setup = take 48 (drop 144 rep) \<and>
    (\<forall>self tr'. fst (verify_server_cert L self der tr') = Ok () \<longleftrightarrow>
       mode self = VAmdSevSnp \<and>
       (expected_measurement self = replicate 48 0 \<or> expected_measurement self = setup_measurement setup) \<and>
       good_evidence L rep chain (spki kp) \<and>
       (verify_gpu_cc self \<longrightarrow> (\<exists>g. verify_gpu_jwt L jwt (spki kp) = Ok g)))"
proof -
  obtain kp rep chain jwt tr1 tr2 where
    got: "fst (get_report_and_chain E L (bound_user_data L (spki kp)) product (tr @ before_device)) = Ok (rep, chain)"
    and meas: "extract_measurement rep = (Ok (setup_measurement setup) :: (bytes, anyhow) exec)"
    and jwt: "fst (get_gpu_jwt E L (sha256 L (spki kp)) script tr1) = Ok jwt"
    and cfg: "fst (build_server_cert E L kp (with_gpu_jwt (new_amd L rep chain) jwt) tr2) = Ok (server_config setup)"
    using build_amd_gpu_setup_Ok [OF assms(1,5,7)] .
  have len: "length rep = REPORT_SIZE"
    using got get_snp_report_length [OF assms(6)] by (auto simp: get_report_and_chain_def io_fst)
  have m: "setup_measurement setup = take 48 (drop 144 rep)"
    using meas by (simp add: extract_measurement_eq [OF len])
  have "utf8 jwt" using jwt gpu_result_utf8 [OF assms(2)] by (auto simp: get_gpu_jwt_Ok)
  then have texts: "ext_utf8 (with_gpu_jwt (new_amd L rep chain) jwt)"
    using assms(3) by simp
  have "ext_mode (with_gpu_jwt (new_amd L rep chain) jwt) = AmdSevSnp"
    "gpu_attested L (with_gpu_jwt (new_amd L rep chain) jwt) (spki kp) \<longleftrightarrow> (\<exists>g. verify_gpu_jwt L jwt (spki kp) = Ok g)"
    by (simp_all add: new_amd_def with_gpu_jwt_def gpu_attested_def)
  with amd_identity_verdict [OF assms(4) len build_server_cert_identity [OF assms(1,2) texts cfg] amd_read(3,4) [OF assms(3) len]]
  obtain der where "presents E (server_config setup) der kp"
    "\<forall>self tr'. fst (verify_server_cert L self der tr') = Ok () \<longleftrightarrow>
       mode self = VAmdSevSnp \<and> good_evidence L rep chain (spki kp) \<and>
       (expected_measurement self = replicate 48 0 \<or> expected_measurement self = take 48 (drop 144 rep)) \<and>
       (verify_gpu_cc self \<longrightarrow> (\<exists>g. verify_gpu_jwt L jwt (spki kp) = Ok g))"
    by auto
  moreover obtain out where "run_command E tr1 ''python3'' (sidecar_args L (sha256 L (spki kp)) script) = Inr out"
    "gpu_result_from_slice L (stdout out) = Inr jwt"
    using jwt by (auto simp: get_gpu_jwt_Ok)
  ultimately show ?thesis
    using got m unfolding bound_user_data_def sidecar_args_def by (intro exI conjI) auto
qed

subsection \<open>The laws together\<close>

text \<open>The laws of the libraries and of the platform that the properties of the whole programs need.\<close>

definition library_laws ::
  "('kp, 'cfg, 'b) server_env_scheme \<Rightarrow> ('sk, 'vk, 'sg, 'dsg, 'crt, 'oid, 'a) x509_lib_scheme \<Rightarrow>
     ('kp \<Rightarrow> bytes) \<Rightarrow> bool" where
  "library_laws E L spki \<longleftrightarrow> rcgen_ok E L spki \<and> json_ok L \<and> b64_ok L \<and> p384_ok L \<and> mock_key_ok L \<and>
     sha256_ok L \<and> snp_abi_ok E"

end
