(* ===== verification/Request.thy ===== *)
theory Request
  imports Verifier
begin

section \<open>The client's request (sifir-client/src/request.rs)\<close>

text \<open>
  \<open>generate\<close> posts the prompt and reads the reply. The HTTP client (\<open>reqwest\<close> over \<open>rustls\<close>) is a
  parameter, but what passes between it and the client's verifier is not: a post is a \<open>session\<close>, in which
  the stack may present certificates to the verifier, have it check handshake signatures, and send data,
  and go on by the answers. \<open>run_session\<close> runs it with the verifier of the client, whose answers it
  records. \<open>transport_ok\<close> is the documented behaviour of the stack: it sends no data before the verifier
  accepted a certificate and a handshake signature for that certificate, in the same session.

  A session is finite; a post that never ends is, up to any point, a session that fails there, so what is
  shown about the data sent holds for it too. Redirects are further data of the same session.
\<close>

record generate_request =
  prompt :: string
  max_tokens :: "32 word"

record client_response =
  resp_text :: string
  resp_tokens_used :: "32 word"

datatype ('resp, 'dss) session =
    Done "string + 'resp"
  | PresentCert bytes "tls_error + unit \<Rightarrow> ('resp, 'dss) session"
  | CheckKey bool bytes bytes 'dss "tls_error + unit \<Rightarrow> ('resp, 'dss) session"
      \<comment> \<open>TLS 1.3 or 1.2, the signed message, the certificate, the signature\<close>
  | SendData string bytes "('resp, 'dss) session"

record ('resp, 'dss, 'sch) client_env =
  build_client :: "client_event list \<Rightarrow> string + unit"
  send_post :: "'sch list \<Rightarrow> string \<Rightarrow> bytes \<Rightarrow> client_event list \<Rightarrow> ('resp, 'dss) session"
  resp_error_for_status :: "'resp \<Rightarrow> string + 'resp"
  resp_body :: "'resp \<Rightarrow> string + bytes"
  builder_error :: "string \<Rightarrow> string" \<comment> \<open>the texts in which \<open>reqwest\<close> wraps errors of \<open>serde_json\<close>\<close>
  decode_error :: "string \<Rightarrow> string"

primrec run_session ::
  "('dss, 'sch) server_cert_verifier \<Rightarrow> ('resp, 'dss) session \<Rightarrow> ('resp, string, client_event) io" where
  "run_session v (Done r) = io_lift (from_res (\<lambda>e. e) r)"
| "run_session v (PresentCert der k) = (\<lambda>tr.
     case check_cert v der tr of
       (Ok _, tr') \<Rightarrow> run_session v (k (Inr ())) (tr' @ [CertChecked der True])
     | (Err e, tr') \<Rightarrow> run_session v (k (Inl e)) (tr' @ [CertChecked der False])
     | (Panic, tr') \<Rightarrow> (Panic, tr'))"
| "run_session v (CheckKey tls13 message der dss k) = (\<lambda>tr.
     let answer = (if tls13 then check_tls13 v message der dss else check_tls12 v message der dss)
     in run_session v (k answer) (tr @ [KeyChecked der (answer = Inr ())]))"
| "run_session v (SendData url content s) = (\<lambda>tr. run_session v s (tr @ [Sent url content]))"

definition post ::
  "('resp, 'dss, 'sch, 'b) client_env_scheme \<Rightarrow> ('dss, 'sch) server_cert_verifier \<Rightarrow> string \<Rightarrow> bytes \<Rightarrow>
     ('resp, string, client_event) io" where
  "post T v url content = (\<lambda>tr. run_session v (send_post T (check_schemes v) url content tr) tr)"

text \<open>The derived serialisation.\<close>

definition ser_request :: "generate_request \<Rightarrow> json" where
  "ser_request r = JObj [(''prompt'', JStr (prompt r)), (''max_tokens'', ser_u32 (max_tokens r))]"

definition de_response :: "json \<Rightarrow> client_response option" where
  "de_response j =
     Option.bind (struct_fields [''text'', ''tokens_used''] j) (\<lambda>fields.
     Option.bind (required de_string (fields ! 0)) (\<lambda>t.
     Option.bind (required de_u32 (fields ! 1)) (\<lambda>n.
     Some \<lparr>resp_text = t, resp_tokens_used = n\<rparr>)))"

text \<open>\<open>post(url).json(request).send()\<close>: a request that cannot be serialised is not sent.\<close>

definition send_request ::
  "('resp, 'dss, 'sch, 'b) client_env_scheme \<Rightarrow> 'a codec_lib_scheme \<Rightarrow> ('dss, 'sch) server_cert_verifier \<Rightarrow>
     string \<Rightarrow> generate_request \<Rightarrow> ('resp, string, client_event) io" where
  "send_request T L client url r =
     io_bind (io_lift (from_res (builder_error T) (json_to_vec L (ser_request r)))) (\<lambda>content.
     post T client url content)"

definition generate ::
  "('resp, 'dss, 'sch, 'b) client_env_scheme \<Rightarrow> 'a codec_lib_scheme \<Rightarrow> ('dss, 'sch) server_cert_verifier \<Rightarrow> string \<Rightarrow> string \<Rightarrow> 32 word \<Rightarrow>
     (client_response, anyhow, client_event) io" where
  "generate T L client base_url p tokens =
     (let url = base_url @ ''/v1/generate'' in
      io_bind (io_map_err (\<lambda>e. [e])
        (send_request T L client url \<lparr>prompt = p, max_tokens = tokens\<rparr>)) (\<lambda>resp.
      io_bind (io_lift (from_res (\<lambda>e. [e]) (resp_error_for_status T resp))) (\<lambda>resp.
      io_bind (io_lift (from_res (\<lambda>e. [e]) (resp_body T resp))) (\<lambda>content.
      io_lift (from_res (\<lambda>e. [decode_error T e]) (from_slice L ''GenerateResponse'' de_response content))))))"

subsection \<open>The contract of the transport\<close>

text \<open>A session for a post of \<open>content\<close> to \<open>url\<close>: \<open>A\<close> and \<open>P\<close> are the certificates that were accepted and
  whose key was proved so far. Data is sent only once some certificate is in both; and the session
  succeeds only if it sent the request.\<close>

primrec session_ok ::
  "('resp, 'dss) session \<Rightarrow> string \<Rightarrow> bytes \<Rightarrow> bytes set \<Rightarrow> bytes set \<Rightarrow> bool \<Rightarrow> bool" where
  "session_ok (Done r) url content A P sent = (sent \<or> (\<exists>e. r = Inl e))"
| "session_ok (PresentCert der k) url content A P sent =
     (\<forall>answer. session_ok (k answer) url content (if answer = Inr () then insert der A else A) P sent)"
| "session_ok (CheckKey tls13 message der dss k) url content A P sent =
     (\<forall>answer. session_ok (k answer) url content A (if answer = Inr () then insert der P else P) sent)"
| "session_ok (SendData url' content' s) url content A P sent =
     (A \<inter> P \<noteq> {} \<and> session_ok s url content A P (sent \<or> (url' = url \<and> content' = content)))"

definition transport_ok :: "('resp, 'dss, 'sch, 'b) client_env_scheme \<Rightarrow> bool" where
  "transport_ok T \<longleftrightarrow>
     (\<forall>schemes url content tr. session_ok (send_post T schemes url content tr) url content {} {} False)"

text \<open>The same of the events of a run.\<close>

fun guarded :: "bytes set \<Rightarrow> bytes set \<Rightarrow> client_event list \<Rightarrow> bool" where
  "guarded A P [] = True"
| "guarded A P (CertChecked der b # evs) = guarded (if b then insert der A else A) P evs"
| "guarded A P (KeyChecked der b # evs) = guarded A (if b then insert der P else P) evs"
| "guarded A P (Sent _ _ # evs) = (A \<inter> P \<noteq> {} \<and> guarded A P evs)"
| "guarded A P (_ # evs) = guarded A P evs"

lemma guarded_logs: "list_all log_event logs \<Longrightarrow> guarded A P (logs @ evs) = guarded A P evs"
proof (induction logs)
  case (Cons ev logs)
  then show ?case by (cases ev) simp_all
qed simp

lemma guarded_then_logs: "list_all log_event logs \<Longrightarrow> guarded A P (evs @ logs) = guarded A P evs"
proof (induction A P evs rule: guarded.induct)
  case (1 A P)
  then show ?case using guarded_logs [of logs A P "[]"] by simp
qed simp_all

lemma guarded_Sent:
  assumes "guarded A P (before @ Sent url content # after)"
  obtains der where "der \<in> A \<or> CertChecked der True \<in> set before" "der \<in> P \<or> KeyChecked der True \<in> set before"
  using assms by (induction A P before arbitrary: thesis rule: guarded.induct) (auto split: if_splits)

text \<open>\<open>accepts v der\<close>: the verifier accepts the certificate in some state of the trace; \<open>key_proved v der\<close>: it
  accepts a handshake signature for it, of either protocol version.\<close>

definition accepts :: "('dss, 'sch) server_cert_verifier \<Rightarrow> bytes \<Rightarrow> bool" where
  "accepts v der \<longleftrightarrow> (\<exists>tr. fst (check_cert v der tr) = Ok ())"

definition key_proved :: "('dss, 'sch) server_cert_verifier \<Rightarrow> bytes \<Rightarrow> bool" where
  "key_proved v der \<longleftrightarrow> (\<exists>message dss. check_tls12 v message der dss = Inr () \<or> check_tls13 v message der dss = Inr ())"

text \<open>The recorded answers are the verifier's.\<close>

definition answers_of :: "('dss, 'sch) server_cert_verifier \<Rightarrow> client_event list \<Rightarrow> bool" where
  "answers_of v evs \<longleftrightarrow> (\<forall>der. (CertChecked der True \<in> set evs \<longrightarrow> accepts v der) \<and>
     (KeyChecked der True \<in> set evs \<longrightarrow> key_proved v der))"

lemma answers_of_Nil [simp]: "answers_of v []"
  by (simp add: answers_of_def)

lemma answers_of_append [simp]: "answers_of v (evs @ evs') \<longleftrightarrow> answers_of v evs \<and> answers_of v evs'"
  by (auto simp: answers_of_def)

lemma answers_of_logs: "list_all log_event evs \<Longrightarrow> answers_of v evs"
  by (auto simp: answers_of_def list_all_iff)

lemma answers_of_Cons [simp]:
  "answers_of v (CertChecked der b # evs) \<longleftrightarrow> (b \<longrightarrow> accepts v der) \<and> answers_of v evs"
  "answers_of v (KeyChecked der b # evs) \<longleftrightarrow> (b \<longrightarrow> key_proved v der) \<and> answers_of v evs"
  "answers_of v (Sent u c # evs) \<longleftrightarrow> answers_of v evs"
  by (auto simp: answers_of_def)

text \<open>What a run of a session does, for a verifier that only logs.\<close>

definition session_run ::
  "('dss, 'sch) server_cert_verifier \<Rightarrow> string \<Rightarrow> bytes \<Rightarrow> bytes set \<Rightarrow> bytes set \<Rightarrow> bool \<Rightarrow> client_event list \<Rightarrow>
     ('resp, string) exec \<times> client_event list \<Rightarrow> bool" where
  "session_run v url content A P sent tr run \<longleftrightarrow>
     (\<exists>evs. snd run = tr @ evs \<and> guarded A P evs \<and> answers_of v evs \<and>
        (\<forall>r. fst run = Ok r \<longrightarrow> sent \<or> Sent url content \<in> set evs))"

lemma session_run_step:
  assumes "session_run v url content A' P' sent' (tr @ evs) run"
    and "\<And>more. guarded A P (evs @ more) = guarded A' P' more" "answers_of v evs"
    and "sent' \<longrightarrow> sent \<or> Sent url content \<in> set evs"
  shows "session_run v url content A P sent tr run"
proof -
  obtain more where "snd run = (tr @ evs) @ more" "guarded A' P' more" "answers_of v more"
    "\<forall>r. fst run = Ok r \<longrightarrow> sent' \<or> Sent url content \<in> set more"
    using assms(1) unfolding session_run_def by blast
  then show ?thesis
    using assms(2-4) unfolding session_run_def by (intro exI [of _ "evs @ more"]) auto
qed

lemma run_session_ok:
  assumes logs: "\<And>der. logs_only (check_cert v der)"
  shows "session_ok s url content A P sent \<Longrightarrow> session_run v url content A P sent tr (run_session v s tr)"
proof (induction s arbitrary: A P sent tr)
  case (Done r)
  then show ?case by (cases r) (auto simp: session_run_def io_lift_def answers_of_def)
next
  case (PresentCert der k)
  obtain a evs where run: "check_cert v der tr = (a, tr @ evs)" "list_all log_event evs"
    using logs [of der] unfolding logs_only_def by (metis prod.collapse)
  show ?case
  proof (cases a)
    case (Ok u)
    then have "accepts v der" using run(1) unfolding accepts_def by (metis fst_conv old.unit.exhaust)
    moreover have "session_run v url content (insert der A) P sent ((tr @ evs) @ [CertChecked der True])
        (run_session v (k (Inr ())) ((tr @ evs) @ [CertChecked der True]))"
      using PresentCert.prems by (intro PresentCert.IH) (auto dest: spec [of _ "Inr ()"])
    ultimately show ?thesis
      using run Ok
      by (intro session_run_step [of v url content "insert der A" P sent tr "evs @ [CertChecked der True]"])
        (auto simp: guarded_logs answers_of_logs)
  next
    case (Err e)
    have "session_run v url content A P sent ((tr @ evs) @ [CertChecked der False])
        (run_session v (k (Inl e)) ((tr @ evs) @ [CertChecked der False]))"
      using PresentCert.prems by (intro PresentCert.IH) (auto dest: spec [of _ "Inl e"])
    then show ?thesis
      using run Err
      by (intro session_run_step [of v url content A P sent tr "evs @ [CertChecked der False]"])
        (auto simp: guarded_logs answers_of_logs)
  next
    case Panic
    then show ?thesis
      using run guarded_logs [OF run(2), of A P "[]"] by (auto simp: session_run_def answers_of_logs)
  qed
next
  case (CheckKey tls13 message der dss k)
  let ?a = "if tls13 then check_tls13 v message der dss else check_tls12 v message der dss"
  have "session_run v url content A (if ?a = Inr () then insert der P else P) sent (tr @ [KeyChecked der (?a = Inr ())])
      (run_session v (k ?a) (tr @ [KeyChecked der (?a = Inr ())]))"
    using CheckKey.prems by (intro CheckKey.IH) auto
  moreover have "?a = Inr () \<longrightarrow> key_proved v der"
    unfolding key_proved_def by (metis (full_types))
  ultimately show ?case
    by (intro session_run_step [of v url content A "if ?a = Inr () then insert der P else P" sent tr
          "[KeyChecked der (?a = Inr ())]"]) (auto simp: answers_of_def Let_def)
next
  case (SendData url' content' s)
  then have "session_run v url content A P (sent \<or> (url' = url \<and> content' = content)) (tr @ [Sent url' content'])
      (run_session v s (tr @ [Sent url' content']))" by simp
  then show ?case
    using SendData.prems
    by (intro session_run_step [of v url content A P "sent \<or> (url' = url \<and> content' = content)" tr "[Sent url' content']"])
      (auto simp: answers_of_def)
qed

lemma post_run:
  assumes "transport_ok T" "\<And>der. logs_only (check_cert v der)"
  shows "session_run v url content {} {} False tr (post T v url content tr)"
  using run_session_ok [OF assms(2)] assms(1) unfolding post_def transport_ok_def by blast

lemma generate_trace:
  "snd (generate T L v base p n tr) =
     snd (send_request T L v (base @ ''/v1/generate'') \<lparr>prompt = p, max_tokens = n\<rparr> tr)"
  by (simp add: generate_def io_defs Let_def split: prod.splits exec.splits)

lemma generate_Ok:
  "fst (generate T L v base p n tr) = Ok resp \<longleftrightarrow>
     (\<exists>r r' b. fst (send_request T L v (base @ ''/v1/generate'') \<lparr>prompt = p, max_tokens = n\<rparr> tr) = Ok r \<and>
        resp_error_for_status T r = Inr r' \<and> resp_body T r' = Inr b \<and>
        from_slice L ''GenerateResponse'' de_response b = Inr resp)"
proof -
  have lift: "fst (io_map_err f m t) = map_err f (fst (m t))" for f m and t :: "client_event list"
    by (simp add: io_map_err_def split: prod.splits)
  show ?thesis
    by (auto simp: generate_def Let_def io_bind_fst_Ok io_lift_fst from_res_eq_Ok lift)
qed

end
