(* ===== verification/Client_Main.thy ===== *)
theory Client_Main
  imports Request
begin

section \<open>The client's entry point (sifir-client/src/main.rs)\<close>

text \<open>
  \<open>client_main\<close> is \<open>main\<close> after the command line is parsed: read the expected measurement, choose
  the mode, warn when the measurement check is off, build the verifier and the HTTP client around
  it, send the request, print the answer.
\<close>

record client_args =
  server :: string
  expected_measurement_arg :: string
  client_amd :: bool
  client_gpu_cc :: bool
  max_tokens_arg :: "32 word"
  prompt_arg :: string

definition parse_measurement :: "'a codec_lib_scheme \<Rightarrow> string \<Rightarrow> (bytes, anyhow) exec" where
  "parse_measurement L arg =
     (let measurement_hex = trim arg in
      and_then (from_res_ctx ''expected_measurement must be a valid hex string'' (hex_decode L measurement_hex))
        (\<lambda>measurement_bytes.
      if length measurement_bytes \<noteq> MEASUREMENT_SIZE then
        Err [''expected_measurement must be '' @ show_nat MEASUREMENT_SIZE @ '' bytes ('' @
          show_nat (MEASUREMENT_SIZE * 2) @ '' hex chars), got '' @ show_nat (length measurement_bytes) @ '' bytes'']
      else copy_range (replicate MEASUREMENT_SIZE 0) 0 MEASUREMENT_SIZE measurement_bytes))"

definition client_mode :: "client_args \<Rightarrow> verifier_mode" where
  "client_mode args = (if client_amd args then VAmdSevSnp else VMock)"

definition announce :: "'a codec_lib_scheme \<Rightarrow> bytes \<Rightarrow> string" where
  "announce L m =
     (if m = replicate MEASUREMENT_SIZE 0
      then ''[client] WARNING: measurement check disabled (expected = all-zeros)''
      else ''[client] will verify measurement: '' @ hex_encode L m)"

definition client_main ::
  "('resp, 'dss, 'sch, 'b) client_env_scheme \<Rightarrow>
   ('sk, 'vk, 'sg, 'dsg, 'crt, 'oid, 'cp, 'dss, 'sch, 'a) client_lib_scheme \<Rightarrow> 'cp \<Rightarrow> client_args \<Rightarrow>
     (unit, anyhow, client_event) io" where
  "client_main T L provider args =
     io_bind (io_lift (parse_measurement L (expected_measurement_arg args))) (\<lambda>m.
     io_bind (eprintln (announce L m)) (\<lambda>_.
     let verifier = new_verifier m (client_mode args) (client_gpu_cc args) provider in
     io_bind (\<lambda>tr. (from_res_ctx ''build HTTP client'' (build_client T tr), tr)) (\<lambda>_.
     let base_url = ''https://'' @ server args in
     io_bind (eprintln (''[client] connecting to '' @ base_url)) (\<lambda>_.
     io_bind (io_map_err (\<lambda>e. ''inference request failed'' # e)
       (generate T L (as_server_cert_verifier L verifier) base_url (prompt_arg args) (max_tokens_arg args))) (\<lambda>resp.
     io_bind (println (resp_text resp)) (\<lambda>_.
     eprintln (''[client] tokens used: '' @ show_nat (unat (resp_tokens_used resp)))))))))"

subsection \<open>Lemmas\<close>

lemma parse_measurement_Ok:
  "parse_measurement L arg = Ok m \<longleftrightarrow> hex_decode L (trim arg) = Inr m \<and> length m = 48"
  by (auto simp: parse_measurement_def exec_simps Let_def MEASUREMENT_SIZE_def copy_range_def overwrite_def
      split: if_splits)

lemma parse_measurement_no_Panic [simp]: "parse_measurement L arg \<noteq> Panic"
  by (auto simp: parse_measurement_def and_then_eq_Panic Let_def MEASUREMENT_SIZE_def copy_range_def)

text \<open>The verifier the client runs with.\<close>

definition verifier_of :: "'a codec_lib_scheme \<Rightarrow> client_args \<Rightarrow> 'cp \<Rightarrow> 'cp attestation_verifier \<Rightarrow> bool" where
  "verifier_of L args cp v \<longleftrightarrow>
     (\<exists>m. hex_decode L (trim (expected_measurement_arg args)) = Inr m \<and> length m = 48 \<and>
        v = new_verifier m (client_mode args) (client_gpu_cc args) cp)"

text \<open>A run from the point where the verifier and the HTTP client exist: the request, then the two
  lines about its answer.\<close>

definition run_trace :: "'a codec_lib_scheme \<Rightarrow> client_args \<Rightarrow> bytes \<Rightarrow> client_event list \<Rightarrow> client_event list" where
  "run_trace L args m tr =
     tr @ [Eprintln (announce L m), Eprintln (''[client] connecting to '' @ ''https://'' @ server args)]"

definition request_sent ::
  "('resp, 'dss, 'sch, 'b) client_env_scheme \<Rightarrow>
   ('sk, 'vk, 'sg, 'dsg, 'crt, 'oid, 'cp, 'dss, 'sch, 'a) client_lib_scheme \<Rightarrow> 'cp \<Rightarrow> client_args \<Rightarrow> bytes \<Rightarrow>
     ('resp, string, client_event) io" where
  "request_sent T L cp args m =
     send_request T L (as_server_cert_verifier L (new_verifier m (client_mode args) (client_gpu_cc args) cp))
       (''https://'' @ server args @ ''/v1/generate'')
       \<lparr>prompt = prompt_arg args, max_tokens = max_tokens_arg args\<rparr>"

definition answered ::
  "('resp, 'dss, 'sch, 'b) client_env_scheme \<Rightarrow> 'a codec_lib_scheme \<Rightarrow> 'resp \<Rightarrow> client_response \<Rightarrow> bool" where
  "answered T L sent resp \<longleftrightarrow>
     (\<exists>sent' content. resp_error_for_status T sent = Inr sent' \<and> resp_body T sent' = Inr content \<and>
        from_slice L ''GenerateResponse'' de_response content = Inr resp)"

definition answer_events :: "client_response \<Rightarrow> client_event list" where
  "answer_events resp =
     [Println (resp_text resp), Eprintln (''[client] tokens used: '' @ show_nat (unat (resp_tokens_used resp)))]"

lemma client_main_run:
  assumes "parse_measurement L (expected_measurement_arg args) = Ok m"
    and "build_client T (tr @ [Eprintln (announce L m)]) = Inr u"
  shows "\<exists>out. snd (client_main T L cp args tr) = snd (request_sent T L cp args m (run_trace L args m tr)) @ out \<and>
    list_all log_event out \<and>
    (\<forall>r. fst (client_main T L cp args tr) = Ok r \<longrightarrow>
       (\<exists>sent resp. fst (request_sent T L cp args m (run_trace L args m tr)) = Ok sent \<and>
          answered T L sent resp \<and> out = answer_events resp))"
proof -
  let ?v = "as_server_cert_verifier L (new_verifier m (client_mode args) (client_gpu_cc args) cp)"
  let ?gen = "generate T L ?v (''https://'' @ server args) (prompt_arg args) (max_tokens_arg args)"
  obtain r tr' where gen: "?gen (run_trace L args m tr) = (r, tr')" by fastforce
  have tr': "tr' = snd (request_sent T L cp args m (run_trace L args m tr))"
    using generate_trace [of T L ?v "''https://'' @ server args" "prompt_arg args" "max_tokens_arg args"
        "run_trace L args m tr"] gen by (simp add: request_sent_def)
  have run: "client_main T L cp args tr =
      io_bind (io_map_err (\<lambda>e. ''inference request failed'' # e) ?gen) (\<lambda>resp.
      io_bind (println (resp_text resp)) (\<lambda>_.
      eprintln (''[client] tokens used: '' @ show_nat (unat (resp_tokens_used resp))))) (run_trace L args m tr)"
    using assms by (simp add: client_main_def run_trace_def Let_def io_bind_query)
  have sent: "\<exists>sent. fst (request_sent T L cp args m (run_trace L args m tr)) = Ok sent \<and> answered T L sent resp"
    if "r = Ok resp" for resp
    using generate_Ok [of T L ?v "''https://'' @ server args" "prompt_arg args" "max_tokens_arg args"
        "run_trace L args m tr" resp] gen that by (auto simp: request_sent_def answered_def)
  show ?thesis
    unfolding run tr' [symmetric] using gen sent
    by (cases r) (auto simp: io_bind_def io_map_err_def println_def eprintln_def io_event_def answer_events_def)
qed

lemma client_main_answer:
  assumes "parse_measurement L (expected_measurement_arg args) = Ok m"
    and "build_client T (tr @ [Eprintln (announce L m)]) = Inr u"
    and "fst (generate T L (as_server_cert_verifier L (new_verifier m (client_mode args) (client_gpu_cc args) cp))
      (''https://'' @ server args) (prompt_arg args) (max_tokens_arg args) (run_trace L args m tr)) = Ok resp"
  shows "fst (client_main T L cp args tr) = Ok () \<and> (\<exists>evs. snd (client_main T L cp args tr) = evs @ answer_events resp)"
proof -
  let ?gen = "generate T L (as_server_cert_verifier L (new_verifier m (client_mode args) (client_gpu_cc args) cp))
      (''https://'' @ server args) (prompt_arg args) (max_tokens_arg args)"
  obtain tr' where gen: "?gen (run_trace L args m tr) = (Ok resp, tr')"
    using assms(3) by (metis prod.collapse)
  have "client_main T L cp args tr =
      io_bind (io_map_err (\<lambda>e. ''inference request failed'' # e) ?gen) (\<lambda>resp.
      io_bind (println (resp_text resp)) (\<lambda>_.
      eprintln (''[client] tokens used: '' @ show_nat (unat (resp_tokens_used resp))))) (run_trace L args m tr)"
    using assms(1,2) by (simp add: client_main_def run_trace_def Let_def io_bind_query)
  then show ?thesis
    using gen by (simp add: io_bind_def io_map_err_def println_def eprintln_def io_event_def answer_events_def)
qed

lemma client_main_no_run:
  assumes "\<And>m. parse_measurement L (expected_measurement_arg args) = Ok m \<Longrightarrow> \<exists>e. build_client T (tr @ [Eprintln (announce L m)]) = Inl e"
  shows "\<exists>out. snd (client_main T L cp args tr) = tr @ out \<and> list_all log_event out \<and>
    (\<forall>r. fst (client_main T L cp args tr) \<noteq> Ok r)"
proof (cases "parse_measurement L (expected_measurement_arg args)")
  case (Ok m)
  with assms obtain e where "build_client T (tr @ [Eprintln (announce L m)]) = Inl e" by blast
  with Ok show ?thesis
    by (simp add: client_main_def Let_def io_bind_query)
qed (simp_all add: client_main_def, simp_all add: io_lift_def)

lemma client_main_needs:
  assumes "(\<exists>u c. Sent u c \<in> set (snd (client_main T L cp args []))) \<or> (\<exists>r. fst (client_main T L cp args []) = Ok r)"
  shows "\<exists>m u. parse_measurement L (expected_measurement_arg args) = Ok m \<and>
    build_client T ([] @ [Eprintln (announce L m)]) = Inr u"
proof (rule ccontr)
  assume none: "\<not> ?thesis"
  have "\<exists>e. build_client T ([] @ [Eprintln (announce L m)]) = Inl e"
    if "parse_measurement L (expected_measurement_arg args) = Ok m" for m
    using that none by (cases "build_client T ([] @ [Eprintln (announce L m)])") blast+
  from client_main_no_run [OF this] assms show False by (fastforce simp: list_all_iff)
qed

lemma accepts_iff: "accepts (as_server_cert_verifier L v) der \<longleftrightarrow> trusted_server L v der"
  by (simp add: accepts_def as_server_cert_verifier_def verify_server_cert_Ok)

text \<open>A handshake signature for the certificate was accepted by the crypto provider.\<close>

definition possession_proved ::
  "('sk, 'vk, 'sg, 'dsg, 'crt, 'oid, 'cp, 'dss, 'sch, 'a) client_lib_scheme \<Rightarrow> 'cp \<Rightarrow> bytes \<Rightarrow> bool" where
  "possession_proved L cp der \<longleftrightarrow>
     (\<exists>msg dss. rustls_verify_tls12 L msg der dss cp = Inr () \<or> rustls_verify_tls13 L msg der dss cp = Inr ())"

lemma key_proved_iff: "key_proved (as_server_cert_verifier L (new_verifier m md gpu cp)) der \<longleftrightarrow> possession_proved L cp der"
  by (simp add: key_proved_def as_server_cert_verifier_def verify_tls12_signature_def verify_tls13_signature_def
      possession_proved_def new_verifier_def)

text \<open>What a run that sent data can rely on: a trusted server that proved possession of its key.\<close>

definition peer_attested ::
  "('sk, 'vk, 'sg, 'dsg, 'crt, 'oid, 'cp, 'dss, 'sch, 'a) client_lib_scheme \<Rightarrow> 'cp \<Rightarrow> client_args \<Rightarrow> bytes \<Rightarrow> bytes \<Rightarrow> bool" where
  "peer_attested L cp args m der \<longleftrightarrow>
     trusted_server L (new_verifier m (client_mode args) (client_gpu_cc args) cp) der \<and> possession_proved L cp der"

definition client_verifier ::
  "('sk, 'vk, 'sg, 'dsg, 'crt, 'oid, 'cp, 'dss, 'sch, 'a) client_lib_scheme \<Rightarrow> 'cp \<Rightarrow> client_args \<Rightarrow> bytes \<Rightarrow>
     ('dss, 'sch) server_cert_verifier" where
  "client_verifier L cp args m = as_server_cert_verifier L (new_verifier m (client_mode args) (client_gpu_cc args) cp)"

lemma peer_attested_iff:
  "accepts (client_verifier L cp args m) der \<and> key_proved (client_verifier L cp args m) der \<longleftrightarrow> peer_attested L cp args m der"
  by (simp add: client_verifier_def accepts_iff key_proved_iff peer_attested_def)

lemma request_sent_run:
  assumes "transport_ok T"
  shows "\<exists>evs. snd (request_sent T L cp args m tr) = tr @ evs \<and> guarded {} {} evs \<and>
    answers_of (client_verifier L cp args m) evs \<and>
    (\<forall>r. fst (request_sent T L cp args m tr) = Ok r \<longrightarrow>
       (\<exists>b. json_to_vec L (ser_request \<lparr>prompt = prompt_arg args, max_tokens = max_tokens_arg args\<rparr>) = Inr b \<and>
          Sent (''https://'' @ server args @ ''/v1/generate'') b \<in> set evs))"
proof (cases "json_to_vec L (ser_request \<lparr>prompt = prompt_arg args, max_tokens = max_tokens_arg args\<rparr>)")
  case (Inl e)
  then show ?thesis by (simp add: request_sent_def send_request_def) (simp add: io_lift_def)
next
  case (Inr b)
  let ?v = "client_verifier L cp args m" and ?url = "''https://'' @ server args @ ''/v1/generate''"
  have "logs_only (check_cert ?v der)" for der
    by (simp add: client_verifier_def as_server_cert_verifier_def verify_server_cert_logs)
  from post_run [OF assms this, of ?url b tr] show ?thesis
    unfolding session_run_def request_sent_def send_request_def Inr from_res_simps io_bind_lift client_verifier_def by blast
qed

text \<open>The trace of a whole run keeps the guard, and its recorded answers are the client's verifier's.\<close>

lemma client_main_trace:
  assumes "transport_ok T" "parse_measurement L (expected_measurement_arg args) = Ok m"
    and "build_client T ([] @ [Eprintln (announce L m)]) = Inr u"
  obtains evs where "snd (client_main T L cp args []) = Eprintln (announce L m) # evs"
    "guarded {} {} (Eprintln (announce L m) # evs)"
    "answers_of (client_verifier L cp args m) (Eprintln (announce L m) # evs)"
proof -
  obtain evs where evs: "snd (request_sent T L cp args m (run_trace L args m [])) = run_trace L args m [] @ evs"
    "guarded {} {} evs" "answers_of (client_verifier L cp args m) evs"
    using request_sent_run [OF assms(1), of L cp args m "run_trace L args m []"] by blast
  obtain out where out: "snd (client_main T L cp args []) = (run_trace L args m [] @ evs) @ out" "list_all log_event out"
    using client_main_run [OF assms(2,3), of cp] unfolding evs(1) by blast
  let ?line = "Eprintln (''[client] connecting to '' @ ''https://'' @ server args)"
  show ?thesis
  proof (rule that [of "?line # evs @ out"])
    show "snd (client_main T L cp args []) = Eprintln (announce L m) # ?line # evs @ out"
      unfolding out(1) run_trace_def by simp
    show "guarded {} {} (Eprintln (announce L m) # ?line # evs @ out)"
      using evs(2) guarded_then_logs [OF out(2)] by simp
    show "answers_of (client_verifier L cp args m) (Eprintln (announce L m) # ?line # evs @ out)"
      using evs(3) answers_of_logs [OF out(2)] by (auto simp: answers_of_def)
  qed
qed

text \<open>So whatever a run sends, it sends after an attested peer was accepted in that run.\<close>

lemma client_main_sent:
  assumes "transport_ok T" "snd (client_main T L cp args []) = before @ Sent url content # after"
  shows "\<exists>m der. parse_measurement L (expected_measurement_arg args) = Ok m \<and> hd before = Eprintln (announce L m) \<and>
    CertChecked der True \<in> set before \<and> KeyChecked der True \<in> set before \<and> peer_attested L cp args m der"
proof -
  obtain m b where m: "parse_measurement L (expected_measurement_arg args) = Ok m"
    "build_client T ([] @ [Eprintln (announce L m)]) = Inr b"
    using client_main_needs [of T L cp args] assms(2) by (metis in_set_conv_decomp)
  obtain evs where evs: "snd (client_main T L cp args []) = Eprintln (announce L m) # evs"
    "guarded {} {} (Eprintln (announce L m) # evs)"
    "answers_of (client_verifier L cp args m) (Eprintln (announce L m) # evs)"
    by (rule client_main_trace [OF assms(1) m])
  have run: "Eprintln (announce L m) # evs = before @ Sent url content # after" using evs(1) assms(2) by simp
  obtain der where der: "CertChecked der True \<in> set before" "KeyChecked der True \<in> set before"
    using guarded_Sent evs(2) unfolding run by (metis empty_iff)
  have "accepts (client_verifier L cp args m) der \<and> key_proved (client_verifier L cp args m) der"
    using evs(3) der unfolding run answers_of_def by auto
  moreover have "hd before = Eprintln (announce L m)"
    using run by (cases before) auto
  ultimately show ?thesis using m(1) der unfolding peer_attested_iff by blast
qed

subsection \<open>Properties\<close>

text \<open>C1: The client verifies attestation before it sends any data. Before any data that a run sends, in the
  same run: the measurement argument was 48 hex bytes; the run began by announcing the measurement it
  checks (a warning exactly if it is all zeros, so that none is checked); a certificate was presented and
  the verifier accepted it, and so was a handshake signature for that very certificate; and that
  certificate is a trusted server's for this measurement and the command line's mode and GPU flag, and the
  crypto provider verifies a signature with its key.\<close>

theorem nothing_sent_before_attestation:
  assumes "transport_ok T" "snd (client_main T L cp args []) = before @ Sent url content # after"
  shows "\<exists>m der. hex_decode L (trim (expected_measurement_arg args)) = Inr m \<and> length m = 48 \<and>
    hd before =
      Eprintln (if m = replicate 48 0 then ''[client] WARNING: measurement check disabled (expected = all-zeros)''
                else ''[client] will verify measurement: '' @ hex_encode L m) \<and>
    CertChecked der True \<in> set before \<and> KeyChecked der True \<in> set before \<and>
    trusted_server L
      \<lparr>expected_measurement = m, mode = (if client_amd args then VAmdSevSnp else VMock),
       verify_gpu_cc = client_gpu_cc args, crypto_provider = cp\<rparr> der \<and>
    (\<exists>message dss. rustls_verify_tls12 L message der dss cp = Inr () \<or>
       rustls_verify_tls13 L message der dss cp = Inr ())"
proof -
  obtain m der where "parse_measurement L (expected_measurement_arg args) = Ok m"
    "hd before = Eprintln (announce L m)" "CertChecked der True \<in> set before" "KeyChecked der True \<in> set before"
    "peer_attested L cp args m der"
    using client_main_sent [OF assms] by blast
  note run = this
  show ?thesis
    by (rule exI [of _ m], rule exI [of _ der])
      (use run in \<open>simp add: parse_measurement_Ok announce_def peer_attested_def possession_proved_def
        new_verifier_def client_mode_def MEASUREMENT_SIZE_def\<close>)
qed

text \<open>A measurement argument that is not 48 hex bytes stops the client before it does anything,
  with the decoder's message, or with the number of bytes given.\<close>

theorem bad_measurement_refused:
  "(hex_decode L (trim (expected_measurement_arg args)) = Inl e \<longrightarrow> client_main T L cp args tr =
      (Err [''expected_measurement must be a valid hex string'', e], tr)) \<and>
   (hex_decode L (trim (expected_measurement_arg args)) = Inr bs \<and> length bs \<noteq> 48 \<longrightarrow>
      client_main T L cp args tr =
        (Err [''expected_measurement must be 48 bytes (96 hex chars), got '' @ show_nat (length bs) @ '' bytes''], tr))"
proof (intro conjI impI)
  have err: "client_main T L cp args tr = (Err x, tr)"
    if "parse_measurement L (expected_measurement_arg args) = Err x" for x
    using that by (simp add: client_main_def) (simp add: io_lift_def)
  show "client_main T L cp args tr = (Err [''expected_measurement must be a valid hex string'', e], tr)"
    if "hex_decode L (trim (expected_measurement_arg args)) = Inl e"
    using that by (intro err) (simp add: parse_measurement_def)
  have nums: "show_nat MEASUREMENT_SIZE = ''48''" "show_nat (MEASUREMENT_SIZE * 2) = ''96''" by code_simp+
  show "client_main T L cp args tr =
      (Err [''expected_measurement must be 48 bytes (96 hex chars), got '' @ show_nat (length bs) @ '' bytes''], tr)"
    if "hex_decode L (trim (expected_measurement_arg args)) = Inr bs \<and> length bs \<noteq> 48"
    using that nums by (intro err) (simp add: parse_measurement_def MEASUREMENT_SIZE_def)
qed

text \<open>C31: What a client that succeeds has done: with the verifier of its command line it posted its prompt
  and token limit, after a certificate that is a trusted server's and a signature for it were accepted; the
  transport delivered an answer, whose status is no error and whose body is a JSON response; and the last
  two lines are the text and the token count of that very response.\<close>

theorem client_success:
  assumes "transport_ok T" "fst (client_main T L cp args []) = Ok r"
  shows "\<exists>m v start sent tr sent' content resp request before after der.
    hex_decode L (trim (expected_measurement_arg args)) = Inr m \<and> length m = 48 \<and>
    v = new_verifier m (client_mode args) (client_gpu_cc args) cp \<and>
    send_request T L (as_server_cert_verifier L v) (''https://'' @ server args @ ''/v1/generate'')
      \<lparr>prompt = prompt_arg args, max_tokens = max_tokens_arg args\<rparr> start = (Ok sent, tr) \<and>
    resp_error_for_status T sent = Inr sent' \<and> resp_body T sent' = Inr content \<and>
    from_slice L ''GenerateResponse'' de_response content = Inr resp \<and>
    snd (client_main T L cp args []) = tr @ [Println (resp_text resp),
      Eprintln (''[client] tokens used: '' @ show_nat (unat (resp_tokens_used resp)))] \<and>
    json_to_vec L (ser_request \<lparr>prompt = prompt_arg args, max_tokens = max_tokens_arg args\<rparr>) = Inr request \<and>
    tr = before @ Sent (''https://'' @ server args @ ''/v1/generate'') request # after \<and>
    CertChecked der True \<in> set before \<and> KeyChecked der True \<in> set before \<and> trusted_server L v der"
proof -
  obtain m b where m: "parse_measurement L (expected_measurement_arg args) = Ok m"
    "build_client T ([] @ [Eprintln (announce L m)]) = Inr b"
    using client_main_needs [of T L cp args] assms(2) by blast
  let ?start = "run_trace L args m []"
  obtain sent resp where out: "snd (client_main T L cp args []) =
      snd (request_sent T L cp args m ?start) @ answer_events resp"
    "fst (request_sent T L cp args m ?start) = Ok sent" "answered T L sent resp"
    using client_main_run [OF m, of cp] assms(2) by blast
  obtain evs request where evs: "snd (request_sent T L cp args m ?start) = ?start @ evs"
    "json_to_vec L (ser_request \<lparr>prompt = prompt_arg args, max_tokens = max_tokens_arg args\<rparr>) = Inr request"
    "Sent (''https://'' @ server args @ ''/v1/generate'') request \<in> set evs"
    using request_sent_run [OF assms(1), of L cp args m ?start] out(2) by blast
  obtain pre post where split: "evs = pre @ Sent (''https://'' @ server args @ ''/v1/generate'') request # post"
    using evs(3) by (meson split_list)
  have "snd (client_main T L cp args []) = (?start @ pre) @ Sent (''https://'' @ server args @ ''/v1/generate'') request #
      (post @ answer_events resp)"
    unfolding out(1) evs(1) split by simp
  from client_main_sent [OF assms(1) this] obtain m' der where "parse_measurement L (expected_measurement_arg args) = Ok m'"
    "CertChecked der True \<in> set (?start @ pre)" "KeyChecked der True \<in> set (?start @ pre)" "peer_attested L cp args m' der"
    by blast
  then have der: "CertChecked der True \<in> set (?start @ pre)" "KeyChecked der True \<in> set (?start @ pre)"
    "trusted_server L (new_verifier m (client_mode args) (client_gpu_cc args) cp) der"
    using m(1) by (simp_all add: peer_attested_def)
  have run: "request_sent T L cp args m ?start = (Ok sent, ?start @ evs)"
    using out(2) evs(1) by (metis prod.collapse)
  have "hex_decode L (trim (expected_measurement_arg args)) = Inr m" "length m = 48"
    using m(1) by (simp_all add: parse_measurement_Ok)
  moreover have "?start @ evs = (?start @ pre) @ Sent (''https://'' @ server args @ ''/v1/generate'') request # post"
    unfolding split by simp
  moreover have "snd (client_main T L cp args []) = (?start @ evs) @ [Println (resp_text resp),
      Eprintln (''[client] tokens used: '' @ show_nat (unat (resp_tokens_used resp)))]"
    unfolding out(1) evs(1) answer_events_def ..
  ultimately show ?thesis
    using out(3) run evs(2) der unfolding answered_def request_sent_def by blast
qed

end
