(* ===== verification/Startup.thy ===== *)
theory Startup
  imports Handshake Gateway
begin

section \<open>The whole server program\<close>

text \<open>
  \<open>server_start\<close> and the accept loop put together: \<open>server_reaches\<close> are the states of a run of
  \<open>sifir-server\<close> that got as far as its loop, with the TLS configuration \<open>cfg\<close>. The lemmas say what each builder of \<open>Tls\<close> has done when it
  succeeds, event by event; the property is the order of everything the server does.
\<close>

definition server_reaches ::
  "cargo_features \<Rightarrow> router \<Rightarrow> ('kp, 'cfg, 'b) server_env_scheme \<Rightarrow>
     ('sk, 'vk, 'sg, 'dsg, 'crt, 'oid, 'a) x509_lib_scheme \<Rightarrow> server_args \<Rightarrow> server_event list \<Rightarrow> 'cfg \<Rightarrow> gateway \<Rightarrow> bool" where
  "server_reaches F R E L args tr0 cfg g \<longleftrightarrow>
     (\<exists>B tr. server_start F E L args tr0 = (Ok (cfg, B), tr) \<and> reaches (gateway_step R E L B) (gateway_init tr) g)"

subsection \<open>The effects of a successful start\<close>

text \<open>A computation that has to append \<open>evs\<close> when it succeeds.\<close>

lemma extends_by_Ok: "extends_by m tr evs \<Longrightarrow> m tr = (Ok a, tr') \<Longrightarrow> tr' = tr @ evs"
  by (simp add: extends_by_def)

lemma key_steps_done:
  "generate_keypair E tr = (r, tr') \<Longrightarrow> tr' = tr @ [GenerateKey]"
  "self_sign E ctx exts kp tr = (r', tr') \<Longrightarrow> tr' = tr @ [SelfSign exts]"
  "extract_spki_der E L kp tr = (r', tr') \<Longrightarrow> tr' = tr @ [SelfSign []]"
  by (metis generate_keypair_fst(2) self_sign_fst(2) extract_spki_der_trace snd_conv)+

lemma io_context_eq_Ok [simp]: "io_context c m tr = (Ok a, tr') \<longleftrightarrow> m tr = (Ok a, tr')"
  by (cases "m tr") (simp add: io_context_def io_map_err_def exec_simps)

lemma io_lift_eq [simp]: "io_lift m tr = (r, tr') \<longleftrightarrow> m = r \<and> tr' = tr"
  by (auto simp: io_lift_def)

lemma io_ret_eq [simp]: "io_ret a tr = (r, tr') \<longleftrightarrow> r = Ok a \<and> tr' = tr"
  by (auto simp: io_ret_def)

lemma print_line_eq [simp]: "print_line s tr = (r, tr') \<longleftrightarrow> r = Ok () \<and> tr' = tr @ [Print s]"
  by (auto simp: print_line_def io_event_def)

lemma get_report_and_chain_done:
  assumes "snp_abi_ok E" "get_report_and_chain E L ud product tr = (Ok (rep, chain), tr')"
  shows "length rep = REPORT_SIZE \<and> tr' = tr @ snp_request_events ud @ kds_events L product rep"
proof -
  from assms(2) obtain tr1 where r: "get_snp_report E ud tr = (Ok rep, tr1)"
    and c: "fetch_vcek_chain E L rep product tr1 = (Ok chain, tr')"
    by (auto simp: get_report_and_chain_def io_bind_eq_Ok)
  have len: "length rep = REPORT_SIZE" using get_snp_report_length [OF assms(1)] r by (metis fst_conv)
  show ?thesis
    using len extends_by_Ok [OF get_snp_report_extends r] extends_by_Ok [OF fetch_vcek_chain_extends [OF len] c] by simp
qed

text \<open>The certificate that the configuration \<open>cfg\<close> presents with the key \<open>kp\<close>: signed with \<open>kp\<close> after the events \<open>tr\<close>,
  with the bytes \<open>b\<close> of the extension \<open>ext\<close>.\<close>

definition certified ::
  "('kp, 'cfg, 'b) server_env_scheme \<Rightarrow> 'a codec_lib_scheme \<Rightarrow> 'kp \<Rightarrow> attestation_extension \<Rightarrow>
     server_event list \<Rightarrow> bytes \<Rightarrow> 'cfg \<Rightarrow> bool" where
  "certified E L kp ext tr b cfg \<longleftrightarrow> ext_to_vec L ext = Inr b \<and>
     (\<exists>cert. self_signed E tr [(ATTEST_OID_ARCS, b)] kp = Inr cert \<and> presents E cfg cert kp)"

lemma build_server_cert_done:
  assumes "build_server_cert E L kp ext tr = (Ok cfg, tr')"
  obtains b where "certified E L kp ext tr b cfg" "tr' = tr @ [SelfSign [(ATTEST_OID_ARCS, b)]]"
proof -
  from assms obtain b cert tr1 where b: "to_bytes L ext = (Ok b :: (bytes, anyhow) exec)"
    and s: "self_sign E ''generate attested cert'' [(ATTEST_OID_ARCS, b)] kp tr = (Ok cert, tr1)" and t: "tr' = tr1"
    and c: "server_config_build E cert (kp_serialized_der E kp) = Inr cfg"
    by (auto simp: build_server_cert_def io_bind_eq_Ok from_res_ctx_eq_Ok)
  have "ext_to_vec L ext = Inr b" using b by (cases "ext_to_vec L ext") (simp_all add: to_bytes_def)
  moreover have "self_signed E tr [(ATTEST_OID_ARCS, b)] kp = Inr cert"
  proof (subst from_res_ctx_eq_Ok [symmetric])
    show "from_res_ctx ''generate attested cert'' (self_signed E tr [(ATTEST_OID_ARCS, b)] kp) = Ok cert"
      unfolding self_sign_fst(1) [symmetric] s by simp
  qed
  ultimately show ?thesis
    using c by (intro that [of b]) (auto simp: certified_def presents_def t key_steps_done(2) [OF s])
qed

definition fetching_report :: server_event where
  "fetching_report = Print ''[sifir-server] fetching AMD SNP attestation report...''"

definition fetching_token :: server_event where
  "fetching_token = Print ''[sifir-server] fetching GPU CC attestation JWT...''"

lemma key_done:
  "generate_keypair E tr = (Ok kp, tr') \<longleftrightarrow> gen_keypair E tr = Inr kp \<and> tr' = tr @ [GenerateKey]"
  by (auto simp: prod_eq_iff from_res_ctx_eq_Ok)

lemma spki_done:
  assumes "rcgen_ok E L spki" "extract_spki_der E L kp tr = (Ok d, tr')"
  shows "d = spki kp \<and> tr' = tr @ [SelfSign []]"
  using extract_spki_der_Ok [OF assms(1), of kp tr d] extract_spki_der_trace [of E L kp tr] assms(2) by simp

text \<open>The events of the key, and of an AMD report: the report for \<open>ud\<close>, and the chain of that report.\<close>

definition key_events :: "server_event list" where
  "key_events = [GenerateKey, SelfSign []]"

definition amd_events :: "'a codec_lib_scheme \<Rightarrow> string \<Rightarrow> bytes \<Rightarrow> bytes \<Rightarrow> server_event list" where
  "amd_events L product ud rep = fetching_report # snp_request_events ud @ kds_events L product rep"

definition token_events :: "'a codec_lib_scheme \<Rightarrow> bytes \<Rightarrow> string \<Rightarrow> server_event list" where
  "token_events L d script = [fetching_token, RunCommand ''python3'' (sidecar_args L (sha256 L d) script)]"

lemma build_mock_setup_done:
  assumes "rcgen_ok E L spki" "build_mock_setup E L tr = (Ok st, tr')"
  obtains kp r b where "gen_keypair E tr = Inr kp"
    "sign_mock_report L (sha256 L (spki kp)) (replicate 48 0) = (Ok r :: (report, anyhow) exec)"
    "certified E L kp (new_mock L (raw r)) (tr @ key_events) b (server_config st)"
    "setup_measurement st = replicate 48 0" "tr' = tr @ key_events @ [SelfSign [(ATTEST_OID_ARCS, b)]]"
proof -
  from assms(2) obtain kp tr1 d tr2 r cfg where k: "generate_keypair E tr = (Ok kp, tr1)"
    and x: "extract_spki_der E L kp tr1 = (Ok d, tr2)"
    and r: "sign_mock_report L (sha256 L d) (replicate 48 0) = (Ok r :: (report, anyhow) exec)"
    and c: "build_server_cert E L kp (new_mock L (raw r)) tr2 = (Ok cfg, tr')"
    and st: "st = \<lparr>server_config = cfg, setup_measurement = replicate 48 0\<rparr>"
    by (auto simp: build_mock_setup_def io_bind_eq_Ok Let_def as_bytes_def)
  have "gen_keypair E tr = Inr kp" "d = spki kp" "tr2 = tr @ key_events"
    using k spki_done [OF assms(1) x] by (simp_all add: key_done key_events_def)
  with r st build_server_cert_done [OF c] show ?thesis
    by (metis that append.assoc tls_setup.select_convs(1,2))
qed

lemma generate_keypair_and_hash_done:
  assumes "rcgen_ok E L spki" "sha256_ok L" "generate_keypair_and_hash E L tr = (Ok (kp, hash, ud), tr')"
  shows "gen_keypair E tr = Inr kp \<and> hash = sha256 L (spki kp) \<and> ud = bound_user_data L (spki kp) \<and> tr' = tr @ key_events"
proof -
  have "fst (generate_keypair_and_hash E L tr) = Ok (kp, hash, ud)" using assms(3) by simp
  from generate_keypair_and_hash_Ok [OF assms(1,2) this] generate_keypair_and_hash_trace [OF this] assms(3)
  have "hash = sha256 L (spki kp)" "ud = bound_user_data L (spki kp)" "tr' = tr @ key_events"
    by (simp_all add: key_events_def)
  moreover have "gen_keypair E tr = Inr kp"
    using assms(3) by (auto simp: generate_keypair_and_hash_def io_bind_eq_Ok key_done Let_def)
  ultimately show ?thesis by blast
qed

lemma amd_report_done:
  assumes "snp_abi_ok E" "get_report_and_chain E L ud product (tr @ [fetching_report]) = (Ok (rep, chain), tr')"
  shows "length rep = REPORT_SIZE \<and> tr' = tr @ amd_events L product ud rep"
  using get_report_and_chain_done [OF assms] by (simp add: amd_events_def)

lemma build_amd_setup_done:
  assumes "rcgen_ok E L spki" "snp_abi_ok E" "sha256_ok L" "build_amd_setup E L product tr = (Ok st, tr')"
  obtains kp rep chain b where "gen_keypair E tr = Inr kp" "length rep = REPORT_SIZE"
    "fst (get_report_and_chain E L (bound_user_data L (spki kp)) product (tr @ key_events @ [fetching_report])) = Ok (rep, chain)"
    "certified E L kp (new_amd L rep chain) (tr @ key_events @ amd_events L product (bound_user_data L (spki kp)) rep) b (server_config st)"
    "setup_measurement st = take 48 (drop 144 rep)"
    "tr' = tr @ key_events @ amd_events L product (bound_user_data L (spki kp)) rep @ [SelfSign [(ATTEST_OID_ARCS, b)]]"
proof -
  from assms(4) obtain kp hash ud tr1 rep chain tr2 m cfg where
    g: "generate_keypair_and_hash E L tr = (Ok (kp, hash, ud), tr1)"
    and r: "get_report_and_chain E L ud product (tr1 @ [fetching_report]) = (Ok (rep, chain), tr2)"
    and m: "extract_measurement rep = (Ok m :: (bytes, anyhow) exec)"
    and c: "build_server_cert E L kp (new_amd L rep chain) tr2 = (Ok cfg, tr')"
    and st: "st = \<lparr>server_config = cfg, setup_measurement = m\<rparr>"
    by (auto simp: build_amd_setup_def io_bind_eq_Ok fetching_report_def)
  have k: "gen_keypair E tr = Inr kp" "ud = bound_user_data L (spki kp)" "tr1 = tr @ key_events"
    using generate_keypair_and_hash_done [OF assms(1,3) g] by simp_all
  have rep: "length rep = REPORT_SIZE" "tr2 = tr1 @ amd_events L product ud rep"
    using amd_report_done [OF assms(2) r] by simp_all
  obtain b where "certified E L kp (new_amd L rep chain) tr2 b cfg" "tr' = tr2 @ [SelfSign [(ATTEST_OID_ARCS, b)]]"
    using c by (rule build_server_cert_done)
  moreover have "fst (get_report_and_chain E L ud product (tr1 @ [fetching_report])) = Ok (rep, chain)" using r by simp
  ultimately show ?thesis
    using rep k m st by (intro that [of kp rep chain b]) (simp_all add: extract_measurement_eq)
qed

lemma build_amd_gpu_setup_done:
  assumes "rcgen_ok E L spki" "snp_abi_ok E" "sha256_ok L" "build_amd_gpu_setup E L product script tr = (Ok st, tr')"
  obtains kp rep chain jwt b where "gen_keypair E tr = Inr kp" "length rep = REPORT_SIZE"
    "fst (get_report_and_chain E L (bound_user_data L (spki kp)) product (tr @ key_events @ [fetching_report])) = Ok (rep, chain)"
    "fst (get_gpu_jwt E L (sha256 L (spki kp)) script
       (tr @ key_events @ amd_events L product (bound_user_data L (spki kp)) rep @ [fetching_token])) = Ok jwt"
    "certified E L kp (with_gpu_jwt (new_amd L rep chain) jwt)
       (tr @ key_events @ amd_events L product (bound_user_data L (spki kp)) rep @ token_events L (spki kp) script) b (server_config st)"
    "setup_measurement st = take 48 (drop 144 rep)"
    "tr' = tr @ key_events @ amd_events L product (bound_user_data L (spki kp)) rep @ token_events L (spki kp) script @
       [SelfSign [(ATTEST_OID_ARCS, b)]]"
proof -
  from assms(4) obtain kp hash ud tr1 rep chain tr2 m jwt tr3 cfg where
    g: "generate_keypair_and_hash E L tr = (Ok (kp, hash, ud), tr1)"
    and r: "get_report_and_chain E L ud product (tr1 @ [fetching_report]) = (Ok (rep, chain), tr2)"
    and m: "extract_measurement rep = (Ok m :: (bytes, anyhow) exec)"
    and j: "get_gpu_jwt E L hash script (tr2 @ [fetching_token]) = (Ok jwt, tr3)"
    and c: "build_server_cert E L kp (with_gpu_jwt (new_amd L rep chain) jwt) tr3 = (Ok cfg, tr')"
    and st: "st = \<lparr>server_config = cfg, setup_measurement = m\<rparr>"
    by (auto simp: build_amd_gpu_setup_def io_bind_eq_Ok Let_def fetching_report_def fetching_token_def)
  have k: "gen_keypair E tr = Inr kp" "hash = sha256 L (spki kp)" "ud = bound_user_data L (spki kp)" "tr1 = tr @ key_events"
    using generate_keypair_and_hash_done [OF assms(1,3) g] by simp_all
  have rep: "length rep = REPORT_SIZE" "tr2 = tr1 @ amd_events L product ud rep"
    using amd_report_done [OF assms(2) r] by simp_all
  have tr3: "tr3 = tr2 @ token_events L (spki kp) script"
    using extends_by_Ok [OF get_gpu_jwt_extends j] k(2) by (simp add: token_events_def)
  obtain b where "certified E L kp (with_gpu_jwt (new_amd L rep chain) jwt) tr3 b cfg" "tr' = tr3 @ [SelfSign [(ATTEST_OID_ARCS, b)]]"
    using c by (rule build_server_cert_done)
  moreover have "fst (get_report_and_chain E L ud product (tr1 @ [fetching_report])) = Ok (rep, chain)"
    "fst (get_gpu_jwt E L hash script (tr2 @ [fetching_token])) = Ok jwt" using r j by simp_all
  ultimately show ?thesis
    using rep tr3 k m st by (intro that [of kp rep chain jwt b]) (simp_all add: extract_measurement_eq)
qed

definition start_message :: "server_args \<Rightarrow> server_event" where
  "start_message args = Print (
     if \<not> amd args then ''[sifir-server] building TLS setup (mock attestation)...''
     else if gpu_cc args
     then ''[sifir-server] building TLS setup (AMD SEV-SNP + GPU CC, product='' @ snp_product args @ '')...''
     else ''[sifir-server] building TLS setup (AMD SEV-SNP, product='' @ snp_product args @ '')...'')"

text \<open>The events of collecting evidence for the key \<open>d\<close>, with the report \<open>rep\<close>, and the evidence itself: the
  extension \<open>ext\<close> is made of what mock signer, device, key service and sidecar delivered for the hash of \<open>d\<close>
  in a run that began with \<open>tr\<close>.\<close>

definition evidence_events :: "'a codec_lib_scheme \<Rightarrow> server_args \<Rightarrow> bytes \<Rightarrow> bytes \<Rightarrow> server_event list" where
  "evidence_events L args d rep =
     (if amd args then amd_events L (snp_product args) (bound_user_data L d) rep @
        (if gpu_cc args then token_events L d (the (gpu_attest_script args)) else [])
      else [])"

definition evidence_for ::
  "('kp, 'cfg, 'b) server_env_scheme \<Rightarrow> ('sk, 'vk, 'sg, 'dsg, 'a) crypto_lib_scheme \<Rightarrow> server_args \<Rightarrow>
     server_event list \<Rightarrow> bytes \<Rightarrow> bytes \<Rightarrow> attestation_extension \<Rightarrow> bool" where
  "evidence_for E L args tr d rep ext \<longleftrightarrow>
     (if \<not> amd args then
        \<exists>r. sign_mock_report L (sha256 L d) (replicate 48 0) = (Ok r :: (report, anyhow) exec) \<and>
          rep = raw r \<and> ext = new_mock L rep
      else
        \<exists>chain. fst (get_report_and_chain E L (sha256 L d @ replicate 32 0) (snp_product args)
            (tr @ [fetching_report])) = Ok (rep, chain) \<and>
          (if \<not> gpu_cc args then ext = new_amd L rep chain
           else \<exists>script jwt. gpu_attest_script args = Some script \<and>
             fst (get_gpu_jwt E L (sha256 L d) script
               (tr @ amd_events L (snp_product args) (sha256 L d @ replicate 32 0) rep @ [fetching_token])) = Ok jwt \<and>
             ext = with_gpu_jwt (new_amd L rep chain) jwt))"

definition attested_measurement :: "server_args \<Rightarrow> bytes \<Rightarrow> bytes" where
  "attested_measurement args rep = (if amd args then take 48 (drop 144 rep) else replicate 48 0)"

text \<open>A build needs the features that its flags ask for, and \<open>--gpu-cc\<close> its script.\<close>

definition flags_supported :: "cargo_features \<Rightarrow> server_args \<Rightarrow> bool" where
  "flags_supported F args \<longleftrightarrow>
     (amd args \<longrightarrow> feature_real_attestation F \<and> (gpu_cc args \<longrightarrow> feature_gpu_cc F \<and> gpu_attest_script args \<noteq> None))"

text \<open>What a setup that succeeds has made, for the key \<open>kp\<close>.\<close>

definition set_up ::
  "cargo_features \<Rightarrow> ('kp, 'cfg, 'b) server_env_scheme \<Rightarrow> ('sk, 'vk, 'sg, 'dsg, 'a) crypto_lib_scheme \<Rightarrow> ('kp \<Rightarrow> bytes) \<Rightarrow>
     server_args \<Rightarrow> server_event list \<Rightarrow> 'cfg \<Rightarrow> 'kp \<Rightarrow> bytes \<Rightarrow> attestation_extension \<Rightarrow> bytes \<Rightarrow> bool" where
  "set_up F E L spki args tr cfg kp rep ext b \<longleftrightarrow>
     flags_supported F args \<and> gen_keypair E (tr @ [start_message args]) = Inr kp \<and> length rep = REPORT_SIZE \<and>
     evidence_for E L args (tr @ start_message args # key_events) (spki kp) rep ext \<and>
     certified E L kp ext (tr @ start_message args # key_events @ evidence_events L args (spki kp) rep) b cfg"

definition attested_events ::
  "'a codec_lib_scheme \<Rightarrow> server_args \<Rightarrow> bytes \<Rightarrow> bytes \<Rightarrow> bytes \<Rightarrow> server_event list" where
  "attested_events L args d rep b =
     start_message args # key_events @ evidence_events L args d rep @ [SelfSign [(ATTEST_OID_ARCS, b)]]"

lemmas attested_defs = attested_events_def evidence_events_def attested_measurement_def start_message_def
  key_events_def amd_events_def token_events_def

lemma flags_cases:
  assumes "build_setup F E L args tr = (Ok st, tr')"
  obtains (mock) "\<not> amd args"
  | (amd) "amd args" "\<not> gpu_cc args" "feature_real_attestation F"
  | (gpu) script where "amd args" "gpu_cc args" "feature_real_attestation F" "feature_gpu_cc F" "gpu_attest_script args = Some script"
proof (cases "amd args")
  case True
  show ?thesis
  proof (cases "gpu_cc args")
    case False
    have "feature_real_attestation F"
      using assms build_setup_refused(1) [OF True False, of F E L tr] by (cases "feature_real_attestation F") auto
    then show ?thesis by (rule amd [OF True False])
  next
    case gpu_cc: True
    have F: "feature_real_attestation F" "feature_gpu_cc F"
      using assms build_setup_refused(2) [OF True gpu_cc, of F E L tr]
      by (cases "feature_real_attestation F \<and> feature_gpu_cc F"; auto)+
    obtain script where "gpu_attest_script args = Some script"
      using assms build_setup_refused(3) [OF True gpu_cc F, of E L tr] by (cases "gpu_attest_script args") auto
    then show ?thesis by (rule gpu [OF True gpu_cc F])
  qed
qed (rule mock)

lemma start_laws:
  assumes "library_laws E L spki"
  shows "rcgen_ok E L spki" "snp_abi_ok E" "sha256_ok L" "p384_ok L" "mock_key_ok L" "json_ok L" "b64_ok L"
  using assms by (simp_all add: library_laws_def)

lemma build_setup_done:
  assumes "library_laws E L spki" "build_setup F E L args tr = (Ok st, tr')"
  obtains kp rep ext b where "set_up F E L spki args tr (server_config st) kp rep ext b"
    "setup_measurement st = attested_measurement args rep" "tr' = tr @ attested_events L args (spki kp) rep b"
proof -
  note laws = start_laws [OF assms(1)]
  let ?tr = "tr @ [start_message args]"
  show ?thesis
    using assms(2)
  proof (cases rule: flags_cases)
    case mock
    have run: "build_mock_setup E L ?tr = (Ok st, tr')"
      using assms(2) unfolding build_setup_mock [OF mock] by (simp add: start_message_def mock)
    obtain kp r b where k: "gen_keypair E ?tr = Inr kp"
      and r: "sign_mock_report L (sha256 L (spki kp)) (replicate 48 0) = (Ok r :: (report, anyhow) exec)"
      and c: "certified E L kp (new_mock L (raw r)) (?tr @ key_events) b (server_config st)"
      and m: "setup_measurement st = replicate 48 0" and t: "tr' = ?tr @ key_events @ [SelfSign [(ATTEST_OID_ARCS, b)]]"
      by (rule build_mock_setup_done [OF laws(1) run])
    have "length (raw r) = REPORT_SIZE"
      using mock_signed_verifies [OF laws(4,5) _ _ r] laws(3) by simp
    then show ?thesis
      using k r c m t mock
      by (intro that [of kp "raw r" "new_mock L (raw r)" b])
        (auto simp: set_up_def flags_supported_def evidence_for_def evidence_events_def attested_measurement_def attested_events_def)
  next
    case amd
    have run: "build_amd_setup E L (snp_product args) ?tr = (Ok st, tr')"
      using assms(2) unfolding build_setup_amd [OF amd] by (simp add: start_message_def amd(1,2))
    obtain kp rep chain b where *: "gen_keypair E ?tr = Inr kp" "length rep = REPORT_SIZE"
      "fst (get_report_and_chain E L (bound_user_data L (spki kp)) (snp_product args) (?tr @ key_events @ [fetching_report])) = Ok (rep, chain)"
      "certified E L kp (new_amd L rep chain)
         (?tr @ key_events @ amd_events L (snp_product args) (bound_user_data L (spki kp)) rep) b (server_config st)"
      "setup_measurement st = take 48 (drop 144 rep)"
      "tr' = ?tr @ key_events @ amd_events L (snp_product args) (bound_user_data L (spki kp)) rep @ [SelfSign [(ATTEST_OID_ARCS, b)]]"
      by (rule build_amd_setup_done [OF laws(1-3) run])
    then show ?thesis
      using amd
      by (intro that [of kp rep "new_amd L rep chain" b])
        (auto simp: set_up_def flags_supported_def evidence_for_def evidence_events_def attested_measurement_def
          attested_events_def bound_user_data_def)
  next
    case (gpu script)
    have run: "build_amd_gpu_setup E L (snp_product args) script ?tr = (Ok st, tr')"
      using assms(2) unfolding build_setup_gpu [OF gpu] by (simp add: start_message_def gpu(1,2))
    obtain kp rep chain jwt b where *: "gen_keypair E ?tr = Inr kp" "length rep = REPORT_SIZE"
      "fst (get_report_and_chain E L (bound_user_data L (spki kp)) (snp_product args) (?tr @ key_events @ [fetching_report])) = Ok (rep, chain)"
      "fst (get_gpu_jwt E L (sha256 L (spki kp)) script
         (?tr @ key_events @ amd_events L (snp_product args) (bound_user_data L (spki kp)) rep @ [fetching_token])) = Ok jwt"
      "certified E L kp (with_gpu_jwt (new_amd L rep chain) jwt)
         (?tr @ key_events @ amd_events L (snp_product args) (bound_user_data L (spki kp)) rep @ token_events L (spki kp) script) b
         (server_config st)"
      "setup_measurement st = take 48 (drop 144 rep)"
      "tr' = ?tr @ key_events @ amd_events L (snp_product args) (bound_user_data L (spki kp)) rep @
         token_events L (spki kp) script @ [SelfSign [(ATTEST_OID_ARCS, b)]]"
      by (rule build_amd_gpu_setup_done [OF laws(1-3) run])
    then show ?thesis
      using gpu
      by (intro that [of kp rep "with_gpu_jwt (new_amd L rep chain) jwt" b])
        (auto simp: set_up_def flags_supported_def evidence_for_def evidence_events_def attested_measurement_def
          attested_events_def bound_user_data_def)
  qed
qed

definition listening_events :: "'a codec_lib_scheme \<Rightarrow> server_args \<Rightarrow> bytes \<Rightarrow> server_event list" where
  "listening_events L args rep =
     [measurement_line L (attested_measurement args rep), Print (''[sifir-server] listening on https://'' @ listen args)] @
     (if backend args = None then [Print (''[sifir-server] no backend configured '' @ em_dash @ '' echo mode active'')] else []) @
     [Bind (listen args)]"

lemma server_start_done:
  assumes "library_laws E L spki" "server_start F E L args tr = (Ok (cfg, B), tr')"
  obtains kp rep ext b where "set_up F E L spki args tr cfg kp rep ext b" "B = backend args"
    "tr' = tr @ attested_events L args (spki kp) rep b @ listening_events L args rep"
proof -
  from assms(2) obtain st tr1 where st: "build_setup F E L args tr = (Ok st, tr1)" and B: "B = backend args"
    and cfg: "cfg = server_config st"
    and tr': "tr' = tr1 @ [measurement_line L (setup_measurement st),
        Print (''[sifir-server] listening on https://'' @ listen args)] @
      (if backend args = None then [Print (''[sifir-server] no backend configured '' @ em_dash @ '' echo mode active'')] else []) @
      [Bind (listen args)]"
    by (auto simp: server_start_def io_bind_eq_Ok measurement_line_def io_event_def split: if_splits)
  obtain kp rep ext b where "set_up F E L spki args tr (server_config st) kp rep ext b"
    "setup_measurement st = attested_measurement args rep" "tr1 = tr @ attested_events L args (spki kp) rep b"
    by (rule build_setup_done [OF assms(1) st])
  with tr' B cfg show ?thesis by (intro that [of kp rep ext b]) (simp_all add: listening_events_def)
qed

text \<open>The identity of a gateway that has started.\<close>

lemma evidence_mode:
  assumes "evidence_for E L args tr d rep ext"
  shows "ext_mode ext = (if amd args then AmdSevSnp else Mock) \<and> (gpu_jwt ext \<noteq> None \<longleftrightarrow> amd args \<and> gpu_cc args)"
  using assms by (auto simp: evidence_for_def new_mock_def new_amd_def with_gpu_jwt_def split: if_splits)

lemma evidence_utf8:
  assumes "json_ok L" "b64_ok L" "evidence_for E L args tr d rep ext"
  shows "ext_utf8 ext"
proof -
  show ?thesis
    using assms(2,3)
    by (auto simp: evidence_for_def intro!: ext_utf8_new(3) intro: gpu_jwt_utf8 [OF assms(1)] split: if_splits)
qed

lemma certified_identity:
  assumes "rcgen_ok E L spki" "json_ok L" "ext_utf8 ext" "certified E L kp ext tr b cfg"
  shows "identity_of E L spki cfg kp ext"
proof (rule build_server_cert_identity [OF assms(1-3)])
  show "fst (build_server_cert E L kp ext tr) = Ok cfg"
    using assms(4)
    by (auto simp: certified_def presents_def build_server_cert_def to_bytes_def io_bind_fst_Ok io_lift_fst from_res_ctx_eq_Ok)
qed

lemma set_up_identity:
  assumes "library_laws E L spki" "set_up F E L spki args tr cfg kp rep ext b"
  shows "identity_of E L spki cfg kp ext"
  using assms(2) certified_identity [OF start_laws(1,6) [OF assms(1)]] evidence_utf8 [OF start_laws(6,7) [OF assms(1)]]
  unfolding set_up_def by blast

lemma device_opened:
  "OpenDevice SNP_DEVICE \<in> set (attested_events L args d rep b @ listening_events L args rep) \<longleftrightarrow> amd args"
  by (auto simp: attested_events_def evidence_events_def amd_events_def snp_request_events_def key_events_def
      listening_events_def start_message_def measurement_line_def kds_events_def token_events_def fetching_report_def fetching_token_def)

definition refusal :: "cargo_features \<Rightarrow> server_args \<Rightarrow> string" where
  "refusal F args =
     (if \<not> gpu_cc args then ''--amd requires compiling with `--features real-attestation`''
      else if feature_real_attestation F \<and> feature_gpu_cc F then ''--gpu-cc requires --gpu-attest-script <path>''
      else ''--gpu-cc requires compiling with `--features real-attestation,gpu-cc`'')"

lemma server_start_Err: "build_setup F E L args tr = (Err e, tr') \<Longrightarrow> server_start F E L args tr = (Err e, tr')"
  by (simp add: server_start_def io_bind_def)

lemma server_start_refused:
  assumes "\<not> flags_supported F args"
  shows "server_start F E L args tr = (Err [refusal F args], tr)"
proof (rule server_start_Err, cases "gpu_cc args")
  case False
  then show "build_setup F E L args tr = (Err [refusal F args], tr)"
    using assms build_setup_refused(1) [of args F E L tr] by (simp only: flags_supported_def refusal_def) simp
next
  case True
  then show "build_setup F E L args tr = (Err [refusal F args], tr)"
    using assms build_setup_refused(2,3) [of args F E L tr]
    by (cases "feature_real_attestation F \<and> feature_gpu_cc F") (simp_all only: flags_supported_def refusal_def, simp_all)
qed

subsection \<open>Properties\<close>

text \<open>C16: The order of everything the server does, and that its evidence is for its own key. It makes its key
  \<open>kp\<close>; collects the evidence that the flags ask for, of the hash of that key's SPKI and of nothing else;
  signs with that key a certificate that carries exactly this evidence, which its TLS configuration
  presents; prints the measurement of the report; and only then opens its port. From then on, apart from
  lines of its error log, it only posts to the backend of its command line, once each, the requests it
  forwards, and nothing if it has no backend.\<close>

theorem server_attests_before_listening:
  assumes "library_laws E L spki" "server_reaches F R E L args tr0 cfg g"
  shows "\<exists>kp cert rep ext b after.
    gen_keypair E (tr0 @ [start_message args]) = Inr kp \<and>
    evidence_for E L args (tr0 @ [start_message args, GenerateKey, SelfSign []]) (spki kp) rep ext \<and>
    ext_to_vec L ext = Inr b \<and>
    self_signed E (tr0 @ [start_message args, GenerateKey, SelfSign []] @ evidence_events L args (spki kp) rep)
      [(ATTEST_OID_ARCS, b)] kp = Inr cert \<and>
    presents E cfg cert kp \<and> length rep = REPORT_SIZE \<and>
    trace g = tr0 @ [start_message args, GenerateKey, SelfSign []] @ evidence_events L args (spki kp) rep @
      [SelfSign [(ATTEST_OID_ARCS, b)]] @ listening_events L args rep @ after \<and>
    filter (\<lambda>ev. \<nexists>s. ev = EPrint s) after =
      map (\<lambda>(i, req). HttpPost (the (backend args) @ ''/v1/generate'') (req_body req) (req_content_type req)) (forwarded g) \<and>
    (backend args = None \<longrightarrow> forwarded g = [])"
proof -
  obtain B tr where start: "server_start F E L args tr0 = (Ok (cfg, B), tr)"
    and run: "reaches (gateway_step R E L B) (gateway_init tr) g"
    using assms(2) unfolding server_reaches_def by blast
  obtain kp rep ext b where started: "set_up F E L spki args tr0 cfg kp rep ext b" "B = backend args"
    "tr = tr0 @ attested_events L args (spki kp) rep b @ listening_events L args rep"
    by (rule server_start_done [OF assms(1) start])
  obtain cert where cert: "self_signed E (tr0 @ start_message args # key_events @ evidence_events L args (spki kp) rep)
      [(ATTEST_OID_ARCS, b)] kp = Inr cert" "presents E cfg cert kp"
    using started(1) unfolding set_up_def certified_def by blast
  have "gateway_inv tr R E L B g" using gw.reachable_inv [OF refl run] .
  then have none: "backend args = None \<longrightarrow> forwarded g = []"
    using started(2) by (cases "forwarded g") (auto simp: gateway_inv_def forwards_def)
  obtain after where after: "trace g = tr @ after" "filter (\<lambda>ev. \<nexists>s. ev = EPrint s) after =
      map (\<lambda>(i, req). HttpPost (the B @ ''/v1/generate'') (req_body req) (req_content_type req)) (forwarded g)"
    using gateway_effects [OF run] by blast
  show ?thesis
    by (rule exI [of _ kp], rule exI [of _ cert], rule exI [of _ rep], rule exI [of _ ext], rule exI [of _ b], rule exI [of _ after])
      (use started cert none after in \<open>simp add: set_up_def certified_def attested_events_def key_events_def\<close>)
qed

text \<open>C32: What is attested is what the flags say. A server that starts presents a certificate whose
  extension is AMD evidence exactly if it has \<open>--amd\<close>, with a GPU token exactly if it has \<open>--gpu-cc\<close> as well, and
  it has opened the guest device exactly if it has \<open>--amd\<close>: it never falls back to the mock report, nor
  pretends to hardware. A build without the features for the flags, or \<open>--gpu-cc\<close> without its script, does
  not start at all: it fails with a message that says so, before any effect. (Without \<open>--amd\<close>, \<open>--gpu-cc\<close> changes nothing.)\<close>

theorem attested_as_the_flags_say:
  assumes "library_laws E L spki"
  shows "(\<forall>cfg B tr'. server_start F E L args tr = (Ok (cfg, B), tr') \<longrightarrow>
      (\<exists>kp ext evs. identity_of E L spki cfg kp ext \<and> tr' = tr @ evs \<and>
        ext_mode ext = (if amd args then AmdSevSnp else Mock) \<and>
        (gpu_jwt ext \<noteq> None \<longleftrightarrow> amd args \<and> gpu_cc args) \<and>
        (OpenDevice ''/dev/snp-guest'' \<in> set evs \<longleftrightarrow> amd args))) \<and>
    (amd args \<and> (\<not> feature_real_attestation F \<or> gpu_cc args \<and> (\<not> feature_gpu_cc F \<or> gpu_attest_script args = None)) \<longrightarrow>
      server_start F E L args tr = (Err [
        if \<not> gpu_cc args then ''--amd requires compiling with `--features real-attestation`''
        else if feature_real_attestation F \<and> feature_gpu_cc F then ''--gpu-cc requires --gpu-attest-script <path>''
        else ''--gpu-cc requires compiling with `--features real-attestation,gpu-cc`''], tr))"
  unfolding refusal_def [symmetric]
proof (intro conjI allI impI)
  fix cfg B tr' assume start: "server_start F E L args tr = (Ok (cfg, B), tr')"
  obtain kp rep ext b where started: "set_up F E L spki args tr cfg kp rep ext b"
    "tr' = tr @ attested_events L args (spki kp) rep b @ listening_events L args rep"
    by (rule server_start_done [OF assms start])
  have "identity_of E L spki cfg kp ext" by (rule set_up_identity [OF assms started(1)])
  moreover have "ext_mode ext = (if amd args then AmdSevSnp else Mock)" "gpu_jwt ext \<noteq> None \<longleftrightarrow> amd args \<and> gpu_cc args"
    using evidence_mode started(1) unfolding set_up_def by blast+
  ultimately show "\<exists>kp ext evs. identity_of E L spki cfg kp ext \<and> tr' = tr @ evs \<and>
      ext_mode ext = (if amd args then AmdSevSnp else Mock) \<and> (gpu_jwt ext \<noteq> None \<longleftrightarrow> amd args \<and> gpu_cc args) \<and>
      (OpenDevice ''/dev/snp-guest'' \<in> set evs \<longleftrightarrow> amd args)"
    using device_opened [of L args "spki kp" rep b] started(2) unfolding SNP_DEVICE_def by blast
next
  assume "amd args \<and> (\<not> feature_real_attestation F \<or> gpu_cc args \<and> (\<not> feature_gpu_cc F \<or> gpu_attest_script args = None))"
  then show "server_start F E L args tr = (Err [refusal F args], tr)"
    by (intro server_start_refused) (auto simp: flags_supported_def)
qed

end
