(* ===== verification/System.thy ===== *)
theory System
  imports Handshake Client_Main Gateway
begin

section \<open>The two programs together\<close>

text \<open>
  Properties that span \<open>sifir-server\<close> and \<open>sifir-client\<close>: what a client decides about a gateway that
  has started, for each way to start one, and what becomes of a prompt that reaches an echo gateway.
\<close>

definition axum_ok :: "router \<Rightarrow> bool" where
  "axum_ok R \<longleftrightarrow> (\<forall>table req h. List.find (\<lambda>(p, m, h). p = req_path req \<and> m = req_method req) table = Some h \<longrightarrow>
     length (req_body req) \<le> 2097152 \<longrightarrow> R table req = Inr (Inl (snd (snd h))))"

text \<open>The two crates declare the types of the wire twice, each for its own end. They fit: the server reads
  the prompt of the client's request and skips the token limit; the client reads the server's response.\<close>

lemma plain_request: "json_plain 127 (ser_request r)"
  by (simp add: ser_request_def serde)

lemma de_ser_request: "de_request (ser_request r) = Some (prompt r)"
proof -
  have "distinct (map fst [(''prompt'', JStr (prompt r)), (''max_tokens'', ser_u32 (max_tokens r))])" by simp
  from struct_fields_object [OF this] show ?thesis
    by (simp add: de_request_def ser_request_def serde)
qed

lemma utf8_request: "utf8 (prompt r) \<Longrightarrow> json_utf8 (ser_request r)"
proof -
  have "utf8 ''prompt''" "utf8 ''max_tokens''" by (rule utf8_ascii, simp add: ascii_def)+
  then show "utf8 (prompt r) \<Longrightarrow> ?thesis" by (simp add: ser_request_def serde)
qed

interpretation request_wire: serde_pair "\<lambda>r. utf8 (prompt r)" ser_request de_request prompt
  by unfold_locales (rule de_ser_request, rule plain_request, rule utf8_request)

lemma plain_response: "json_plain 127 (ser_response r)"
  by (simp add: ser_response_def serde)

definition response_view :: "generate_response \<Rightarrow> client_response" where
  "response_view r = \<lparr>resp_text = reply_text r, resp_tokens_used = tokens_used r\<rparr>"

lemma de_ser_response: "de_response (ser_response r) = Some (response_view r)"
proof -
  have "distinct (map fst [(''text'', JStr (reply_text r)), (''tokens_used'', ser_u32 (tokens_used r))])" by simp
  from struct_fields_object [OF this] show ?thesis
    by (simp add: de_response_def ser_response_def response_view_def serde)
qed

lemma utf8_response: "utf8 (reply_text r) \<Longrightarrow> json_utf8 (ser_response r)"
proof -
  have "utf8 ''text''" "utf8 ''tokens_used''" by (rule utf8_ascii, simp add: ascii_def)+
  then show "utf8 (reply_text r) \<Longrightarrow> ?thesis" by (simp add: ser_response_def serde)
qed

interpretation response_wire: serde_pair "\<lambda>r. utf8 (reply_text r)" ser_response de_response response_view
  by unfold_locales (rule de_ser_response, rule plain_response, rule utf8_response)

lemma utf8_echo: "utf8 p \<Longrightarrow> utf8 (''[mock inference] echo: '' @ p)"
proof (rule utf8_append)
  show "utf8 ''[mock inference] echo: ''" by (rule utf8_ascii) (simp add: ascii_def)
qed

text \<open>The bytes of a response body as \<open>axum\<close> makes them; what cannot be serialised becomes a text.\<close>

definition body_bytes :: "'a codec_lib_scheme \<Rightarrow> http_reply \<Rightarrow> bytes" where
  "body_bytes L reply =
     (case reply_body reply of
        Json r \<Rightarrow> (case json_to_vec L (ser_response r) of Inr b \<Rightarrow> b | Inl e \<Rightarrow> str_bytes e)
      | Raw b \<Rightarrow> b
      | Text t \<Rightarrow> str_bytes t
      | Empty \<Rightarrow> [])"

lemma find_routes:
  "List.find (\<lambda>(p, m, h). p = ''/v1/generate'' \<and> m = POST) routes = Some (''/v1/generate'', POST, GenerateHandler)"
  "List.find (\<lambda>(p, m, h). p = ''/health'' \<and> m = GET) routes = Some (''/health'', GET, HealthHandler)"
  by (simp_all add: routes_def)

subsection \<open>Verdicts\<close>

text \<open>The verdicts of \<open>Handshake\<close> on the three builders, for the gateway that \<open>server_start\<close> starts.\<close>

lemma mock_gateway:
  assumes "library_laws E L spki" "\<not> amd args" "fst (server_start F E L args tr) = Ok (cfg, B)"
  shows "measurement_line L (replicate 48 0) \<in> set (snd (server_start F E L args tr)) \<and>
    (\<exists>kp der. presents E cfg der kp \<and>
      (\<forall>self tr'. fst (verify_server_cert L self der tr') = Ok () \<longleftrightarrow>
         mode self = VMock \<and> \<not> verify_gpu_cc self \<and> expected_measurement self = replicate 48 0))"
proof -
  have laws: "rcgen_ok E L spki" "json_ok L" "b64_ok L" "p384_ok L" "mock_key_ok L" "sha256_ok L"
    using assms(1) by (simp_all add: library_laws_def)
  obtain st where st: "fst (build_setup F E L args tr) = Ok st" "cfg = server_config st"
    and line: "measurement_line L (setup_measurement st) \<in> set (snd (server_start F E L args tr))"
    using server_start_Ok [OF assms(3)] by metis
  show ?thesis
    using mock_setup_verdict [OF laws st(1) [unfolded build_setup_mock [OF assms(2)]]] line
    unfolding st(2) by metis
qed

lemma amd_gateway:
  assumes "library_laws E L spki" "amd args" "\<not> gpu_cc args" "fst (server_start F E L args tr) = Ok (cfg, B)"
  shows "\<exists>kp der rep chain tr1. presents E cfg der kp \<and>
    fst (get_report_and_chain E L (sha256 L (spki kp) @ replicate 32 0) (snp_product args) tr1) = Ok (rep, chain) \<and>
    measurement_line L (take 48 (drop 144 rep)) \<in> set (snd (server_start F E L args tr)) \<and>
    (\<forall>self tr'. fst (verify_server_cert L self der tr') = Ok () \<longleftrightarrow>
       mode self = VAmdSevSnp \<and> \<not> verify_gpu_cc self \<and>
       (expected_measurement self = replicate 48 0 \<or> expected_measurement self = take 48 (drop 144 rep)) \<and>
       good_evidence L rep chain (spki kp))"
proof -
  have laws: "rcgen_ok E L spki" "json_ok L" "b64_ok L" "mock_key_ok L" "sha256_ok L" "snp_abi_ok E"
    using assms(1) by (simp_all add: library_laws_def)
  obtain st where st: "fst (build_setup F E L args tr) = Ok st" "cfg = server_config st"
    and line: "measurement_line L (setup_measurement st) \<in> set (snd (server_start F E L args tr))"
    using server_start_Ok [OF assms(4)] by metis
  have F: "feature_real_attestation F"
    using st(1) build_setup_refused(1) [OF assms(2,3), of F E L tr] by (cases "feature_real_attestation F") auto
  show ?thesis
    using amd_setup_verdict [OF laws st(1) [unfolded build_setup_amd [OF assms(2,3) F]]] line
    unfolding st(2) by metis
qed

lemma gpu_gateway:
  assumes "library_laws E L spki" "amd args" "gpu_cc args" "fst (server_start F E L args tr) = Ok (cfg, B)"
  shows "\<exists>kp der rep chain jwt script out tr1 tr2. presents E cfg der kp \<and> gpu_attest_script args = Some script \<and>
    fst (get_report_and_chain E L (sha256 L (spki kp) @ replicate 32 0) (snp_product args) tr1) = Ok (rep, chain) \<and>
    run_command E tr2 ''python3'' [script, ''--nonce'', hex_encode L (sha256 L (spki kp))] = Inr out \<and>
    gpu_result_from_slice L (stdout out) = Inr jwt \<and>
    measurement_line L (take 48 (drop 144 rep)) \<in> set (snd (server_start F E L args tr)) \<and>
    (\<forall>self tr'. fst (verify_server_cert L self der tr') = Ok () \<longleftrightarrow>
       mode self = VAmdSevSnp \<and>
       (expected_measurement self = replicate 48 0 \<or> expected_measurement self = take 48 (drop 144 rep)) \<and>
       good_evidence L rep chain (spki kp) \<and>
       (verify_gpu_cc self \<longrightarrow> (\<exists>g. verify_gpu_jwt L jwt (spki kp) = Ok g)))"
proof -
  have laws: "rcgen_ok E L spki" "json_ok L" "b64_ok L" "mock_key_ok L" "sha256_ok L" "snp_abi_ok E"
    using assms(1) by (simp_all add: library_laws_def)
  obtain st where st: "fst (build_setup F E L args tr) = Ok st" "cfg = server_config st"
    and line: "measurement_line L (setup_measurement st) \<in> set (snd (server_start F E L args tr))"
    using server_start_Ok [OF assms(4)] by metis
  have F: "feature_real_attestation F" "feature_gpu_cc F"
    using st(1) build_setup_refused(2) [OF assms(2,3), of F E L tr]
    by (cases "feature_real_attestation F \<and> feature_gpu_cc F"; auto)+
  obtain script where s: "gpu_attest_script args = Some script"
    using st(1) build_setup_refused(3) [OF assms(2,3) F, of E L tr] by (cases "gpu_attest_script args") auto
  let ?tr = "tr @ [Print (''[sifir-server] building TLS setup (AMD SEV-SNP + GPU CC, product='' @ snp_product args @ '')...'')]"
  show ?thesis
    using amd_gpu_setup_verdict [OF laws st(1) [unfolded build_setup_gpu [OF assms(2,3) F s]]]
  proof (elim exE conjE)
    fix kp der rep chain jwt out tr1
    assume v: "presents E (server_config st) der kp" "setup_measurement st = take 48 (drop 144 rep)"
      "fst (get_report_and_chain E L (sha256 L (spki kp) @ replicate 32 0) (snp_product args) (?tr @ before_device)) = Ok (rep, chain)"
      "run_command E tr1 ''python3'' [script, ''--nonce'', hex_encode L (sha256 L (spki kp))] = Inr out"
      "gpu_result_from_slice L (stdout out) = Inr jwt"
      and verdict: "\<forall>self tr'. fst (verify_server_cert L self der tr') = Ok () \<longleftrightarrow> mode self = VAmdSevSnp \<and>
       (expected_measurement self = replicate 48 0 \<or> expected_measurement self = setup_measurement st) \<and>
       good_evidence L rep chain (spki kp) \<and>
       (verify_gpu_cc self \<longrightarrow> (\<exists>g. verify_gpu_jwt L jwt (spki kp) = Ok g))"
    show ?thesis
      using v(1,3-5) verdict line s unfolding v(2) st(2) by blast
  qed
qed


lemma client_mode_eq: "client_mode c = VMock \<longleftrightarrow> \<not> client_amd c" "client_mode c = VAmdSevSnp \<longleftrightarrow> client_amd c"
  by (simp_all add: client_mode_def)

text \<open>With \<open>--amd\<close>, with or without a GPU token.\<close>

lemma amd_started:
  assumes "library_laws E L spki" "amd args" "fst (server_start F E L args tr) = Ok (cfg, B)"
  obtains kp der rep chain tr1 token_good where "presents E cfg der kp"
    "fst (get_report_and_chain E L (sha256 L (spki kp) @ replicate 32 0) (snp_product args) tr1) = Ok (rep, chain)"
    "measurement_line L (take 48 (drop 144 rep)) \<in> set (snd (server_start F E L args tr))"
    "\<And>self tr'. fst (verify_server_cert L self der tr') = Ok () \<longleftrightarrow>
       mode self = VAmdSevSnp \<and> (verify_gpu_cc self \<longrightarrow> gpu_cc args \<and> token_good) \<and>
       (expected_measurement self = replicate 48 0 \<or> expected_measurement self = take 48 (drop 144 rep)) \<and>
       good_evidence L rep chain (spki kp)"
proof (cases "gpu_cc args")
  case False
  obtain kp der rep chain tr1 where g: "presents E cfg der kp"
    "fst (get_report_and_chain E L (sha256 L (spki kp) @ replicate 32 0) (snp_product args) tr1) = Ok (rep, chain)"
    "measurement_line L (take 48 (drop 144 rep)) \<in> set (snd (server_start F E L args tr))"
    "\<forall>self tr'. fst (verify_server_cert L self der tr') = Ok () \<longleftrightarrow>
       mode self = VAmdSevSnp \<and> \<not> verify_gpu_cc self \<and>
       (expected_measurement self = replicate 48 0 \<or> expected_measurement self = take 48 (drop 144 rep)) \<and>
       good_evidence L rep chain (spki kp)"
    using amd_gateway [OF assms(1,2) False assms(3)] by (elim exE conjE)
  show ?thesis by (rule that [OF g(1-3), of False]) (use g(4) False in blast)
next
  case True
  obtain kp der rep chain jwt script out tr1 tr2 where g: "presents E cfg der kp"
    "fst (get_report_and_chain E L (sha256 L (spki kp) @ replicate 32 0) (snp_product args) tr1) = Ok (rep, chain)"
    "measurement_line L (take 48 (drop 144 rep)) \<in> set (snd (server_start F E L args tr))"
    "\<forall>self tr'. fst (verify_server_cert L self der tr') = Ok () \<longleftrightarrow>
       mode self = VAmdSevSnp \<and>
       (expected_measurement self = replicate 48 0 \<or> expected_measurement self = take 48 (drop 144 rep)) \<and>
       good_evidence L rep chain (spki kp) \<and>
       (verify_gpu_cc self \<longrightarrow> (\<exists>g. verify_gpu_jwt L jwt (spki kp) = Ok g))"
    using gpu_gateway [OF assms(1,2) True assms(3)] by (elim exE conjE)
  show ?thesis by (rule that [OF g(1-3), of "\<exists>g. verify_gpu_jwt L jwt (spki kp) = Ok g"]) (use g(4) True in blast)
qed

subsection \<open>A deployment, by what its oracles answer\<close>

text \<open>The guest device delivers the firmware's report \<open>rep ud\<close> on the user data \<open>ud\<close> that it is given, at the
  start of the response, where the source file expects it. The reports of one machine hold the user data,
  and for the rest the same measurement, TCB, chip id and bytes 392 to 456.\<close>

definition snp_device :: "('kp, 'cfg, 'b) server_env_scheme \<Rightarrow> (bytes \<Rightarrow> bytes) \<Rightarrow> bool" where
  "snp_device E rep \<longleftrightarrow>
     (\<forall>tr. open_device E tr ''/dev/snp-guest'' = Inr ()) \<and>
     (\<forall>tr a. msg_version a = 1 \<and> vmpl (req_data a) = 0 \<longrightarrow>
        (\<exists>out. snp_ioctl E tr 0xC0202B00 a = (0, out) \<and> exitinfo2 out = 0 \<and>
           take 1184 (resp_bytes (resp_data out)) = rep (user_data (req_data a))))"

record machine =
  m_measurement :: bytes
  m_tcb :: tcb_version
  m_chip :: bytes
  m_bytes_392 :: bytes

definition reports_of :: "machine \<Rightarrow> (bytes \<Rightarrow> bytes) \<Rightarrow> bool" where
  "reports_of m rep \<longleftrightarrow>
     (\<forall>ud. length ud = 64 \<longrightarrow>
        take 64 (drop 80 (rep ud)) = ud \<and> take 48 (drop 144 (rep ud)) = m_measurement m \<and>
        take 64 (drop 416 (rep ud)) = m_chip m \<and> take 64 (drop 392 (rep ud)) = m_bytes_392 m \<and>
        \<lparr>bl_spl = rep ud ! 56, tee_spl = rep ud ! 57, snp_spl = rep ud ! 62, ucode_spl = rep ud ! 63\<rparr> = m_tcb m)"

text \<open>The key service, under the addresses of its documentation: it has one certificate for that TCB, the one of the
  machine's chip, and delivers the bundle of the two certificates above it as PEM text.\<close>

definition kds_vcek_url :: "string \<Rightarrow> string \<Rightarrow> tcb_version \<Rightarrow> string" where
  "kds_vcek_url product chip tcb =
     ''https://kdsintf.amd.com/vcek/v1/'' @ product @ ''/'' @ chip @
     ''?blSPL='' @ show_nat (unat (bl_spl tcb)) @ ''&teeSPL='' @ show_nat (unat (tee_spl tcb)) @
     ''&snpSPL='' @ show_nat (unat (snp_spl tcb)) @ ''&ucodeSPL='' @ show_nat (unat (ucode_spl tcb))"

definition kds_bundle_url :: "string \<Rightarrow> string" where
  "kds_bundle_url product = ''https://kdsintf.amd.com/vcek/v1/'' @ product @ ''/cert_chain''"

lemma kds_urls: "vcek_url_of = kds_vcek_url" "chain_url_of = kds_bundle_url"
  by (intro ext; simp add: vcek_url_of_def kds_vcek_url_def KDS_BASE_def)
    (intro ext; simp add: chain_url_of_def kds_bundle_url_def KDS_BASE_def)

definition key_service ::
  "('kp, 'cfg, 'b) server_env_scheme \<Rightarrow> 'a codec_lib_scheme \<Rightarrow> string \<Rightarrow> machine \<Rightarrow> bytes \<Rightarrow> bytes \<Rightarrow> bytes \<Rightarrow> bool" where
  "key_service E L product m vcek ask ark \<longleftrightarrow>
     (\<forall>tr. http_client_build E tr = Inr ()) \<and>
     (\<forall>tr chip der. length chip = 64 \<longrightarrow>
        (kds_answer E tr (kds_vcek_url product (hex_encode L chip) (m_tcb m)) der \<longleftrightarrow> chip = m_chip m \<and> der = vcek)) \<and>
     (\<forall>tr. \<exists>answer. kds_answer E tr (kds_bundle_url product) answer \<and> pem_text L (response_text E answer) [ask, ark])"

text \<open>The machine makes keys, and with each of them certificates with any extensions, at most one for each
  identifier, which \<open>rustls\<close> takes with the key; and the port is free.\<close>

definition host_works :: "('kp, 'cfg, 'b) server_env_scheme \<Rightarrow> bool" where
  "host_works E \<longleftrightarrow>
     (\<forall>tr. \<exists>kp. gen_keypair E tr = Inr kp) \<and>
     (\<forall>tr tr' exts kp. gen_keypair E tr = Inr kp \<and> distinct (map fst exts) \<longrightarrow>
        (\<exists>der cfg. self_signed E tr' exts kp = Inr der \<and> server_config_build E der (kp_serialized_der E kp) = Inr cfg)) \<and>
     (\<forall>tr a. \<exists>u. bind_listener E tr a = Inr u)"

lemma host_signs:
  assumes "host_works E" "gen_keypair E tr = Inr kp"
  shows "\<exists>der cfg. self_signed E tr' [] kp = Inr der \<and> server_config_build E der (kp_serialized_der E kp) = Inr cfg"
    "\<exists>der cfg. self_signed E tr' [(oid, b)] kp = Inr der \<and> server_config_build E der (kp_serialized_der E kp) = Inr cfg"
proof -
  have "\<exists>der cfg. self_signed E tr' exts kp = Inr der \<and> server_config_build E der (kp_serialized_der E kp) = Inr cfg"
    if "distinct (map fst exts)" for exts
    using that assms unfolding host_works_def by blast
  from this [of "[]"] this [of "[(oid, b)]"] show
    "\<exists>der cfg. self_signed E tr' [] kp = Inr der \<and> server_config_build E der (kp_serialized_der E kp) = Inr cfg"
    "\<exists>der cfg. self_signed E tr' [(oid, b)] kp = Inr der \<and> server_config_build E der (kp_serialized_der E kp) = Inr cfg"
    by simp_all
qed

lemma kds_answer_unique: "kds_answer E tr url bs \<Longrightarrow> kds_answer E tr url bs' \<Longrightarrow> bs = bs'"
  by (auto simp: kds_answer_def)

lemma deployment_evidence:
  assumes laws: "snp_abi_ok E" "b64_ok L"
    and dev: "snp_device E rep" "reports_of m rep" and kds: "key_service E L product m vcek ask ark"
    and ud: "length ud = 64"
  shows "fst (get_report_and_chain E L ud product tr) = Ok (report, chain) \<longleftrightarrow>
    m_bytes_392 m = m_chip m \<and> report = rep ud \<and> chain = [vcek, ask, ark]"
proof -
  define a where "a = \<lparr>msg_version = 1, pad = replicate 7 0, req_data = \<lparr>user_data = ud, vmpl = 0, rsvd = replicate 28 0\<rparr>,
     resp_data = \<lparr>resp_bytes = replicate 4000 0\<rparr>, exitinfo2 = 0\<rparr>"
  let ?tr0 = "tr @ [OpenDevice ''/dev/snp-guest'']" and ?tr1 = "tr @ snp_request_events ud"
  have "msg_version a = 1 \<and> vmpl (req_data a) = 0" "user_data (req_data a) = ud" by (simp_all add: a_def)
  then obtain out where out: "snp_ioctl E ?tr0 0xC0202B00 a = (0, out)" "exitinfo2 out = 0"
    "take 1184 (resp_bytes (resp_data out)) = rep ud"
    using dev(1) unfolding snp_device_def by metis
  have "length (resp_bytes (resp_data out)) = 4000"
    using laws(1) out(1) unfolding snp_abi_ok_def by (metis snd_conv)
  then have len: "length (rep ud) = 1184" by (simp flip: out(3))
  have m: "take 64 (drop 392 (rep ud)) = m_bytes_392 m"
    "\<lparr>bl_spl = rep ud ! 56, tee_spl = rep ud ! 57, snp_spl = rep ud ! 62, ucode_spl = rep ud ! 63\<rparr> = m_tcb m"
    using dev(2) ud unfolding reports_of_def by blast+
  have url: "vcek_url L product (rep ud) = vcek_url_of product (hex_encode L (m_bytes_392 m)) (m_tcb m)"
    unfolding vcek_url_literal m ..
  have "length (m_bytes_392 m) = 64" using len by (simp flip: m(1))
  then have vcek: "kds_answer E ?tr1 (vcek_url L product (rep ud)) der \<longleftrightarrow> m_bytes_392 m = m_chip m \<and> der = vcek" for der
    using kds unfolding url key_service_def kds_urls by blast
  obtain answer where answer: "kds_answer E (?tr1 @ [HttpGet (vcek_url L product (rep ud))]) (chain_url_of product) answer"
    "pem_text L (response_text E answer) [ask, ark]"
    using kds unfolding key_service_def kds_urls by blast
  have parsed: "parse_pem_bundle L (response_text E answer) = Ok [ask, ark]"
    by (rule pem_text_parses [OF laws(2) answer(2)])
  have bundled: "kds_answer E (?tr1 @ [HttpGet (vcek_url L product (rep ud))]) (chain_url_of product) bs \<longleftrightarrow> bs = answer" for bs
    using answer(1) kds_answer_unique by blast
  have opened: "open_device E tr ''/dev/snp-guest'' = Inr ()" using dev(1) by (simp add: snp_device_def)
  have client: "http_client_build E ?tr1 = Inr ()" using kds by (simp add: key_service_def)
  have device: "(\<exists>out'. snp_ioctl E ?tr0 0xC0202B00 a = (0, out') \<and> exitinfo2 out' = 0 \<and>
      report = take 1184 (resp_bytes (resp_data out'))) \<longleftrightarrow> report = rep ud"
    using out by auto
  have service: "(\<exists>vcek' chain_body ask' ark' more.
      kds_answer E ?tr1 (vcek_url L product (rep ud)) vcek' \<and>
      kds_answer E (?tr1 @ [HttpGet (vcek_url L product (rep ud))]) (chain_url_of product) chain_body \<and>
      parse_pem_bundle L (response_text E chain_body) = Ok (ask' # ark' # more) \<and> chain = [vcek', ask', ark']) \<longleftrightarrow>
    m_bytes_392 m = m_chip m \<and> chain = [vcek, ask, ark]"
    unfolding vcek bundled by (auto simp: parsed)
  have result: "fst (get_report_and_chain E L ud product tr) = Ok (report, chain) \<longleftrightarrow> report = rep ud \<and>
    (\<exists>vcek' chain_body ask' ark' more.
      kds_answer E ?tr1 (vcek_url L product report) vcek' \<and>
      kds_answer E (?tr1 @ [HttpGet (vcek_url L product report)]) (chain_url_of product) chain_body \<and>
      parse_pem_bundle L (response_text E chain_body) = Ok (ask' # ark' # more) \<and> chain = [vcek', ask', ark'])"
    unfolding get_report_and_chain_Ok [OF laws(1)] Let_def a_def [symmetric] opened device client by blast
  show ?thesis
  proof (cases "report = rep ud")
    case True
    show ?thesis unfolding result unfolding True service by blast
  next
    case False
    then show ?thesis unfolding result by blast
  qed
qed

text \<open>On a host that works, a setup with AMD evidence succeeds as soon as the evidence is there.\<close>

lemma build_server_cert_works:
  assumes "host_works E" "json_ok L" "ext_utf8 ext" "gen_keypair E t = Inr kp"
  shows "\<exists>cfg. fst (build_server_cert E L kp ext tr) = Ok cfg"
proof -
  obtain b where b: "ext_to_vec L ext = Inr b" using ext_writes [OF assms(2,3)] by blast
  obtain der cfg where "self_signed E tr [(ATTEST_OID_ARCS, b)] kp = Inr der"
    "server_config_build E der (kp_serialized_der E kp) = Inr cfg"
    using host_signs(2) [OF assms(1,4)] by blast
  then show ?thesis
    by (auto simp: build_server_cert_def to_bytes_def b io_bind_fst_Ok io_lift_fst from_res_ctx_eq_Ok)
qed

lemma generate_keypair_and_hash_works:
  assumes "host_works E" "rcgen_ok E L spki" "sha256_ok L"
  shows "\<exists>kp. gen_keypair E tr = Inr kp \<and> generate_keypair_and_hash E L tr =
    (Ok (kp, sha256 L (spki kp), bound_user_data L (spki kp)), tr @ [GenerateKey, SelfSign []])"
proof -
  obtain kp where kp: "gen_keypair E tr = Inr kp" using assms(1) unfolding host_works_def by blast
  obtain der where "self_signed E (tr @ [GenerateKey]) [] kp = Inr der"
    using host_signs(1) [OF assms(1) kp] by blast
  then have "fst (extract_spki_der E L kp (tr @ [GenerateKey])) = Ok (spki kp)"
    by (simp add: extract_spki_der_Ok [OF assms(2)])
  then have "fst (generate_keypair_and_hash E L tr) = Ok (kp, sha256 L (spki kp), bound_user_data L (spki kp))"
    by (simp add: generate_keypair_and_hash_def io_bind_fst_Ok io_lift_fst io_ret_fst kp from_res_ctx_def
        Let_def copy_hash [OF assms(3)])
  with generate_keypair_and_hash_trace [of E L tr] kp show ?thesis
    by (metis prod.collapse)
qed

lemma amd_setup_works:
  assumes "host_works E" "rcgen_ok E L spki" "sha256_ok L" "json_ok L" "snp_abi_ok E" "b64_ok L"
  shows "(\<exists>st. fst (build_amd_setup E L product tr) = Ok st) \<longleftrightarrow>
    (\<exists>kp report chain. generate_keypair_and_hash E L tr =
        (Ok (kp, sha256 L (spki kp), bound_user_data L (spki kp)), tr @ [GenerateKey, SelfSign []]) \<and>
      fst (get_report_and_chain E L (bound_user_data L (spki kp)) product (tr @ before_device)) = Ok (report, chain))"
proof -
  obtain kp where key: "gen_keypair E tr = Inr kp" and kp: "generate_keypair_and_hash E L tr =
    (Ok (kp, sha256 L (spki kp), bound_user_data L (spki kp)), tr @ [GenerateKey, SelfSign []])"
    using generate_keypair_and_hash_works [OF assms(1-3)] by blast
  let ?get = "get_report_and_chain E L (bound_user_data L (spki kp)) product (tr @ before_device)"
  have measured: "extract_measurement report = Ok (take 48 (drop 144 report))" if "fst ?get = Ok (report, chain)" for report chain
    by (rule extract_measurement_eq [OF report_and_chain_length [OF assms(5) that]])
  have "(\<exists>st. fst (build_amd_setup E L product tr) = Ok st) \<longleftrightarrow> (\<exists>report chain. fst ?get = Ok (report, chain))"
    using build_server_cert_works [OF assms(1,4) ext_utf8_new(2) [OF assms(6)] key] measured
    by (auto simp: build_amd_setup_def kp io_bind_fst_Ok io_lift_fst io_ret_fst before_device_def) blast
  with kp show ?thesis by auto
qed

lemma server_start_works:
  assumes "host_works E"
  shows "(\<exists>cfg B. fst (server_start F E L args tr) = Ok (cfg, B)) \<longleftrightarrow> (\<exists>st. fst (build_setup F E L args tr) = Ok st)"
proof -
  have "\<exists>u. bind_listener E t a = Inr u" for t a using assms by (simp add: host_works_def)
  then show ?thesis
    by (auto simp: server_start_def io_bind_fst_Ok io_lift_fst io_ret_fst io_event_fst from_res_eq_Ok)
qed

subsection \<open>Properties\<close>

text \<open>C6: A gateway started without \<open>--amd\<close>, end to end: whatever certificate it presents, a client
  accepts it exactly if it runs in mock mode, does not ask for a GPU token and expects the all-zero
  measurement, which is the one the gateway printed.\<close>

theorem mock_gateway_verdict:
  assumes "library_laws E L spki" "\<not> amd args" "fst (server_start F E L args tr) = Ok (cfg, B)"
  shows "measurement_line L (replicate 48 0) \<in> set (snd (server_start F E L args tr)) \<and>
    (\<exists>kp der. presents E cfg der kp \<and>
      (\<forall>self tr'. fst (verify_server_cert L self der tr') = Ok () \<longleftrightarrow>
         mode self = VMock \<and> \<not> verify_gpu_cc self \<and> expected_measurement self = replicate 48 0))"
  using assms by (rule mock_gateway)

text \<open>C5: A gateway started with \<open>--amd\<close>, end to end: the report and chain that the device and the key
  service delivered for its key reach the client unchanged. The client accepts the presented
  certificate exactly if it runs in AMD mode, does not ask for a GPU token, expects the measurement the
  gateway printed or none, and the evidence is good for the presented key.\<close>

theorem amd_gateway_verdict:
  assumes "library_laws E L spki" "amd args" "\<not> gpu_cc args" "fst (server_start F E L args tr) = Ok (cfg, B)"
  shows "\<exists>kp der rep chain tr1. presents E cfg der kp \<and>
    fst (get_report_and_chain E L (sha256 L (spki kp) @ replicate 32 0) (snp_product args) tr1) = Ok (rep, chain) \<and>
    measurement_line L (take 48 (drop 144 rep)) \<in> set (snd (server_start F E L args tr)) \<and>
    (\<forall>self tr'. fst (verify_server_cert L self der tr') = Ok () \<longleftrightarrow>
       mode self = VAmdSevSnp \<and> \<not> verify_gpu_cc self \<and>
       (expected_measurement self = replicate 48 0 \<or> expected_measurement self = take 48 (drop 144 rep)) \<and>
       good_evidence L rep chain (spki kp))"
  using assms by (rule amd_gateway)

text \<open>C7: A gateway started with \<open>--amd --gpu-cc\<close>, end to end: CPU and GPU evidence are requested for the
  same key (the sidecar's nonce is the hex of the hash that the report binds), and a client accepts as
  above, except that when it asks for a GPU token the sidecar's token must be good for the presented
  key.\<close>

theorem gpu_gateway_verdict:
  assumes "library_laws E L spki" "amd args" "gpu_cc args" "fst (server_start F E L args tr) = Ok (cfg, B)"
  shows "\<exists>kp der rep chain jwt script out tr1 tr2. presents E cfg der kp \<and> gpu_attest_script args = Some script \<and>
    fst (get_report_and_chain E L (sha256 L (spki kp) @ replicate 32 0) (snp_product args) tr1) = Ok (rep, chain) \<and>
    run_command E tr2 ''python3'' [script, ''--nonce'', hex_encode L (sha256 L (spki kp))] = Inr out \<and>
    gpu_result_from_slice L (stdout out) = Inr jwt \<and>
    measurement_line L (take 48 (drop 144 rep)) \<in> set (snd (server_start F E L args tr)) \<and>
    (\<forall>self tr'. fst (verify_server_cert L self der tr') = Ok () \<longleftrightarrow>
       mode self = VAmdSevSnp \<and>
       (expected_measurement self = replicate 48 0 \<or> expected_measurement self = take 48 (drop 144 rep)) \<and>
       good_evidence L rep chain (spki kp) \<and>
       (verify_gpu_cc self \<longrightarrow> (\<exists>g. verify_gpu_jwt L jwt (spki kp) = Ok g)))"
  using assms by (rule gpu_gateway)

text \<open>The echo of a request.\<close>

lemma echo_answer:
  assumes "axum_ok R" "json_ok L" "utf8 p" "length content \<le> 2097152"
    and "json_to_vec L (ser_request \<lparr>prompt = p, max_tokens = n\<rparr>) = Inr content"
  shows "serve_request R E L None
      \<lparr>req_method = POST, req_path = ''/v1/generate'', req_content_type = ct, req_body = content\<rparr> tr =
    ((Ok \<lparr>reply_status = 200, reply_body =
        Json \<lparr>reply_text = ''[mock inference] echo: '' @ p, tokens_used = 0\<rparr>\<rparr> :: (http_reply, 'e) exec), tr)"
proof -
  have "R routes \<lparr>req_method = POST, req_path = ''/v1/generate'', req_content_type = ct, req_body = content\<rparr> =
      Inr (Inl GenerateHandler)"
    using assms(1,4) find_routes unfolding axum_ok_def by force
  moreover have "request_from_slice L content = Inr p"
    using request_wire.wire_read [OF assms(2) _ assms(5)] assms(3) by (simp add: request_from_slice_def)
  ultimately show ?thesis
    by (simp add: serve_request_def run_handler_def handle_generate_def echo_response_def io_ret_def Let_def)
qed

text \<open>A prompt comes back from an echo gateway: the request that the client sends, when it reaches the
  service of a gateway without a backend, is answered with status 200 and the echo of that very prompt,
  whatever the token limit; nothing is logged and nobody is contacted. The health route answers \<open>ok\<close>.\<close>

theorem echo_gateway_answers:
  assumes "axum_ok R" "json_ok L" "utf8 p" "length content \<le> 2097152"
    and "json_to_vec L (ser_request \<lparr>prompt = p, max_tokens = n\<rparr>) = Inr content"
  shows "serve_request R E L None
      \<lparr>req_method = POST, req_path = ''/v1/generate'', req_content_type = ct, req_body = content\<rparr> tr =
    ((Ok \<lparr>reply_status = 200, reply_body =
        Json \<lparr>reply_text = ''[mock inference] echo: '' @ p, tokens_used = 0\<rparr>\<rparr> :: (http_reply, 'e) exec), tr) \<and>
    serve_request R E L B \<lparr>req_method = GET, req_path = ''/health'', req_content_type = ct, req_body = []\<rparr> tr =
    ((Ok \<lparr>reply_status = 200, reply_body = Text ''ok''\<rparr> :: (http_reply, 'e) exec), tr)"
proof -
  have "R routes \<lparr>req_method = GET, req_path = ''/health'', req_content_type = ct, req_body = []\<rparr> = Inr (Inl HealthHandler)"
    using assms(1) find_routes unfolding axum_ok_def by force
  then have "serve_request R E L B \<lparr>req_method = GET, req_path = ''/health'', req_content_type = ct, req_body = []\<rparr> tr =
    ((Ok \<lparr>reply_status = 200, reply_body = Text ''ok''\<rparr> :: (http_reply, 'e) exec), tr)"
    by (simp add: serve_request_def run_handler_def io_ret_def)
  with echo_answer [OF assms] show ?thesis by blast
qed

text \<open>C8: Client and gateway agree on the flags that decide what is attested: if a client accepts the
  certificate of a gateway that has started, both run with \<open>--amd\<close> or neither does, and a client with
  \<open>--gpu-cc\<close> talks to a gateway with \<open>--amd\<close> and \<open>--gpu-cc\<close>.\<close>

theorem flags_agree:
  assumes "library_laws E L spki" "fst (server_start F E L args tr) = Ok (cfg, B)"
  shows "\<exists>kp der. presents E cfg der kp \<and>
    (\<forall>cargs m cp tr'.
       fst (verify_server_cert L (new_verifier m (client_mode cargs) (client_gpu_cc cargs) cp) der tr') = Ok () \<longrightarrow>
       client_amd cargs = amd args \<and> (client_gpu_cc cargs \<longrightarrow> amd args \<and> gpu_cc args))"
proof (cases "amd args")
  case False
  obtain kp der where "presents E cfg der kp"
    "\<forall>self tr'. fst (verify_server_cert L self der tr') = Ok () \<longleftrightarrow>
         mode self = VMock \<and> \<not> verify_gpu_cc self \<and> expected_measurement self = replicate 48 0"
    using mock_gateway [OF assms(1) False assms(2)] by (elim exE conjE)
  then show ?thesis using False by (intro exI [of _ kp] exI [of _ der]) (simp add: client_mode_eq)
next
  case True
  obtain kp der rep chain tr1 token_good where "presents E cfg der kp"
    "\<And>self tr'. fst (verify_server_cert L self der tr') = Ok () \<longleftrightarrow>
       mode self = VAmdSevSnp \<and> (verify_gpu_cc self \<longrightarrow> gpu_cc args \<and> token_good) \<and>
       (expected_measurement self = replicate 48 0 \<or> expected_measurement self = take 48 (drop 144 rep)) \<and>
       good_evidence L rep chain (spki kp)"
    by (rule amd_started [OF assms(1) True assms(2)]) blast
  then show ?thesis using True by (intro exI [of _ kp] exI [of _ der]) (simp add: client_mode_eq)
qed


text \<open>C20: What the response layout of \<open>PLAN.md\<close> means. There the report comes after a header of 32 bytes (status, size,
  reserved), but the gateway reads the report from the start of the response. If the device answers so, a
  gateway that starts with \<open>--amd\<close> is accepted only if the hash of its key happens to be the bytes 48 to 80 of
  the firmware's report, its VMPL, algorithm, TCB and platform fields: the client reads them as report data.\<close>

theorem plan_response_layout_refused:
  assumes "library_laws E L spki" "amd args" "fst (server_start F E L args tr) = Ok (cfg, B)"
    and "\<And>tr c a. resp_bytes (resp_data (snd (snp_ioctl E tr c a))) = header @ rep (user_data (req_data a)) @ rest"
    and "length header = 32" "\<And>ud. length (rep ud) = 1184"
  shows "\<exists>kp der. presents E cfg der kp \<and>
    (\<forall>self tr'. fst (verify_server_cert L self der tr') = Ok () \<longrightarrow>
       sha256 L (spki kp) = take 32 (drop 48 (rep (sha256 L (spki kp) @ replicate 32 0))))"
proof -
  have abi: "snp_abi_ok E" using assms(1) by (simp add: library_laws_def)
  obtain kp der report chain tr1 token_good where v: "presents E cfg der kp"
    "fst (get_report_and_chain E L (sha256 L (spki kp) @ replicate 32 0) (snp_product args) tr1) = Ok (report, chain)"
    "\<And>self tr'. fst (verify_server_cert L self der tr') = Ok () \<longleftrightarrow>
       mode self = VAmdSevSnp \<and> (verify_gpu_cc self \<longrightarrow> gpu_cc args \<and> token_good) \<and>
       (expected_measurement self = replicate 48 0 \<or> expected_measurement self = take 48 (drop 144 report)) \<and>
       good_evidence L report chain (spki kp)"
    by (rule amd_started [OF assms(1,2,3)]) blast
  let ?ud = "sha256 L (spki kp) @ replicate 32 0"
  have "fst (get_snp_report E ?ud tr1) = Ok report"
    using v(2) by (auto simp: get_report_and_chain_def io_fst)
  from report_with_header [OF abi this assms(4,5,6)] have "report = header @ take 1152 (rep ?ud)" .
  then have "take 32 (drop 80 report) = take 32 (drop 48 (rep ?ud))"
    using assms(5,6) by (simp add: drop_take min_def)
  then show ?thesis using v(1,3) unfolding good_evidence_def by (metis (no_types, lifting))
qed

text \<open>The HTTP stacks of both sides, between a client and a gateway: the answer to a post is the answer of the
  gateway's service to that path and body, and when its status is 200 the client sees its body.\<close>

definition http_ok ::
  "('resp, 'dss, 'sch, 'c) client_env_scheme \<Rightarrow> router \<Rightarrow> ('kp, 'cfg, 'b) server_env_scheme \<Rightarrow>
     'a codec_lib_scheme \<Rightarrow> string option \<Rightarrow> bool" where
  "http_ok T R E L B \<longleftrightarrow>
     (\<forall>v host path content tr resp.
        CHR ''/'' \<notin> set host \<and> fst (post T v (''https://'' @ host @ CHR ''/'' # path) content tr) = Ok resp \<longrightarrow>
        (\<exists>ct tr' reply.
           fst (serve_request R E L B \<lparr>req_method = POST, req_path = CHR ''/'' # path, req_content_type = ct,
             req_body = content\<rparr> tr') = (Ok reply :: (http_reply, anyhow) exec) \<and>
           (reply_status reply = 200 \<longrightarrow>
              resp_error_for_status T resp = Inr resp \<and> resp_body T resp = Inr (body_bytes L reply))))"

lemma show_nat_0: "show_nat 0 = ''0''"
  by code_simp

lemma echo_body:
  assumes "json_ok L" "utf8 t"
  shows "from_slice L ty de_response (body_bytes L \<lparr>reply_status = c,
      reply_body = Json \<lparr>reply_text = t, tokens_used = n\<rparr>\<rparr>) = Inr \<lparr>resp_text = t, resp_tokens_used = n\<rparr>"
proof -
  obtain b where "json_to_vec L (ser_response \<lparr>reply_text = t, tokens_used = n\<rparr>) = Inr b"
    "from_slice L ty de_response b = Inr (response_view \<lparr>reply_text = t, tokens_used = n\<rparr>)"
    by (rule response_wire.wire [OF assms(1), of "\<lparr>reply_text = t, tokens_used = n\<rparr>" ty]) (simp_all add: assms(2))
  then show ?thesis by (simp add: body_bytes_def response_view_def)
qed

text \<open>C9: The two programs fit together: a client whose request is answered by an echo gateway ends successfully,
  with the echo of its own prompt printed, and no tokens counted.\<close>

theorem prompt_comes_back:
  assumes "json_ok L" "axum_ok R" "http_ok T R E L None" "utf8 (prompt_arg args)" "CHR ''/'' \<notin> set (server args)"
    and "\<And>b. json_to_vec L (ser_request \<lparr>prompt = prompt_arg args, max_tokens = max_tokens_arg args\<rparr>) = Inr b \<Longrightarrow>
      length b \<le> 2097152"
    and "parse_measurement L (expected_measurement_arg args) = Ok m" "build_client T [Eprintln (announce L m)] = Inr u"
    and "fst (request_sent T L cp args m (run_trace L args m [])) = Ok resp"
  shows "fst (client_main T L cp args []) = Ok () \<and>
    (\<exists>evs. snd (client_main T L cp args []) =
       evs @ [Println (''[mock inference] echo: '' @ prompt_arg args), Eprintln ''[client] tokens used: 0''])"
proof -
  let ?r = "\<lparr>prompt = prompt_arg args, max_tokens = max_tokens_arg args\<rparr>"
  let ?echo = "\<lparr>reply_status = 200, reply_body =
      Json \<lparr>reply_text = ''[mock inference] echo: '' @ prompt_arg args, tokens_used = 0\<rparr>\<rparr>"
  let ?v = "as_server_cert_verifier L (new_verifier m (client_mode args) (client_gpu_cc args) cp)"
  obtain b where b: "json_to_vec L (ser_request ?r) = Inr b"
    and sent: "fst (post T ?v (''https://'' @ server args @ CHR ''/'' # ''v1/generate'') b (run_trace L args m [])) = Ok resp"
    using assms(9) by (auto simp: request_sent_def send_request_def io_bind_fst_Ok io_lift_fst from_res_eq_Ok)
  obtain ct tr' reply where reply:
    "fst (serve_request R E L None \<lparr>req_method = POST, req_path = CHR ''/'' # ''v1/generate'', req_content_type = ct,
        req_body = b\<rparr> tr') = (Ok reply :: (http_reply, anyhow) exec)"
    and read: "reply_status reply = 200 \<longrightarrow>
       resp_error_for_status T resp = Inr resp \<and> resp_body T resp = Inr (body_bytes L reply)"
    using assms(3,5) sent unfolding http_ok_def by blast
  have "reply = ?echo"
    using reply echo_answer [OF assms(2,1,4) assms(6) [OF b] b, of E ct tr', where ?'e = anyhow] by simp
  then have "resp_error_for_status T resp = Inr resp" "resp_body T resp = Inr (body_bytes L ?echo)"
    using read by simp_all
  then have "fst (generate T L ?v (''https://'' @ server args) (prompt_arg args) (max_tokens_arg args)
      (run_trace L args m [])) = Ok \<lparr>resp_text = ''[mock inference] echo: '' @ prompt_arg args, resp_tokens_used = 0\<rparr>"
    using assms(9) echo_body [OF assms(1) utf8_echo [OF assms(4)]] by (simp add: generate_Ok request_sent_def)
  from client_main_answer [OF assms(7) _ this] assms(8) show ?thesis
    by (simp add: answer_events_def show_nat_0)
qed

end
