(* ===== verification/Unit_Tests.thy ===== *)
theory Unit_Tests
  imports Verify Pem Gpu_Verify
begin

section \<open>The unit tests of the source\<close>

text \<open>
  Every \<open>#[test]\<close> function of the three crates, as a computation whose failure is a panic, over an
  arbitrary \<open>L\<close>. The theorem at the end says that they pass for every library that keeps its documented
  laws, but for three, of which it says what else they rest on: the size of one key's encoding, two
  different hashes, and one signature that must not verify.
\<close>

subsection \<open>Assertions\<close>

definition assert_true :: "bool \<Rightarrow> (unit, 'e) exec" where
  "assert_true b = (if b then Ok () else Panic)"

definition unwrap_ok :: "('a, 'f) exec \<Rightarrow> ('a, 'e) exec" where
  "unwrap_ok m = (case m of Ok a \<Rightarrow> Ok a | _ \<Rightarrow> Panic)"

definition unwrap_err :: "('a, 'f) exec \<Rightarrow> ('f, 'e) exec" where
  "unwrap_err m = (case m of Err e \<Rightarrow> Ok e | _ \<Rightarrow> Panic)"

lemma assert_simps [simp]:
  "assert_true True = Ok ()" "unwrap_ok (Ok a) = Ok a" "unwrap_err (Err e) = Ok e"
  by (simp_all add: assert_true_def unwrap_ok_def unwrap_err_def)

type_synonym test_result = "(unit, unit) exec"

subsection \<open>sifir-attest/src/report.rs\<close>

definition signed_region_ends_at_correct_offset :: test_result where
  "signed_region_ends_at_correct_offset = assert_true (SIGNED_REGION_SIZE = 672)"

definition total_size_matches_spec :: test_result where
  "total_size_matches_spec = assert_true (REPORT_SIZE = 1184)"

definition field_roundtrip :: test_result where
  "field_roundtrip =
     (let r = default_report; meas = replicate MEASUREMENT_SIZE 0xab in
      and_then (copy_range (raw r) OFF_MEASUREMENT (OFF_MEASUREMENT + MEASUREMENT_SIZE) meas) (\<lambda>b.
      and_then (measurement (r\<lparr>raw := b\<rparr>)) (\<lambda>m.
      assert_true (m = meas))))"

subsection \<open>sifir-attest/src/mock.rs\<close>

definition signing_key_constructs_without_panic ::
  "('sk, 'vk, 'sg, 'dsg, 'a) crypto_lib_scheme \<Rightarrow> test_result" where
  "signing_key_constructs_without_panic L = and_then (mock_signing_key L) (\<lambda>_. Ok ())"

definition mock_verifying_key_is_97_bytes ::
  "('sk, 'vk, 'sg, 'dsg, 'a) crypto_lib_scheme \<Rightarrow> test_result" where
  "mock_verifying_key_is_97_bytes L =
     and_then (mock_verifying_key_sec1 L) (\<lambda>pk.
     and_then (assert_true (length pk = 97)) (\<lambda>_.
     assert_true (pk ! 0 = 0x04)))"

definition sign_produces_report_with_correct_fields ::
  "('sk, 'vk, 'sg, 'dsg, 'a) crypto_lib_scheme \<Rightarrow> test_result" where
  "sign_produces_report_with_correct_fields L =
     (let hash = replicate 32 0x42; meas = replicate MEASUREMENT_SIZE 0xde in
      and_then (sign_mock_report L hash meas) (\<lambda>r.
      and_then (report_data r) (\<lambda>d.
      and_then (slice_range d 0 32) (\<lambda>d.
      and_then (assert_true (d = hash)) (\<lambda>_.
      and_then (measurement r) (\<lambda>m.
      and_then (assert_true (m = meas)) (\<lambda>_.
      and_then (version r) (\<lambda>v.
      assert_true (v = 2)))))))))"

definition tls_pubkey_hash_is_deterministic :: "'a codec_lib_scheme \<Rightarrow> test_result" where
  "tls_pubkey_hash_is_deterministic L =
     (let der = str_bytes ''fake der bytes'' in
      assert_true (tls_pubkey_hash L der = tls_pubkey_hash L der))"

subsection \<open>sifir-attest/src/amd\_certs.rs\<close>

definition is_cert_chain :: "verify_error \<Rightarrow> bool" where
  "is_cert_chain e = (case e of CertChain _ \<Rightarrow> True | _ \<Rightarrow> False)"

definition empty_chain_returns_error ::
  "('sk, 'vk, 'sg, 'dsg, 'crt, 'oid, 'a) x509_lib_scheme \<Rightarrow> test_result" where
  "empty_chain_returns_error L =
     and_then (unwrap_err (vcek_verifying_key L [])) (\<lambda>e. assert_true (is_cert_chain e))"

definition short_chain_returns_error ::
  "('sk, 'vk, 'sg, 'dsg, 'crt, 'oid, 'a) x509_lib_scheme \<Rightarrow> test_result" where
  "short_chain_returns_error L =
     and_then (unwrap_err (vcek_verifying_key L [[0], [0]])) (\<lambda>e. assert_true (is_cert_chain e))"

subsection \<open>sifir-attest/src/verify.rs\<close>

definition valid_mock_report_passes ::
  "('sk, 'vk, 'sg, 'dsg, 'crt, 'oid, 'a) x509_lib_scheme \<Rightarrow> test_result" where
  "valid_mock_report_passes L =
     (let pubkey = str_bytes ''fake-tls-pubkey-der-bytes''; meas = replicate MEASUREMENT_SIZE 0xaa;
          hash = tls_pubkey_hash L pubkey in
      and_then (sign_mock_report L hash meas) (\<lambda>r.
      unwrap_ok (verify L (as_bytes r) KeyMock meas pubkey)))"

definition wrong_measurement_rejected ::
  "('sk, 'vk, 'sg, 'dsg, 'crt, 'oid, 'a) x509_lib_scheme \<Rightarrow> test_result" where
  "wrong_measurement_rejected L =
     (let pubkey = str_bytes ''fake-tls-pubkey-der-bytes''; meas = replicate MEASUREMENT_SIZE 0xaa;
          hash = tls_pubkey_hash L pubkey in
      and_then (sign_mock_report L hash meas) (\<lambda>r.
      let wrong = replicate MEASUREMENT_SIZE 0xbb in
      and_then (unwrap_err (verify L (as_bytes r) KeyMock wrong pubkey)) (\<lambda>err.
      assert_true (case err of MeasurementMismatch _ _ \<Rightarrow> True | _ \<Rightarrow> False))))"

definition zero_measurement_skips_check ::
  "('sk, 'vk, 'sg, 'dsg, 'crt, 'oid, 'a) x509_lib_scheme \<Rightarrow> test_result" where
  "zero_measurement_skips_check L =
     (let pubkey = str_bytes ''fake-tls-pubkey-der-bytes''; meas = replicate MEASUREMENT_SIZE 0xaa;
          hash = tls_pubkey_hash L pubkey in
      and_then (sign_mock_report L hash meas) (\<lambda>r.
      unwrap_ok (verify L (as_bytes r) KeyMock (replicate MEASUREMENT_SIZE 0) pubkey)))"

definition wrong_tls_key_rejected ::
  "('sk, 'vk, 'sg, 'dsg, 'crt, 'oid, 'a) x509_lib_scheme \<Rightarrow> test_result" where
  "wrong_tls_key_rejected L =
     (let pubkey = str_bytes ''correct-pubkey''; meas = replicate MEASUREMENT_SIZE 0xaa;
          hash = tls_pubkey_hash L pubkey in
      and_then (sign_mock_report L hash meas) (\<lambda>r.
      and_then (unwrap_err (verify L (as_bytes r) KeyMock meas (str_bytes ''wrong-pubkey''))) (\<lambda>err.
      assert_true (case err of KeyBindingMismatch _ _ \<Rightarrow> True | _ \<Rightarrow> False))))"

definition tampered_signed_region_rejected ::
  "('sk, 'vk, 'sg, 'dsg, 'crt, 'oid, 'a) x509_lib_scheme \<Rightarrow> test_result" where
  "tampered_signed_region_rejected L =
     (let pubkey = str_bytes ''fake-tls-pubkey-der-bytes''; meas = replicate MEASUREMENT_SIZE 0xaa;
          hash = tls_pubkey_hash L pubkey in
      and_then (sign_mock_report L hash meas) (\<lambda>r.
      and_then (if 0x090 < length (as_bytes r)
          then Ok ((as_bytes r)[0x090 := (as_bytes r ! 0x090) XOR 0x01]) else Panic) (\<lambda>tampered.
      and_then (unwrap_err (verify L tampered KeyMock (replicate MEASUREMENT_SIZE 0) pubkey)) (\<lambda>err.
      assert_true (case err of BadSignature \<Rightarrow> True | _ \<Rightarrow> False)))))"

subsection \<open>sifir-server/src/amd\_attestation.rs\<close>

definition pem_test_block :: "string \<Rightarrow> string" where
  "pem_test_block payload = BEGIN_CERT @ newline # payload @ newline # END_CERT @ [newline]"

definition parse_pem_bundle_single :: "'a codec_lib_scheme \<Rightarrow> test_result" where
  "parse_pem_bundle_single L =
     and_then (unwrap_ok (parse_pem_bundle L (pem_test_block ''aGVsbG8=''))) (\<lambda>cs.
     assert_true (cs = [str_bytes ''hello'']))"

definition parse_pem_bundle_two_certs :: "'a codec_lib_scheme \<Rightarrow> test_result" where
  "parse_pem_bundle_two_certs L =
     and_then (unwrap_ok (parse_pem_bundle L (pem_test_block ''aGVsbG8='' @ pem_test_block ''d29ybGQ=''))) (\<lambda>cs.
     if length cs < 2 then Panic else
     and_then (assert_true (cs ! 0 = str_bytes ''hello'')) (\<lambda>_.
     assert_true (cs ! 1 = str_bytes ''world'')))"

definition parse_pem_bundle_empty :: "'a codec_lib_scheme \<Rightarrow> test_result" where
  "parse_pem_bundle_empty L =
     and_then (unwrap_ok (parse_pem_bundle L [])) (\<lambda>cs. assert_true (cs = []))"

subsection \<open>sifir-client/src/gpu\_verify.rs\<close>

definition test_header :: string where
  \<open>test_header = ''{"alg":"RS256","kid":"test"}''\<close>

definition make_jwt :: "'a codec_lib_scheme \<Rightarrow> string \<Rightarrow> string \<Rightarrow> string \<Rightarrow> (string, 'e) exec" where
  "make_jwt L nonce cc model =
     and_then (expect (json_to_vec L (claims_json nonce cc model))) (\<lambda>payload.
     let h = b64url_encode L (str_bytes test_header); p = b64url_encode L payload in
     Ok (h @ ''.'' @ p @ ''.fakesig''))"

definition expected_nonce :: "'a codec_lib_scheme \<Rightarrow> bytes \<Rightarrow> string" where
  "expected_nonce L spki = hex_encode L (sha256 L spki)"

definition valid_gpu_jwt_passes :: "'a codec_lib_scheme \<Rightarrow> test_result" where
  "valid_gpu_jwt_passes L =
     (let spki = str_bytes ''fake-spki-der''; nonce = expected_nonce L spki in
      and_then (make_jwt L nonce ''on'' ''H100'') (\<lambda>jwt.
      and_then (unwrap_ok (verify_gpu_jwt L jwt spki)) (\<lambda>claims.
      and_then (assert_true (gpu_model claims = ''H100'')) (\<lambda>_.
      assert_true (cc_mode claims = ''on'')))))"

definition wrong_nonce_rejected :: "'a codec_lib_scheme \<Rightarrow> test_result" where
  "wrong_nonce_rejected L =
     (let spki = str_bytes ''fake-spki-der'' in
      and_then (make_jwt L ''aabbcc'' ''on'' ''H100'') (\<lambda>jwt.
      and_then (unwrap_err (verify_gpu_jwt L jwt spki)) (\<lambda>err.
      assert_true (case err of NonceMismatch _ _ \<Rightarrow> True | _ \<Rightarrow> False))))"

definition cc_mode_off_rejected :: "'a codec_lib_scheme \<Rightarrow> test_result" where
  "cc_mode_off_rejected L =
     (let spki = str_bytes ''fake-spki-der''; nonce = expected_nonce L spki in
      and_then (make_jwt L nonce ''off'' ''H100'') (\<lambda>jwt.
      and_then (unwrap_err (verify_gpu_jwt L jwt spki)) (\<lambda>err.
      assert_true (case err of CcModeNotOn _ \<Rightarrow> True | _ \<Rightarrow> False))))"

definition malformed_jwt_rejected :: "'a codec_lib_scheme \<Rightarrow> test_result" where
  "malformed_jwt_rejected L =
     and_then (unwrap_err (verify_gpu_jwt L ''not.a.valid.jwt.parts'' (str_bytes ''spki''))) (\<lambda>err.
     assert_true (case err of MalformedJwt _ \<Rightarrow> True | _ \<Rightarrow> False))"

subsection \<open>Why they pass\<close>

lemma sha_len: "sha256_ok L \<Longrightarrow> length (tls_pubkey_hash L pk) = 32"
  by (simp add: tls_pubkey_hash_def)

lemma report_tests:
  "signed_region_ends_at_correct_offset = Ok ()" "total_size_matches_spec = Ok ()" "field_roundtrip = Ok ()"
proof -
  show "signed_region_ends_at_correct_offset = Ok ()" "total_size_matches_spec = Ok ()"
    by (simp_all add: signed_region_ends_at_correct_offset_def total_size_matches_spec_def report_consts)
  let ?m = "replicate MEASUREMENT_SIZE 0xab :: bytes"
  have "copy_range (raw default_report) OFF_MEASUREMENT (OFF_MEASUREMENT + MEASUREMENT_SIZE) ?m =
      (Ok (overwrite OFF_MEASUREMENT ?m (raw default_report)) :: (bytes, unit) exec)"
    by (rule copy_range_Ok) (simp_all add: default_report_def report_consts)
  moreover have "measurement (default_report\<lparr>raw := overwrite OFF_MEASUREMENT ?m (raw default_report)\<rparr>) =
      (Ok ?m :: (bytes, unit) exec)"
    by (rule meas.get_overwrite_same) simp_all
  ultimately show "field_roundtrip = Ok ()" by (simp add: field_roundtrip_def)
qed

lemma mock_key_tests:
  assumes "mock_key_ok L"
  shows "signing_key_constructs_without_panic L = Ok ()"
    and "mock_verifying_key_is_97_bytes L = Ok () \<longleftrightarrow>
      (\<exists>sk. sk_from_slice L MOCK_PRIVATE_KEY_SCALAR = Inr sk \<and>
        length (vk_to_sec1 L (sk_verifying_key L sk)) = 97 \<and> vk_to_sec1 L (sk_verifying_key L sk) ! 0 = 4)"
proof -
  obtain sk where sk: "sk_from_slice L MOCK_PRIVATE_KEY_SCALAR = Inr sk" "(mock_signing_key L :: ('a, unit) exec) = Ok sk"
    using mock_signing_key_Ok [OF assms] by blast
  show "signing_key_constructs_without_panic L = Ok ()"
    by (simp add: signing_key_constructs_without_panic_def sk)
  show "mock_verifying_key_is_97_bytes L = Ok () \<longleftrightarrow>
      (\<exists>sk. sk_from_slice L MOCK_PRIVATE_KEY_SCALAR = Inr sk \<and>
        length (vk_to_sec1 L (sk_verifying_key L sk)) = 97 \<and> vk_to_sec1 L (sk_verifying_key L sk) ! 0 = 4)"
    using sk(1) by (simp add: mock_verifying_key_is_97_bytes_def mock_verifying_key_sec1_def sk(2) assert_true_def)
qed

lemma mock_sign_test:
  assumes "p384_ok L" "mock_key_ok L"
  shows "sign_produces_report_with_correct_fields L = Ok ()"
proof -
  let ?h = "replicate 32 0x42 :: bytes" and ?m = "replicate 48 0xde :: bytes"
  obtain sk where sk: "(mock_signing_key L :: ('a, unit) exec) = Ok sk"
    using mock_signing_key_Ok [OF assms(2)] by blast
  let ?sig = "sg_to_bytes L (sk_sign L sk (take SIGNED_REGION_SIZE (mock_fields ?h ?m)))"
  let ?r = "\<lparr>raw = mock_report_bytes ?h ?m ?sig\<rparr>"
  have len: "length ?h = 32" "length ?m = 48" "length ?sig = 96" using p384_okD(2) [OF assms(1)] by simp_all
  have wf: "wf_report ?r" using len by (simp add: wf_report_def)
  have reads: "take 64 (drop 80 (raw ?r)) = ?h @ take 32 (drop 112 (raw ?r))"
    using take_add [of 32 32 "drop 80 (raw ?r)"] mock_report_reads(5) [OF len] by simp
  then have d: "report_data ?r = (Ok (?h @ take 32 (drop 112 (raw ?r))) :: (bytes, unit) exec)"
    using rdata.get_eq [OF wf] by (simp add: report_consts)
  have m: "measurement ?r = (Ok ?m :: (bytes, unit) exec)"
    using meas.get_eq [OF wf] mock_report_reads(4) [OF len] by (simp add: report_consts)
  have v: "version ?r = (Ok 2 :: (32 word, unit) exec)"
    using version_eq [OF wf] mock_report_reads(6) [OF len] by simp
  show ?thesis
    unfolding sign_produces_report_with_correct_fields_def MEASUREMENT_SIZE_def Let_def
      sign_mock_report_eq [OF sk len(1,2) p384_okD(2) [OF assms(1)]] and_then.simps d m v
    by (simp add: slice_range_def)
qed

lemma chain_tests:
  "empty_chain_returns_error L = Ok ()" "short_chain_returns_error L = Ok ()"
  by (simp_all add: empty_chain_returns_error_def short_chain_returns_error_def vcek_verifying_key_short
      is_cert_chain_def)

text \<open>The five tests of \<open>verify\<close> start from the same report.\<close>

lemma signed_test_report:
  assumes "p384_ok L" "mock_key_ok L" "sha256_ok L"
  obtains r sk where "sign_mock_report L (tls_pubkey_hash L pk) (replicate 48 0xaa) = (Ok r :: (report, unit) exec)"
    "sk_from_slice L MOCK_PRIVATE_KEY_SCALAR = Inr sk" "wf_report r"
    "report_signature (raw r) = sg_to_bytes L (sk_sign L sk (take 672 (raw r)))"
    "take 32 (drop 80 (raw r)) = sha256 L pk" "take 48 (drop 144 (raw r)) = replicate 48 0xaa"
proof -
  have len: "length (tls_pubkey_hash L pk) = 32" "length (replicate 48 0xaa :: bytes) = 48"
    using sha_len [OF assms(3)] by simp_all
  obtain r where r: "sign_mock_report L (tls_pubkey_hash L pk) (replicate 48 0xaa) = (Ok r :: (report, unit) exec)"
    using sign_mock_report_succeeds [OF assms(1,2) len] .
  from mock_signed [OF assms(1,2) len r] that [OF r] show ?thesis
    unfolding tls_pubkey_hash_def by blast
qed

lemma verify_tests:
  assumes "p384_ok L" "mock_key_ok L" "sha256_ok L"
  shows "valid_mock_report_passes L = Ok ()" "wrong_measurement_rejected L = Ok ()"
    "zero_measurement_skips_check L = Ok ()"
proof -
  let ?pk = "str_bytes ''fake-tls-pubkey-der-bytes''"
  obtain r sk where r: "sign_mock_report L (tls_pubkey_hash L ?pk) (replicate 48 0xaa) = (Ok r :: (report, unit) exec)"
    "sk_from_slice L MOCK_PRIVATE_KEY_SCALAR = Inr sk" "wf_report r"
    "report_signature (raw r) = sg_to_bytes L (sk_sign L sk (take 672 (raw r)))"
    "take 32 (drop 80 (raw r)) = sha256 L ?pk" "take 48 (drop 144 (raw r)) = replicate 48 0xaa"
    by (rule signed_test_report [OF assms])
  have v: "verify L (raw r) KeyMock m ?pk =
      (if m = replicate 48 0 \<or> m = replicate 48 0xaa then Ok ()
       else Err (MeasurementMismatch (hex_encode L m) (hex_encode L (replicate 48 0xaa))))" for m
    using r(3-6) p384_okD [OF assms(1)]
    by (auto simp: verify_appraisal wf_report_def appraisal_def key_bound_def mock_anchor_Ok [OF assms(1) r(2)]
        measurement_accepted_def)
  have ne: "(replicate 48 0xbb :: bytes) \<noteq> replicate 48 0" "(replicate 48 0xbb :: bytes) \<noteq> replicate 48 0xaa"
    by simp_all
  show "valid_mock_report_passes L = Ok ()" "wrong_measurement_rejected L = Ok ()"
    "zero_measurement_skips_check L = Ok ()"
    using ne
    unfolding valid_mock_report_passes_def wrong_measurement_rejected_def zero_measurement_skips_check_def
      MEASUREMENT_SIZE_def Let_def r(1) and_then.simps as_bytes_def v by simp_all
qed

lemma wrong_key_test:
  assumes "p384_ok L" "mock_key_ok L" "sha256_ok L"
  shows "wrong_tls_key_rejected L = Ok () \<longleftrightarrow>
    sha256 L (str_bytes ''correct-pubkey'') \<noteq> sha256 L (str_bytes ''wrong-pubkey'')"
proof -
  obtain r sk where r: "sign_mock_report L (tls_pubkey_hash L (str_bytes ''correct-pubkey'')) (replicate 48 0xaa) =
      (Ok r :: (report, unit) exec)" "sk_from_slice L MOCK_PRIVATE_KEY_SCALAR = Inr sk" "wf_report r"
    "report_signature (raw r) = sg_to_bytes L (sk_sign L sk (take 672 (raw r)))"
    "take 32 (drop 80 (raw r)) = sha256 L (str_bytes ''correct-pubkey'')" "take 48 (drop 144 (raw r)) = replicate 48 0xaa"
    by (rule signed_test_report [OF assms])
  have "verify L (raw r) KeyMock (replicate 48 0xaa) (str_bytes ''wrong-pubkey'') =
      (if sha256 L (str_bytes ''correct-pubkey'') = sha256 L (str_bytes ''wrong-pubkey'') then Ok ()
       else Err (KeyBindingMismatch (hex_encode L (sha256 L (str_bytes ''correct-pubkey'')))
        (hex_encode L (sha256 L (str_bytes ''wrong-pubkey'')))))"
    using r(3-6) p384_okD [OF assms(1)]
    by (simp add: verify_appraisal wf_report_def appraisal_def key_bound_def mock_anchor_Ok [OF assms(1) r(2)]
        measurement_accepted_def)
  note this [simp]
  show ?thesis
    unfolding wrong_tls_key_rejected_def MEASUREMENT_SIZE_def Let_def r(1) and_then.simps as_bytes_def
    by (simp add: unwrap_err_def)
qed

text \<open>The report of the last test, and its signed region with the flipped bit.\<close>

lemma tampered_test:
  assumes "p384_ok L" "mock_key_ok L" "sha256_ok L"
  obtains r sk where "sign_mock_report L (tls_pubkey_hash L (str_bytes ''fake-tls-pubkey-der-bytes'')) (replicate 48 0xaa) =
      (Ok r :: (report, unit) exec)" "sk_from_slice L MOCK_PRIVATE_KEY_SCALAR = Inr sk"
    "tampered_signed_region_rejected L = Ok () \<longleftrightarrow>
      \<not> vk_verify L (sk_verifying_key L sk) ((take 672 (raw r))[144 := 0xab]) (sk_sign L sk (take 672 (raw r)))"
proof -
  let ?pk = "str_bytes ''fake-tls-pubkey-der-bytes''"
  obtain r sk where r: "sign_mock_report L (tls_pubkey_hash L ?pk) (replicate 48 0xaa) = (Ok r :: (report, unit) exec)"
    "sk_from_slice L MOCK_PRIVATE_KEY_SCALAR = Inr sk" "wf_report r"
    "report_signature (raw r) = sg_to_bytes L (sk_sign L sk (take 672 (raw r)))"
    "take 32 (drop 80 (raw r)) = sha256 L ?pk" "take 48 (drop 144 (raw r)) = replicate 48 0xaa"
    by (rule signed_test_report [OF assms])
  have len: "length (raw r) = 1184" using r(3) by (simp add: wf_report_def REPORT_SIZE_def)
  have "raw r ! 144 = take 48 (drop 144 (raw r)) ! 0" using len by simp
  then have "raw r ! 144 XOR 1 = 0xab" unfolding r(6) by simp
  moreover let ?t = "(raw r)[144 := raw r ! 144 XOR 1]"
  have "report_signature ?t = report_signature (raw r)" "take 32 (drop 80 ?t) = take 32 (drop 80 (raw r))"
    by (simp_all add: report_signature_def drop_update_cancel drop_update_swap take_update_cancel)
  then have "verify L ?t KeyMock (replicate 48 0) ?pk =
      (if vk_verify L (sk_verifying_key L sk) (take 672 ?t) (sk_sign L sk (take 672 (raw r))) then Ok () else Err BadSignature)"
    using r(3-5) p384_okD [OF assms(1)]
    by (simp add: verify_appraisal wf_report_def appraisal_def key_bound_def mock_anchor_Ok [OF assms(1) r(2)]
        measurement_accepted_def)
  ultimately have v: "verify L ?t KeyMock (replicate 48 0) ?pk =
      (if vk_verify L (sk_verifying_key L sk) ((take 672 (raw r))[144 := 0xab]) (sk_sign L sk (take 672 (raw r)))
       then Ok () else Err BadSignature)"
    by (simp add: take_update_swap)
  have "tampered_signed_region_rejected L = Ok () \<longleftrightarrow>
      \<not> vk_verify L (sk_verifying_key L sk) ((take 672 (raw r))[144 := 0xab]) (sk_sign L sk (take 672 (raw r)))"
    unfolding tampered_signed_region_rejected_def MEASUREMENT_SIZE_def Let_def r(1) and_then.simps as_bytes_def
    using len v by (simp add: unwrap_err_def)
  with r(1,2) show ?thesis by (rule that)
qed

text \<open>The PEM bundles of the tests, read line by line.\<close>

lemma pem_test_payloads:
  "list_all b64_alphabet ''aGVsbG8=''" "list_all b64_alphabet ''d29ybGQ=''"
  by (simp_all add: b64_alphabet_def)

lemma pem_test_block_lines:
  assumes "list_all b64_alphabet payload"
  shows "str_lines (pem_test_block payload @ s) = [BEGIN_CERT, payload, END_CERT] @ str_lines s"
proof -
  have "newline \<notin> set payload" "carriage_return \<notin> set payload"
    using assms by (auto simp: list_all_iff b64_alphabet_def newline_def carriage_return_def)
  moreover have "newline \<notin> set BEGIN_CERT" "newline \<notin> set END_CERT"
    "carriage_return \<notin> set BEGIN_CERT" "carriage_return \<notin> set END_CERT"
    by (simp_all add: BEGIN_CERT_def END_CERT_def newline_def carriage_return_def)
  moreover have "strip_cr l = l" if "carriage_return \<notin> set l" for l
    using that by (auto simp: strip_cr_def dest: last_in_set)
  ultimately show ?thesis by (simp add: pem_test_block_def str_lines_line)
qed

lemma pem_test_block_parse:
  assumes "list_all b64_alphabet payload" "payload \<noteq> []" "b64_decode L payload = Inr der"
  shows "parse_pem_bundle L (pem_test_block payload @ s) = map_ok (Cons der) (parse_pem_bundle L s)"
  using assms by (simp add: parse_pem_reference pem_test_block_lines pem_token_chunk)

lemma pem_tests:
  assumes "b64_decode L ''aGVsbG8='' = Inr (str_bytes ''hello'')" "b64_decode L ''d29ybGQ='' = Inr (str_bytes ''world'')"
  shows "parse_pem_bundle_single L = Ok ()" "parse_pem_bundle_two_certs L = Ok ()" "parse_pem_bundle_empty L = Ok ()"
proof -
  have empty: "parse_pem_bundle L [] = Ok []"
    by (simp add: parse_pem_reference str_lines_def)
  have one: "parse_pem_bundle L (pem_test_block ''aGVsbG8='' @ s) = map_ok (Cons (str_bytes ''hello'')) (parse_pem_bundle L s)" for s
    by (rule pem_test_block_parse [OF pem_test_payloads(1) _ assms(1)]) simp
  have two: "parse_pem_bundle L (pem_test_block ''d29ybGQ='' @ s) = map_ok (Cons (str_bytes ''world'')) (parse_pem_bundle L s)" for s
    by (rule pem_test_block_parse [OF pem_test_payloads(2) _ assms(2)]) simp
  show "parse_pem_bundle_single L = Ok ()"
    using one [of "[]"] by (simp add: parse_pem_bundle_single_def empty)
  show "parse_pem_bundle_two_certs L = Ok ()"
    using one [of "pem_test_block ''d29ybGQ=''"] two [of "[]"] by (simp add: parse_pem_bundle_two_certs_def empty)
  show "parse_pem_bundle_empty L = Ok ()"
    by (simp add: parse_pem_bundle_empty_def empty)
qed

text \<open>The tokens of the tests.\<close>

lemma made_jwt:
  assumes "json_ok L" "b64url_ok L" "utf8 nonce" "utf8 cc" "utf8 model"
  obtains jwt where "make_jwt L nonce cc model = (Ok jwt :: (string, unit) exec)"
    "verify_gpu_jwt L jwt pk =
       (let expected = hex_encode L (sha256 L pk) in
        if nonce \<noteq> expected then Err (NonceMismatch expected nonce)
        else if to_lowercase cc \<noteq> ''on'' then Err (CcModeNotOn cc)
        else Ok \<lparr>gpu_model = model, cc_mode = cc\<rparr>)"
proof -
  obtain b where b: "json_to_vec L (claims_json nonce cc model) = Inr b"
    "from_slice L ''NvidiaClaims'' de_claims b =
       Inr \<lparr>claim_nonce = Some nonce, claim_cc_mode = Some cc, claim_gpu_model = Some model\<rparr>"
    using claims_wire.wire [OF assms(1), of "(nonce, cc, model)" "''NvidiaClaims''"] assms(3-5) by auto
  let ?h = "b64url_encode L (str_bytes test_header)"
  let ?jwt = "jwt_of ?h (b64url_encode L b) ''fakesig''"
  have parts: "no_dot ?h" "no_dot (b64url_encode L b)" "no_dot ''fakesig''"
    using assms(2) by (simp_all add: b64url_ok_def no_dot_def)
  have "make_jwt L nonce cc model = (Ok ?jwt :: (string, unit) exec)"
    by (simp only: make_jwt_def Let_def b(1) expect_simps and_then.simps jwt_of_def) simp
  moreover have "b64url_decode L (b64url_encode L b) = Inr b"
    using assms(2) by (simp add: b64url_ok_def)
  then have "verify_gpu_jwt L ?jwt pk =
       (let expected = hex_encode L (sha256 L pk) in
        if nonce \<noteq> expected then Err (NonceMismatch expected nonce)
        else if to_lowercase cc \<noteq> ''on'' then Err (CcModeNotOn cc)
        else Ok \<lparr>gpu_model = model, cc_mode = cc\<rparr>)"
    using b(2)
    by (simp add: verify_gpu_jwt_def split_jwt_of [OF parts] base64_url_decode_def claims_from_slice_def Let_def)
  ultimately show ?thesis by (rule that)
qed

lemma gpu_tests:
  assumes "json_ok L" "b64url_ok L" "hex_ok L" "sha256_ok L"
  shows "valid_gpu_jwt_passes L = Ok ()" "wrong_nonce_rejected L = Ok ()" "cc_mode_off_rejected L = Ok ()"
    "malformed_jwt_rejected L = Ok ()"
proof -
  let ?spki = "str_bytes ''fake-spki-der''"
  have "length (hex_encode L (sha256 L ?spki)) = 64"
    using assms(3,4) by (simp add: hex_ok_def)
  then have ne: "hex_encode L (sha256 L ?spki) \<noteq> ''aabbcc''" by auto
  have texts: "utf8 (hex_encode L (sha256 L ?spki))" "utf8 ''aabbcc''" "utf8 ''on''" "utf8 ''off''" "utf8 ''H100''"
    by (rule hex_utf8 [OF assms(3)], (rule utf8_ascii, simp add: ascii_def)+)
  have lower: "to_lowercase ''on'' = ''on''" "to_lowercase ''off'' \<noteq> ''on''" by code_simp+
  show "valid_gpu_jwt_passes L = Ok ()"
    by (rule made_jwt [OF assms(1,2) texts(1,3,5), of ?spki])
      (simp add: valid_gpu_jwt_passes_def expected_nonce_def lower Let_def)
  show "wrong_nonce_rejected L = Ok ()"
    by (rule made_jwt [OF assms(1,2) texts(2,3,5), of ?spki])
      (use ne in \<open>simp add: wrong_nonce_rejected_def Let_def\<close>)
  show "cc_mode_off_rejected L = Ok ()"
    by (rule made_jwt [OF assms(1,2) texts(1,4,5), of ?spki])
      (use lower in \<open>simp add: cc_mode_off_rejected_def expected_nonce_def Let_def\<close>)
  have "length (split_char (CHR ''.'') ''not.a.valid.jwt.parts'') = 5" by (simp add: length_split_char)
  then show "malformed_jwt_rejected L = Ok ()"
    by (simp add: malformed_jwt_rejected_def verify_gpu_jwt_def Let_def)
qed

subsection \<open>All of them\<close>

text \<open>What the tests rely on: the documented laws of \<open>Libs\<close>, and the base64 of two words.\<close>

definition test_laws :: "('sk, 'vk, 'sg, 'dsg, 'crt, 'oid, 'a) x509_lib_scheme \<Rightarrow> bool" where
  "test_laws L \<longleftrightarrow> sha256_ok L \<and> hex_ok L \<and> b64url_ok L \<and> json_ok L \<and> p384_ok L \<and> mock_key_ok L \<and>
     b64_decode L ''aGVsbG8='' = Inr (str_bytes ''hello'') \<and>
     b64_decode L ''d29ybGQ='' = Inr (str_bytes ''world'')"

definition attest_tests :: "('sk, 'vk, 'sg, 'dsg, 'crt, 'oid, 'a) x509_lib_scheme \<Rightarrow> test_result list" where
  "attest_tests L =
     [signed_region_ends_at_correct_offset, total_size_matches_spec, field_roundtrip,
      signing_key_constructs_without_panic L, sign_produces_report_with_correct_fields L,
      tls_pubkey_hash_is_deterministic L, empty_chain_returns_error L, short_chain_returns_error L,
      valid_mock_report_passes L, wrong_measurement_rejected L, zero_measurement_skips_check L]"

definition server_tests :: "'a codec_lib_scheme \<Rightarrow> test_result list" where
  "server_tests L = [parse_pem_bundle_single L, parse_pem_bundle_two_certs L, parse_pem_bundle_empty L]"

definition client_tests :: "'a codec_lib_scheme \<Rightarrow> test_result list" where
  "client_tests L =
     [valid_gpu_jwt_passes L, wrong_nonce_rejected L, cc_mode_off_rejected L, malformed_jwt_rejected L]"

lemma lawful_tests:
  assumes "test_laws L"
  shows "list_all (\<lambda>t. t = Ok ()) (attest_tests L @ server_tests L @ client_tests L)"
proof -
  have laws: "p384_ok L" "mock_key_ok L" "sha256_ok L" "json_ok L" "b64url_ok L" "hex_ok L"
    "b64_decode L ''aGVsbG8='' = Inr (str_bytes ''hello'')" "b64_decode L ''d29ybGQ='' = Inr (str_bytes ''world'')"
    using assms unfolding test_laws_def by blast+
  have "tls_pubkey_hash_is_deterministic L = Ok ()"
    by (simp add: tls_pubkey_hash_is_deterministic_def)
  then have "list_all (\<lambda>t. t = Ok ()) (attest_tests L)"
    unfolding attest_tests_def
    using report_tests mock_key_tests(1) [OF laws(2)] mock_sign_test [OF laws(1,2)] chain_tests [of L]
      verify_tests [OF laws(1-3)] by simp
  moreover have "list_all (\<lambda>t. t = Ok ()) (server_tests L)"
    unfolding server_tests_def using pem_tests [OF laws(7,8)] by simp
  moreover have "list_all (\<lambda>t. t = Ok ()) (client_tests L)"
    unfolding client_tests_def using gpu_tests [OF laws(4-6,3)] by simp
  ultimately show ?thesis by simp
qed

text \<open>C26: The repository's unit tests in the model, their assertions taken literally. With a library that keeps its
  documented laws 18 of the 21 \<open>#[test]\<close> functions return without a panic. Each of the other three passes
  exactly if one fact about the crates holds: the mock key is encoded as 97 bytes that start with 4; SHA-256
  differs on two texts; and the mock key's signature on the signed region of a report does not verify for
  that region with one bit of the measurement flipped.\<close>

theorem unit_tests_pass:
  assumes "test_laws L"
  shows "list_all (\<lambda>t. t = Ok ()) (attest_tests L @ server_tests L @ client_tests L) \<and>
    (mock_verifying_key_is_97_bytes L = Ok () \<longleftrightarrow>
      (\<exists>sk. sk_from_slice L MOCK_PRIVATE_KEY_SCALAR = Inr sk \<and>
        length (vk_to_sec1 L (sk_verifying_key L sk)) = 97 \<and> vk_to_sec1 L (sk_verifying_key L sk) ! 0 = 4)) \<and>
    (wrong_tls_key_rejected L = Ok () \<longleftrightarrow>
      sha256 L (str_bytes ''correct-pubkey'') \<noteq> sha256 L (str_bytes ''wrong-pubkey'')) \<and>
    (\<exists>r sk. sign_mock_report L (sha256 L (str_bytes ''fake-tls-pubkey-der-bytes'')) (replicate 48 0xaa) =
        (Ok r :: (report, unit) exec) \<and> sk_from_slice L MOCK_PRIVATE_KEY_SCALAR = Inr sk \<and>
      (tampered_signed_region_rejected L = Ok () \<longleftrightarrow>
        \<not> vk_verify L (sk_verifying_key L sk) ((take 672 (raw r))[144 := 0xab]) (sk_sign L sk (take 672 (raw r)))))"
proof -
  have laws: "p384_ok L" "mock_key_ok L" "sha256_ok L"
    using assms unfolding test_laws_def by blast+
  obtain r sk where tampered: "sign_mock_report L (sha256 L (str_bytes ''fake-tls-pubkey-der-bytes'')) (replicate 48 0xaa) =
      (Ok r :: (report, unit) exec)" "sk_from_slice L MOCK_PRIVATE_KEY_SCALAR = Inr sk"
    "tampered_signed_region_rejected L = Ok () \<longleftrightarrow>
      \<not> vk_verify L (sk_verifying_key L sk) ((take 672 (raw r))[144 := 0xab]) (sk_sign L sk (take 672 (raw r)))"
    using tampered_test [OF laws] unfolding tls_pubkey_hash_def by metis
  show ?thesis
    by (intro conjI, rule lawful_tests [OF assms], rule mock_key_tests(2) [OF laws(2)], rule wrong_key_test [OF laws])
      (use tampered in blast)
qed

end
