(* ===== verification/Demo.thy ===== *)
theory Demo
  imports Gpu_Verify Pem
begin

section \<open>A concrete library, for the witnesses\<close>

text \<open>
  The third-party crates are parameters of the model. To show that the laws assumed of them
  can hold together, this theory gives them a small concrete implementation: a hash that keeps
  32 bytes, hexadecimal for both text encodings, signatures that are a checksum under a key,
  certificates of a few bytes, and JSON values as words with unary lengths. None of it models
  the crates; every theorem about the program is about an arbitrary \<open>L\<close>.
\<close>

subsection \<open>Text encodings\<close>

definition demo_hex :: "bytes \<Rightarrow> string" where
  "demo_hex bs = concat (map (\<lambda>b. [hex_digit (unat b div 16), hex_digit (unat b mod 16)]) bs)"

definition hex_value :: "char \<Rightarrow> nat option" where
  "hex_value c = (let n = of_char c :: nat in
     if 48 \<le> n \<and> n \<le> 57 then Some (n - 48)
     else if 97 \<le> n \<and> n \<le> 102 then Some (n - 87) else None)"

fun demo_unhex :: "string \<Rightarrow> string + bytes" where
  "demo_unhex [] = Inr []"
| "demo_unhex [c] = Inl ''Odd number of digits''"
| "demo_unhex (c # d # s) =
     (case (hex_value c, hex_value d) of
        (Some i, Some j) \<Rightarrow> map_sum id (Cons (word_of_nat (16 * i + j))) (demo_unhex s)
      | _ \<Rightarrow> Inl ''Invalid character'')"

lemma hex_value_digit: "d < 16 \<Longrightarrow> hex_value (hex_digit d) = Some d"
  by (auto simp: hex_value_def hex_digit_def Let_def)

lemma demo_unhex_hex: "demo_unhex (demo_hex bs) = Inr bs"
proof (induction bs)
  case Nil
  then show ?case by (simp add: demo_hex_def)
next
  case (Cons b bs)
  have "unat b < 256" using unsigned_less [of b, where ?'a = nat] by simp
  then have "unat b div 16 < 16" by linarith
  then show ?case
    using Cons by (simp add: demo_hex_def hex_value_digit)
qed

lemma hex_digit_alphabet: "d < 16 \<Longrightarrow> b64_alphabet (hex_digit d)"
  by (auto simp: b64_alphabet_def hex_digit_def Let_def)

lemma demo_hex_alphabet: "list_all b64_alphabet (demo_hex bs)"
proof (induction bs)
  case Nil
  then show ?case by (simp add: demo_hex_def)
next
  case (Cons b bs)
  have "unat b < 256" using unsigned_less [of b, where ?'a = nat] by simp
  then have "unat b div 16 < 16" by linarith
  then show ?case using Cons by (simp add: demo_hex_def hex_digit_alphabet)
qed

lemma demo_hex_chars: "list_all hex_char (demo_hex bs)"
proof (induction bs)
  case Nil
  then show ?case by (simp add: demo_hex_def)
next
  case (Cons b bs)
  have "unat b < 256" using unsigned_less [of b, where ?'a = nat] by simp
  then have "unat b div 16 < 16" by linarith
  then show ?case using Cons by (auto simp: demo_hex_def hex_char_def hex_digit_def Let_def)
qed

lemma length_demo_hex: "length (demo_hex bs) = 2 * length bs"
  by (induction bs) (simp_all add: demo_hex_def)

subsection \<open>Keys, signatures, certificates\<close>

definition checksum :: "bytes \<Rightarrow> byte" where
  "checksum bs = foldr (+) bs 0"

definition demo_sha :: "bytes \<Rightarrow> bytes" where
  "demo_sha bs = take 32 (bs @ replicate 32 0)"

record demo_cert =
  dc_key :: bytes
  dc_sig :: byte
  dc_ext :: bytes

text \<open>A certificate: one byte of key, one of signature; and for an extension one more byte and its content.\<close>

fun demo_parse_cert :: "bytes \<Rightarrow> string + demo_cert" where
  "demo_parse_cert (k # s # ext) = Inr \<lparr>dc_key = [k], dc_sig = s, dc_ext = ext\<rparr>"
| "demo_parse_cert _ = Inl ''truncated''"

subsection \<open>A format for lists of texts\<close>

definition enc_nat :: "nat \<Rightarrow> bytes" where
  "enc_nat n = replicate n 1 @ [0]"

fun dec_nat :: "bytes \<Rightarrow> (nat \<times> bytes) option" where
  "dec_nat [] = None"
| "dec_nat (b # bs) = (if b = 0 then Some (0, bs) else map_option (apfst Suc) (dec_nat bs))"

definition enc_str :: "string \<Rightarrow> bytes" where
  "enc_str s = enc_nat (length s) @ map (\<lambda>c. word_of_nat (of_char c)) s"

definition dec_str :: "bytes \<Rightarrow> (string \<times> bytes) option" where
  "dec_str bs = (case dec_nat bs of None \<Rightarrow> None
     | Some (n, r) \<Rightarrow> Some (map (\<lambda>b. char_of (unat b)) (take n r), drop n r))"

fun dec_strs :: "nat \<Rightarrow> bytes \<Rightarrow> (string list \<times> bytes) option" where
  "dec_strs 0 bs = Some ([], bs)"
| "dec_strs (Suc n) bs = (case dec_str bs of None \<Rightarrow> None
     | Some (s, r) \<Rightarrow> map_option (apfst (Cons s)) (dec_strs n r))"

lemma dec_enc_nat [simp]: "dec_nat (enc_nat n @ r) = Some (n, r)"
  by (induction n) (auto simp: enc_nat_def)

lemma char_byte [simp]: "char_of (unat (word_of_nat (of_char c) :: byte)) = c"
  by (simp add: unat_of_nat)

lemma dec_enc_str [simp]: "dec_str (enc_str s @ r) = Some (s, r)"
  by (simp add: dec_str_def enc_str_def comp_def)

lemma dec_enc_strs [simp]: "dec_strs (length ss) (concat (map enc_str ss) @ r) = Some (ss, r)"
  by (induction ss) auto

subsection \<open>JSON values as words in postfix order\<close>

fun demo_words :: "json \<Rightarrow> string list" where
  "demo_words JNull = [''n'']"
| "demo_words (JBool b) = [if b then ''t'' else ''f'']"
| "demo_words (JInt i) =
     [if 0 \<le> i then CHR ''i'' # replicate (nat i) (CHR ''1'') else CHR ''j'' # replicate (nat (- i)) (CHR ''1'')]"
| "demo_words (JFloat s) = [CHR ''d'' # s]"
| "demo_words (JStr s) = [CHR ''s'' # s]"
| "demo_words (JArr js) = concat (map demo_words js) @ [CHR ''a'' # replicate (length js) (CHR ''1'')]"
| "demo_words (JObj kvs) = concat (map (\<lambda>kv. (CHR ''s'' # fst kv) # demo_words (snd kv)) kvs) @
     [CHR ''o'' # replicate (length kvs) (CHR ''1'')]"

fun pair_up :: "json list \<Rightarrow> (string \<times> json) list option" where
  "pair_up [] = Some []"
| "pair_up (v # JStr k # js) = map_option (Cons (k, v)) (pair_up js)"
| "pair_up _ = None"

definition demo_word :: "string \<Rightarrow> json list \<Rightarrow> json list option" where
  "demo_word w stk = (case w of [] \<Rightarrow> None | c # s \<Rightarrow>
     let n = length s in
     if c = CHR ''n'' then Some (JNull # stk)
     else if c = CHR ''t'' then Some (JBool True # stk)
     else if c = CHR ''f'' then Some (JBool False # stk)
     else if c = CHR ''i'' then Some (JInt (int n) # stk)
     else if c = CHR ''j'' then Some (JInt (- int n) # stk)
     else if c = CHR ''d'' then Some (JFloat s # stk)
     else if c = CHR ''s'' then Some (JStr s # stk)
     else if c = CHR ''a'' then
       if n \<le> length stk then Some (JArr (rev (take n stk)) # drop n stk) else None
     else if c = CHR ''o'' \<and> 2 * n \<le> length stk then
       map_option (\<lambda>kvs. JObj (rev kvs) # drop (2 * n) stk) (pair_up (take (2 * n) stk))
     else None)"

fun demo_run :: "string list \<Rightarrow> json list \<Rightarrow> json option" where
  "demo_run [] [j] = Some j"
| "demo_run [] _ = None"
| "demo_run (w # ws) stk = (case demo_word w stk of None \<Rightarrow> None | Some stk' \<Rightarrow> demo_run ws stk')"

definition unpair :: "(string \<times> json) list \<Rightarrow> json list" where
  "unpair kvs = concat (map (\<lambda>(k, v). [v, JStr k]) kvs)"

lemma pair_up_unpair: "pair_up (unpair kvs) = Some kvs"
  by (induction kvs) (auto simp: unpair_def)

lemma length_unpair: "length (unpair kvs) = 2 * length kvs"
  by (induction kvs) (auto simp: unpair_def)

lemma demo_run_array:
  assumes "\<And>j ws stk. j \<in> set js \<Longrightarrow> demo_run (demo_words j @ ws) stk = demo_run ws (j # stk)"
  shows "demo_run (concat (map demo_words js) @ ws) stk = demo_run ws (rev js @ stk)"
  using assms by (induction js arbitrary: stk) simp_all

lemma demo_run_object:
  assumes "\<And>kv ws stk. kv \<in> set kvs \<Longrightarrow> demo_run (demo_words (snd kv) @ ws) stk = demo_run ws (snd kv # stk)"
  shows "demo_run (concat (map (\<lambda>kv. (CHR ''s'' # fst kv) # demo_words (snd kv)) kvs) @ ws) stk =
    demo_run ws (unpair (rev kvs) @ stk)"
  using assms by (induction kvs arbitrary: stk) (simp_all add: demo_word_def unpair_def case_prod_beta)

lemma demo_run_words: "demo_run (demo_words j @ ws) stk = demo_run ws (j # stk)"
proof (induction j arbitrary: ws stk)
  case (JArr js)
  have "demo_run (demo_words (JArr js) @ ws) stk =
      demo_run ((CHR ''a'' # replicate (length js) (CHR ''1'')) # ws) (rev js @ stk)"
    using demo_run_array [of js "(CHR ''a'' # replicate (length js) (CHR ''1'')) # ws" stk] JArr by simp
  then show ?case by (simp add: demo_word_def)
next
  case (JObj kvs)
  have ih: "demo_run (demo_words (snd kv) @ ws) stk = demo_run ws (snd kv # stk)" if "kv \<in> set kvs" for kv ws stk
    using JObj that by (cases kv) (auto simp: snds.simps)
  have "demo_run (demo_words (JObj kvs) @ ws) stk =
      demo_run ((CHR ''o'' # replicate (length kvs) (CHR ''1'')) # ws) (unpair (rev kvs) @ stk)"
    using demo_run_object [of kvs "(CHR ''o'' # replicate (length kvs) (CHR ''1'')) # ws" stk, OF ih] by simp
  then show ?case
    using pair_up_unpair [of "rev kvs"] length_unpair [of "rev kvs"]
    by (simp add: demo_word_def)
qed (simp_all add: demo_word_def)

definition demo_json_bytes :: "json \<Rightarrow> bytes" where
  "demo_json_bytes j = enc_nat (length (demo_words j)) @ concat (map enc_str (demo_words j))"

definition demo_json_raw :: "bytes \<Rightarrow> json option" where
  "demo_json_raw b = (case dec_nat b of None \<Rightarrow> None | Some (n, r) \<Rightarrow>
     (case dec_strs n r of Some (ws, []) \<Rightarrow> demo_run ws [] | _ \<Rightarrow> None))"

definition demo_json_value :: "bytes \<Rightarrow> json option" where
  "demo_json_value b = (case demo_json_raw b of None \<Rightarrow> None | Some j \<Rightarrow> if json_utf8 j then Some j else None)"

lemma demo_json_roundtrip: "json_utf8 j \<Longrightarrow> demo_json_value (demo_json_bytes j) = Some j"
  using dec_enc_strs [of "demo_words j" "[]"] demo_run_words [of j "[]" "[]"]
  by (simp add: demo_json_value_def demo_json_raw_def demo_json_bytes_def)

lemma demo_json_utf8: "demo_json_value b = Some j \<Longrightarrow> json_utf8 j"
  by (auto simp: demo_json_value_def split: option.splits if_splits)

lemma demo_json_bytes_ne [simp]: "demo_json_bytes j \<noteq> []"
  by (simp add: demo_json_bytes_def enc_nat_def)

subsection \<open>The library\<close>

definition demo_lib ::
  "(bytes, bytes, byte, byte, demo_cert, string, unit, unit, unit) client_lib" where
  "demo_lib = \<lparr>
     sha256 = demo_sha,
     hex_encode = demo_hex, hex_decode = demo_unhex,
     b64_encode = demo_hex, b64_decode = demo_unhex, b64url_decode = demo_unhex, b64url_encode = demo_hex,
     json_to_vec = (\<lambda>j. Inr (demo_json_bytes j)), json_value = demo_json_value, json_error = (\<lambda>_ _. ''invalid''),
     sk_from_slice = (\<lambda>bs. if length bs = 48 then Inr bs else Inl ''invalid scalar''),
     sk_verifying_key = (\<lambda>sk. sk @ sk),
     sk_sign = (\<lambda>sk m. checksum (sk @ sk @ m)),
     sg_to_bytes = (\<lambda>s. s # replicate 95 0),
     sg_from_slice = (\<lambda>bs. if length bs = 96 then Inr (hd bs) else Inl ''invalid signature''),
     vk_to_sec1 = (\<lambda>vk. 4 # vk),
     vk_from_sec1 = (\<lambda>bs. case bs of [] \<Rightarrow> Inl ''empty'' | p # vk \<Rightarrow>
        if p = 4 then Inr vk else Inl ''invalid point''),
     vk_verify = (\<lambda>vk m s. s = checksum (vk @ m)),
     dsg_from_der = (\<lambda>bs. case bs of [s] \<Rightarrow> Inr s | _ \<Rightarrow> Inl ''invalid DER''),
     vk_verify_der = (\<lambda>vk m s. s = checksum (vk @ m)),
     crt_from_der = demo_parse_cert,
     crt_spki_to_der = (\<lambda>c. Inr (dc_key c)),
     crt_spki_key_bits = (\<lambda>c. Some (4 # dc_key c)),
     crt_tbs_to_der = (\<lambda>c. Inr (dc_key c @ dc_ext c)),
     crt_signature_bits = (\<lambda>c. Some [dc_sig c]),
     crt_extensions = (\<lambda>c. if dc_ext c = [] then None else Some [(ATTEST_OID_STR, tl (dc_ext c))]),
     oid_parse = Inr,
     rustls_verify_tls12 = (\<lambda>_ _ _ _. Inr ()),
     rustls_verify_tls13 = (\<lambda>_ _ _ _. Inr ()),
     provider_schemes = (\<lambda>_. [])\<rparr>"

lemma demo_to_vec: "json_to_vec demo_lib j = Inr (demo_json_bytes j)"
  by (simp add: demo_lib_def)

lemma demo_from_slice: "json_utf8 j \<Longrightarrow> from_slice demo_lib ty de (demo_json_bytes j) = Inr a \<longleftrightarrow> de j = Some a"
  by (simp add: from_slice_Inr) (simp add: demo_lib_def demo_json_roundtrip)

definition demo_ext_bytes :: "attestation_extension \<Rightarrow> bytes" where
  "demo_ext_bytes e = demo_json_bytes (ser_extension e)"

lemma demo_ext_bytes_ne: "demo_ext_bytes e \<noteq> []"
  by (simp add: demo_ext_bytes_def)

lemma demo_ext_to_vec: "ext_to_vec demo_lib e = Inr (demo_ext_bytes e)"
  by (simp add: ext_to_vec_def demo_to_vec demo_ext_bytes_def)

lemma demo_ext_from_slice: "ext_utf8 e \<Longrightarrow> ext_from_slice demo_lib (demo_ext_bytes e) = Inr e"
  by (simp add: ext_from_slice_def demo_from_slice utf8_extension demo_ext_bytes_def de_ser_extension)

lemma length_demo_sha [simp]: "length (demo_sha bs) = 32"
  by (simp add: demo_sha_def min_def)

lemma demo_laws:
  "sha256_ok demo_lib" "b64_ok demo_lib" "hex_ok demo_lib" "p384_ok demo_lib"
  "mock_key_ok demo_lib" "json_ok demo_lib"
  by (simp_all add: demo_lib_def sha256_ok_def b64_ok_def hex_ok_def p384_ok_def
      mock_key_ok_def MOCK_PRIVATE_KEY_SCALAR_def json_ok_def demo_unhex_hex demo_hex_alphabet demo_hex_chars length_demo_hex
      demo_json_roundtrip demo_json_utf8)

text \<open>A self-signed demo certificate with key byte 7: its signature byte is the checksum of the
  key and the certified bytes.\<close>

definition demo_root :: bytes where "demo_root = [7, 14]"

text \<open>A token that is good for a key.\<close>

definition demo_claims :: "string \<Rightarrow> bytes" where
  "demo_claims nonce = demo_json_bytes (claims_json nonce ''on'' ''H100'')"

definition demo_jwt :: "string \<Rightarrow> string" where
  "demo_jwt nonce = jwt_of ''h'' (demo_hex (demo_claims nonce)) ''s''"

lemma demo_hex_no_dot: "no_dot (demo_hex bs)"
  using demo_hex_chars [of bs] by (auto simp: no_dot_def list_all_iff hex_char_def)

lemma demo_texts: "utf8 ''on''" "utf8 ''H100''" "utf8 (demo_hex bs)" "utf8 (demo_jwt nonce)"
proof -
  show hex: "utf8 (demo_hex bs)" for bs
    using demo_hex_chars [of bs] by (intro utf8_ascii) (auto simp: list_all_iff intro: hex_char_ascii)
  have "utf8 ''h.''" "utf8 ''.s''" by (rule utf8_ascii, simp add: ascii_def)+
  then have "utf8 (''h.'' @ demo_hex (demo_claims nonce) @ ''.s'')" using hex by (intro utf8_append)
  then show "utf8 (demo_jwt nonce)" by (simp add: demo_jwt_def jwt_of_def)
qed (rule utf8_ascii, simp add: ascii_def)+

lemma demo_jwt_accepted: "verify_gpu_jwt demo_lib (demo_jwt (hex_encode demo_lib (sha256 demo_lib pk))) pk = Ok \<lparr>gpu_model = ''H100'', cc_mode = ''on''\<rparr>"
proof -
  have "no_dot ''h''" "no_dot ''s''" by (simp_all add: no_dot_def)
  moreover have "claims_from_slice demo_lib (demo_claims n) =
      Inr \<lparr>claim_nonce = Some n, claim_cc_mode = Some ''on'', claim_gpu_model = Some ''H100''\<rparr>" if "utf8 n" for n
    using that
    by (simp add: claims_from_slice_def demo_from_slice demo_claims_def utf8_claims_json demo_texts de_claims_json)
  moreover have "b64url_decode demo_lib (demo_hex b) = Inr b" for b
    by (simp add: demo_lib_def demo_unhex_hex)
  ultimately show ?thesis
    using hex_utf8 [OF demo_laws(3), of "sha256 demo_lib pk"]
    unfolding demo_jwt_def by (simp add: verify_gpu_jwt_payload demo_hex_no_dot claims_accepted_def)
qed

end
