(* ===== verification/Demo_Env.thy ===== *)
theory Demo_Env
  imports Demo System Startup Unit_Tests
begin

section \<open>A concrete outside world, for the witnesses\<close>

text \<open>
  Like \<open>Demo\<close>, for the oracles: a machine whose device answers with the requested user data in a
  report that it signs, a key service that delivers the signer's self-signed certificate and the bundle,
  a certificate library for the demo certificates, a sidecar that issues a token for its nonce, and a
  transport with one server behind it. On this machine every mode of the gateway starts, and the client
  of the same mode accepts it.
\<close>

definition demo_pem :: string where
  "demo_pem = BEGIN_CERT @ newline # ''070e'' @ newline # END_CERT @ newline #
     BEGIN_CERT @ newline # ''070e'' @ newline # END_CERT @ [newline]"

definition demo_self_signed :: "(64 word list \<times> bytes) list \<Rightarrow> bytes \<Rightarrow> string + bytes" where
  "demo_self_signed exts kp =
     (if length kp = 1 \<and> distinct (map fst exts) then
        Inr (hd kp # 0 # (case filter (\<lambda>e. fst e = ATTEST_OID_ARCS) exts of [] \<Rightarrow> [] | e # _ \<Rightarrow> 1 # snd e))
      else Inl ''key or extensions'')"

definition demo_body :: "bytes \<Rightarrow> bytes" where
  "demo_body ud = replicate 80 0 @ take 64 (ud @ replicate 64 0) @ replicate 528 0"

definition demo_device :: "bytes \<Rightarrow> bytes" where
  "demo_device ud = demo_body ud @ checksum (7 # demo_body ud) # replicate 3327 0"

lemma length_demo_body [simp]: "length (demo_body ud) = 672"
  by (simp add: demo_body_def min_def)

definition demo_sidecar :: "string \<Rightarrow> bytes" where
  "demo_sidecar nonce = demo_json_bytes (JObj [(''jwt'', JStr (demo_jwt nonce))])"

lemma demo_sidecar_read: "gpu_result_from_slice demo_lib (demo_sidecar nonce) = Inr (demo_jwt nonce)"
proof -
  have "distinct (map fst [(''jwt'', JStr (demo_jwt nonce))])" by simp
  moreover have "utf8 ''jwt''" by (rule utf8_ascii) (simp add: ascii_def)
  ultimately show ?thesis
    using struct_fields_object [of "[(''jwt'', JStr (demo_jwt nonce))]"] demo_texts(4)
    by (simp add: gpu_result_from_slice_def demo_sidecar_def demo_from_slice de_gpu_attest_result_def serde)
qed

definition demo_vcek_url :: string where
  "demo_vcek_url = kds_vcek_url ''Milan'' (demo_hex (replicate 64 0)) \<lparr>bl_spl = 0, tee_spl = 0, snp_spl = 0, ucode_spl = 0\<rparr>"

definition demo_key_service :: "string \<Rightarrow> string + http_response" where
  "demo_key_service url =
     (if url = kds_bundle_url ''Milan'' then Inr \<lparr>status = 200, body = Inr (str_bytes demo_pem)\<rparr>
      else if url = demo_vcek_url then Inr \<lparr>status = 200, body = Inr demo_root\<rparr>
      else Inl ''not found'')"

definition demo_env :: "(bytes, bytes \<times> bytes) server_env" where
  "demo_env = \<lparr>
     gen_keypair = (\<lambda>_. Inr [7]),
     self_signed = (\<lambda>_. demo_self_signed),
     kp_serialized_der = (\<lambda>kp. kp),
     server_config_build = (\<lambda>cert key. if length key = 1 then Inr (cert, key) else Inl ''key''),
     open_device = (\<lambda>_ _. Inr ()),
     snp_ioctl = (\<lambda>_ _ a. (0, a\<lparr>exitinfo2 := 0, resp_data := \<lparr>resp_bytes = demo_device (user_data (req_data a))\<rparr>\<rparr>)),
     last_os_error = (\<lambda>_. ''''),
     http_client_build = (\<lambda>_. Inr ()),
     http_get = (\<lambda>_. demo_key_service),
     http_post = (\<lambda>_ _ b _. Inr \<lparr>status = 200, body = Inr b\<rparr>),
     error_for_status = Inr,
     response_text = (\<lambda>b. map (\<lambda>x. char_of (unat x)) b),
     run_command = (\<lambda>_ _ args. Inr \<lparr>success = True, exit_status = ''0'', stdout = demo_sidecar (last args), stderr = []\<rparr>),
     bind_listener = (\<lambda>_ _. Inr ())\<rparr>"

lemma demo_self_signed_Inr: "\<exists>der. demo_self_signed [] [k] = Inr der" "\<exists>der. demo_self_signed [e] [k] = Inr der"
  by (simp_all add: demo_self_signed_def)

lemma filter_fst_distinct:
  "distinct (map fst exts) \<Longrightarrow> filter (\<lambda>e. fst e = k) exts = [] \<or> (\<exists>v. filter (\<lambda>e. fst e = k) exts = [(k, v)])"
proof (induction exts)
  case (Cons e exts)
  then show ?case by (cases "fst e = k"; cases e) (auto simp: filter_empty_conv)
qed simp

lemma demo_rcgen: "rcgen_ok demo_env demo_lib (\<lambda>kp. kp)"
proof -
  have "\<exists>crt. crt_from_der demo_lib der = Inr crt \<and> crt_spki_to_der demo_lib crt = Inr kp \<and>
      map snd (filter (\<lambda>e. fst e = ATTEST_OID_STR) (case crt_extensions demo_lib crt of None \<Rightarrow> [] | Some es \<Rightarrow> es)) =
      map snd (filter (\<lambda>e. fst e = ATTEST_OID_ARCS) exts)"
    if "demo_self_signed exts kp = Inr der" for exts kp der
  proof -
    have "length kp = 1" and exts: "distinct (map fst exts)"
      using that by (simp_all add: demo_self_signed_def split: if_splits)
    then obtain k where kp: "kp = [k]" by (cases kp) auto
    from filter_fst_distinct [OF exts, of ATTEST_OID_ARCS] show ?thesis
      using that exts by (auto simp: demo_self_signed_def kp demo_lib_def)
  qed
  then show ?thesis unfolding rcgen_ok_def by (auto simp: demo_env_def) (simp add: demo_lib_def)
qed

lemma demo_snp: "snp_abi_ok demo_env"
  by (simp add: snp_abi_ok_def demo_env_def demo_device_def)

lemma demo_library_laws: "library_laws demo_env demo_lib (\<lambda>kp. kp)"
  using demo_rcgen demo_snp demo_laws by (simp add: library_laws_def)

lemma str_bytes_back: "map (\<lambda>x. char_of (unat x)) (str_bytes s) = s"
  using char_byte [unfolded of_nat_of_char] by (simp add: str_bytes_def comp_def)

lemma demo_pem_certs: "parse_pem_bundle demo_lib demo_pem = Ok [demo_root, demo_root]"
  by code_simp


subsection \<open>Runs of the demo gateway\<close>

lemma demo_generate_keypair: "generate_keypair demo_env tr = (Ok [7], tr @ [GenerateKey])"
  by (simp add: prod_eq_iff) (simp add: demo_env_def)

lemma demo_extract_spki: "extract_spki_der demo_env demo_lib [7] tr = (Ok [7], tr @ [SelfSign []])"
  using demo_self_signed_Inr by (simp add: prod_eq_iff extract_spki_der_Ok [OF demo_rcgen]) (simp add: demo_env_def)

lemma demo_generate_hash:
  "generate_keypair_and_hash demo_env demo_lib tr =
     (Ok ([7], sha256 demo_lib [7], bound_user_data demo_lib [7]), tr @ [GenerateKey, SelfSign []])"
  by (simp add: generate_keypair_and_hash_def io_bind_def [of "generate_keypair _"] demo_generate_keypair
      io_bind_def [of "extract_spki_der _ _ _"] demo_extract_spki Let_def copy_hash [OF demo_laws(1)] io_ret_def)

lemma demo_build_cert: "\<exists>cfg. build_server_cert demo_env demo_lib [7] ext tr = (Ok cfg, snd (build_server_cert demo_env demo_lib [7] ext tr))"
proof -
  have "\<exists>der. self_signed demo_env t [(ATTEST_OID_ARCS, demo_ext_bytes ext)] [7] = Inr der" for t
    using demo_self_signed_Inr by (simp add: demo_env_def)
  moreover have "to_bytes demo_lib ext = (Ok (demo_ext_bytes ext) :: (bytes, anyhow) exec)"
    by (simp add: to_bytes_def demo_ext_to_vec)
  ultimately show ?thesis
    by (simp add: build_server_cert_def io_bind_fst_Ok io_lift_fst from_res_ctx_eq_Ok prod_eq_iff)
      (simp add: demo_env_def)
qed

lemma demo_urls_differ: "kds_bundle_url ''Milan'' \<noteq> kds_vcek_url ''Milan'' chip tcb"
proof -
  have "CHR ''?'' \<notin> set (kds_bundle_url ''Milan'')" by (simp add: kds_bundle_url_def)
  moreover have "CHR ''?'' \<in> set (kds_vcek_url ''Milan'' chip tcb)" by (simp add: kds_vcek_url_def)
  ultimately show ?thesis by metis
qed

lemma demo_key_service_answers:
  "kds_answer demo_env t (kds_vcek_url ''Milan'' (hex_encode demo_lib chip)
      \<lparr>bl_spl = 0, tee_spl = 0, snp_spl = 0, ucode_spl = 0\<rparr>) bs \<longleftrightarrow> chip = replicate 64 0 \<and> bs = demo_root"
  "kds_answer demo_env t (kds_bundle_url ''Milan'') bs \<longleftrightarrow> bs = str_bytes demo_pem"
proof -
  have "hex_encode demo_lib = demo_hex" by (simp add: demo_lib_def)
  moreover from this have "CHR ''?'' \<notin> set (demo_hex chip)" for chip using hex_no_mark [OF demo_laws(3)] by simp
  ultimately have "kds_vcek_url ''Milan'' (hex_encode demo_lib chip) \<lparr>bl_spl = 0, tee_spl = 0, snp_spl = 0, ucode_spl = 0\<rparr> =
      demo_vcek_url \<longleftrightarrow> chip = replicate 64 0"
    using vcek_url_of_inj [of "demo_hex chip" "demo_hex (replicate 64 0)"] hex_encode_inj [OF demo_laws(3)]
    unfolding demo_vcek_url_def kds_urls(1) by metis
  then have "demo_key_service (kds_vcek_url ''Milan'' (hex_encode demo_lib chip)
      \<lparr>bl_spl = 0, tee_spl = 0, snp_spl = 0, ucode_spl = 0\<rparr>) =
      (if chip = replicate 64 0 then Inr \<lparr>status = 200, body = Inr demo_root\<rparr> else Inl ''not found'')"
    unfolding demo_key_service_def using demo_urls_differ [symmetric] by simp
  then show "kds_answer demo_env t (kds_vcek_url ''Milan'' (hex_encode demo_lib chip)
      \<lparr>bl_spl = 0, tee_spl = 0, snp_spl = 0, ucode_spl = 0\<rparr>) bs \<longleftrightarrow> chip = replicate 64 0 \<and> bs = demo_root"
    by (auto simp: kds_answer_def demo_env_def)
  show "kds_answer demo_env t (kds_bundle_url ''Milan'') bs \<longleftrightarrow> bs = str_bytes demo_pem"
    by (auto simp: kds_answer_def demo_env_def demo_key_service_def)
qed

lemma demo_report_fields:
  "take 64 (drop 392 (take REPORT_SIZE (demo_device ud))) = replicate 64 0"
  "take 64 (drop 416 (take REPORT_SIZE (demo_device ud))) = replicate 64 0"
  "take 48 (drop 144 (take REPORT_SIZE (demo_device ud))) = replicate 48 0"
  "i < 64 \<Longrightarrow> take REPORT_SIZE (demo_device ud) ! i = 0"
  by (simp_all add: demo_device_def demo_body_def REPORT_SIZE_def min_def nth_append)

lemma demo_kds:
  "kds_answer demo_env t (vcek_url demo_lib ''Milan'' (take REPORT_SIZE (demo_device ud))) bs \<longleftrightarrow> bs = demo_root"
  "kds_answer demo_env t (chain_url_of ''Milan'') bs \<longleftrightarrow> bs = str_bytes demo_pem"
  by (simp_all add: vcek_url_literal demo_report_fields kds_urls demo_key_service_answers)

lemma demo_evidence:
  "fst (get_report_and_chain demo_env demo_lib ud ''Milan'' tr) = Ok (rep, chain) \<longleftrightarrow>
     rep = take REPORT_SIZE (demo_device ud) \<and> chain = [demo_root, demo_root, demo_root]"
proof -
  have snp: "fst (get_snp_report demo_env ud t) = Ok r \<longleftrightarrow> r = take REPORT_SIZE (demo_device ud)" for t r
    unfolding get_snp_report_Ok [OF demo_snp] by (simp add: demo_env_def report_request_def Let_def)
  have len: "length (take REPORT_SIZE (demo_device ud)) = REPORT_SIZE"
    by (simp add: demo_device_def REPORT_SIZE_def)
  have "response_text demo_env (str_bytes demo_pem) = demo_pem"
    by (simp add: demo_env_def str_bytes_back)
  moreover have "http_client_build demo_env t = Inr ()" for t by (simp add: demo_env_def)
  ultimately have "fst (fetch_vcek_chain demo_env demo_lib (take REPORT_SIZE (demo_device ud)) ''Milan'' t) = Ok c \<longleftrightarrow>
      c = [demo_root, demo_root, demo_root]" for t c
    unfolding fetch_vcek_chain_Ok [OF len] demo_kds by (simp add: demo_pem_certs)
  then show ?thesis
    by (auto simp: get_report_and_chain_def io_bind_fst_Ok io_ret_fst snp)
qed

lemma demo_signed_evidence:
  "\<exists>vk. trust_chain demo_lib [demo_root, demo_root, demo_root] vk \<and>
     signed_under demo_lib vk (take REPORT_SIZE (demo_device ud))"
proof -
  let ?rep = "take REPORT_SIZE (demo_device ud)"
  have "take 672 ?rep = demo_body ud"
    by (simp add: demo_device_def REPORT_SIZE_def)
  moreover have "report_signature ?rep = checksum (7 # demo_body ud) # replicate 95 0"
    by (simp add: report_signature_def demo_device_def REPORT_SIZE_def numeral_eq_Suc)
  ultimately have signed: "signed_under demo_lib [7] ?rep"
    by (simp add: signed_under_def demo_lib_def)
  let ?c = "\<lparr>dc_key = [7], dc_sig = 14, dc_ext = []\<rparr>"
  have "crt_from_der demo_lib demo_root = Inr ?c" "cert_key demo_lib ?c [7]" "cert_signed_by demo_lib ?c [7]"
    by (simp_all add: demo_lib_def demo_root_def cert_key_def cert_signed_by_def checksum_def)
  then have "trust_chain demo_lib [demo_root, demo_root, demo_root] [7]"
    unfolding trust_chain_def by blast
  with signed show ?thesis by blast
qed

lemma demo_report_data: "length ud = 64 \<Longrightarrow> take 64 (drop 80 (take REPORT_SIZE (demo_device ud))) = ud"
  by (simp add: demo_device_def demo_body_def REPORT_SIZE_def min_def)

lemma demo_good_evidence:
  "good_evidence demo_lib (take REPORT_SIZE (demo_device (bound_user_data demo_lib pk)))
     [demo_root, demo_root, demo_root] pk"
proof -
  let ?ud = "bound_user_data demo_lib pk"
  let ?rep = "take REPORT_SIZE (demo_device ?ud)"
  have "take 32 (drop 80 ?rep) = take 32 (take 64 (drop 80 ?rep))" by (simp add: min_def)
  also have "\<dots> = sha256 demo_lib pk"
    using demo_laws(1) demo_report_data [of ?ud] by (simp add: bound_user_data_def)
  finally show ?thesis using demo_signed_evidence unfolding good_evidence_def by blast
qed

text \<open>The demo machine as a deployment.\<close>

definition demo_m :: machine where
  "demo_m = \<lparr>m_measurement = replicate 48 0, m_tcb = \<lparr>bl_spl = 0, tee_spl = 0, snp_spl = 0, ucode_spl = 0\<rparr>,
     m_chip = replicate 64 0, m_bytes_392 = replicate 64 0\<rparr>"

lemma demo_deployment:
  "host_works demo_env" "snp_device demo_env (\<lambda>ud. take REPORT_SIZE (demo_device ud))"
  "reports_of demo_m (\<lambda>ud. take REPORT_SIZE (demo_device ud))"
  "key_service demo_env demo_lib ''Milan'' demo_m demo_root demo_root demo_root"
proof -
  show "host_works demo_env"
    by (simp add: host_works_def demo_env_def demo_self_signed_def)
  show "snp_device demo_env (\<lambda>ud. take REPORT_SIZE (demo_device ud))"
    by (simp add: snp_device_def demo_env_def REPORT_SIZE_def)
  show "reports_of demo_m (\<lambda>ud. take REPORT_SIZE (demo_device ud))"
    by (simp add: reports_of_def demo_m_def demo_report_data demo_report_fields)
  have "demo_pem = unlines_with [newline] (concat (map pem_block [([], [''070e'']), ([], [''070e''])]) @ [])"
    by (simp add: demo_pem_def unlines_with_def pem_block_def)
  moreover have "demo_hex demo_root = ''070e''" by code_simp
  ultimately have "pem_text demo_lib demo_pem [demo_root, demo_root]"
    unfolding pem_text_def
    by (intro exI [of _ "[newline]"] exI [of _ "[([], [''070e'']), ([], [''070e''])]"] exI [of _ "[]"])
      (simp add: line_end_def, simp add: demo_lib_def)
  moreover have "response_text demo_env (str_bytes demo_pem) = demo_pem"
    by (simp add: demo_env_def str_bytes_back)
  moreover have "http_client_build demo_env t = Inr ()" for t by (simp add: demo_env_def)
  ultimately show "key_service demo_env demo_lib ''Milan'' demo_m demo_root demo_root demo_root"
    by (simp add: key_service_def demo_key_service_answers demo_m_def)
qed

definition demo_args :: "bool \<Rightarrow> bool \<Rightarrow> server_args" where
  "demo_args a g = \<lparr>listen = ''0.0.0.0:7443'', backend = None, amd = a, snp_product = ''Milan'',
     gpu_cc = g, gpu_attest_script = Some ''gpu_attest.py''\<rparr>"

definition all_features :: cargo_features where
  "all_features = \<lparr>feature_real_attestation = True, feature_gpu_cc = True\<rparr>"

lemma demo_mock_setup: "\<exists>st. fst (build_mock_setup demo_env demo_lib tr) = Ok st"
proof -
  obtain r where "sign_mock_report demo_lib (sha256 demo_lib [7]) (replicate 48 0) = (Ok r :: (report, anyhow) exec)"
    using sign_mock_report_succeeds [OF demo_laws(4,5)] demo_laws(1) by (metis length_replicate sha256_okD)
  moreover obtain cfg where "fst (build_server_cert demo_env demo_lib [7] (new_mock demo_lib (as_bytes r))
      (tr @ [GenerateKey, SelfSign []])) = Ok cfg"
    using demo_build_cert by (metis fst_conv)
  ultimately show ?thesis
    by (simp add: build_mock_setup_def io_bind_def [of "generate_keypair _"] demo_generate_keypair
        io_bind_def [of "extract_spki_der _ _ _"] demo_extract_spki Let_def io_bind_fst_Ok io_ret_fst)
qed

lemma demo_amd_setups:
  "\<exists>st. fst (build_amd_setup demo_env demo_lib ''Milan'' tr) = Ok st"
  "\<exists>st. fst (build_amd_gpu_setup demo_env demo_lib ''Milan'' script tr) = Ok st"
proof -
  let ?rep = "take REPORT_SIZE (demo_device (bound_user_data demo_lib [7]))"
  have rep: "fst (get_report_and_chain demo_env demo_lib (bound_user_data demo_lib [7]) ''Milan'' t) =
      Ok (?rep, [demo_root, demo_root, demo_root])" for t by (simp add: demo_evidence)
  have m: "extract_measurement ?rep = (Ok (take 48 (drop 144 ?rep)) :: (bytes, anyhow) exec)"
    by (rule extract_measurement_eq) (simp add: demo_device_def REPORT_SIZE_def)
  have jwt: "fst (get_gpu_jwt demo_env demo_lib h script t) = Ok (demo_jwt (hex_encode demo_lib h))" for h t
    using demo_sidecar_read by (simp add: get_gpu_jwt_Ok) (simp add: demo_env_def sidecar_args_def)
  have cert: "\<exists>cfg. fst (build_server_cert demo_env demo_lib [7] ext t) = Ok cfg" for ext t
    using demo_build_cert by (metis fst_conv)
  show "\<exists>st. fst (build_amd_setup demo_env demo_lib ''Milan'' tr) = Ok st"
    using m cert by (simp add: build_amd_setup_def io_bind_fst_Ok io_lift_fst io_ret_fst demo_generate_hash rep)
  show "\<exists>st. fst (build_amd_gpu_setup demo_env demo_lib ''Milan'' script tr) = Ok st"
    using m cert jwt
    by (simp add: build_amd_gpu_setup_def io_bind_fst_Ok io_lift_fst io_ret_fst demo_generate_hash rep Let_def)
qed

lemma demo_bind: "bind_listener demo_env tr a = Inr ()"
  by (simp add: demo_env_def)

lemma demo_start_with:
  "\<exists>cfg. fst (server_start all_features demo_env demo_lib ((demo_args a g)\<lparr>backend := B\<rparr>) tr) = Ok (cfg, B)"
proof -
  have "\<exists>st. fst (build_setup all_features demo_env demo_lib ((demo_args a g)\<lparr>backend := B\<rparr>) tr) = Ok st"
  proof (cases a; cases g)
  qed (simp_all add: build_setup_def demo_args_def all_features_def io_bind_fst_Ok print_line_fst demo_mock_setup demo_amd_setups)
  then show ?thesis
    by (auto simp: server_start_def io_bind_fst_Ok io_ret_fst io_lift_fst io_event_fst demo_bind demo_args_def)
qed

lemma demo_start: "\<exists>cfg. fst (server_start all_features demo_env demo_lib (demo_args a g) tr) = Ok (cfg, None)"
  using demo_start_with [where a = a and g = g and B = None and tr = tr] by (simp add: demo_args_def)

subsection \<open>A transport\<close>

definition demo_router :: router where
  "demo_router table req = (case List.find (\<lambda>(p, m, h). p = req_path req \<and> m = req_method req) table of
       Some h \<Rightarrow> Inr (Inl (snd (snd h)))
     | None \<Rightarrow> Inr (Inr \<lparr>reply_status = 404, reply_body = Empty\<rparr>))"

lemma demo_axum: "axum_ok demo_router"
  by (auto simp: axum_ok_def demo_router_def)

text \<open>One server behind every URL, an echo gateway that presents \<open>der\<close>; the request goes out if the
  verifier accepts it and the handshake signature.\<close>

definition demo_path :: "string \<Rightarrow> string" where
  "demo_path url = dropWhile (\<lambda>c. c \<noteq> CHR ''/'') (drop 8 url)"

lemma demo_path_eq: "CHR ''/'' \<notin> set host \<Longrightarrow> demo_path (''https://'' @ host @ CHR ''/'' # path) = CHR ''/'' # path"
  by (induction host) (auto simp: demo_path_def)

definition demo_reply :: "http_request \<Rightarrow> http_reply" where
  "demo_reply req = (case demo_router routes req of
       Inr (Inl GenerateHandler) \<Rightarrow> echo_response demo_lib (req_body req)
     | Inr (Inl HealthHandler) \<Rightarrow> \<lparr>reply_status = 200, reply_body = Text ''ok''\<rparr>
     | Inr (Inr r) \<Rightarrow> r
     | Inl _ \<Rightarrow> \<lparr>reply_status = 500, reply_body = Empty\<rparr>)"

lemma demo_serve: "fst (serve_request demo_router demo_env demo_lib None req tr) = (Ok (demo_reply req) :: (http_reply, 'e) exec)"
  by (simp add: serve_request_def demo_reply_def run_handler_def handle_generate_def io_defs
      split: sum.split handler.split)

definition demo_answer :: "string \<Rightarrow> bytes \<Rightarrow> bytes" where
  "demo_answer path content = body_bytes demo_lib (demo_reply
     \<lparr>req_method = POST, req_path = path, req_content_type = None, req_body = content\<rparr>)"

definition demo_session :: "bytes \<Rightarrow> string \<Rightarrow> bytes \<Rightarrow> (bytes, unit) session" where
  "demo_session der url content =
     PresentCert der (\<lambda>a. case a of
        Inl _ \<Rightarrow> Done (Inl ''invalid peer certificate'')
      | Inr _ \<Rightarrow> CheckKey True content der () (\<lambda>b. case b of
           Inl _ \<Rightarrow> Done (Inl ''invalid peer signature'')
         | Inr _ \<Rightarrow> SendData url content (Done (Inr (demo_answer (demo_path url) content)))))"

definition demo_transport :: "bytes \<Rightarrow> (bytes, unit, unit) client_env" where
  "demo_transport der = \<lparr>
     build_client = (\<lambda>_. Inr ()),
     send_post = (\<lambda>_ url content _. demo_session der url content),
     resp_error_for_status = Inr,
     resp_body = Inr,
     builder_error = (\<lambda>e. ''builder error''),
     decode_error = (\<lambda>e. ''error decoding response body'')\<rparr>"

lemma demo_transport_ok: "transport_ok (demo_transport der)"
  by (auto simp: transport_ok_def demo_transport_def demo_session_def split: sum.split)

lemma demo_post:
  "fst (post (demo_transport der) v url content tr) = Ok resp \<longleftrightarrow>
     fst (check_cert v der tr) = Ok () \<and> check_tls13 v content der () = Inr () \<and> resp = demo_answer (demo_path url) content"
  by (cases "check_cert v der tr"; cases "fst (check_cert v der tr)"; cases "check_tls13 v content der ()")
    (auto simp: post_def demo_transport_def demo_session_def io_lift_def)

lemma demo_answer_read:
  assumes "utf8 p" "length (demo_json_bytes (ser_request \<lparr>prompt = p, max_tokens = n\<rparr>)) \<le> 2097152"
  shows "from_slice demo_lib ty de_response (demo_answer ''/v1/generate'' (demo_json_bytes (ser_request \<lparr>prompt = p, max_tokens = n\<rparr>))) =
    Inr \<lparr>resp_text = ''[mock inference] echo: '' @ p, resp_tokens_used = 0\<rparr>"
proof -
  let ?r = "\<lparr>reply_text = ''[mock inference] echo: '' @ p, tokens_used = 0\<rparr>"
  let ?req = "\<lparr>req_method = POST, req_path = ''/v1/generate'', req_content_type = None,
        req_body = demo_json_bytes (ser_request \<lparr>prompt = p, max_tokens = n\<rparr>)\<rparr>"
  have "(Ok (demo_reply ?req) :: (http_reply, unit) exec) = Ok \<lparr>reply_status = 200, reply_body = Json ?r\<rparr>"
    unfolding demo_serve [of ?req "[]", symmetric] echo_answer [OF demo_axum demo_laws(6) assms demo_to_vec] by simp
  then have "demo_answer ''/v1/generate'' (demo_json_bytes (ser_request \<lparr>prompt = p, max_tokens = n\<rparr>)) =
      demo_json_bytes (ser_response ?r)"
    unfolding demo_answer_def exec.inject by (simp only: body_bytes_def demo_to_vec http_reply.simps reply_body.simps sum.case)
  moreover have "from_slice demo_lib ty de_response (demo_json_bytes (ser_response ?r)) = Inr (response_view ?r)"
    by (rule response_wire.wire_read [OF demo_laws(6) _ demo_to_vec]) (simp only: generate_response.simps utf8_echo [OF assms(1)])
  ultimately show ?thesis by (simp add: response_view_def)
qed

subsection \<open>A run of the demo client\<close>

lemma demo_trusted:
  obtains der where "\<And>self tr. fst (verify_server_cert demo_lib self der tr) = Ok () \<longleftrightarrow>
    mode self = VMock \<and> \<not> verify_gpu_cc self \<and> expected_measurement self = replicate 48 0"
proof -
  obtain st where st: "fst (build_mock_setup demo_env demo_lib []) = Ok st" using demo_mock_setup by blast
  show ?thesis
    using mock_setup_verdict [OF demo_rcgen demo_laws(6,2,4,5,1) st] that by blast
qed

definition demo_client_args :: client_args where
  "demo_client_args = \<lparr>server = ''127.0.0.1:7443'', expected_measurement_arg = demo_hex (replicate 48 0),
     client_amd = False, client_gpu_cc = False, max_tokens_arg = 512, prompt_arg = ''hi''\<rparr>"

lemma demo_parse_measurement: "parse_measurement demo_lib (expected_measurement_arg demo_client_args) = Ok (replicate 48 0)"
proof -
  have "list_all plain_char (demo_hex (replicate 48 0))"
    using demo_hex_alphabet [of "replicate 48 0"] by (auto simp: list_all_iff dest: b64_alphabet_plain)
  then have "trim (demo_hex (replicate 48 0)) = demo_hex (replicate 48 0)" by (rule trim_all_plain)
  then show ?thesis
    by (simp add: parse_measurement_Ok demo_client_args_def) (simp add: demo_lib_def demo_unhex_hex)
qed

lemma demo_tls13: "verify_tls13_signature demo_lib v msg der dss = Inr ()"
  by (simp add: verify_tls13_signature_def demo_lib_def)

lemma length_enc_nat: "length (enc_nat n) = Suc n"
  by (simp add: enc_nat_def)

lemma length_enc_str: "length (enc_str s) = Suc (2 * length s)"
  by (simp add: enc_str_def length_enc_nat)

lemma demo_request_size: "length (demo_json_bytes (ser_request \<lparr>prompt = ''hi'', max_tokens = 512\<rparr>)) \<le> 2097152"
  by (simp add: demo_json_bytes_def ser_request_def ser_u32_def length_enc_nat length_enc_str)

lemma demo_prompt: "utf8 ''hi''"
  by (rule utf8_ascii) (simp add: ascii_def)

lemma demo_client_run:
  obtains der where "fst (client_main (demo_transport der) demo_lib () demo_client_args []) = Ok ()"
proof -
  obtain der where der: "\<And>self tr. fst (verify_server_cert demo_lib self der tr) = Ok () \<longleftrightarrow>
    mode self = VMock \<and> \<not> verify_gpu_cc self \<and> expected_measurement self = replicate 48 0"
    by (rule demo_trusted) blast
  let ?v = "as_server_cert_verifier demo_lib (new_verifier (replicate 48 0) VMock False ())"
  have sent: "fst (send_request (demo_transport der) demo_lib ?v url r tr) = Ok (demo_answer (demo_path url) (demo_json_bytes (ser_request r)))"
    for url r tr
    using der [of "new_verifier (replicate 48 0) VMock False ()" tr]
    by (simp add: send_request_def demo_to_vec demo_post as_server_cert_verifier_def demo_tls13 new_verifier_def)
  have host: "CHR ''/'' \<notin> set ''127.0.0.1:7443''" by simp
  have path: "demo_path ((''https://'' @ ''127.0.0.1:7443'') @ ''/v1/generate'') = ''/v1/generate''"
    using demo_path_eq [OF host, of "''v1/generate''"] by simp
  have gen: "\<exists>resp. fst (generate (demo_transport der) demo_lib ?v (''https://'' @ ''127.0.0.1:7443'') ''hi'' 512 tr) = Ok resp" for tr
    unfolding generate_Ok sent path using demo_answer_read [OF demo_prompt demo_request_size] by (simp add: demo_transport_def)
  have flags: "client_mode demo_client_args = VMock" "client_gpu_cc demo_client_args = False"
    by (simp_all add: client_mode_def demo_client_args_def)
  have args: "server demo_client_args = ''127.0.0.1:7443''" "prompt_arg demo_client_args = ''hi''" "max_tokens_arg demo_client_args = 512"
    by (simp_all add: demo_client_args_def)
  have build: "build_client (demo_transport der) tr = Inr ()" for tr by (simp add: demo_transport_def)
  have lift: "fst (io_map_err f m t) = map_err f (fst (m t))" for f :: "anyhow \<Rightarrow> anyhow" and m and t :: "client_event list"
    by (simp add: io_map_err_def split: prod.splits)
  have "fst (client_main (demo_transport der) demo_lib () demo_client_args []) = Ok ()"
    using gen by (simp add: client_main_def demo_parse_measurement flags args build Let_def io_bind_fst_Ok io_bind_query lift
        println_def io_event_fst)
  then show ?thesis by (rule that)
qed

lemma demo_http_ok: "http_ok (demo_transport der) demo_router demo_env demo_lib None"
  unfolding http_ok_def
proof (intro allI impI, elim conjE)
  fix v :: "(unit, unit) server_cert_verifier" and host path content tr resp
  assume host: "CHR ''/'' \<notin> set host"
    and sent: "fst (post (demo_transport der) v (''https://'' @ host @ CHR ''/'' # path) content tr) = Ok resp"
  let ?req = "\<lparr>req_method = POST, req_path = CHR ''/'' # path, req_content_type = None, req_body = content\<rparr>"
  have resp: "resp = demo_answer (CHR ''/'' # path) content"
    using sent demo_path_eq [OF host, of path] by (simp add: demo_post)
  show "\<exists>ct tr' reply. fst (serve_request demo_router demo_env demo_lib None \<lparr>req_method = POST, req_path = CHR ''/'' # path,
      req_content_type = ct, req_body = content\<rparr> tr') = (Ok reply :: (http_reply, anyhow) exec) \<and>
      (reply_status reply = 200 \<longrightarrow> resp_error_for_status (demo_transport der) resp = Inr resp \<and>
         resp_body (demo_transport der) resp = Inr (body_bytes demo_lib reply))"
    using resp by (intro exI [of _ None] exI [of _ "[]"] exI [of _ "demo_reply ?req"])
      (simp add: demo_serve demo_transport_def demo_answer_def)
qed

subsection \<open>A device with the response layout of \<open>PLAN.md\<close>\<close>

text \<open>Its report is 1 in the bytes 48 to 80, and it stands after a header.\<close>

definition demo_plan_report :: "bytes \<Rightarrow> bytes" where
  "demo_plan_report ud = replicate 48 0 @ replicate 32 1 @ take 64 (ud @ replicate 64 0) @ replicate 1040 0"

definition demo_plan_env :: "(bytes, bytes \<times> bytes) server_env" where
  "demo_plan_env = demo_env\<lparr>snp_ioctl := (\<lambda>_ _ a. (0, a\<lparr>exitinfo2 := 0, resp_data := \<lparr>resp_bytes =
     replicate 32 0 @ demo_plan_report (user_data (req_data a)) @ replicate 2784 0\<rparr>\<rparr>))\<rparr>"

lemma length_demo_plan_report [simp]: "length (demo_plan_report ud) = 1184"
  by (simp add: demo_plan_report_def)

lemma demo_plan_laws: "library_laws demo_plan_env demo_lib (\<lambda>kp. kp)" "host_works demo_plan_env"
proof -
  have "rcgen_ok demo_plan_env demo_lib (\<lambda>kp. kp)"
    using demo_rcgen by (simp add: rcgen_ok_def demo_plan_env_def)
  moreover have "snp_abi_ok demo_plan_env"
    by (simp add: snp_abi_ok_def demo_plan_env_def)
  ultimately show "library_laws demo_plan_env demo_lib (\<lambda>kp. kp)"
    using demo_laws by (simp add: library_laws_def)
  show "host_works demo_plan_env"
    by (simp add: host_works_def demo_plan_env_def demo_env_def demo_self_signed_def)
qed

text \<open>A gateway with this device starts.\<close>

lemma demo_plan_evidence:
  "\<exists>report chain. fst (get_report_and_chain demo_plan_env demo_lib ud ''Milan'' tr) = Ok (report, chain)"
proof -
  let ?report = "replicate 32 0 @ take 1152 (demo_plan_report ud)"
  have answers: "kds_answer demo_plan_env t url bs \<longleftrightarrow> kds_answer demo_env t url bs" for t url bs
    by (simp add: kds_answer_def demo_plan_env_def)
  have "take 64 (drop 392 ?report) = replicate 64 0" "?report ! 56 = 0" "?report ! 57 = 0" "?report ! 62 = 0" "?report ! 63 = 0"
    by (simp_all add: demo_plan_report_def min_def nth_append)
  then have vcek: "kds_answer demo_plan_env t (vcek_url demo_lib ''Milan'' ?report) demo_root" for t
    unfolding answers vcek_url_literal kds_urls by (simp add: demo_key_service_answers)
  have bundled: "kds_answer demo_plan_env t (chain_url_of ''Milan'') (str_bytes demo_pem)" for t
    unfolding answers kds_urls by (simp add: demo_key_service_answers)
  have parsed: "parse_pem_bundle demo_lib (response_text demo_plan_env (str_bytes demo_pem)) = Ok (demo_root # demo_root # [])"
    by (simp add: demo_plan_env_def demo_env_def str_bytes_back demo_pem_certs)
  have "\<exists>out. snp_ioctl demo_plan_env t c a = (0, out) \<and> exitinfo2 out = 0 \<and>
      replicate 32 0 @ take 1152 (demo_plan_report (user_data (req_data a))) = take 1184 (resp_bytes (resp_data out))" for t c a
    by (simp add: demo_plan_env_def)
  note device = this [of "tr @ [OpenDevice ''/dev/snp-guest'']" "0xC0202B00"
      "\<lparr>msg_version = 1, pad = replicate 7 0, req_data = \<lparr>user_data = ud, vmpl = 0, rsvd = replicate 28 0\<rparr>,
         resp_data = \<lparr>resp_bytes = replicate 4000 0\<rparr>, exitinfo2 = 0\<rparr>", simplified]
  have "open_device demo_plan_env tr ''/dev/snp-guest'' = Inr ()" "http_client_build demo_plan_env t = Inr ()" for t
    by (simp_all add: demo_plan_env_def demo_env_def)
  then have "fst (get_report_and_chain demo_plan_env demo_lib ud ''Milan'' tr) = Ok (?report, [demo_root, demo_root, demo_root])"
    unfolding get_report_and_chain_Ok [OF start_laws(2) [OF demo_plan_laws(1)]] Let_def
    using device vcek bundled parsed by blast
  then show ?thesis by blast
qed

lemma demo_plan_start:
  "\<exists>cfg B. fst (server_start all_features demo_plan_env demo_lib (demo_args True False) tr) = Ok (cfg, B)"
proof -
  have args: "amd (demo_args True False)" "\<not> gpu_cc (demo_args True False)" "feature_real_attestation all_features"
    "snp_product (demo_args True False) = ''Milan''"
    by (simp_all add: demo_args_def all_features_def)
  note laws = start_laws [OF demo_plan_laws(1)]
  show ?thesis
    unfolding server_start_works [OF demo_plan_laws(2)] build_setup_amd [OF args(1-3)]
      amd_setup_works [OF demo_plan_laws(2) laws(1,3,6,2,7)] args(4)
    using generate_keypair_and_hash_works [OF demo_plan_laws(2) laws(1,3)] demo_plan_evidence by blast
qed

end
