(* ===== verification/Witnesses.thy ===== *)
theory Witnesses
  imports Demo_Env
begin

section \<open>Witnesses\<close>

text \<open>
  Each property with a hypothesis is applied here at a concrete input, with the concrete
  library of \<open>Demo\<close>, so its hypotheses are satisfiable together.
\<close>

lemma report_accessors_total_witness:
  "wf_report default_report \<and> (\<exists>d. report_data default_report = (Ok d :: (bytes, unit) exec) \<and> length d = 64)"
  using report_accessors_total [of default_report, where 'e = unit] by simp

lemma set_signature_roundtrip_witness:
  "\<exists>r'. and_then (set_sig_r default_report (replicate 48 1)) (\<lambda>r1. set_sig_s r1 (replicate 48 2)) =
      (Ok r' :: (report, unit) exec) \<and> sig_r r' = (Ok (replicate 48 1) :: (bytes, unit) exec)"
  using set_signature_roundtrip [of default_report "replicate 48 1" "replicate 48 2", where 'e = unit]
  by (auto simp: SIG_SCALAR_SIZE_def)

lemma vcek_verifying_key_errors_witness:
  "vcek_verifying_key demo_lib [[0], [0]] =
     Err (CertChain (''expected [VCEK, ASK, ARK] (3 certs), got '' @ show_nat 2))"
  using vcek_verifying_key_errors [of demo_lib "[[0], [0]]"] by (simp add: numeral_2_eq_2)

lemma self_signed_triple_accepted_witness:
  "vcek_verifying_key demo_lib [demo_root, demo_root, demo_root] = Ok [7]"
proof -
  let ?c = "\<lparr>dc_key = [7], dc_sig = 14, dc_ext = []\<rparr>"
  have "crt_from_der demo_lib demo_root = Inr ?c" "cert_key demo_lib ?c [7]"
    "cert_signed_by demo_lib ?c [7]"
    by (simp_all add: demo_lib_def demo_root_def cert_key_def cert_signed_by_def checksum_def)
  then show ?thesis by (rule self_signed_triple_accepted)
qed

lemma sign_mock_report_fields_witness:
  "\<exists>r. sign_mock_report demo_lib (replicate 32 0x42) (replicate 48 0xde) = (Ok r :: (report, unit) exec) \<and>
     measurement r = (Ok (replicate 48 0xde) :: (bytes, unit) exec)"
  using sign_mock_report_fields [OF demo_laws(4,5), of "replicate 32 0x42" "replicate 48 0xde", where 'e = unit]
  by (auto simp: MEASUREMENT_SIZE_def)

definition demo_report :: bytes where
  "demo_report = replicate 1184 0"

lemma length_demo_report [simp]: "length demo_report = REPORT_SIZE"
  by (simp add: demo_report_def REPORT_SIZE_def)

lemma verify_accepts_iff_witness:
  "(verify demo_lib demo_report KeyMock (replicate 48 0) [1] = Ok ()) \<longleftrightarrow>
     (take 32 (drop 80 demo_report) = sha256 demo_lib [1] \<and>
      (\<exists>vk sg. anchor demo_lib KeyMock = Ok vk \<and>
        sg_from_slice demo_lib (take 48 (drop 672 demo_report) @ take 48 (drop 744 demo_report)) = Inr sg \<and>
        vk_verify demo_lib vk (take 672 demo_report) sg))"
  using verify_accepts_iff [of demo_report demo_lib KeyMock "replicate 48 0" "[1]"] demo_laws(5)
  by simp

lemma verify_refines_appraisal_witness:
  "verify demo_lib demo_report KeyMock (replicate 48 0) [1] =
     appraisal demo_lib KeyMock (replicate 48 0) [1] demo_report"
  by (rule verify_refines_appraisal) simp

lemma verify_total_witness:
  "verify demo_lib demo_report KeyMock (replicate 48 0) [1] \<noteq> Panic"
  using verify_total [OF length_demo_report demo_laws(5)] by blast

lemma mock_report_verifies_witness:
  "\<exists>r. sign_mock_report demo_lib (tls_pubkey_hash demo_lib [1, 2, 3]) (replicate 48 0xaa) =
       (Ok r :: (report, unit) exec) \<and>
     verify demo_lib (as_bytes r) KeyMock (replicate 48 0xaa) [1, 2, 3] = Ok ()"
  by (rule mock_report_verifies [OF demo_laws(4,1,5)]) (simp_all add: MEASUREMENT_SIZE_def)

lemma demo_signed:
  obtains r where "sign_mock_report demo_lib (tls_pubkey_hash demo_lib [1, 2, 3]) (replicate 48 0xaa) =
       (Ok r :: (report, unit) exec)"
  using sign_mock_report_succeeds [OF demo_laws(4,5), of "tls_pubkey_hash demo_lib [1, 2, 3]"
      "replicate 48 0xaa", where 'e = unit] demo_laws(1)
  by (auto simp: tls_pubkey_hash_def)

lemma mock_report_refused_witness:
  "\<exists>r. sign_mock_report demo_lib (tls_pubkey_hash demo_lib [1, 2, 3]) (replicate 48 0xaa) =
       (Ok r :: (report, unit) exec) \<and>
     verify demo_lib (as_bytes r) KeyMock (replicate 48 0xbb) [1, 2, 3] =
       Err (MeasurementMismatch (demo_hex (replicate 48 0xbb)) (demo_hex (replicate 48 0xaa)))"
proof -
  obtain r where r: "sign_mock_report demo_lib (tls_pubkey_hash demo_lib [1, 2, 3]) (replicate 48 0xaa) =
       (Ok r :: (report, unit) exec)"
    by (rule demo_signed)
  have "hex_encode demo_lib = demo_hex" by (simp add: demo_lib_def)
  moreover have "(replicate 48 0xbb :: bytes) \<noteq> replicate 48 0xaa"
    "(replicate 48 0xbb :: bytes) \<noteq> replicate MEASUREMENT_SIZE 0"
    by (simp_all add: MEASUREMENT_SIZE_def)
  ultimately show ?thesis
    using r mock_report_refused [OF demo_laws(4,1,5) _ r, of "[]" "replicate 48 0xbb"]
    by (auto simp: MEASUREMENT_SIZE_def)
qed

lemma checksum_update:
  "i < length bs \<Longrightarrow> bs ! i \<noteq> b \<Longrightarrow> checksum (bs[i := b]) \<noteq> checksum bs"
proof (induction bs arbitrary: i)
  case Nil
  then show ?case by simp
next
  case (Cons x bs)
  then show ?case by (cases i) (auto simp: checksum_def)
qed

lemma checksum_append: "checksum (a @ b) = checksum a + checksum b"
  by (induction a) (auto simp: checksum_def)

lemma tampered_report_rejected_witness:
  "\<exists>r. sign_mock_report demo_lib (tls_pubkey_hash demo_lib [1, 2, 3]) (replicate 48 0xaa) =
       (Ok r :: (report, unit) exec) \<and>
     verify demo_lib ((as_bytes r)[0x090 := 0xab]) KeyMock (replicate 48 0) [1, 2, 3] = Err BadSignature"
proof -
  let ?hash = "tls_pubkey_hash demo_lib [1, 2, 3]" and ?meas = "replicate 48 0xaa :: bytes"
  obtain r where r: "sign_mock_report demo_lib ?hash ?meas = (Ok r :: (report, unit) exec)"
    by (rule demo_signed)
  have len: "length ?hash = 32" "length ?meas = 48"
    using demo_laws(1) by (simp_all add: tls_pubkey_hash_def)
  from mock_signed [OF demo_laws(4,5) len r] obtain sk where
    sk: "sk_from_slice demo_lib MOCK_PRIVATE_KEY_SCALAR = Inr sk" "wf_report r"
    and m: "take 48 (drop 144 (raw r)) = ?meas" .
  have "raw r ! 144 = take 48 (drop 144 (raw r)) ! 0"
    using sk(2) by (simp add: wf_report_def REPORT_SIZE_def)
  then have "raw r ! 144 = 0xaa" by (simp add: m)
  then have "checksum (take 672 ((raw r)[144 := 0xab])) \<noteq> checksum (take 672 (raw r))"
    using sk(2) checksum_update [of 144 "take 672 (raw r)" "0xab"]
    by (simp add: take_update_swap wf_report_def REPORT_SIZE_def)
  then have "\<not> vk_verify demo_lib (sk_verifying_key demo_lib sk) (take 672 ((as_bytes r)[0x090 := 0xab]))
           (sk_sign demo_lib sk (take 672 (as_bytes r)))"
    by (simp add: demo_lib_def as_bytes_def checksum_append)
  then have "verify demo_lib ((as_bytes r)[0x090 := 0xab]) KeyMock (replicate 48 0) [1, 2, 3] = Err BadSignature"
    using tampered_report_rejected [OF demo_laws(4,1,5) _ r sk(1), of "0x090" "0xab"]
    by (simp add: MEASUREMENT_SIZE_def SIGNED_REGION_SIZE_def)
  with r show ?thesis by blast
qed

lemma verify_ignores_padding_witness:
  "verify demo_lib (demo_report[1183 := 1]) KeyMock (replicate 48 0) [1] =
     verify demo_lib demo_report KeyMock (replicate 48 0) [1]"
  by (rule verify_ignores_padding) (simp_all add: drop_update_swap take_update_cancel)

lemma accepted_keys_agree_witness:
  "\<exists>rep. verify demo_lib rep KeyMock (replicate 48 0xaa) [1, 2, 3] = Ok () \<and>
     verify demo_lib rep KeyMock (replicate 48 0xaa) [1, 2, 3, 0] = Ok () \<and>
     sha256 demo_lib [1, 2, 3] = sha256 demo_lib [1, 2, 3, 0]"
proof -
  obtain r where "sign_mock_report demo_lib (tls_pubkey_hash demo_lib [1, 2, 3]) (replicate 48 0xaa) =
      (Ok r :: (report, unit) exec)"
    by (rule demo_signed)
  then have r: "sign_mock_report demo_lib (sha256 demo_lib [1, 2, 3]) (replicate 48 0xaa) =
      (Ok r :: (report, unit) exec)"
    by (simp add: tls_pubkey_hash_def)
  have same: "sha256 demo_lib [1, 2, 3] = sha256 demo_lib [1, 2, 3, 0]"
    by (simp add: demo_lib_def demo_sha_def numeral_eq_Suc)
  have len: "length (sha256 demo_lib pk) = 32" for pk using demo_laws(1) by simp
  have a: "length (raw r) = REPORT_SIZE" "verify demo_lib (raw r) KeyMock (replicate 48 0xaa) [1, 2, 3] = Ok ()"
    using mock_signed_verifies [OF demo_laws(4,5) len _ r, where expected = "replicate 48 0xaa"]
    by simp_all
  moreover have r': "sign_mock_report demo_lib (sha256 demo_lib [1, 2, 3, 0]) (replicate 48 0xaa) =
      (Ok r :: (report, unit) exec)"
    using r same by simp
  have b: "verify demo_lib (raw r) KeyMock (replicate 48 0xaa) [1, 2, 3, 0] = Ok ()"
    using mock_signed_verifies [OF demo_laws(4,5) len _ r', where expected = "replicate 48 0xaa"] by simp
  ultimately show ?thesis
    using accepted_keys_agree [OF a(1) demo_laws(5) a(2) b] by blast
qed

lemma extension_wire_roundtrip_witness:
  "\<exists>b ext. to_bytes demo_lib (with_gpu_jwt (new_amd demo_lib demo_report [[1], [2], [3]]) ''a.b.c'') =
      (Ok b :: (bytes, unit) exec) \<and>
    from_bytes demo_lib b = Inr ext \<and> report_bytes demo_lib ext = Ok demo_report \<and>
    vcek_chain_der demo_lib ext = Ok [[1], [2], [3]] \<and>
    ext_mode ext = AmdSevSnp \<and> gpu_jwt ext = Some ''a.b.c''"
  by (rule extension_wire_roundtrip [OF demo_laws(6,2) length_demo_report]) (rule utf8_ascii, simp add: ascii_def)

lemma extension_decoders_witness:
  "report_bytes demo_lib (new_mock demo_lib [1, 2]) = Err [''report is not 1184 bytes''] \<and>
   vcek_chain_der demo_lib ((new_amd demo_lib [] [[1]])\<lparr>vcek_chain_b64 := [''01'', ''x'', ''02'']\<rparr>) =
     Err [''Odd number of digits'']"
proof
  have "b64_decode demo_lib (report_b64 (new_mock demo_lib [1, 2])) = Inr [1, 2]"
    using demo_laws(2) by (simp add: new_mock_def b64_okD)
  then show "report_bytes demo_lib (new_mock demo_lib [1, 2]) = Err [''report is not 1184 bytes'']"
    using extension_decoders [of demo_lib "new_mock demo_lib [1, 2]"] by (auto simp: REPORT_SIZE_def)
  let ?e = "(new_amd demo_lib [] [[1]])\<lparr>vcek_chain_b64 := [''01'', ''x'', ''02'']\<rparr>"
  have "vcek_chain_b64 ?e = [''01''] @ ''x'' # [''02'']" by simp
  moreover have "map (b64_decode demo_lib) [''01''] = map Inr [[1]]"
    "b64_decode demo_lib ''x'' = Inl ''Odd number of digits''"
    by (simp_all add: demo_lib_def hex_value_def)
  ultimately show "vcek_chain_der demo_lib ?e = Err [''Odd number of digits'']"
    using extension_decoders [of demo_lib ?e] by blast
qed

lemma demo_hex_values: "demo_hex [1, 2, 3] = ''010203''" "demo_hex [10] = ''0a''"
  by code_simp+

lemma pem_roundtrip_witness:
  "parse_pem_bundle demo_lib (unlines_with [carriage_return, newline]
     (concat (map pem_block [([''subject=ARK''], [''0102'', ''03'']), ([], [''0a''])]) @ [[]])) =
   Ok [[1, 2, 3], [10]]"
proof (rule pem_roundtrip [OF demo_laws(2)])
  have "trim ''subject=ARK'' = ''subject=ARK''"
    by (rule trim_all_plain) (simp add: plain_char_def ascii_ws_def)
  then have "comment_line ''subject=ARK''"
    by (simp add: comment_line_def newline_def BEGIN_CERT_def END_CERT_def)
  then show "list_all2 (\<lambda>(pre, chunks) der. list_all comment_line pre \<and>
      concat chunks = b64_encode demo_lib der)
     [([''subject=ARK''], [''0102'', ''03'']), ([], [''0a''])] [[1, 2, 3], [10]]"
    using demo_hex_values by (simp add: demo_lib_def)
  show "list_all comment_line [[]]"
    by (simp add: comment_line_def trim_plain BEGIN_CERT_def END_CERT_def)
qed (simp add: line_end_def)

lemma parse_pem_layout_witness:
  "parse_pem_bundle demo_lib '' x'' = parse_pem_bundle demo_lib ''x''"
  by (rule parse_pem_layout)
    (simp add: str_lines_def newline_def strip_cr_def trim_def trim_start_def trim_end_def
      ascii_ws_def ws2_def carriage_return_def)

lemma parse_pem_append_witness:
  "parse_pem_bundle demo_lib ([] @ newline # BEGIN_CERT) =
     map_ok (append []) (parse_pem_bundle demo_lib BEGIN_CERT)"
proof (rule parse_pem_append)
  have "trim [] = []" by (simp add: trim_plain)
  then show "parse_pem_bundle demo_lib ([] @ [newline]) = Ok []"
    by (simp add: parse_pem_bundle_def str_lines_def strip_cr_def pem_line_def pem_init_def
        BEGIN_CERT_def END_CERT_def)
qed

subsection \<open>The GPU token\<close>

lemma gpu_jwt_binds_key_witness: "sha256 demo_lib [1] = sha256 demo_lib [1, 0]"
proof (rule gpu_jwt_binds_key [OF demo_laws(3) demo_jwt_accepted])
  have "sha256 demo_lib [1, 0] = sha256 demo_lib [1]" by (simp add: demo_lib_def demo_sha_def eval_nat_numeral)
  then have "verify_gpu_jwt demo_lib jwt [1, 0] = verify_gpu_jwt demo_lib jwt [1]" for jwt
    unfolding verify_gpu_jwt_def by (simp only:)
  then show "verify_gpu_jwt demo_lib (demo_jwt (hex_encode demo_lib (sha256 demo_lib [1]))) [1, 0] =
      Ok \<lparr>gpu_model = ''H100'', cc_mode = ''on''\<rparr>"
    by (simp add: demo_jwt_accepted)
qed

lemma gpu_jwt_signature_unchecked_witness:
  "verify_gpu_jwt demo_lib (jwt_of ''a'' ''b'' ''c'') [1] = verify_gpu_jwt demo_lib (jwt_of ''x'' ''b'' ''forged'') [1]"
  by (rule gpu_jwt_signature_unchecked) (simp_all add: no_dot_def)

subsection \<open>The certificate verifier\<close>

definition demo_verifier :: "verifier_mode \<Rightarrow> unit attestation_verifier" where
  "demo_verifier md = new_verifier (replicate 48 0) md False ()"

lemma accepted_server_is_attested_witness:
  "\<exists>der cert spki rep. crt_from_der demo_lib der = Inr cert \<and> crt_spki_to_der demo_lib cert = Inr spki \<and>
     length rep = REPORT_SIZE \<and> take 32 (drop 80 rep) = sha256 demo_lib spki"
proof -
  obtain der where "\<And>self tr. fst (verify_server_cert demo_lib self der tr) = Ok () \<longleftrightarrow>
    mode self = VMock \<and> \<not> verify_gpu_cc self \<and> expected_measurement self = replicate 48 0"
    by (rule demo_trusted) blast
  then have "fst (verify_server_cert demo_lib (demo_verifier VMock) der []) = Ok ()"
    by (simp add: demo_verifier_def new_verifier_def)
  from accepted_server_is_attested [OF demo_laws(5) this] show ?thesis by blast
qed

lemma mode_mismatch_refused_witness:
  "\<exists>der. verify_server_cert demo_lib (demo_verifier VAmdSevSnp) der [] =
     (Err (General ''mode mismatch: client=AmdSevSnp, server=Mock''), [])"
proof -
  let ?ext = "new_mock demo_lib demo_report"
  let ?cert = "\<lparr>dc_key = [7], dc_sig = 0, dc_ext = 1 # demo_ext_bytes ?ext\<rparr>"
  have "crt_from_der demo_lib (7 # 0 # 1 # demo_ext_bytes ?ext) = Inr ?cert"
    "crt_spki_to_der demo_lib ?cert = Inr [7]" by (simp_all add: demo_lib_def)
  moreover have "carries_extension demo_lib ?cert ?ext"
    using demo_ext_from_slice [OF ext_utf8_new(1) [OF demo_laws(2)], of demo_report]
    by (simp add: carries_extension_def from_bytes_def) (simp add: demo_lib_def)
  moreover have "report_bytes demo_lib ?ext = Ok demo_report"
    using mock_codec.read_build [of demo_lib demo_report] demo_laws(2) by simp
  moreover have "show_verifier_mode (mode (demo_verifier VAmdSevSnp)) \<noteq> show_attestation_mode (ext_mode ?ext)"
    by (simp add: demo_verifier_def new_verifier_def new_mock_def)
  ultimately have "verify_server_cert demo_lib (demo_verifier VAmdSevSnp) (7 # 0 # 1 # demo_ext_bytes ?ext) [] =
    (Err (General (''mode mismatch: client='' @ show_verifier_mode (mode (demo_verifier VAmdSevSnp)) @ '', server='' @
       show_attestation_mode (ext_mode ?ext))), [])"
    by (rule mode_mismatch_refused)
  then show ?thesis by (auto simp: demo_verifier_def new_verifier_def new_mock_def)
qed

lemma verify_server_cert_log_witness:
  "fst (verify_server_cert demo_lib (demo_verifier VMock) [] []) \<noteq> Panic"
  using verify_server_cert_log [OF demo_laws(5), of "demo_verifier VMock" "[]" "[]"] by (auto split: exec.splits)

subsection \<open>The server\<close>

lemma get_report_and_chain_iff_witness:
  "\<exists>rep out. rep = take 1184 (resp_bytes (resp_data (out :: snp_guest_request_ioctl))) \<and> length rep = REPORT_SIZE"
proof -
  let ?rep = "take REPORT_SIZE (demo_device (replicate 64 1))"
  have rep: "fst (get_report_and_chain demo_env demo_lib (replicate 64 1) ''Milan'' []) =
    Ok (?rep, [demo_root, demo_root, demo_root])" by (simp add: demo_evidence)
  from iffD1 [OF get_report_and_chain_iff [OF demo_snp] rep] obtain out where
    "?rep = take 1184 (resp_bytes (resp_data (out :: snp_guest_request_ioctl)))" by (elim conjE exE)
  moreover have "length ?rep = REPORT_SIZE" by (rule report_and_chain_length [OF demo_snp rep])
  ultimately show ?thesis by blast
qed

lemma report_before_key_service_witness:
  "\<exists>n. snd (get_report_and_chain demo_env demo_lib [] ''Milan'' []) =
     (case fst (get_snp_report demo_env [] []) of
        Ok rep \<Rightarrow> [] @ [OpenDevice SNP_DEVICE, Ioctl SNP_GET_REPORT (report_request [])] @
          take n [HttpGet (vcek_url demo_lib ''Milan'' rep), HttpGet (chain_url_of ''Milan'')]
      | _ \<Rightarrow> [] @ take n [OpenDevice SNP_DEVICE, Ioctl SNP_GET_REPORT (report_request [])])"
  by (rule report_before_key_service [OF demo_snp])

lemma vcek_request_misses_chip_id_witness:
  "\<exists>id more. chip_id (new_report (overwrite 392 (replicate 24 9) demo_report)) = (Ok (replicate 64 0) :: (bytes, unit) exec) \<and>
     id \<noteq> replicate 64 0 \<and>
     snd (fetch_vcek_chain demo_env demo_lib (overwrite 392 (replicate 24 9) demo_report) ''Milan'' []) =
       HttpGet (vcek_url_of ''Milan'' (hex_encode demo_lib id) \<lparr>bl_spl = 0, tee_spl = 0, snp_spl = 0, ucode_spl = 0\<rparr>) # more"
proof -
  let ?rep = "overwrite 392 (replicate 24 9) demo_report"
  have len: "length ?rep = REPORT_SIZE" by (simp add: demo_report_def REPORT_SIZE_def overwrite_def)
  have build: "http_client_build demo_env [] = Inr ()" by (simp add: demo_env_def)
  have bytes: "take 24 (drop 392 ?rep) = replicate 24 9" "take 64 (drop 416 ?rep) = replicate 64 0"
    "?rep ! 56 = 0" "?rep ! 57 = 0" "?rep ! 62 = 0" "?rep ! 63 = 0"
    by (simp_all add: demo_report_def overwrite_def nth_append)
  have chip: "chip_id (new_report ?rep) = (Ok (replicate 64 0) :: (bytes, unit) exec)"
    using len bytes(2) by (simp add: chip.get_eq report_consts)
  obtain id c more where r: "snd (fetch_vcek_chain demo_env demo_lib ?rep ''Milan'' []) =
      [] @ HttpGet (vcek_url_of ''Milan'' (hex_encode demo_lib id)
        \<lparr>bl_spl = ?rep ! 56, tee_spl = ?rep ! 57, snp_spl = ?rep ! 62, ucode_spl = ?rep ! 63\<rparr>) # more"
    "take 24 id = take 24 (drop 392 ?rep)"
    using vcek_request_misses_chip_id [OF len build, of demo_lib "''Milan''", where 'e = unit] by blast
  have "id \<noteq> replicate 64 0"
  proof
    assume "id = replicate 64 0"
    then have "(replicate 24 0 :: bytes) = replicate 24 9" using r(2) unfolding bytes(1) by (simp add: min_def)
    then show False by simp
  qed
  with chip r(1) show ?thesis unfolding bytes append_Nil by blast
qed

lemma server_setup_total_witness: "fst (build_amd_gpu_setup demo_env demo_lib ''Genoa'' ''gpu_attest.py'' []) \<noteq> Panic"
  using server_setup_total [OF demo_laws(1,4,5,6,2) demo_snp, of "[]" "''Genoa''" "''gpu_attest.py''"] by blast

lemma proxy_forwards_witness:
  "handle_generate demo_env demo_lib None [1, 2] (Some ''http://b'') [] =
     ((Ok \<lparr>reply_status = 200, reply_body = Raw [1, 2]\<rparr> :: (http_reply, unit) exec),
      [HttpPost ''http://b/v1/generate'' [1, 2] None])"
proof -
  have "http_client_build demo_env [] = Inr ()" by (simp add: demo_env_def)
  from proxy_forwards [OF this, of demo_lib None "[1, 2]" "''http://b''", where 'e = unit] show ?thesis
    by (simp add: demo_env_def)
qed

lemma attested_as_the_flags_say_witness:
  "(\<exists>cfg kp ext. fst (server_start all_features demo_env demo_lib (demo_args True False) []) = Ok (cfg, None) \<and>
      identity_of demo_env demo_lib (\<lambda>kp. kp) cfg kp ext \<and> ext_mode ext = AmdSevSnp \<and> gpu_jwt ext = None) \<and>
   (\<exists>message. server_start \<lparr>feature_real_attestation = False, feature_gpu_cc = True\<rparr> demo_env demo_lib (demo_args True False) [] =
      (Err [message], []))"
proof (rule conjI)
  obtain cfg where cfg: "fst (server_start all_features demo_env demo_lib (demo_args True False) []) = Ok (cfg, None)"
    using demo_start by blast
  then have "server_start all_features demo_env demo_lib (demo_args True False) [] =
      (Ok (cfg, None), snd (server_start all_features demo_env demo_lib (demo_args True False) []))" by (simp add: prod_eq_iff)
  with attested_as_the_flags_say [OF demo_library_laws] obtain kp ext where
    "identity_of demo_env demo_lib (\<lambda>kp. kp) cfg kp ext" "ext_mode ext = (if amd (demo_args True False) then AmdSevSnp else Mock)"
    "gpu_jwt ext \<noteq> None \<longleftrightarrow> amd (demo_args True False) \<and> gpu_cc (demo_args True False)"
    by blast
  then show "\<exists>cfg kp ext. fst (server_start all_features demo_env demo_lib (demo_args True False) []) = Ok (cfg, None) \<and>
      identity_of demo_env demo_lib (\<lambda>kp. kp) cfg kp ext \<and> ext_mode ext = AmdSevSnp \<and> gpu_jwt ext = None"
    using cfg by (auto simp: demo_args_def)
  let ?F = "\<lparr>feature_real_attestation = False, feature_gpu_cc = True\<rparr>"
  have "amd (demo_args True False) \<and> (\<not> feature_real_attestation ?F \<or>
      gpu_cc (demo_args True False) \<and> (\<not> feature_gpu_cc ?F \<or> gpu_attest_script (demo_args True False) = None))"
    by (simp add: demo_args_def)
  with attested_as_the_flags_say [OF demo_library_laws, of ?F "demo_args True False" "[]"]
  show "\<exists>message. server_start ?F demo_env demo_lib (demo_args True False) [] = (Err [message], [])" by blast
qed

text \<open>A gateway with one connection, that waits for its backend.\<close>

definition demo_request :: http_request where
  "demo_request = \<lparr>req_method = POST, req_path = ''/v1/generate'', req_content_type = None, req_body = [104, 105]\<rparr>"

definition demo_backend :: string where "demo_backend = ''http://b''"

lemma demo_route: "demo_router routes demo_request = Inr (Inl GenerateHandler)"
  by (simp add: demo_router_def demo_request_def routes_def)

lemma demo_serve_begin:
  "serve_begin demo_router demo_env demo_lib (Some url) demo_request tr =
     ((Ok Posted :: (progress, 'e) exec), tr @ [HttpPost (url @ ''/v1/generate'') [104, 105] None])"
  by (simp add: serve_begin_def demo_route proxy_begin_def io_bind_query)
    (simp add: demo_env_def demo_request_def io_event_def)

lemma demo_gateway_serving:
  obtains h where "reaches (gateway_step demo_router demo_env demo_lib (Some demo_backend)) (gateway_init t) h"
    "tasks h 0 = Some (Serving ''peer'')" "accepting h" "pending h = {}" "forwarded h = []"
proof -
  have "accepting (gateway_init t)" by (simp add: gateway_init_def)
  from connection_opens [OF this, of demo_router demo_env demo_lib "Some demo_backend" "''peer''"] that show ?thesis
    by (metis fun_upd_same gateway.select_convs(3-5) gateway_init_def)
qed

lemma demo_gateway_waiting:
  obtains g where "reaches (gateway_step demo_router demo_env demo_lib (Some demo_backend)) (gateway_init t) g"
    "accepting g" "forwarded g = [(0, demo_request)]" "pending g = {0}"
proof -
  obtain h where h: "reaches (gateway_step demo_router demo_env demo_lib (Some demo_backend)) (gateway_init t) h"
    "tasks h 0 = Some (Serving ''peer'')" "accepting h" "pending h = {}" "forwarded h = []"
    by (rule demo_gateway_serving)
  let ?g = "h\<lparr>trace := trace h @ [HttpPost (demo_backend @ ''/v1/generate'') [104, 105] None], begun := Suc (begun h),
    pending := insert (length (forwarded h)) (pending h), forwarded := forwarded h @ [(0, demo_request)]\<rparr>"
  have "gateway_step demo_router demo_env demo_lib (Some demo_backend) h ?g"
    by (rule gateway_step.forward [OF h(2) demo_serve_begin])
  with h(1) have "reaches (gateway_step demo_router demo_env demo_lib (Some demo_backend)) (gateway_init t) ?g"
    by (rule reaches.more)
  then show ?thesis by (rule that) (simp_all add: h)
qed

lemma gateway_answers_over_tls_witness:
  "\<exists>g. reaches (gateway_step demo_router demo_env demo_lib (Some demo_backend)) (gateway_init []) g \<and> 0 \<in> secured g \<and>
     pending g = {0} \<and> filter (\<lambda>ev. \<nexists>s. ev = EPrint s) (trace g) = [HttpPost (demo_backend @ ''/v1/generate'') [104, 105] None]"
proof -
  obtain g where g: "reaches (gateway_step demo_router demo_env demo_lib (Some demo_backend)) (gateway_init []) g"
    "forwarded g = [(0, demo_request)]" "pending g = {0}"
    by (rule demo_gateway_waiting)
  from gateway_answers_over_tls [OF g(1)] g(2) have "0 \<in> secured g"
    "filter (\<lambda>ev. \<nexists>s. ev = EPrint s) (trace g) = [HttpPost (demo_backend @ ''/v1/generate'') [104, 105] None]"
    by (auto simp: demo_request_def)
  with g show ?thesis by blast
qed

lemma gateway_isolation_witness:
  "\<exists>g. reaches (gateway_step demo_router demo_env demo_lib None) (gateway_init []) g \<and>
     (\<forall>g'. \<not> gateway_step demo_router demo_env demo_lib None g g')"
proof -
  let ?g = "(gateway_init [])\<lparr>accepting := False, tasks := (\<lambda>_. None), pending := {}, reading := (\<lambda>_. None)\<rparr>"
  have "gateway_step demo_router demo_env demo_lib None (gateway_init []) ?g"
    by (rule gateway_step.accept_error) (simp add: gateway_init_def)
  then have r: "reaches (gateway_step demo_router demo_env demo_lib None) (gateway_init []) ?g"
    by (blast intro: reaches.intros)
  moreover have "\<not> accepting ?g" by simp
  ultimately show ?thesis
    using gateway_isolation [of demo_router demo_env demo_lib None "[]"] by blast
qed

lemma gateway_keeps_serving_witness:
  "\<exists>g. pending g = {0} \<and> completes demo_router demo_env demo_lib (Some demo_backend) g 0 (Inl ''timeout'') (Inl ''timeout'') \<and>
     (\<exists>g' reply. reaches (gateway_step demo_router demo_env demo_lib (Some demo_backend)) g g' \<and>
        replies g' = replies g @ [(spawned g, demo_request, reply)] \<and> pending g' = pending g)"
proof -
  obtain g where g: "reaches (gateway_step demo_router demo_env demo_lib (Some demo_backend)) (gateway_init []) g"
    "accepting g" "forwarded g = [(0, demo_request)]" "pending g = {0}"
    by (rule demo_gateway_waiting)
  note served = gateway_keeps_serving [OF g(1,2) demo_serve_begin]
  have "0 \<in> pending g" by (simp add: g(4))
  then have "completes demo_router demo_env demo_lib (Some demo_backend) g 0 (Inl ''timeout'') (Inl ''timeout'')" using served by blast
  moreover have "\<exists>g' reply. reaches (gateway_step demo_router demo_env demo_lib (Some demo_backend)) g g' \<and>
        replies g' = replies g @ [(spawned g, demo_request, reply)] \<and> pending g' = pending g"
    using served by blast
  ultimately show ?thesis using g(4) by blast
qed

lemma gateway_status_bounds_witness:
  "\<exists>(g :: gateway) reply. (0, demo_request, reply) \<in> set (replies g) \<and> 100 \<le> reply_status reply"
proof -
  obtain h where h: "reaches (gateway_step demo_router demo_env demo_lib (Some demo_backend)) (gateway_init []) h"
    "tasks h 0 = Some (Serving ''peer'')"
    by (rule demo_gateway_serving)
  from request_answered [OF gw.reachable_inv [OF refl h(1)] h(2) demo_serve_begin] obtain g reply where
    g: "reaches (gateway_step demo_router demo_env demo_lib (Some demo_backend)) h g"
    and reply: "(0, demo_request, reply) \<in> set (replies g)" by fastforce
  have reach: "reaches (gateway_step demo_router demo_env demo_lib (Some demo_backend)) (gateway_init []) g"
    by (rule reaches_trans [OF h(1) g])
  have router: "\<And>req r. demo_router routes req = Inr (Inr r) \<Longrightarrow> 100 \<le> reply_status r \<and> reply_status r < 1000"
    by (auto simp: demo_router_def split: option.splits)
  have "100 \<le> reply_status reply \<and> reply_status reply < 1000"
    using router by (rule gateway_status_bounds [OF _ reach reply])
  with reply show ?thesis by blast
qed

lemma server_attests_before_listening_witness:
  "\<exists>cfg g kp rep ext. server_reaches all_features demo_router demo_env demo_lib
       ((demo_args True True)\<lparr>backend := Some demo_backend\<rparr>) [] cfg g \<and> kp = [7] \<and> length rep = REPORT_SIZE \<and>
     evidence_for demo_env demo_lib ((demo_args True True)\<lparr>backend := Some demo_backend\<rparr>)
       [start_message ((demo_args True True)\<lparr>backend := Some demo_backend\<rparr>), GenerateKey, SelfSign []] kp rep ext \<and>
     forwarded g = [(0, demo_request)]"
proof -
  let ?args = "(demo_args True True)\<lparr>backend := Some demo_backend\<rparr>"
  obtain cfg where "fst (server_start all_features demo_env demo_lib ?args []) = Ok (cfg, Some demo_backend)"
    using demo_start_with by blast
  then obtain tr where start: "server_start all_features demo_env demo_lib ?args [] = (Ok (cfg, Some demo_backend), tr)"
    by (metis prod.collapse)
  obtain g where g: "reaches (gateway_step demo_router demo_env demo_lib (Some demo_backend)) (gateway_init tr) g"
    "forwarded g = [(0, demo_request)]"
    by (rule demo_gateway_waiting)
  have run: "server_reaches all_features demo_router demo_env demo_lib ?args [] cfg g"
    unfolding server_reaches_def using start g(1) by blast
  obtain kp rep ext where "gen_keypair demo_env ([] @ [start_message ?args]) = Inr kp" "length rep = REPORT_SIZE"
    "evidence_for demo_env demo_lib ?args ([] @ [start_message ?args, GenerateKey, SelfSign []]) kp rep ext"
    using server_attests_before_listening [OF demo_library_laws run] by blast
  moreover from this(1) have "kp = [7]" by (simp add: demo_env_def)
  ultimately show ?thesis using run g(2) unfolding append_Nil by blast
qed

subsection \<open>The client\<close>

lemma demo_request_sent:
  obtains der before url content after where
    "snd (client_main (demo_transport der) demo_lib () demo_client_args []) = before @ Sent url content # after"
proof -
  obtain der where ok: "fst (client_main (demo_transport der) demo_lib () demo_client_args []) = Ok ()"
    by (rule demo_client_run)
  have build: "build_client (demo_transport der) ([] @ [Eprintln (announce demo_lib (replicate 48 0))]) = Inr ()"
    by (simp add: demo_transport_def)
  let ?start = "run_trace demo_lib demo_client_args (replicate 48 0) []"
  obtain out sent where run: "snd (client_main (demo_transport der) demo_lib () demo_client_args []) =
      snd (request_sent (demo_transport der) demo_lib () demo_client_args (replicate 48 0) ?start) @ out"
    "fst (request_sent (demo_transport der) demo_lib () demo_client_args (replicate 48 0) ?start) = Ok sent"
    using client_main_run [OF demo_parse_measurement build, of "()"] ok by auto
  obtain evs b where "snd (request_sent (demo_transport der) demo_lib () demo_client_args (replicate 48 0) ?start) = ?start @ evs"
    "Sent (''https://'' @ server demo_client_args @ ''/v1/generate'') b \<in> set evs"
    using request_sent_run [OF demo_transport_ok, of der demo_lib "()" demo_client_args "replicate 48 0" ?start] run(2) by blast
  with run(1) have "Sent (''https://'' @ server demo_client_args @ ''/v1/generate'') b \<in>
      set (snd (client_main (demo_transport der) demo_lib () demo_client_args []))" by simp
  then show ?thesis using that by (metis split_list)
qed

lemma nothing_sent_before_attestation_witness:
  "\<exists>der server before url content after.
     snd (client_main (demo_transport der) demo_lib () demo_client_args []) = before @ Sent url content # after \<and>
     CertChecked server True \<in> set before \<and> KeyChecked server True \<in> set before \<and>
     trusted_server demo_lib \<lparr>expected_measurement = replicate 48 0, mode = VMock, verify_gpu_cc = False,
       crypto_provider = ()\<rparr> server"
proof -
  obtain der before url content after where
    sent: "snd (client_main (demo_transport der) demo_lib () demo_client_args []) = before @ Sent url content # after"
    by (rule demo_request_sent)
  obtain m server where s: "hex_decode demo_lib (trim (expected_measurement_arg demo_client_args)) = Inr m"
    "CertChecked server True \<in> set before" "KeyChecked server True \<in> set before"
    "trusted_server demo_lib \<lparr>expected_measurement = m, mode = (if client_amd demo_client_args then VAmdSevSnp else VMock),
       verify_gpu_cc = client_gpu_cc demo_client_args, crypto_provider = ()\<rparr> server"
    using nothing_sent_before_attestation [OF demo_transport_ok sent] by blast
  have "m = replicate 48 0" using s(1) demo_parse_measurement by (simp add: parse_measurement_Ok)
  with s(4) have "trusted_server demo_lib \<lparr>expected_measurement = replicate 48 0, mode = VMock, verify_gpu_cc = False,
       crypto_provider = ()\<rparr> server" by (simp add: demo_client_args_def)
  with sent s(2,3) show ?thesis by blast
qed

lemma client_success_witness:
  "\<exists>der tr resp before url content after. snd (client_main (demo_transport der) demo_lib () demo_client_args []) =
     (before @ Sent url content # after) @ [Println (resp_text resp),
       Eprintln (''[client] tokens used: '' @ show_nat (unat (resp_tokens_used (resp :: client_response))))]"
proof -
  obtain der where ok: "fst (client_main (demo_transport der) demo_lib () demo_client_args []) = Ok ()"
    by (rule demo_client_run)
  show ?thesis
    using client_success [OF demo_transport_ok ok] by metis
qed

lemma bad_measurement_refused_witness:
  "fst (client_main (demo_transport []) demo_lib () (demo_client_args\<lparr>expected_measurement_arg := ''0a''\<rparr>) []) =
     Err [''expected_measurement must be 48 bytes (96 hex chars), got '' @ show_nat 1 @ '' bytes'']"
proof -
  have "trim ''0a'' = ''0a''" by (rule trim_all_plain) (simp add: plain_char_def ascii_ws_def)
  then have "hex_decode demo_lib (trim (expected_measurement_arg (demo_client_args\<lparr>expected_measurement_arg := ''0a''\<rparr>))) = Inr [10]"
    by (simp add: demo_lib_def) (simp add: hex_value_def)
  then show ?thesis
    using bad_measurement_refused [of demo_lib "demo_client_args\<lparr>expected_measurement_arg := ''0a''\<rparr>" "''''"
        "demo_transport []" "()" "[]" "[10]"] by simp
qed

subsection \<open>The two programs\<close>

lemma mock_gateway_verdict_witness:
  "\<exists>cfg kp der. fst (server_start all_features demo_env demo_lib (demo_args False False) []) = Ok (cfg, None) \<and>
     presents demo_env cfg der kp \<and> fst (verify_server_cert demo_lib (demo_verifier VMock) der []) = Ok ()"
proof -
  obtain cfg where cfg: "fst (server_start all_features demo_env demo_lib (demo_args False False) []) = Ok (cfg, None)"
    using demo_start by blast
  have "\<not> amd (demo_args False False)" by (simp add: demo_args_def)
  from mock_gateway_verdict [OF demo_library_laws this cfg] obtain kp der where
    "presents demo_env cfg der kp"
    "\<forall>self tr'. fst (verify_server_cert demo_lib self der tr') = Ok () \<longleftrightarrow>
         mode self = VMock \<and> \<not> verify_gpu_cc self \<and> expected_measurement self = replicate 48 0" by blast
  with cfg show ?thesis by (metis demo_verifier_def new_verifier_def attestation_verifier.select_convs(1-3))
qed

lemma amd_gateway_verdict_witness:
  "\<exists>cfg kp der. fst (server_start all_features demo_env demo_lib (demo_args True False) []) = Ok (cfg, None) \<and>
     presents demo_env cfg der kp \<and> fst (verify_server_cert demo_lib (demo_verifier VAmdSevSnp) der []) = Ok ()"
proof -
  obtain cfg where cfg: "fst (server_start all_features demo_env demo_lib (demo_args True False) []) = Ok (cfg, None)"
    using demo_start by blast
  have a: "amd (demo_args True False)" "\<not> gpu_cc (demo_args True False)" "snp_product (demo_args True False) = ''Milan''"
    by (simp_all add: demo_args_def)
  have v: "mode (demo_verifier VAmdSevSnp) = VAmdSevSnp" "\<not> verify_gpu_cc (demo_verifier VAmdSevSnp)"
    "expected_measurement (demo_verifier VAmdSevSnp) = replicate 48 0"
    by (simp_all add: demo_verifier_def new_verifier_def)
  obtain kp der rep chain tr1 where "presents demo_env cfg der kp"
    and got: "fst (get_report_and_chain demo_env demo_lib (sha256 demo_lib kp @ replicate 32 0) ''Milan'' tr1) = Ok (rep, chain)"
    and verdict: "\<forall>self tr'. fst (verify_server_cert demo_lib self der tr') = Ok () \<longleftrightarrow>
       mode self = VAmdSevSnp \<and> \<not> verify_gpu_cc self \<and>
       (expected_measurement self = replicate 48 0 \<or> expected_measurement self = take 48 (drop 144 rep)) \<and>
       good_evidence demo_lib rep chain kp"
    using amd_gateway_verdict [OF demo_library_laws a(1,2) cfg] unfolding a(3) by (elim exE conjE)
  moreover have "good_evidence demo_lib rep chain kp"
    using got demo_good_evidence [of kp] by (simp add: demo_evidence bound_user_data_def)
  ultimately show ?thesis using cfg v by blast
qed

lemma gpu_gateway_verdict_witness:
  "\<exists>cfg kp der. fst (server_start all_features demo_env demo_lib (demo_args True True) []) = Ok (cfg, None) \<and>
     presents demo_env cfg der kp \<and>
     fst (verify_server_cert demo_lib (new_verifier (replicate 48 0) VAmdSevSnp True ()) der []) = Ok ()"
proof -
  let ?v = "new_verifier (replicate 48 0) VAmdSevSnp True ()"
  obtain cfg where cfg: "fst (server_start all_features demo_env demo_lib (demo_args True True) []) = Ok (cfg, None)"
    using demo_start by blast
  have a: "amd (demo_args True True)" "gpu_cc (demo_args True True)" "snp_product (demo_args True True) = ''Milan''"
    by (simp_all add: demo_args_def)
  have v: "mode ?v = VAmdSevSnp" "expected_measurement ?v = replicate 48 0"
    by (simp_all add: new_verifier_def)
  obtain kp der rep chain jwt script out tr1 tr2 where "presents demo_env cfg der kp"
    and got: "fst (get_report_and_chain demo_env demo_lib (sha256 demo_lib kp @ replicate 32 0) ''Milan'' tr1) = Ok (rep, chain)"
    and run: "run_command demo_env tr2 ''python3'' [script, ''--nonce'', hex_encode demo_lib (sha256 demo_lib kp)] = Inr out"
    "gpu_result_from_slice demo_lib (stdout out) = Inr jwt"
    and verdict: "\<forall>self tr'. fst (verify_server_cert demo_lib self der tr') = Ok () \<longleftrightarrow>
       mode self = VAmdSevSnp \<and>
       (expected_measurement self = replicate 48 0 \<or> expected_measurement self = take 48 (drop 144 rep)) \<and>
       good_evidence demo_lib rep chain kp \<and>
       (verify_gpu_cc self \<longrightarrow> (\<exists>g. verify_gpu_jwt demo_lib jwt kp = Ok g))"
    using gpu_gateway_verdict [OF demo_library_laws a(1,2) cfg] unfolding a(3) by (elim exE conjE)
  moreover have "good_evidence demo_lib rep chain kp"
    using got demo_good_evidence [of kp] by (simp add: demo_evidence bound_user_data_def)
  moreover have "jwt = demo_jwt (hex_encode demo_lib (sha256 demo_lib kp))"
    using run demo_sidecar_read by (auto simp: demo_env_def)
  then have "\<exists>g. verify_gpu_jwt demo_lib jwt kp = Ok g" using demo_jwt_accepted by blast
  ultimately show ?thesis using cfg v by blast
qed

lemma echo_gateway_answers_witness:
  "fst (serve_request demo_router demo_env demo_lib None \<lparr>req_method = POST, req_path = ''/v1/generate'', req_content_type = None,
      req_body = demo_json_bytes (ser_request \<lparr>prompt = ''hi'', max_tokens = 512\<rparr>)\<rparr> []) =
    (Ok \<lparr>reply_status = 200, reply_body = Json \<lparr>reply_text = ''[mock inference] echo: '' @ ''hi'', tokens_used = 0\<rparr>\<rparr>
      :: (http_reply, unit) exec)"
  using echo_gateway_answers [OF demo_axum demo_laws(6) demo_prompt demo_request_size demo_to_vec, of demo_env None "[]" None, where 'e = unit]
  by simp

subsection \<open>The unit tests\<close>

text \<open>The demo library with a base64 that knows the two texts of the tests.\<close>

definition demo_test_lib :: "(bytes, bytes, byte, byte, demo_cert, string, unit, unit, unit) client_lib" where
  "demo_test_lib = demo_lib\<lparr>b64_decode := (\<lambda>s.
     if s = ''aGVsbG8='' then Inr (str_bytes ''hello'')
     else if s = ''d29ybGQ='' then Inr (str_bytes ''world'') else Inl ''unknown'')\<rparr>"

lemma demo_test_laws: "test_laws demo_test_lib"
proof -
  have laws: "sha256_ok demo_test_lib" "hex_ok demo_test_lib" "json_ok demo_test_lib" "p384_ok demo_test_lib"
    "mock_key_ok demo_test_lib"
    using demo_laws by (simp_all add: demo_test_lib_def sha256_ok_def hex_ok_def json_ok_def p384_ok_def mock_key_ok_def)
  have "b64url_ok demo_test_lib"
    using demo_hex_no_dot by (simp add: b64url_ok_def demo_test_lib_def demo_lib_def demo_unhex_hex no_dot_def)
  moreover have "b64_decode demo_test_lib ''aGVsbG8='' = Inr (str_bytes ''hello'')"
    "b64_decode demo_test_lib ''d29ybGQ='' = Inr (str_bytes ''world'')"
    by (simp_all add: demo_test_lib_def)
  ultimately show ?thesis using laws unfolding test_laws_def by blast
qed

lemma unit_tests_pass_witness:
  "valid_mock_report_passes demo_test_lib = Ok () \<and> wrong_tls_key_rejected demo_test_lib = Ok ()"
proof -
  have "sha256 demo_test_lib (str_bytes ''correct-pubkey'') \<noteq> sha256 demo_test_lib (str_bytes ''wrong-pubkey'')"
    by (simp add: demo_test_lib_def demo_lib_def demo_sha_def str_bytes_def)
  then show ?thesis using unit_tests_pass [OF demo_test_laws] by (simp add: attest_tests_def)
qed

subsection \<open>More of the two programs\<close>

lemma extension_reader_iff_witness:
  "de_extension (JObj [(''report_b64'', JStr ''AA==''), (''note'', JInt 1), (''vcek_chain_b64'', JArr []),
      (''mode'', JObj [(''Mock'', JNull)])]) =
    Some \<lparr>report_b64 = ''AA=='', vcek_chain_b64 = [], ext_mode = Mock, gpu_jwt = None\<rparr>"
proof -
  have "distinct (map fst [(''report_b64'', JStr ''AA==''), (''note'', JInt 1), (''vcek_chain_b64'', JArr []),
      (''mode'', JObj [(''Mock'', JNull)])])" by simp
  from extension_reader_iff [OF this] show ?thesis by simp
qed

lemma gateway_winds_down_witness:
  "\<exists>g g'. gateway_step demo_router demo_env demo_lib (Some demo_backend) g g' \<and> work g' < work g \<and> pending g' = {}"
proof -
  obtain g where g: "reaches (gateway_step demo_router demo_env demo_lib (Some demo_backend)) (gateway_init []) g"
    "accepting g" "forwarded g = [(0, demo_request)]" "pending g = {0}"
    by (rule demo_gateway_waiting)
  let ?h = "g\<lparr>pending := pending g - {0}, reading := (reading g)(0 := None)\<rparr>"
  have "0 \<in> pending g" by (simp add: g(4))
  then have step: "gateway_step demo_router demo_env demo_lib (Some demo_backend) g ?h"
    by (rule gateway_step.cancel)
  moreover have "\<not> brings_work g ?h" by (simp add: brings_work_def)
  ultimately have "work ?h < work g" using gateway_winds_down [OF g(1)] by blast
  moreover have "pending ?h = {}" by (simp add: g(4))
  ultimately show ?thesis using step by blast
qed

lemma flags_agree_witness:
  "\<exists>cfg kp der. fst (server_start all_features demo_env demo_lib (demo_args True False) []) = Ok (cfg, None) \<and>
     presents demo_env cfg der kp \<and>
     (\<forall>m tr'. fst (verify_server_cert demo_lib (new_verifier m VMock False ()) der tr') \<noteq> Ok ())"
proof -
  obtain cfg where cfg: "fst (server_start all_features demo_env demo_lib (demo_args True False) []) = Ok (cfg, None)"
    using demo_start by blast
  have amd: "amd (demo_args True False)" by (simp add: demo_args_def)
  obtain kp der where "presents demo_env cfg der kp"
    and agree: "\<And>cargs m cp tr'.
       fst (verify_server_cert demo_lib (new_verifier m (client_mode cargs) (client_gpu_cc cargs) cp) der tr') = Ok () \<Longrightarrow>
       client_amd cargs = amd (demo_args True False)"
    using flags_agree [OF demo_library_laws cfg] by blast
  moreover have "client_mode demo_client_args = VMock" "client_gpu_cc demo_client_args = False" "\<not> client_amd demo_client_args"
    by (simp_all add: client_mode_def demo_client_args_def)
  then have "fst (verify_server_cert demo_lib (new_verifier m VMock False ()) der tr') \<noteq> Ok ()" for m tr'
    using agree [of m demo_client_args "()" tr'] amd by auto
  ultimately show ?thesis using cfg by blast
qed


lemma plan_response_layout_refused_witness:
  "\<exists>cfg B kp der. fst (server_start all_features demo_plan_env demo_lib (demo_args True False) []) = Ok (cfg, B) \<and>
     presents demo_plan_env cfg der kp \<and> (\<forall>self tr'. fst (verify_server_cert demo_lib self der tr') \<noteq> Ok ())"
proof -
  obtain cfg B where cfg: "fst (server_start all_features demo_plan_env demo_lib (demo_args True False) []) = Ok (cfg, B)"
    using demo_plan_start by blast
  have amd: "amd (demo_args True False)" by (simp add: demo_args_def)
  have layout: "resp_bytes (resp_data (snd (snp_ioctl demo_plan_env tr c a))) =
      replicate 32 0 @ demo_plan_report (user_data (req_data a)) @ replicate 2784 0" for tr c a
    by (simp add: demo_plan_env_def)
  obtain kp der where v: "presents demo_plan_env cfg der kp" "\<forall>self tr'. fst (verify_server_cert demo_lib self der tr') = Ok () \<longrightarrow>
       sha256 demo_lib kp = take 32 (drop 48 (demo_plan_report (sha256 demo_lib kp @ replicate 32 0)))"
    using plan_response_layout_refused [OF demo_plan_laws(1) amd cfg layout] by auto
  have "length kp = 1"
    using v(1) by (simp add: presents_def demo_plan_env_def demo_env_def split: if_splits)
  then obtain k where "kp = [k]" by (cases kp) auto
  then have "sha256 demo_lib kp ! 1 = 0" by (simp add: demo_lib_def demo_sha_def)
  moreover have "take 32 (drop 48 (demo_plan_report ud)) = replicate 32 1" for ud
    by (simp add: demo_plan_report_def)
  ultimately have "sha256 demo_lib kp \<noteq> take 32 (drop 48 (demo_plan_report (sha256 demo_lib kp @ replicate 32 0)))"
    by (metis nth_replicate numeral_2_eq_2 one_less_numeral_iff semiring_norm(76) zero_neq_one)
  with cfg v show ?thesis by blast
qed

lemma prompt_comes_back_witness:
  "\<exists>der evs. snd (client_main (demo_transport der) demo_lib () demo_client_args []) =
     evs @ [Println (''[mock inference] echo: '' @ ''hi''), Eprintln ''[client] tokens used: 0'']"
proof -
  obtain der where run: "fst (client_main (demo_transport der) demo_lib () demo_client_args []) = Ok ()"
    by (rule demo_client_run)
  have args: "prompt_arg demo_client_args = ''hi''" "max_tokens_arg demo_client_args = 512"
    "CHR ''/'' \<notin> set (server demo_client_args)"
    by (simp_all add: demo_client_args_def)
  have ascii_prompt: "utf8 (prompt_arg demo_client_args)" unfolding args(1) by (rule demo_prompt)
  have size: "length b \<le> 2097152"
    if "json_to_vec demo_lib (ser_request \<lparr>prompt = prompt_arg demo_client_args, max_tokens = max_tokens_arg demo_client_args\<rparr>) = Inr b" for b
    using that demo_request_size by (simp add: args demo_to_vec)
  have build: "build_client (demo_transport der) [Eprintln (announce demo_lib (replicate 48 0))] = Inr ()"
    by (simp add: demo_transport_def)
  obtain sent where
    "fst (request_sent (demo_transport der) demo_lib () demo_client_args (replicate 48 0)
       (run_trace demo_lib demo_client_args (replicate 48 0) [])) = Ok sent"
    using client_main_run [OF demo_parse_measurement, of "demo_transport der" "[]" "()" "()"] build run by auto
  from prompt_comes_back [OF demo_laws(6) demo_axum demo_http_ok ascii_prompt args(3) size demo_parse_measurement build this]
  show ?thesis by (metis args(1))
qed

end
