(* ===== verification/Spec2Isabelle.thy ===== *)
theory Spec2Isabelle
  imports Prelude Rust_Strings Report Serde Libs Attest_Types Amd_Certs Mock Verify Attest_Ext Pem Server_Env Amd_Attestation Gpu_Attestation Tls Proxy Server_Main Gateway Gpu_Verify Verifier Handshake Request Client_Main Startup System Unit_Tests Demo Demo_Env Witnesses
begin

text \<open>
  A model of the Rust proof of concept of Sifir (\<open>poc/crates\<close>): remote-attested TLS between a gateway
  (\<open>sifir-server\<close>) and a client (\<open>sifir-client\<close>) that share the crate \<open>sifir-attest\<close>.

  \<^bold>\<open>The program.\<close> The server makes a key pair, obtains an attestation report that binds the SHA-256 of
  its public key (from the mock signer, or from the AMD SEV-SNP device together with the certificate
  chain of AMD's key service, and on request a GPU token from a Python sidecar), embeds the evidence as
  JSON in a custom extension of a self-signed certificate, and serves requests over TLS with it. The
  client replaces the certificate-authority check by a verification of that evidence and only then
  sends its prompt.

  \<^bold>\<open>Theories and source files.\<close>
  \<^item> \<open>Prelude\<close>, \<open>Rust_Strings\<close>: outcomes (\<open>Ok\<close>, \<open>Err\<close>, \<open>Panic\<close>), slices and fixed arrays with their
    panics, effects as event traces with oracles, the invariant contract of a step relation; the
    functions of Rust's \<open>str\<close> that the source uses (strings are lists of UTF-8 bytes).
  \<^item> \<open>Libs\<close>, \<open>Server_Env\<close>: what is not in the repository. \<open>Libs\<close> has the pure third-party functions as
    fields of a record \<open>L\<close> (\<open>sha2\<close>, \<open>hex\<close>, \<open>base64\<close>, the JSON text format, \<open>p384\<close>, \<open>x509_cert\<close>;
    \<open>Gpu_Verify\<close> extends it by the functions of \<open>rustls\<close>) with their documented laws as predicates;
    \<open>Server_Env\<close> has the server's outside world as oracles that see all events so far.
  \<^item> \<open>Serde\<close>: JSON values, and what \<open>derive(Serialize, Deserialize)\<close> makes of a field. The reader and the
    writer of each type of the source stand with the type, as \<open>de_...\<close> and \<open>ser_...\<close>.
  \<^item> \<open>Report\<close> (\<open>sifir-attest/src/report.rs\<close>), \<open>Attest_Types\<close> and \<open>Verify\<close> (\<open>verify.rs\<close>), \<open>Mock\<close>
    (\<open>mock.rs\<close>), \<open>Amd_Certs\<close> (\<open>amd_certs.rs\<close>), \<open>Attest_Ext\<close> (\<open>attest_ext.rs\<close>).
  \<^item> \<open>Pem\<close> and \<open>Amd_Attestation\<close> (\<open>sifir-server/src/amd_attestation.rs\<close>), \<open>Gpu_Attestation\<close>
    (\<open>gpu_attestation.rs\<close>), \<open>Tls\<close> (\<open>tls.rs\<close>), \<open>Proxy\<close> (\<open>proxy.rs\<close>), \<open>Server_Main\<close> (\<open>main.rs\<close>
    up to the bound listener) and \<open>Gateway\<close> (its accept loop and the tasks it spawns, a step relation);
    \<open>Startup\<close> puts the two together.
  \<^item> \<open>Gpu_Verify\<close> (\<open>sifir-client/src/gpu_verify.rs\<close>), \<open>Verifier\<close> (\<open>verifier.rs\<close>: the handlers, and the
    trait object with its handshake signature checks), \<open>Request\<close> (\<open>request.rs\<close>), \<open>Client_Main\<close>
    (\<open>main.rs\<close>).
  \<^item> \<open>Handshake\<close> and \<open>System\<close>: what the client decides about the certificates the server builds, and
    what becomes of a prompt.
  \<^item> \<open>Unit_Tests\<close>: every \<open>#[test]\<close> function of the three crates.
  \<^item> \<open>Demo\<close>, \<open>Demo_Env\<close>, \<open>Witnesses\<close>: a concrete library and outside world that satisfy all the laws
    at once, and each property with hypotheses applied there.

  \<^bold>\<open>Interfaces.\<close> \<open>report_field\<close> and \<open>report_field_rw\<close> (reading and writing a field of the report;
  interpreted for every accessor), \<open>check\<close> and \<open>check_seq\<close> (a verification step and the sequence of
  two; interpreted for the three checks of \<open>verify\<close> and their composition), \<open>serde_pair\<close> and
  \<open>serde_type\<close> (a writer and the reader at the other end of the wire; interpreted for every type that
  is sent), \<open>ext_codec\<close> (what is built into an extension is read from it; interpreted for mock and AMD
  evidence), \<open>invariant_system\<close> (an invariant of a step relation; interpreted for the PEM parser and
  for the accept loop) and \<open>progress_system\<close>, which extends it by a rank that no step lowers
  (interpreted for the stage of a connection).

  \<^bold>\<open>What is shown.\<close>
  \<^item> Verification: \<open>verify\<close> is an abstract appraisal, decision and error alike; the certificate chain
    check is exactly a chain of trust (and is not anchored to AMD's root); tampering with a signed byte
    is refused; which bytes are not authenticated; nothing panics.
  \<^item> The client: \<open>verify_server_cert\<close> accepts exactly the certificates of trusted servers, refuses a
    server of the other mode, logs honestly, and the whole program sends nothing before a certificate
    and a handshake signature under its key were accepted, given the contract \<open>transport_ok\<close> of the
    TLS stack.
  \<^item> The server: the outcome of the device and key service calls on every branch and the order of the
    effects, the choice of attestation by flags and cargo features, no panics while starting, the proxy; and of the
    whole program that it collects the evidence for its key before it opens its port, and afterwards
    contacts nobody but its backend.
  \<^item> The accept loop, with any number of connections and of requests in flight on each: the invariant
    that requests are forwarded and answered only after a TLS handshake; connections and requests do
    not disturb each other, and no connection goes back to an earlier stage; from every reachable state the gateway can go on serving; it
    winds down when nothing new arrives; statuses are in range; and without concurrency its steps are
    the service function of the source.
  \<^item> The wire: what the server writes, the client reads back; exactly which JSON is an extension.
  \<^item> Both together: for each way to start a gateway, exactly which clients accept it, so the flags of
    both ends have to agree; on an honest platform AMD clients accept; a prompt sent to an echo gateway
    comes back. The verdicts on AMD gateways assume nothing of the platform beyond the size of the
    ioctl buffer: the evidence that the device and the key service delivered is a parameter.
  \<^item> The PEM parser: equivalent to a recursive-descent parser, accepts exactly a bundle grammar, round
    trip with a writer, compositional.
  \<^item> The unit tests of the source hold for every library that keeps its documented laws.

  \<^bold>\<open>A defect.\<close> \<open>vcek_request_misses_chip_id\<close>: the server takes the chip id for the key service from
  offset 0x188, 24 bytes before the field of \<open>report.rs\<close>.

  \<^bold>\<open>Bounds.\<close> There is no fuel: every loop of the source recurses over a list. \<open>u32\<close>, \<open>u64\<close> and \<open>u8\<close>
  are words of their width; a \<open>usize\<close> that is an index or a length is a natural number, as no such
  value of the source exceeds the size of a buffer. \<open>to_lowercase\<close> maps ASCII letters only, which decides
  equality with \<open>on\<close> as Unicode's mapping does, since no other character is mapped to one of its letters.

  \<^bold>\<open>Not modelled.\<close> Command line parsing (\<open>clap\<close>; both programs start from the parsed arguments); the
  text format of JSON and the internals of the third-party crates; redirects that the HTTP client may
  follow after the request was sent to an attested server; the Python inference backend and sidecar.
\<close>

end
